(* ===== verification/Prelude.thy ===== *)
theory Prelude
  imports Main "HOL-Library.Word" "HOL-Library.Sublist"
begin

text \<open>
  The shared prelude of the development.

  A C++ member function becomes a \<^emph>\<open>program\<close>: a function from the state it runs in to an
  outcome and the state it leaves. The outcome is the returned value, a C++ exception, or
  \<open>Stuck\<close> when control never comes back (a mutex locked twice by its owner, a waiting loop
  that exceeds the bound on its iterations; \<open>std::terminate\<close>) or when the C++ standard gives the step no
  meaning.
  State changes made before an exception stay, as they do in the source.

  The theory also holds the calculus the component proofs use: \<open>wp\<close>, the outcome-indexed
  weakest precondition with its rewrite rules (collection \<open>wp_simps\<close>), and the locale
  \<open>step_rel\<close>, which lifts a reflexive and transitive relation between states to whole
  programs (collection \<open>steps_intros\<close>).
\<close>

named_theorems wp_simps "weakest preconditions of the program constructors"
named_theorems run_simps "running the program constructors from a state"
named_theorems steps_intros "programs that stay inside a state relation"

section \<open>Outcomes and programs\<close>

text \<open>The exceptions the sources throw, by their C++ class. \<open>IOException_errno\<close> is the
  constructor of \<open>serial::IOException\<close> that takes an error number.\<close>

datatype errno = EINTR | ENFILE | EMFILE | EAGAIN | Errno int

datatype exn =
    SerialException string
  | IOException string
  | IOException_errno errno
  | PortNotOpenedException string
  | invalid_argument string
  | out_of_range string
  | range_error string
  | runtime_error string

datatype stuck = Deadlock | Out_of_fuel | Undefined_behaviour | Terminated

datatype 'a outcome = Ret 'a | Exn exn | Stuck stuck

type_synonym ('s, 'a) prog = "'s \<Rightarrow> 'a outcome \<times> 's"

definition return :: "'a \<Rightarrow> ('s, 'a) prog" where
  "return a = (\<lambda>s. (Ret a, s))"

definition throw :: "exn \<Rightarrow> ('s, 'a) prog" where
  "throw e = (\<lambda>s. (Exn e, s))"

definition stuck :: "stuck \<Rightarrow> ('s, 'a) prog" where
  "stuck x = (\<lambda>s. (Stuck x, s))"

definition gets :: "('s \<Rightarrow> 'a) \<Rightarrow> ('s, 'a) prog" where
  "gets f = (\<lambda>s. (Ret (f s), s))"

definition modify :: "('s \<Rightarrow> 's) \<Rightarrow> ('s, unit) prog" where
  "modify f = (\<lambda>s. (Ret (), f s))"

definition bind :: "('s, 'a) prog \<Rightarrow> ('a \<Rightarrow> ('s, 'b) prog) \<Rightarrow> ('s, 'b) prog" where
  "bind m f = (\<lambda>s. case m s of
      (Ret a, t) \<Rightarrow> f a t
    | (Exn e, t) \<Rightarrow> (Exn e, t)
    | (Stuck x, t) \<Rightarrow> (Stuck x, t))"

text \<open>\<open>m; n\<close>\<close>

definition andthen :: "('s, unit) prog \<Rightarrow> ('s, 'b) prog \<Rightarrow> ('s, 'b) prog" where
  "andthen m n = bind m (\<lambda>_. n)"

text \<open>\<open>if (c) m\<close> without an \<open>else\<close>\<close>

definition whenM :: "bool \<Rightarrow> ('s, unit) prog \<Rightarrow> ('s, unit) prog" where
  "whenM c m = (if c then m else return ())"

text \<open>\<open>m\<close> with its results dropped.\<close>

definition ignore :: "('s, 'a) prog \<Rightarrow> ('s, unit) prog" where
  "ignore m = bind m (\<lambda>_. return ())"

text \<open>A scope whose destructor \<open>d\<close> runs when \<open>m\<close> returns and when it throws.\<close>

definition finally_do :: "('s, 'a) prog \<Rightarrow> ('s, unit) prog \<Rightarrow> ('s, 'a) prog" where
  "finally_do m d = (\<lambda>s. case m s of
      (Ret a, t) \<Rightarrow> bind d (\<lambda>_. return a) t
    | (Exn e, t) \<Rightarrow> bind d (\<lambda>_. throw e) t
    | (Stuck x, t) \<Rightarrow> (Stuck x, t))"

text \<open>\<open>try { m } catch (...) { h }\<close>\<close>

definition try_catch :: "('s, 'a) prog \<Rightarrow> (exn \<Rightarrow> ('s, 'a) prog) \<Rightarrow> ('s, 'a) prog" where
  "try_catch m h = (\<lambda>s. case m s of
      (Ret a, t) \<Rightarrow> (Ret a, t)
    | (Exn e, t) \<Rightarrow> h e t
    | (Stuck x, t) \<Rightarrow> (Stuck x, t))"

text \<open>A destructor, or a function declared \<open>noexcept\<close>: an exception that would leave it ends the process.\<close>

definition noexcept :: "('s, 'a) prog \<Rightarrow> ('s, 'a) prog" where
  "noexcept m = try_catch m (\<lambda>_. stuck Terminated)"

text \<open>A pure computation that may throw, run as a program.\<close>

definition lift :: "exn + 'a \<Rightarrow> ('s, 'a) prog" where
  "lift r = (case r of Inl e \<Rightarrow> throw e | Inr a \<Rightarrow> return a)"

section \<open>Running programs\<close>

lemma run_return [run_simps]: "return a s = (Ret a, s)"
  and run_throw [run_simps]: "throw e s = (Exn e, s)"
  and run_stuck [run_simps]: "stuck x s = (Stuck x, s)"
  and run_gets [run_simps]: "gets f s = (Ret (f s), s)"
  and run_modify [run_simps]: "modify g s = (Ret (), g s)"
  by (simp_all add: return_def throw_def stuck_def gets_def modify_def)

lemma run_lift [run_simps]:
  "lift (Inr a) s = (Ret a, s)" "lift (Inl e) s = (Exn e, s)"
  by (simp_all add: lift_def run_simps)

lemma run_bind [run_simps]:
  "bind m f s = (case m s of
      (Ret a, t) \<Rightarrow> f a t
    | (Exn e, t) \<Rightarrow> (Exn e, t)
    | (Stuck x, t) \<Rightarrow> (Stuck x, t))"
  by (simp add: bind_def)

lemma run_andthen [run_simps]:
  "andthen m n s = (case m s of
      (Ret a, t) \<Rightarrow> n t
    | (Exn e, t) \<Rightarrow> (Exn e, t)
    | (Stuck x, t) \<Rightarrow> (Stuck x, t))"
  by (simp add: andthen_def run_bind split: outcome.splits prod.splits)

lemma run_whenM [run_simps]: "whenM c m s = (if c then m s else (Ret (), s))"
  by (simp add: whenM_def run_simps)

lemma run_finally [run_simps]:
  "finally_do m d s = (case m s of
      (Ret a, t) \<Rightarrow> (case d t of (Ret _, u) \<Rightarrow> (Ret a, u)
                                  | (Exn e, u) \<Rightarrow> (Exn e, u) | (Stuck x, u) \<Rightarrow> (Stuck x, u))
    | (Exn e, t) \<Rightarrow> (case d t of (Ret _, u) \<Rightarrow> (Exn e, u)
                                  | (Exn e', u) \<Rightarrow> (Exn e', u) | (Stuck x, u) \<Rightarrow> (Stuck x, u))
    | (Stuck x, t) \<Rightarrow> (Stuck x, t))"
  by (simp add: finally_do_def run_simps split: outcome.splits prod.splits)

lemma run_try_catch [run_simps]:
  "try_catch m h s = (case m s of
      (Ret a, t) \<Rightarrow> (Ret a, t) | (Exn e, t) \<Rightarrow> h e t | (Stuck x, t) \<Rightarrow> (Stuck x, t))"
  by (simp add: try_catch_def)

lemma bind_assoc: "bind (bind m f) g = bind m (\<lambda>a. bind (f a) g)"
  by (rule ext) (simp add: run_bind split: outcome.splits prod.splits)

lemma bind_return [simp]: "bind (return a) f = f a"
  by (rule ext) (simp add: run_simps)

lemma bind_RetE:
  assumes "bind m f s = (Ret x, t)"
  obtains a u where "m s = (Ret a, u)" "f a u = (Ret x, t)"
  using assms by (auto simp: run_bind split: outcome.splits prod.splits)

lemma andthen_RetE:
  assumes "andthen m n s = (Ret x, t)"
  obtains u where "m s = (Ret (), u)" "n u = (Ret x, t)"
  using assms by (auto simp: run_andthen split: outcome.splits prod.splits)

lemma lift_RetE:
  assumes "lift c s = (Ret x, t)"
  obtains "c = Inr x" "t = s"
  using assms by (cases c) (auto simp: run_simps)

section \<open>Weakest preconditions\<close>

definition wp :: "('s, 'a) prog \<Rightarrow> ('a outcome \<Rightarrow> 's \<Rightarrow> bool) \<Rightarrow> 's \<Rightarrow> bool" where
  "wp m Q s = (case m s of (r, t) \<Rightarrow> Q r t)"

text \<open>The postcondition of a program prefix whose continuation is \<open>k\<close>: an exception or a
  stuck run skips the continuation.\<close>

definition onward :: "('a \<Rightarrow> 's \<Rightarrow> bool) \<Rightarrow> ('b outcome \<Rightarrow> 's \<Rightarrow> bool) \<Rightarrow> 'a outcome \<Rightarrow> 's \<Rightarrow> bool" where
  "onward k Q r t = (case r of Ret a \<Rightarrow> k a t | Exn e \<Rightarrow> Q (Exn e) t | Stuck x \<Rightarrow> Q (Stuck x) t)"

lemma onward_simps [simp]:
  "onward k Q (Ret a) t = k a t"
  "onward k Q (Exn e) t = Q (Exn e) t"
  "onward k Q (Stuck x) t = Q (Stuck x) t"
  by (simp_all add: onward_def)

lemma wp_return [wp_simps]: "wp (return a) Q s = Q (Ret a) s"
  and wp_throw [wp_simps]: "wp (throw e) Q s = Q (Exn e) s"
  and wp_stuck [wp_simps]: "wp (stuck x) Q s = Q (Stuck x) s"
  and wp_gets [wp_simps]: "wp (gets f) Q s = Q (Ret (f s)) s"
  and wp_modify [wp_simps]: "wp (modify g) Q' s = Q' (Ret ()) (g s)"
  by (simp_all add: wp_def run_simps)

lemma wp_bind [wp_simps]: "wp (bind m f) Q s = wp m (onward (\<lambda>a. wp (f a) Q) Q) s"
  by (simp add: wp_def run_bind onward_def split: outcome.splits prod.splits)

lemma wp_andthen [wp_simps]: "wp (andthen m n) Q s = wp m (onward (\<lambda>_. wp n Q) Q) s"
  by (simp add: andthen_def wp_bind)

lemma wp_if [wp_simps]: "wp (if c then m else n) Q s = (if c then wp m Q s else wp n Q s)"
  by simp

lemma wp_whenM [wp_simps]: "wp (whenM c m) Q s = (if c then wp m Q s else Q (Ret ()) s)"
  by (simp add: whenM_def wp_simps)

lemma wp_lift [wp_simps]:
  "wp (lift r) Q s = (case r of Inl e \<Rightarrow> Q (Exn e) s | Inr a \<Rightarrow> Q (Ret a) s)"
  by (simp add: lift_def wp_simps split: sum.splits)

lemma wp_try_catch [wp_simps]:
  "wp (try_catch m h) Q s =
     wp m (\<lambda>r t. case r of Ret a \<Rightarrow> Q (Ret a) t | Exn e \<Rightarrow> wp (h e) Q t | Stuck x \<Rightarrow> Q (Stuck x) t) s"
  by (simp add: wp_def run_try_catch split: outcome.splits prod.splits)

lemma wp_finally [wp_simps]:
  "wp (finally_do m d) Q s =
     wp m (\<lambda>r t. case r of
         Ret a \<Rightarrow> wp d (onward (\<lambda>_. Q (Ret a)) Q) t
       | Exn e \<Rightarrow> wp d (onward (\<lambda>_. Q (Exn e)) Q) t
       | Stuck x \<Rightarrow> Q (Stuck x) t) s"
  by (simp add: wp_def run_finally onward_def split: outcome.splits prod.splits)

lemma wp_mono:
  assumes "wp m P s" and "\<And>r t. P r t \<Longrightarrow> Q r t"
  shows "wp m Q s"
  using assms by (auto simp: wp_def split: prod.splits)

lemma wp_conj: "wp m P s \<Longrightarrow> wp m Q s \<Longrightarrow> wp m (\<lambda>r t. P r t \<and> Q r t) s"
  by (auto simp: wp_def split: prod.splits)

lemma wp_runD: "wp m Q s \<Longrightarrow> m s = (r, t) \<Longrightarrow> Q r t"
  by (simp add: wp_def)

lemma wp_runI: "(\<And>r t. m s = (r, t) \<Longrightarrow> Q r t) \<Longrightarrow> wp m Q s"
  by (simp add: wp_def split: prod.splits)

section \<open>Programs inside a state relation\<close>

text \<open>\<open>steps R m\<close>: whatever \<open>m\<close> does, the state it leaves is related to the one it found.\<close>

definition steps :: "('s \<Rightarrow> 's \<Rightarrow> bool) \<Rightarrow> ('s, 'a) prog \<Rightarrow> bool" where
  "steps R m = (\<forall>s. R s (snd (m s)))"

lemma stepsI: "(\<And>s. R s (snd (m s))) \<Longrightarrow> steps R m"
  by (simp add: steps_def)

lemma stepsD: "steps R m \<Longrightarrow> m s = (r, t) \<Longrightarrow> R s t"
  by (metis snd_conv steps_def)

lemma steps_wp: "steps R m \<Longrightarrow> wp m (\<lambda>_ t. R s t) s"
  by (auto simp: wp_def steps_def split: prod.splits) (metis snd_conv)

lemma steps_mono: "steps R m \<Longrightarrow> (\<And>s t. R s t \<Longrightarrow> R' s t) \<Longrightarrow> steps R' m"
  by (auto simp: steps_def)

text \<open>Running \<open>m; f\<close> when \<open>m\<close> keeps \<open>R\<close>.\<close>

lemma wp_bind_steps:
  assumes "steps R m"
    and "\<And>a t. R s t \<Longrightarrow> wp (f a) Q t"
    and "\<And>e t. R s t \<Longrightarrow> Q (Exn e) t" and "\<And>x t. R s t \<Longrightarrow> Q (Stuck x) t"
  shows "wp (bind m f) Q s"
  unfolding wp_bind
  by (rule wp_mono [OF steps_wp [OF assms(1)]]) (auto simp: onward_def assms split: outcome.splits)

lemma wp_andthen_steps:
  assumes "steps R m"
    and "\<And>t. R s t \<Longrightarrow> wp n Q t"
    and "\<And>e t. R s t \<Longrightarrow> Q (Exn e) t" and "\<And>x t. R s t \<Longrightarrow> Q (Stuck x) t"
  shows "wp (andthen m n) Q s"
  unfolding andthen_def by (rule wp_bind_steps [OF assms])

text \<open>A preorder on states is kept by composite programs whose parts keep it. Every frame
  condition of the development (fields a layer never writes, a log that only grows) is an
  instance.\<close>

locale step_rel =
  fixes R :: "'s \<Rightarrow> 's \<Rightarrow> bool"
  assumes R_refl: "R s s"
    and R_trans: "R s t \<Longrightarrow> R t u \<Longrightarrow> R s u"
begin

lemma steps_return: "steps R (return a)"
  and steps_throw: "steps R (throw e)"
  and steps_stuck: "steps R (stuck x)"
  and steps_gets: "steps R (gets f)"
  by (simp_all add: steps_def run_simps R_refl)

lemma steps_lift: "steps R (lift r)"
  by (simp add: lift_def steps_return steps_throw split: sum.splits)

lemma steps_modify: "(\<And>s. R s (g s)) \<Longrightarrow> steps R (modify g)"
  by (simp add: steps_def run_simps)

lemma steps_bind: "steps R m \<Longrightarrow> (\<And>a. steps R (f a)) \<Longrightarrow> steps R (bind m f)"
  unfolding steps_def
proof
  fix s
  assume m: "\<forall>s. R s (snd (m s))" and f: "\<And>a. \<forall>s. R s (snd (f a s))"
  obtain r t where r: "m s = (r, t)" by (cases "m s")
  then have "R s t" using m by (metis snd_conv)
  then show "R s (snd (bind m f s))"
    using f r by (cases r) (auto simp: run_bind intro: R_trans)
qed

lemma steps_andthen: "steps R m \<Longrightarrow> steps R n \<Longrightarrow> steps R (andthen m n)"
  by (simp add: andthen_def steps_bind)

lemma steps_if: "steps R m \<Longrightarrow> steps R n \<Longrightarrow> steps R (if c then m else n)"
  by simp

lemma steps_whenM: "steps R m \<Longrightarrow> steps R (whenM c m)"
  by (simp add: whenM_def steps_return)

lemma steps_case_sum:
  "(\<And>a. steps R (f a)) \<Longrightarrow> (\<And>b. steps R (g b)) \<Longrightarrow> steps R (case x of Inl a \<Rightarrow> f a | Inr b \<Rightarrow> g b)"
  by (simp split: sum.splits)

lemma steps_case_option:
  "steps R m \<Longrightarrow> (\<And>a. steps R (f a)) \<Longrightarrow> steps R (case x of None \<Rightarrow> m | Some a \<Rightarrow> f a)"
  by (simp split: option.splits)

lemma steps_case_prod: "(\<And>a b. steps R (f a b)) \<Longrightarrow> steps R (case p of (a, b) \<Rightarrow> f a b)"
  by (simp split: prod.splits)

lemma steps_Let: "(\<And>a. steps R (f a)) \<Longrightarrow> steps R (let x = y in f x)"
  by simp

lemma steps_try_catch: "steps R m \<Longrightarrow> (\<And>e. steps R (h e)) \<Longrightarrow> steps R (try_catch m h)"
  unfolding steps_def
proof
  fix s
  assume m: "\<forall>s. R s (snd (m s))" and h: "\<And>e. \<forall>s. R s (snd (h e s))"
  obtain r t where r: "m s = (r, t)" by (cases "m s")
  then have "R s t" using m by (metis snd_conv)
  then show "R s (snd (try_catch m h s))"
    using h r by (cases r) (auto simp: run_try_catch intro: R_trans)
qed

lemma steps_finally: "steps R m \<Longrightarrow> steps R d \<Longrightarrow> steps R (finally_do m d)"
proof (rule stepsI)
  fix s
  assume m: "steps R m" and d: "steps R d"
  obtain r t where r: "m s = (r, t)" by (cases "m s")
  obtain q u where q: "d t = (q, u)" by (cases "d t")
  have "R s t" "R t u" using m d r q by (auto dest: stepsD)
  then show "R s (snd (finally_do m d s))"
    using r q by (cases r; cases q) (auto simp: run_finally intro: R_trans)
qed

lemmas steps_rules =
  steps_return steps_throw steps_stuck steps_gets steps_lift steps_bind steps_andthen
  steps_if steps_whenM steps_case_sum steps_case_option steps_case_prod steps_Let
  steps_try_catch steps_finally

end

section \<open>Programs that do not get stuck\<close>

text \<open>\<open>never x m\<close>: no run of \<open>m\<close> gets stuck with \<open>x\<close>.\<close>

definition never :: "stuck \<Rightarrow> ('s, 'a) prog \<Rightarrow> bool" where
  "never x m = (\<forall>s. fst (m s) \<noteq> Stuck x)"

lemma never_wp: "never x m \<Longrightarrow> wp m (\<lambda>r _. r \<noteq> Stuck x) s"
  by (simp add: never_def wp_def case_prod_unfold)

lemma never_run: "never x m \<Longrightarrow> m s = (r, t) \<Longrightarrow> r \<noteq> Stuck x"
  by (metis never_def fst_conv)

lemma never_prims:
  "never x (return a)" "never x (throw e)" "never x (gets f)" "never x (modify g)" "never x (lift r)"
  "x \<noteq> y \<Longrightarrow> never x (stuck y)"
  by (auto simp: never_def run_simps lift_def split: sum.splits)

lemma never_bind: "never x m \<Longrightarrow> (\<And>a. never x (f a)) \<Longrightarrow> never x (bind m f)"
  unfolding never_def
proof
  fix s
  assume m: "\<forall>s. fst (m s) \<noteq> Stuck x" and f: "\<And>a. \<forall>s. fst (f a s) \<noteq> Stuck x"
  obtain r t where r: "m s = (r, t)" by (cases "m s")
  with m have "r \<noteq> Stuck x" by (metis fst_conv)
  then show "fst (bind m f s) \<noteq> Stuck x" using f by (cases r) (simp_all add: run_bind r)
qed

lemma never_andthen: "never x m \<Longrightarrow> never x n \<Longrightarrow> never x (andthen m n)"
  by (simp add: andthen_def never_bind)

lemma never_branch:
  "never x m \<Longrightarrow> never x n \<Longrightarrow> never x (if c then m else n)"
  "never x u \<Longrightarrow> never x (whenM c u)"
  "(\<And>a. never x (f a)) \<Longrightarrow> (\<And>b. never x (g b)) \<Longrightarrow> never x (case q of Inl a \<Rightarrow> f a | Inr b \<Rightarrow> g b)"
  "never x k \<Longrightarrow> (\<And>a. never x (h a)) \<Longrightarrow> never x (case z of None \<Rightarrow> k | Some a \<Rightarrow> h a)"
  "(\<And>a b. never x (l a b)) \<Longrightarrow> never x (case p of (a, b) \<Rightarrow> l a b)"
  "(\<And>a. never x (j a)) \<Longrightarrow> never x (let v = y in j v)"
  by (auto simp: whenM_def never_prims split: sum.splits option.splits prod.splits)

lemmas never_rules = never_prims never_bind never_andthen never_branch

section \<open>Lists\<close>

lemma take_append_take:
  "k \<le> length xs \<Longrightarrow> take k xs @ take j (drop k xs) = take (k + j) xs"
  by (simp add: take_add)

lemma takeWhile_all: "(\<And>x. x \<in> set xs \<Longrightarrow> P x) \<Longrightarrow> takeWhile P (xs @ ys) = xs @ takeWhile P ys"
  by (simp add: takeWhile_append2)

lemma dropWhile_hd: "xs \<noteq> [] \<Longrightarrow> \<not> P (hd xs) \<Longrightarrow> dropWhile P xs = xs"
  by (cases xs) auto

section \<open>Words\<close>

lemma cap_min: "(if c < w then c else w) = min w c" for w c :: "'a::linorder"
  by (auto simp: min_def)

lemma unat_min: "unat (min v w) = min (unat v) (unat w)"
  by (simp add: min_def word_le_nat_alt)

end
