(* ===== verification/Os_Interface.thy ===== *)
theory Os_Interface
  imports Prelude
begin

text \<open>
  The boundary between the program and the operating system.

  The POSIX calls of \<open>src/src/impl/unix.cc\<close> are not part of the repository: they are the fields of
  the record \<open>os\<close>, a parameter of every definition that makes a system call. They act on an
  abstract world \<open>'w\<close> (descriptors, the device at the other end of the line, the clock), so a
  theorem about an arbitrary \<open>os\<close> holds for every kernel and every device behaviour.

  \<open>fuel\<close> bounds the iterations of the loops the source leaves unbounded (a call interrupted by a
  signal, waiting for bytes, waiting for the motor); a run that exceeds it is \<open>Stuck Out_of_fuel\<close>.

  The program state starts with the record \<open>sys\<close>: the world, and a log of what was asked of the
  kernel. The log is a history variable: no definition reads it, the properties do.
\<close>

section \<open>Kernel data\<close>

record timespec =
  tv_sec :: int
  tv_nsec :: int

datatype tflag =
    CLOCAL | CREAD | CSTOPB | PARENB | PARODD | CMSPAR | CRTSCTS
  | ICANON | ECHO | ECHOE | ECHOK | ECHONL | ISIG | IEXTEN
  | OPOST
  | INLCR | IGNCR | ICRNL | IGNBRK | IUCLC | PARMRK | INPCK | ISTRIP | IXON | IXOFF | IXANY

text \<open>\<open>struct termios\<close>, with its flag words as sets of symbolic flags, the \<open>CSIZE\<close> field (5 to 8)
  and the two line speeds apart.\<close>

record termios =
  c_iflag :: "tflag set"
  c_oflag :: "tflag set"
  c_cflag :: "tflag set"
  c_lflag :: "tflag set"
  c_csize :: nat
  c_ispeed :: nat
  c_ospeed :: nat
  c_vmin :: nat
  c_vtime :: nat

text \<open>\<open>struct serial_struct\<close>, as far as the custom baud rate code uses it.\<close>

datatype spd = SPD_NORMAL | SPD_CUST | SPD_OTHER nat

record serial_struct =
  baud_base :: int
  custom_divisor :: int
  spd_flags :: spd

datatype flush_queue = TCIFLUSH | TCOFLUSH

datatype modem_line = TIOCM_RTS | TIOCM_DTR | TIOCM_CTS | TIOCM_DSR | TIOCM_RI | TIOCM_CD

text \<open>\<open>pselect\<close> on one descriptor: timed out, or ready with \<open>FD_ISSET\<close> of that descriptor.\<close>

datatype selected = Sel_timeout | Sel_ready bool

record 'w os =
  fuel :: nat
  has_B :: "nat \<Rightarrow> bool"
  sys_open :: "string \<Rightarrow> 'w \<Rightarrow> (errno + int) \<times> 'w"
  sys_close :: "int \<Rightarrow> 'w \<Rightarrow> (errno + unit) \<times> 'w"
  sys_read :: "int \<Rightarrow> nat \<Rightarrow> 'w \<Rightarrow> (errno + string) \<times> 'w"
  sys_write :: "int \<Rightarrow> string \<Rightarrow> 'w \<Rightarrow> (errno + nat) \<times> 'w"
  sys_select_read :: "int \<Rightarrow> timespec \<Rightarrow> 'w \<Rightarrow> (errno + selected) \<times> 'w"
  sys_select_write :: "int \<Rightarrow> timespec \<Rightarrow> 'w \<Rightarrow> (errno + selected) \<times> 'w"
  sys_select_none :: "timespec \<Rightarrow> 'w \<Rightarrow> 'w"
  sys_clock :: "'w \<Rightarrow> timespec \<times> 'w"
  sys_sleep_ms :: "nat \<Rightarrow> 'w \<Rightarrow> 'w"
  sys_tcgetattr :: "int \<Rightarrow> 'w \<Rightarrow> (errno + termios) \<times> 'w"
  sys_tcsetattr :: "int \<Rightarrow> termios \<Rightarrow> 'w \<Rightarrow> 'w"
  sys_tcflush :: "int \<Rightarrow> flush_queue \<Rightarrow> 'w \<Rightarrow> 'w"
  sys_tcdrain :: "int \<Rightarrow> 'w \<Rightarrow> 'w"
  sys_tcsendbreak :: "int \<Rightarrow> int \<Rightarrow> 'w \<Rightarrow> 'w"
  sys_inq :: "int \<Rightarrow> 'w \<Rightarrow> (errno + nat) \<times> 'w"
  sys_break :: "int \<Rightarrow> bool \<Rightarrow> 'w \<Rightarrow> (errno + unit) \<times> 'w"
  sys_modem_set :: "int \<Rightarrow> bool \<Rightarrow> modem_line \<Rightarrow> 'w \<Rightarrow> (errno + unit) \<times> 'w"
  sys_modem_get :: "int \<Rightarrow> 'w \<Rightarrow> (errno + modem_line set) \<times> 'w"
  sys_modem_wait :: "int \<Rightarrow> modem_line set \<Rightarrow> 'w \<Rightarrow> (errno + unit) \<times> 'w"
  sys_get_serial :: "int \<Rightarrow> 'w \<Rightarrow> (errno + serial_struct) \<times> 'w"
  sys_set_serial :: "int \<Rightarrow> serial_struct \<Rightarrow> 'w \<Rightarrow> (errno + unit) \<times> 'w"

section \<open>The base of the program state\<close>

datatype event =
    Opened string int
  | Closed int
  | Received int string
  | Sent int string
  | Flushed int flush_queue
  | Configured int termios
  | Slept nat

record 'w sys =
  world :: 'w
  history :: "event list"

definition syscall :: "('w \<Rightarrow> 'a \<times> 'w) \<Rightarrow> (('w, 'z) sys_scheme, 'a) prog" where
  "syscall f = (\<lambda>s. case f (world s) of (a, w) \<Rightarrow> (Ret a, s\<lparr>world := w\<rparr>))"

definition sysdo :: "('w \<Rightarrow> 'w) \<Rightarrow> (('w, 'z) sys_scheme, unit) prog" where
  "sysdo f = modify (\<lambda>s. s\<lparr>world := f (world s)\<rparr>)"

definition record_event :: "event \<Rightarrow> (('w, 'z) sys_scheme, unit) prog" where
  "record_event e = modify (\<lambda>s. s\<lparr>history := history s @ [e]\<rparr>)"

text \<open>\<open>std::this_thread::sleep_for\<close>\<close>

definition sleep_for :: "'w os \<Rightarrow> nat \<Rightarrow> (('w, 'z) sys_scheme, unit) prog" where
  "sleep_for os ms = andthen (sysdo (sys_sleep_ms os ms)) (record_event (Slept ms))"

lemma run_syscall [run_simps]:
  "syscall f s = (case f (world s) of (a, w) \<Rightarrow> (Ret a, s\<lparr>world := w\<rparr>))"
  by (simp add: syscall_def)

lemma run_sysdo [run_simps]: "sysdo f s = (Ret (), s\<lparr>world := f (world s)\<rparr>)"
  by (simp add: sysdo_def run_simps)

lemma run_record_event [run_simps]:
  "record_event e s = (Ret (), s\<lparr>history := history s @ [e]\<rparr>)"
  by (simp add: record_event_def run_simps)

lemma run_sleep_for [run_simps]:
  "sleep_for os ms s =
     (Ret (), s\<lparr>world := sys_sleep_ms os ms (world s), history := history s @ [Slept ms]\<rparr>)"
  by (simp add: sleep_for_def run_simps)

lemma wp_syscall [wp_simps]:
  "wp (syscall f) Q s = (case f (world s) of (a, w) \<Rightarrow> Q (Ret a) (s\<lparr>world := w\<rparr>))"
  by (simp add: wp_def run_simps split: prod.splits)

lemma wp_sysdo [wp_simps]: "wp (sysdo f) Q s = Q (Ret ()) (s\<lparr>world := f (world s)\<rparr>)"
  by (simp add: wp_def run_simps)

lemma wp_record_event [wp_simps]:
  "wp (record_event e) Q s = Q (Ret ()) (s\<lparr>history := history s @ [e]\<rparr>)"
  by (simp add: wp_def run_simps)

lemma wp_sleep_for [wp_simps]:
  "wp (sleep_for os ms) Q s =
     Q (Ret ()) (s\<lparr>world := sys_sleep_ms os ms (world s), history := history s @ [Slept ms]\<rparr>)"
  by (simp add: wp_def run_simps)

lemma never_sys: "never x (syscall f)" "never x (sysdo d)" "never x (record_event e)"
  by (auto simp: never_def run_simps split: prod.splits)

lemma never_selected:
  "never x m \<Longrightarrow> (\<And>b. never x (f b)) \<Longrightarrow> never x (case q of Sel_timeout \<Rightarrow> m | Sel_ready b \<Rightarrow> f b)"
  by (cases q) auto

lemmas never_intros = never_rules never_sys never_selected

section \<open>Readings of the log\<close>

text \<open>The bytes the kernel accepted for transmission, and the bytes it delivered, in order.\<close>

fun sent_of :: "event \<Rightarrow> string" where
  "sent_of (Sent fd bs) = bs"
| "sent_of _ = []"

fun received_of :: "event \<Rightarrow> string" where
  "received_of (Received fd bs) = bs"
| "received_of _ = []"

definition wire :: "('w, 'z) sys_scheme \<Rightarrow> string" where
  "wire s = concat (map sent_of (history s))"

definition inbox :: "('w, 'z) sys_scheme \<Rightarrow> string" where
  "inbox s = concat (map received_of (history s))"

lemma wire_world [simp]: "wire (s\<lparr>world := w\<rparr>) = wire s"
  and inbox_world [simp]: "inbox (s\<lparr>world := w\<rparr>) = inbox s"
  by (simp_all add: wire_def inbox_def)

lemma wire_event [simp]: "wire (s\<lparr>history := history s @ [e]\<rparr>) = wire s @ sent_of e"
  and inbox_event [simp]: "inbox (s\<lparr>history := history s @ [e]\<rparr>) = inbox s @ received_of e"
  by (simp_all add: wire_def inbox_def)

lemma wire_event2 [simp]:
    "wire (s\<lparr>world := w, history := history s @ [e]\<rparr>) = wire s @ sent_of e"
  and inbox_event2 [simp]:
    "inbox (s\<lparr>world := w, history := history s @ [e]\<rparr>) = inbox s @ received_of e"
  by (simp_all add: wire_def inbox_def)

end
