(* ===== verification/Serial_Impl.thy ===== *)
theory Serial_Impl
  imports Os_Interface
begin

text \<open>
  \<open>src/src/impl/unix.cc\<close>: \<open>MillisecondTimer\<close> and \<open>Serial::SerialImpl\<close>, the POSIX backend of the
  serial port, with the option types of \<open>src/include/serial/serial.h\<close>. Every member function that
  touches the port is here: opening and closing, configuring the line, reading and writing with
  timeouts, the modem lines and the two mutexes.

  The platform is Linux (the \<open>#ifdef\<close>s of the file are resolved for it; which \<open>B...\<close> constants
  \<open>termios.h\<close> defines is the field \<open>has_B\<close> of the kernel). Member names lose their trailing
  underscore and get the prefix \<open>s_\<close>. Exception texts that embed run-time values are kept up to
  the first such value.
\<close>

section \<open>Options and state\<close>

datatype bytesize_t = fivebits | sixbits | sevenbits | eightbits
datatype parity_t = parity_none | parity_odd | parity_even | parity_mark | parity_space
datatype stopbits_t = stopbits_one | stopbits_two | stopbits_one_point_five
datatype flowcontrol_t = flowcontrol_none | flowcontrol_software | flowcontrol_hardware

text \<open>The numeric values of the enumerators.\<close>

primrec bytesize_num :: "bytesize_t \<Rightarrow> nat" where
  "bytesize_num fivebits = 5"
| "bytesize_num sixbits = 6"
| "bytesize_num sevenbits = 7"
| "bytesize_num eightbits = 8"

primrec parity_num :: "parity_t \<Rightarrow> nat" where
  "parity_num parity_none = 0"
| "parity_num parity_odd = 1"
| "parity_num parity_even = 2"
| "parity_num parity_mark = 3"
| "parity_num parity_space = 4"

primrec stopbits_num :: "stopbits_t \<Rightarrow> nat" where
  "stopbits_num stopbits_one = 1"
| "stopbits_num stopbits_two = 2"
| "stopbits_num stopbits_one_point_five = 3"

record timeout =
  inter_byte_timeout :: "32 word"
  read_timeout_constant :: "32 word"
  read_timeout_multiplier :: "32 word"
  write_timeout_constant :: "32 word"
  write_timeout_multiplier :: "32 word"

definition Timeout_max :: "32 word" where
  "Timeout_max = - 1"

definition Timeout_default :: timeout where
  "Timeout_default = \<lparr>inter_byte_timeout = 0, read_timeout_constant = 0, read_timeout_multiplier = 0,
     write_timeout_constant = 0, write_timeout_multiplier = 0\<rparr>"

definition simpleTimeout :: "32 word \<Rightarrow> timeout" where
  "simpleTimeout t = \<lparr>inter_byte_timeout = Timeout_max,
     read_timeout_constant = t, read_timeout_multiplier = 0,
     write_timeout_constant = t, write_timeout_multiplier = 0\<rparr>"

record 'w simpl = "'w sys" +
  s_port :: string
  s_fd :: int
  s_is_open :: bool
  s_xonxoff :: bool
  s_rtscts :: bool
  s_timeout :: timeout
  s_baudrate :: "64 word"
  s_byte_time_ns :: "32 word"
  s_parity :: parity_t
  s_bytesize :: bytesize_t
  s_stopbits :: stopbits_t
  s_flowcontrol :: flowcontrol_t
  s_read_mutex :: bool
  s_write_mutex :: bool

section \<open>MillisecondTimer\<close>

text \<open>Integer division of C++: rounds towards zero.\<close>

definition cquot :: "int \<Rightarrow> int \<Rightarrow> int" where
  "cquot a b = sgn a * sgn b * (\<bar>a\<bar> div \<bar>b\<bar>)"

text \<open>The point in time \<open>millis\<close> after \<open>now\<close>. The \<open>double\<close> product \<open>millis * 1e6\<close> is below
  \<open>2 ^ 53\<close> and exact.\<close>

definition timer_expiry :: "timespec \<Rightarrow> 32 word \<Rightarrow> timespec" where
  "timer_expiry now millis =
     (let nsec = tv_nsec now + uint millis * 1000000
      in if 1000000000 \<le> nsec
         then \<lparr>tv_sec = tv_sec now + nsec div 1000000000, tv_nsec = nsec mod 1000000000\<rparr>
         else \<lparr>tv_sec = tv_sec now, tv_nsec = nsec\<rparr>)"

definition MillisecondTimer :: "'w os \<Rightarrow> 32 word \<Rightarrow> (('w, 'z) sys_scheme, timespec) prog" where
  "MillisecondTimer os millis =
     bind (syscall (sys_clock os)) (\<lambda>now. return (timer_expiry now millis))"

text \<open>Milliseconds left, rounded towards zero: seconds and nanoseconds are brought to
  milliseconds as \<open>double\<close>s, added and truncated to \<open>int64_t\<close>. For times below \<open>2 ^ 32\<close> ms, all
  a timer can be set to, the rounding of the sum never reaches the next integer.\<close>

definition timer_left :: "timespec \<Rightarrow> timespec \<Rightarrow> int" where
  "timer_left expiry now =
     cquot ((tv_sec expiry - tv_sec now) * 1000000000 + (tv_nsec expiry - tv_nsec now)) 1000000"

definition timer_remaining :: "'w os \<Rightarrow> timespec \<Rightarrow> (('w, 'z) sys_scheme, int) prog" where
  "timer_remaining os expiry =
     bind (syscall (sys_clock os)) (\<lambda>now. return (timer_left expiry now))"

definition timespec_from_ms :: "32 word \<Rightarrow> timespec" where
  "timespec_from_ms millis =
     \<lparr>tv_sec = uint millis div 1000, tv_nsec = (uint millis mod 1000) * 1000000\<rparr>"

section \<open>Configuring the line\<close>

text \<open>The cases of the baud rate switch.\<close>

definition baud_cases :: "nat list" where
  "baud_cases =
     [0, 50, 75, 110, 134, 150, 200, 300, 600, 1200, 1800, 2400, 4800, 7200, 9600, 14400, 19200,
      28800, 57600, 76800, 38400, 115200, 128000, 153600, 230400, 256000, 460800, 500000, 576000,
      921600, 1000000, 1152000, 1500000, 2000000, 2500000, 3000000, 3500000, 4000000]"

definition standard_baud :: "'w os \<Rightarrow> nat \<Rightarrow> bool" where
  "standard_baud os b = (b \<in> set baud_cases \<and> has_B os b)"

definition termios_raw :: "termios \<Rightarrow> termios" where
  "termios_raw t = t\<lparr>
     c_cflag := c_cflag t \<union> {CLOCAL, CREAD},
     c_lflag := c_lflag t - {ICANON, ECHO, ECHOE, ECHOK, ECHONL, ISIG, IEXTEN},
     c_oflag := c_oflag t - {OPOST},
     c_iflag := c_iflag t - {INLCR, IGNCR, ICRNL, IGNBRK} - {IUCLC} - {PARMRK}\<rparr>"

definition termios_speed :: "'w os \<Rightarrow> nat \<Rightarrow> termios \<Rightarrow> termios" where
  "termios_speed os b t =
     (if standard_baud os b then t\<lparr>c_ispeed := b, c_ospeed := b\<rparr> else t)"

definition termios_charlen :: "bytesize_t \<Rightarrow> termios \<Rightarrow> termios" where
  "termios_charlen b t = t\<lparr>c_csize := bytesize_num b\<rparr>"

definition termios_stopbits :: "stopbits_t \<Rightarrow> termios \<Rightarrow> termios" where
  "termios_stopbits sb t = (case sb of
      stopbits_one \<Rightarrow> t\<lparr>c_cflag := c_cflag t - {CSTOPB}\<rparr>
    | stopbits_one_point_five \<Rightarrow> t\<lparr>c_cflag := c_cflag t \<union> {CSTOPB}\<rparr>
    | stopbits_two \<Rightarrow> t\<lparr>c_cflag := c_cflag t \<union> {CSTOPB}\<rparr>)"

definition termios_parity :: "parity_t \<Rightarrow> termios \<Rightarrow> termios" where
  "termios_parity p t0 =
     (let t = t0\<lparr>c_iflag := c_iflag t0 - {INPCK, ISTRIP}\<rparr> in
      case p of
        parity_none \<Rightarrow> t\<lparr>c_cflag := c_cflag t - {PARENB, PARODD}\<rparr>
      | parity_even \<Rightarrow> t\<lparr>c_cflag := (c_cflag t - {PARODD}) \<union> {PARENB}\<rparr>
      | parity_odd \<Rightarrow> t\<lparr>c_cflag := c_cflag t \<union> {PARENB, PARODD}\<rparr>
      | parity_mark \<Rightarrow> t\<lparr>c_cflag := c_cflag t \<union> {PARENB, CMSPAR, PARODD}\<rparr>
      | parity_space \<Rightarrow> t\<lparr>c_cflag := (c_cflag t \<union> {PARENB, CMSPAR}) - {PARODD}\<rparr>)"

definition termios_flow :: "bool \<Rightarrow> bool \<Rightarrow> termios \<Rightarrow> termios" where
  "termios_flow xonxoff rtscts t = t\<lparr>
     c_iflag := (if xonxoff then c_iflag t \<union> {IXON, IXOFF} else c_iflag t - {IXON, IXOFF, IXANY}),
     c_cflag := (if rtscts then c_cflag t \<union> {CRTSCTS} else c_cflag t - {CRTSCTS})\<rparr>"

definition flow_flags :: "flowcontrol_t \<Rightarrow> bool \<times> bool" where
  "flow_flags f = (case f of
      flowcontrol_none \<Rightarrow> (False, False)
    | flowcontrol_software \<Rightarrow> (True, False)
    | flowcontrol_hardware \<Rightarrow> (False, True))"

text \<open>The \<open>termios\<close> handed to \<open>tcsetattr\<close>: the steps of \<open>reconfigurePort\<close> in their order.\<close>

definition port_termios ::
    "'w os \<Rightarrow> nat \<Rightarrow> bytesize_t \<Rightarrow> stopbits_t \<Rightarrow> parity_t \<Rightarrow> flowcontrol_t \<Rightarrow> termios \<Rightarrow> termios" where
  "port_termios os b bs sb p f t =
     (case flow_flags f of (xonxoff, rtscts) \<Rightarrow>
        (termios_flow xonxoff rtscts
          (termios_parity p
            (termios_stopbits sb
              (termios_charlen bs (termios_speed os b (termios_raw t))))))
        \<lparr>c_vmin := 0, c_vtime := 0\<rparr>)"

text \<open>The Linux branch for rates that have no \<open>B...\<close> constant. \<open>static_cast<int>(baudrate_)\<close>
  keeps the low 32 bits as a signed number; a division by zero or one that overflows has no meaning in C++.\<close>

definition custom_baud :: "'w os \<Rightarrow> int \<Rightarrow> 64 word \<Rightarrow> (('w, 'z) sys_scheme, unit) prog" where
  "custom_baud os fd b =
     bind (syscall (sys_get_serial os fd)) (\<lambda>r.
       case r of
         Inl e \<Rightarrow> throw (IOException_errno e)
       | Inr ser \<Rightarrow>
           let rate = sint (ucast b :: 32 word) in
           if rate = 0 \<or> baud_base ser = - (2 ^ 31) \<and> rate = - 1 then stuck Undefined_behaviour
           else bind (syscall (sys_set_serial os fd
                  (ser\<lparr>custom_divisor := cquot (baud_base ser) rate, spd_flags := SPD_CUST\<rparr>))) (\<lambda>r.
             case r of Inl e \<Rightarrow> throw (IOException_errno e) | Inr _ \<Rightarrow> return ()))"

text \<open>Nanoseconds per byte: one start bit, the data bits, the parity and stop enumerators taken as
  bit counts, and the correction for the enumerator of 1.5 stop bits being 3. \<open>1e9 / baudrate\<close> is a
  \<open>double\<close>; converting the infinite quotient of rate 0 to an integer is undefined.\<close>

definition byte_time :: "64 word \<Rightarrow> bytesize_t \<Rightarrow> parity_t \<Rightarrow> stopbits_t \<Rightarrow> 32 word option" where
  "byte_time b bs p sb =
     (if b = 0 then None
      else let bit_time_ns = (of_nat (1000000000 div unat b) :: 32 word);
               byte_ns = bit_time_ns * of_nat (1 + bytesize_num bs + parity_num p + stopbits_num sb)
           in if sb = stopbits_one_point_five
              then let twice = 2 * uint byte_ns - 3 * uint bit_time_ns
                   in if twice \<le> - 2 then None else Some (of_int (cquot twice 2))
              else Some byte_ns)"

definition reconfigurePort :: "'w os \<Rightarrow> (('w, 'z) simpl_scheme, unit) prog" where
  "reconfigurePort os =
     bind (gets s_fd) (\<lambda>fd.
     if fd = - 1 then throw (IOException ''Invalid file descriptor, is the serial port open?'')
     else bind (syscall (sys_tcgetattr os fd)) (\<lambda>r.
       case r of
         Inl e \<Rightarrow> throw (IOException ''::tcgetattr'')
       | Inr options \<Rightarrow>
           bind (gets (\<lambda>s. s)) (\<lambda>s.
           let b = unat (s_baudrate s);
               t = port_termios os b (s_bytesize s) (s_stopbits s) (s_parity s) (s_flowcontrol s) options
           in
           andthen (modify (\<lambda>s. s\<lparr>s_xonxoff := fst (flow_flags (s_flowcontrol s)),
                                   s_rtscts := snd (flow_flags (s_flowcontrol s))\<rparr>))
          (andthen (sysdo (sys_tcsetattr os fd t))
          (andthen (record_event (Configured fd t))
          (andthen (whenM (\<not> standard_baud os b) (custom_baud os fd (s_baudrate s)))
             (case byte_time (s_baudrate s) (s_bytesize s) (s_parity s) (s_stopbits s) of
                None \<Rightarrow> stuck Undefined_behaviour
              | Some ns \<Rightarrow> modify (\<lambda>s. s\<lparr>s_byte_time_ns := ns\<rparr>))))))))"

section \<open>Opening and closing\<close>

text \<open>\<open>open()\<close> calls itself again when the system call was interrupted.\<close>

fun impl_open_loop :: "'w os \<Rightarrow> nat \<Rightarrow> (('w, 'z) simpl_scheme, unit) prog" where
  "impl_open_loop os n =
     bind (gets s_port) (\<lambda>port.
     bind (gets s_is_open) (\<lambda>is_open.
     if port = [] then throw (invalid_argument ''Empty port is invalid.'')
     else if is_open then throw (SerialException ''Serial port already open.'')
     else bind (syscall (sys_open os port)) (\<lambda>r.
       case r of
         Inl e \<Rightarrow>
           andthen (modify (\<lambda>s. s\<lparr>s_fd := - 1\<rparr>))
             (case e of
                EINTR \<Rightarrow> (case n of 0 \<Rightarrow> stuck Out_of_fuel | Suc m \<Rightarrow> impl_open_loop os m)
              | ENFILE \<Rightarrow> throw (IOException ''Too many file handles open.'')
              | EMFILE \<Rightarrow> throw (IOException ''Too many file handles open.'')
              | _ \<Rightarrow> throw (IOException_errno e))
       | Inr fd \<Rightarrow>
           andthen (modify (\<lambda>s. s\<lparr>s_fd := fd\<rparr>))
          (andthen (record_event (Opened port fd))
          (andthen (reconfigurePort os)
             (modify (\<lambda>s. s\<lparr>s_is_open := True\<rparr>)))))))"

declare impl_open_loop.simps [simp del]

definition impl_open :: "'w os \<Rightarrow> (('w, 'z) simpl_scheme, unit) prog" where
  "impl_open os = impl_open_loop os (fuel os)"

definition impl_close :: "'w os \<Rightarrow> (('w, 'z) simpl_scheme, unit) prog" where
  "impl_close os =
     bind (gets s_is_open) (\<lambda>is_open.
     whenM is_open
       (bind (gets s_fd) (\<lambda>fd.
        andthen
          (whenM (fd \<noteq> - 1)
            (bind (syscall (sys_close os fd)) (\<lambda>r.
               case r of
                 Inl e \<Rightarrow> throw (IOException_errno e)
               | Inr _ \<Rightarrow> andthen (record_event (Closed fd)) (modify (\<lambda>s. s\<lparr>s_fd := - 1\<rparr>)))))
          (modify (\<lambda>s. s\<lparr>s_is_open := False\<rparr>)))))"

definition impl_isOpen :: "(('w, 'z) simpl_scheme, bool) prog" where
  "impl_isOpen = gets s_is_open"

text \<open>The constructor opens the port when it is given one. It runs on the fresh object.\<close>

definition SerialImpl ::
    "'w os \<Rightarrow> string \<Rightarrow> 64 word \<Rightarrow> bytesize_t \<Rightarrow> parity_t \<Rightarrow> stopbits_t \<Rightarrow> flowcontrol_t
       \<Rightarrow> (('w, 'z) simpl_scheme, unit) prog" where
  "SerialImpl os port baudrate bytesize parity stopbits flowcontrol =
     andthen (modify (\<lambda>s. s\<lparr>s_port := port, s_fd := - 1, s_is_open := False, s_xonxoff := False,
        s_rtscts := False, s_timeout := Timeout_default, s_baudrate := baudrate, s_parity := parity,
        s_bytesize := bytesize, s_stopbits := stopbits, s_flowcontrol := flowcontrol,
        s_read_mutex := False, s_write_mutex := False\<rparr>))
       (whenM (port \<noteq> []) (impl_open os))"

definition SerialImpl_destroy :: "'w os \<Rightarrow> (('w, 'z) simpl_scheme, unit) prog" where
  "SerialImpl_destroy os = noexcept (impl_close os)"

section \<open>Reading\<close>

definition impl_available :: "'w os \<Rightarrow> (('w, 'z) simpl_scheme, nat) prog" where
  "impl_available os =
     bind (gets s_is_open) (\<lambda>is_open.
     if \<not> is_open then return 0
     else bind (gets s_fd) (\<lambda>fd.
       bind (syscall (sys_inq os fd)) (\<lambda>r.
         case r of Inl e \<Rightarrow> throw (IOException_errno e) | Inr count \<Rightarrow> return count)))"

text \<open>\<open>FD_SET\<close> of a descriptor outside \<open>[0, FD_SETSIZE)\<close> is undefined.\<close>

definition fd_settable :: "int \<Rightarrow> bool" where
  "fd_settable fd = (0 \<le> fd \<and> fd < 1024)"

definition impl_waitReadable :: "'w os \<Rightarrow> 32 word \<Rightarrow> (('w, 'z) simpl_scheme, bool) prog" where
  "impl_waitReadable os timeout =
     bind (gets s_fd) (\<lambda>fd.
     if \<not> fd_settable fd then stuck Undefined_behaviour
     else bind (syscall (sys_select_read os fd (timespec_from_ms timeout))) (\<lambda>r.
       case r of
         Inl e \<Rightarrow> if e = EINTR then return False else throw (IOException_errno e)
       | Inr Sel_timeout \<Rightarrow> return False
       | Inr (Sel_ready isset) \<Rightarrow>
           if \<not> isset
           then throw (IOException ''select reports ready to read, but our fd isn't in the list, this shouldn't happen!'')
           else return True))"

definition impl_waitByteTimes :: "'w os \<Rightarrow> nat \<Rightarrow> (('w, 'z) simpl_scheme, unit) prog" where
  "impl_waitByteTimes os count =
     bind (gets s_byte_time_ns) (\<lambda>ns.
       sysdo (sys_select_none os
         \<lparr>tv_sec = 0, tv_nsec = sint (of_nat (unat ns * count) :: 64 word)\<rparr>))"

text \<open>\<open>::read\<close> into a buffer of \<open>n\<close> bytes. A kernel that delivered more would overrun it.\<close>

definition read_call :: "'w os \<Rightarrow> int \<Rightarrow> nat \<Rightarrow> (('w, 'z) simpl_scheme, errno + string) prog" where
  "read_call os fd n =
     bind (syscall (sys_read os fd n)) (\<lambda>r.
       case r of
         Inl e \<Rightarrow> return (Inl e)
       | Inr bs \<Rightarrow>
           if n < length bs then stuck Undefined_behaviour
           else andthen (record_event (Received fd bs)) (return (Inr bs)))"

definition read_grab_wait :: "'w os \<Rightarrow> nat \<Rightarrow> nat \<Rightarrow> (('w, 'z) simpl_scheme, unit) prog" where
  "read_grab_wait os sz bytes_read =
     bind (gets s_timeout) (\<lambda>t.
     whenM (1 < sz \<and> inter_byte_timeout t = Timeout_max)
       (bind (impl_available os) (\<lambda>bytes_available.
          whenM (bytes_available + bytes_read < sz)
            (impl_waitByteTimes os (sz - (bytes_available + bytes_read))))))"

text \<open>The waiting loop of \<open>read\<close>; \<open>buf\<close> is the part of the caller's buffer filled so far.\<close>

fun impl_read_loop ::
    "'w os \<Rightarrow> nat \<Rightarrow> timespec \<Rightarrow> nat \<Rightarrow> string \<Rightarrow> (('w, 'z) simpl_scheme, string) prog" where
  "impl_read_loop os n expiry sz buf =
     (if length buf < sz then
        (case n of
           0 \<Rightarrow> stuck Out_of_fuel
         | Suc m \<Rightarrow>
             bind (timer_remaining os expiry) (\<lambda>left.
             if left \<le> 0 then return buf
             else bind (gets s_timeout) (\<lambda>t.
               bind (impl_waitReadable os (min (of_int left) (inter_byte_timeout t))) (\<lambda>ready.
               if ready then
                 andthen (read_grab_wait os sz (length buf))
                   (bind (gets s_fd) (\<lambda>fd.
                    bind (read_call os fd (sz - length buf)) (\<lambda>r.
                      case r of
                        Inl e \<Rightarrow> throw (SerialException ''device reports readiness to read but returned no data (device disconnected?)'')
                      | Inr bs \<Rightarrow>
                          if bs = [] then throw (SerialException ''device reports readiness to read but returned no data (device disconnected?)'')
                          else if length (buf @ bs) = sz then return (buf @ bs)
                          else if length (buf @ bs) < sz then impl_read_loop os m expiry sz (buf @ bs)
                          else throw (SerialException ''read over read, too many bytes where read, this shouldn't happen, might be a logical error!''))))
               else impl_read_loop os m expiry sz buf))))
      else return buf)"

declare impl_read_loop.simps [simp del]

text \<open>Total timeout in milliseconds, \<open>constant + multiplier * size\<close> in 64 bits, handed to a timer that
  takes 32.\<close>

definition total_timeout :: "32 word \<Rightarrow> 32 word \<Rightarrow> nat \<Rightarrow> 32 word" where
  "total_timeout constant multiplier sz = of_nat (unat constant + unat multiplier * sz)"

definition impl_read :: "'w os \<Rightarrow> nat \<Rightarrow> (('w, 'z) simpl_scheme, string) prog" where
  "impl_read os sz =
     bind (gets s_is_open) (\<lambda>is_open.
     if \<not> is_open then throw (PortNotOpenedException ''Serial::read'')
     else bind (gets s_timeout) (\<lambda>t.
       bind (MillisecondTimer os
         (total_timeout (read_timeout_constant t) (read_timeout_multiplier t) sz)) (\<lambda>expiry.
       bind (gets s_fd) (\<lambda>fd.
       bind (read_call os fd sz) (\<lambda>r.
         impl_read_loop os (fuel os) expiry sz (case r of Inl e \<Rightarrow> [] | Inr bs \<Rightarrow> bs))))))"

section \<open>Writing\<close>

definition write_call :: "'w os \<Rightarrow> int \<Rightarrow> string \<Rightarrow> (('w, 'z) simpl_scheme, errno + nat) prog" where
  "write_call os fd bs =
     bind (syscall (sys_write os fd bs)) (\<lambda>r.
       case r of
         Inl e \<Rightarrow> return (Inl e)
       | Inr k \<Rightarrow> andthen (record_event (Sent fd (take k bs))) (return (Inr k)))"

text \<open>The loop of \<open>write\<close>; \<open>k\<close> bytes are written so far, \<open>first\<close> is \<open>first_iteration\<close>. The
  remaining time is passed to \<open>timespec_from_ms\<close> as an unsigned 32-bit number.\<close>

fun impl_write_loop ::
    "'w os \<Rightarrow> nat \<Rightarrow> timespec \<Rightarrow> bool \<Rightarrow> string \<Rightarrow> nat \<Rightarrow> (('w, 'z) simpl_scheme, nat) prog" where
  "impl_write_loop os n expiry first data k =
     (if k < length data then
        (case n of
           0 \<Rightarrow> stuck Out_of_fuel
         | Suc m \<Rightarrow>
             bind (timer_remaining os expiry) (\<lambda>left.
             if \<not> first \<and> left \<le> 0 then return k
             else bind (gets s_fd) (\<lambda>fd.
               if \<not> fd_settable fd then stuck Undefined_behaviour
               else bind (syscall (sys_select_write os fd (timespec_from_ms (of_int left)))) (\<lambda>r.
               case r of
                 Inl e \<Rightarrow>
                   if e = EINTR then impl_write_loop os m expiry False data k
                   else throw (IOException_errno e)
               | Inr Sel_timeout \<Rightarrow> return k
               | Inr (Sel_ready isset) \<Rightarrow>
                   if isset then
                     bind (write_call os fd (drop k data)) (\<lambda>w.
                       case w of
                         Inl e \<Rightarrow>
                           if e = EINTR then impl_write_loop os m expiry False data k
                           else throw (SerialException ''device reports readiness to write but returned no data (device disconnected?) errno='')
                       | Inr j \<Rightarrow>
                           if j < 1 then throw (SerialException ''device reports readiness to write but returned no data (device disconnected?) errno='')
                           else if k + j = length data then return (k + j)
                           else if k + j < length data then impl_write_loop os m expiry False data (k + j)
                           else throw (SerialException ''write over wrote, too many bytes where written, this shouldn't happen, might be a logical error!''))
                   else throw (IOException ''select reports ready to write, but our fd isn't in the list, this shouldn't happen!'')))))
      else return k)"

declare impl_write_loop.simps [simp del]

definition impl_write :: "'w os \<Rightarrow> string \<Rightarrow> (('w, 'z) simpl_scheme, nat) prog" where
  "impl_write os data =
     bind (gets s_is_open) (\<lambda>is_open.
     if \<not> is_open then throw (PortNotOpenedException ''Serial::write'')
     else bind (gets s_timeout) (\<lambda>t.
       bind (MillisecondTimer os
         (total_timeout (write_timeout_constant t) (write_timeout_multiplier t) (length data))) (\<lambda>expiry.
       impl_write_loop os (fuel os) expiry True data 0)))"

section \<open>Settings, flushing and modem lines\<close>

definition impl_setPort :: "string \<Rightarrow> (('w, 'z) simpl_scheme, unit) prog" where
  "impl_setPort port = modify (\<lambda>s. s\<lparr>s_port := port\<rparr>)"

definition impl_getPort :: "(('w, 'z) simpl_scheme, string) prog" where
  "impl_getPort = gets s_port"

definition impl_setTimeout :: "timeout \<Rightarrow> (('w, 'z) simpl_scheme, unit) prog" where
  "impl_setTimeout t = modify (\<lambda>s. s\<lparr>s_timeout := t\<rparr>)"

definition impl_getTimeout :: "(('w, 'z) simpl_scheme, timeout) prog" where
  "impl_getTimeout = gets s_timeout"

text \<open>\<open>if (is_open_) reconfigurePort ();\<close>\<close>

definition reconfigure_if_open :: "'w os \<Rightarrow> (('w, 'z) simpl_scheme, unit) prog" where
  "reconfigure_if_open os = bind (gets s_is_open) (\<lambda>is_open. whenM is_open (reconfigurePort os))"

definition impl_setBaudrate :: "'w os \<Rightarrow> 64 word \<Rightarrow> (('w, 'z) simpl_scheme, unit) prog" where
  "impl_setBaudrate os b = andthen (modify (\<lambda>s. s\<lparr>s_baudrate := b\<rparr>)) (reconfigure_if_open os)"

definition impl_setBytesize :: "'w os \<Rightarrow> bytesize_t \<Rightarrow> (('w, 'z) simpl_scheme, unit) prog" where
  "impl_setBytesize os b = andthen (modify (\<lambda>s. s\<lparr>s_bytesize := b\<rparr>)) (reconfigure_if_open os)"

definition impl_setParity :: "'w os \<Rightarrow> parity_t \<Rightarrow> (('w, 'z) simpl_scheme, unit) prog" where
  "impl_setParity os p = andthen (modify (\<lambda>s. s\<lparr>s_parity := p\<rparr>)) (reconfigure_if_open os)"

definition impl_setStopbits :: "'w os \<Rightarrow> stopbits_t \<Rightarrow> (('w, 'z) simpl_scheme, unit) prog" where
  "impl_setStopbits os sb = andthen (modify (\<lambda>s. s\<lparr>s_stopbits := sb\<rparr>)) (reconfigure_if_open os)"

definition impl_setFlowcontrol :: "'w os \<Rightarrow> flowcontrol_t \<Rightarrow> (('w, 'z) simpl_scheme, unit) prog" where
  "impl_setFlowcontrol os f = andthen (modify (\<lambda>s. s\<lparr>s_flowcontrol := f\<rparr>)) (reconfigure_if_open os)"

definition impl_getBaudrate :: "(('w, 'z) simpl_scheme, 64 word) prog" where
  "impl_getBaudrate = gets s_baudrate"

definition impl_getBytesize :: "(('w, 'z) simpl_scheme, bytesize_t) prog" where
  "impl_getBytesize = gets s_bytesize"

definition impl_getParity :: "(('w, 'z) simpl_scheme, parity_t) prog" where
  "impl_getParity = gets s_parity"

definition impl_getStopbits :: "(('w, 'z) simpl_scheme, stopbits_t) prog" where
  "impl_getStopbits = gets s_stopbits"

definition impl_getFlowcontrol :: "(('w, 'z) simpl_scheme, flowcontrol_t) prog" where
  "impl_getFlowcontrol = gets s_flowcontrol"

text \<open>The guard most of the remaining members start with; \<open>who\<close> is the name in the exception.\<close>

definition on_open_port ::
    "string \<Rightarrow> (int \<Rightarrow> (('w, 'z) simpl_scheme, 'a) prog) \<Rightarrow> (('w, 'z) simpl_scheme, 'a) prog" where
  "on_open_port who m =
     bind (gets s_is_open) (\<lambda>is_open.
     if \<not> is_open then throw (PortNotOpenedException who)
     else bind (gets s_fd) m)"

definition impl_flush :: "'w os \<Rightarrow> (('w, 'z) simpl_scheme, unit) prog" where
  "impl_flush os = on_open_port ''Serial::flush'' (\<lambda>fd. sysdo (sys_tcdrain os fd))"

definition impl_flushInput :: "'w os \<Rightarrow> (('w, 'z) simpl_scheme, unit) prog" where
  "impl_flushInput os = on_open_port ''Serial::flushInput'' (\<lambda>fd.
     andthen (sysdo (sys_tcflush os fd TCIFLUSH)) (record_event (Flushed fd TCIFLUSH)))"

definition impl_flushOutput :: "'w os \<Rightarrow> (('w, 'z) simpl_scheme, unit) prog" where
  "impl_flushOutput os = on_open_port ''Serial::flushOutput'' (\<lambda>fd.
     andthen (sysdo (sys_tcflush os fd TCOFLUSH)) (record_event (Flushed fd TCOFLUSH)))"

definition impl_sendBreak :: "'w os \<Rightarrow> int \<Rightarrow> (('w, 'z) simpl_scheme, unit) prog" where
  "impl_sendBreak os duration = on_open_port ''Serial::sendBreak'' (\<lambda>fd.
     sysdo (sys_tcsendbreak os fd (cquot duration 4)))"

definition impl_setBreak :: "'w os \<Rightarrow> bool \<Rightarrow> (('w, 'z) simpl_scheme, unit) prog" where
  "impl_setBreak os level = on_open_port ''Serial::setBreak'' (\<lambda>fd.
     bind (syscall (sys_break os fd level)) (\<lambda>r.
       case r of
         Inl e \<Rightarrow> throw (SerialException (if level then ''setBreak failed on a call to ioctl(TIOCSBRK): ''
                                            else ''setBreak failed on a call to ioctl(TIOCCBRK): ''))
       | Inr _ \<Rightarrow> return ()))"

definition impl_setRTS :: "'w os \<Rightarrow> bool \<Rightarrow> (('w, 'z) simpl_scheme, unit) prog" where
  "impl_setRTS os level = on_open_port ''Serial::setRTS'' (\<lambda>fd.
     bind (syscall (sys_modem_set os fd level TIOCM_RTS)) (\<lambda>r.
       case r of
         Inl e \<Rightarrow> throw (SerialException (if level then ''setRTS failed on a call to ioctl(TIOCMBIS): ''
                                            else ''setRTS failed on a call to ioctl(TIOCMBIC): ''))
       | Inr _ \<Rightarrow> return ()))"

definition impl_setDTR :: "'w os \<Rightarrow> bool \<Rightarrow> (('w, 'z) simpl_scheme, unit) prog" where
  "impl_setDTR os level = on_open_port ''Serial::setDTR'' (\<lambda>fd.
     bind (syscall (sys_modem_set os fd level TIOCM_DTR)) (\<lambda>r.
       case r of
         Inl e \<Rightarrow> throw (SerialException (if level then ''setDTR failed on a call to ioctl(TIOCMBIS): ''
                                            else ''setDTR failed on a call to ioctl(TIOCMBIC): ''))
       | Inr _ \<Rightarrow> return ()))"

text \<open>The \<open>TIOCMIWAIT\<close> branch. It has no check that the port is open.\<close>

definition impl_waitForChange :: "'w os \<Rightarrow> (('w, 'z) simpl_scheme, bool) prog" where
  "impl_waitForChange os =
     bind (gets s_fd) (\<lambda>fd.
     bind (syscall (sys_modem_wait os fd {TIOCM_CD, TIOCM_DSR, TIOCM_RI, TIOCM_CTS})) (\<lambda>r.
       case r of
         Inl e \<Rightarrow> throw (SerialException ''waitForDSR failed on a call to ioctl(TIOCMIWAIT): '')
       | Inr _ \<Rightarrow> return True))"

definition modem_line_up ::
    "'w os \<Rightarrow> string \<Rightarrow> string \<Rightarrow> modem_line \<Rightarrow> (('w, 'z) simpl_scheme, bool) prog" where
  "modem_line_up os who what line = on_open_port who (\<lambda>fd.
     bind (syscall (sys_modem_get os fd)) (\<lambda>r.
       case r of
         Inl e \<Rightarrow> throw (SerialException what)
       | Inr status \<Rightarrow> return (line \<in> status)))"

definition impl_getCTS :: "'w os \<Rightarrow> (('w, 'z) simpl_scheme, bool) prog" where
  "impl_getCTS os =
     modem_line_up os ''Serial::getCTS'' ''getCTS failed on a call to ioctl(TIOCMGET): '' TIOCM_CTS"

definition impl_getDSR :: "'w os \<Rightarrow> (('w, 'z) simpl_scheme, bool) prog" where
  "impl_getDSR os =
     modem_line_up os ''Serial::getDSR'' ''getDSR failed on a call to ioctl(TIOCMGET): '' TIOCM_DSR"

definition impl_getRI :: "'w os \<Rightarrow> (('w, 'z) simpl_scheme, bool) prog" where
  "impl_getRI os =
     modem_line_up os ''Serial::getRI'' ''getRI failed on a call to ioctl(TIOCMGET): '' TIOCM_RI"

definition impl_getCD :: "'w os \<Rightarrow> (('w, 'z) simpl_scheme, bool) prog" where
  "impl_getCD os =
     modem_line_up os ''Serial::getCD'' ''getCD failed on a call to ioctl(TIOCMGET): '' TIOCM_CD"

section \<open>The mutexes\<close>

text \<open>Default POSIX mutexes: locking one that the caller already holds never returns, and
  unlocking one that nobody holds is undefined.\<close>

definition impl_readLock :: "(('w, 'z) simpl_scheme, unit) prog" where
  "impl_readLock = bind (gets s_read_mutex) (\<lambda>held.
     if held then stuck Deadlock else modify (\<lambda>s. s\<lparr>s_read_mutex := True\<rparr>))"

definition impl_readUnlock :: "(('w, 'z) simpl_scheme, unit) prog" where
  "impl_readUnlock = bind (gets s_read_mutex) (\<lambda>held.
     if held then modify (\<lambda>s. s\<lparr>s_read_mutex := False\<rparr>) else stuck Undefined_behaviour)"

definition impl_writeLock :: "(('w, 'z) simpl_scheme, unit) prog" where
  "impl_writeLock = bind (gets s_write_mutex) (\<lambda>held.
     if held then stuck Deadlock else modify (\<lambda>s. s\<lparr>s_write_mutex := True\<rparr>))"

definition impl_writeUnlock :: "(('w, 'z) simpl_scheme, unit) prog" where
  "impl_writeUnlock = bind (gets s_write_mutex) (\<lambda>held.
     if held then modify (\<lambda>s. s\<lparr>s_write_mutex := False\<rparr>) else stuck Undefined_behaviour)"

section \<open>What each operation may touch\<close>

text \<open>\<open>io_step\<close>: only the world changes and the log grows. \<open>quiet_step\<close>: besides, nothing is sent.\<close>

definition io_step :: "('w, 'z) simpl_scheme \<Rightarrow> ('w, 'z) simpl_scheme \<Rightarrow> bool" where
  "io_step s t = (\<exists>w h. t = s\<lparr>world := w, history := history s @ h\<rparr>)"

definition quiet_step :: "('w, 'z) simpl_scheme \<Rightarrow> ('w, 'z) simpl_scheme \<Rightarrow> bool" where
  "quiet_step s t = (io_step s t \<and> wire t = wire s)"

lemma io_step_refl: "io_step s s"
  unfolding io_step_def by (rule exI [of _ "world s"], rule exI [of _ "[]"]) simp

lemma io_step_trans: "io_step s t \<Longrightarrow> io_step t u \<Longrightarrow> io_step s u"
  by (fastforce simp: io_step_def)

interpretation io: step_rel io_step
  by unfold_locales (auto intro: io_step_refl io_step_trans)

interpretation quiet: step_rel quiet_step
  by unfold_locales (auto simp: quiet_step_def intro: io_step_refl io_step_trans)

lemma io_step_world [simp]: "io_step s (s\<lparr>world := w\<rparr>)"
  and io_step_event [simp]: "io_step s (s\<lparr>history := history s @ [e]\<rparr>)"
  and io_step_world_event [simp]: "io_step s (s\<lparr>world := w, history := history s @ [e]\<rparr>)"
proof -
  show "io_step s (s\<lparr>world := w\<rparr>)"
    unfolding io_step_def by (rule exI [of _ w], rule exI [of _ "[]"]) simp
  show "io_step s (s\<lparr>history := history s @ [e]\<rparr>)"
    unfolding io_step_def by (rule exI [of _ "world s"], rule exI [of _ "[e]"]) simp
  show "io_step s (s\<lparr>world := w, history := history s @ [e]\<rparr>)"
    unfolding io_step_def by (rule exI [of _ w], rule exI [of _ "[e]"]) simp
qed

lemma io_step_fields:
  assumes "io_step s t"
  shows "s_fd t = s_fd s" "s_is_open t = s_is_open s" "s_port t = s_port s"
    "s_timeout t = s_timeout s" "s_baudrate t = s_baudrate s" "s_byte_time_ns t = s_byte_time_ns s"
    "s_read_mutex t = s_read_mutex s" "s_write_mutex t = s_write_mutex s"
    "s_parity t = s_parity s" "s_bytesize t = s_bytesize s" "s_stopbits t = s_stopbits s"
    "s_flowcontrol t = s_flowcontrol s" "simpl.more t = simpl.more s"
    "prefix (history s) (history t)"
  using assms by (auto simp: io_step_def)

lemma quiet_syscall: "steps quiet_step (syscall f)"
  by (rule stepsI) (simp add: run_simps quiet_step_def split: prod.splits)

lemma quiet_sysdo: "steps quiet_step (sysdo f)"
  by (rule stepsI) (simp add: run_simps quiet_step_def)

lemma quiet_event: "sent_of e = [] \<Longrightarrow> steps quiet_step (record_event e)"
  by (rule stepsI) (simp add: run_simps quiet_step_def)

lemma quiet_selected:
  "steps quiet_step m \<Longrightarrow> (\<And>b. steps quiet_step (f b)) \<Longrightarrow>
   steps quiet_step (case x of Sel_timeout \<Rightarrow> m | Sel_ready b \<Rightarrow> f b)"
  by (cases x) auto

lemma io_event: "steps io_step (record_event e)"
  by (rule stepsI) (simp add: run_simps)

lemma quiet_io: "steps quiet_step m \<Longrightarrow> steps io_step m"
  by (erule steps_mono) (simp add: quiet_step_def)

lemmas quiet_prims = quiet_syscall quiet_sysdo quiet_event quiet_selected

lemma quiet_timer: "steps quiet_step (MillisecondTimer os ms)"
  and quiet_remaining: "steps quiet_step (timer_remaining os x)"
  unfolding MillisecondTimer_def timer_remaining_def
  by (intro quiet.steps_rules quiet_prims)+

lemma quiet_available: "steps quiet_step (impl_available os)"
  unfolding impl_available_def by (intro quiet.steps_rules quiet_prims)

lemma quiet_waitReadable: "steps quiet_step (impl_waitReadable os ms)"
  unfolding impl_waitReadable_def by (intro quiet.steps_rules quiet_prims)

lemma quiet_grab_wait: "steps quiet_step (read_grab_wait os n k)"
  unfolding read_grab_wait_def impl_waitByteTimes_def
  by (intro quiet.steps_rules quiet_prims quiet_available)

lemma quiet_read_call: "steps quiet_step (read_call os fd n)"
  unfolding read_call_def by (intro quiet.steps_rules quiet_prims) simp_all

lemma quiet_read_loop: "steps quiet_step (impl_read_loop os n x sz buf)"
proof (induction n arbitrary: buf)
  case 0
  show ?case
    by (subst impl_read_loop.simps) (simp add: quiet.steps_return quiet.steps_stuck)
next
  case (Suc n)
  show ?case
    by (subst impl_read_loop.simps, unfold nat.case)
      (intro quiet.steps_rules quiet_remaining quiet_waitReadable quiet_grab_wait quiet_read_call Suc)
qed

lemma quiet_impl_read: "steps quiet_step (impl_read os sz)"
  unfolding impl_read_def
  by (intro quiet.steps_rules quiet_timer quiet_read_call quiet_read_loop)

section \<open>Bytes read and written\<close>

text \<open>\<open>hush_step\<close>: nothing sent and nothing received.\<close>

definition hush_step :: "('w, 'z) simpl_scheme \<Rightarrow> ('w, 'z) simpl_scheme \<Rightarrow> bool" where
  "hush_step s t = (quiet_step s t \<and> inbox t = inbox s)"

interpretation hush: step_rel hush_step
  by unfold_locales (auto simp: hush_step_def intro: quiet.R_refl quiet.R_trans)

lemma hush_syscall: "steps hush_step (syscall f)"
  by (rule stepsI) (simp add: run_simps hush_step_def quiet_step_def split: prod.splits)

lemma hush_sysdo: "steps hush_step (sysdo f)"
  by (rule stepsI) (simp add: run_simps hush_step_def quiet_step_def)

lemma hush_selected:
  "steps hush_step m \<Longrightarrow> (\<And>b. steps hush_step (f b)) \<Longrightarrow>
   steps hush_step (case x of Sel_timeout \<Rightarrow> m | Sel_ready b \<Rightarrow> f b)"
  by (cases x) auto

lemmas hush_prims = hush_syscall hush_sysdo hush_selected

lemma hush_timer: "steps hush_step (MillisecondTimer os ms)"
  and hush_remaining: "steps hush_step (timer_remaining os x)"
  unfolding MillisecondTimer_def timer_remaining_def
  by (intro hush.steps_rules hush_prims)+

lemma hush_available: "steps hush_step (impl_available os)"
  unfolding impl_available_def by (intro hush.steps_rules hush_prims)

lemma hush_waitReadable: "steps hush_step (impl_waitReadable os ms)"
  unfolding impl_waitReadable_def by (intro hush.steps_rules hush_prims)

lemma hush_grab_wait: "steps hush_step (read_grab_wait os n k)"
  unfolding read_grab_wait_def impl_waitByteTimes_def
  by (intro hush.steps_rules hush_prims hush_available)

text \<open>What a read promises: at most the bytes asked for, and none the kernel delivered is lost when it
  returns.\<close>

definition read_post :: "('w, 'z) simpl_scheme \<Rightarrow> string \<Rightarrow> nat \<Rightarrow> string outcome \<Rightarrow> ('w, 'z) simpl_scheme \<Rightarrow> bool" where
  "read_post s buf sz r t = (\<forall>bs. r = Ret bs \<longrightarrow>
     length bs \<le> sz \<and> (\<exists>new. bs = buf @ new \<and> inbox t = inbox s @ new))"

lemma read_post_fail [simp]: "read_post s buf sz (Exn e) t" "read_post s buf sz (Stuck x) t"
  by (simp_all add: read_post_def)

lemma read_post_hush: "read_post t buf sz r u \<Longrightarrow> hush_step s t \<Longrightarrow> read_post s buf sz r u"
  by (simp add: read_post_def hush_step_def)

lemma read_post_more:
  "read_post t (buf @ bs) sz r u \<Longrightarrow> inbox t = inbox s @ bs \<Longrightarrow> read_post s buf sz r u"
  by (fastforce simp: read_post_def)

lemma wp_read_call:
  "wp (read_call os fd n) (\<lambda>r t. \<forall>x. r = Ret x \<longrightarrow>
     (case x of Inl e \<Rightarrow> hush_step s t | Inr bs \<Rightarrow> length bs \<le> n \<and> inbox t = inbox s @ bs)) s"
  by (auto simp: read_call_def wp_simps hush_step_def quiet_step_def split: prod.splits sum.splits)

lemma read_chunk_post:
  assumes loop: "\<And>bs u. length (buf @ bs) < sz \<Longrightarrow> wp (loop (buf @ bs)) (read_post u (buf @ bs) sz) u"
    and st: "hush_step s t"
  shows "wp (bind (read_call os fd (sz - length buf)) (\<lambda>r.
      case r of
        Inl e \<Rightarrow> throw E
      | Inr bs \<Rightarrow>
          if bs = [] then throw E
          else if length (buf @ bs) = sz then return (buf @ bs)
          else if length (buf @ bs) < sz then loop (buf @ bs)
          else throw E')) (read_post s buf sz) t"
  (is "wp (bind _ ?f) _ _")
  unfolding wp_bind
proof (rule wp_mono [OF wp_read_call])
  fix r :: "(errno + string) outcome" and u
  assume r: "\<forall>x. r = Ret x \<longrightarrow> (case x of Inl e \<Rightarrow> hush_step t u
    | Inr bs \<Rightarrow> length bs \<le> sz - length buf \<and> inbox u = inbox t @ bs)"
  show "onward (\<lambda>a. wp (?f a) (read_post s buf sz)) (read_post s buf sz) r u"
  proof (cases "\<exists>bs. r = Ret (Inr bs)")
    case True
    then obtain bs where bs: "r = Ret (Inr bs)" "inbox u = inbox s @ bs"
      using r st by (auto simp: hush_step_def)
    have "wp (loop (buf @ bs)) (read_post s buf sz) u" if "length (buf @ bs) < sz"
      by (rule wp_mono [OF loop [OF that]]) (rule read_post_more [OF _ bs(2)])
    moreover have "length (buf @ bs) = sz \<Longrightarrow> read_post s buf sz (Ret (buf @ bs)) u"
      using bs by (simp add: read_post_def)
    ultimately show ?thesis
      unfolding bs(1) onward_simps sum.case wp_if wp_throw wp_return read_post_fail by simp
  next
    case False
    then show ?thesis by (cases r) (auto simp: wp_simps split: sum.splits)
  qed
qed

lemma read_wait_post:
  assumes s: "hush_step s t"
    and m: "\<And>v. hush_step s v \<Longrightarrow> wp m (read_post s buf sz) v"
    and loop: "\<And>v. hush_step s v \<Longrightarrow> wp loop (read_post s buf sz) v"
  shows "wp (bind (impl_waitReadable os ms) (\<lambda>ready.
      if ready then andthen (read_grab_wait os sz k) m else loop)) (read_post s buf sz) t"
proof (rule wp_bind_steps [OF hush_waitReadable])
  fix ready v
  assume "hush_step t v"
  with s have v: "hush_step s v" by (rule hush.R_trans)
  have "wp (andthen (read_grab_wait os sz k) m) (read_post s buf sz) v"
    by (rule wp_andthen_steps [OF hush_grab_wait]) (auto intro: m hush.R_trans [OF v])
  then show "wp (if ready then andthen (read_grab_wait os sz k) m else loop) (read_post s buf sz) v"
    using loop [OF v] by simp
qed simp_all

lemma read_loop_post:
  "length buf \<le> sz \<Longrightarrow> hush_step s t \<Longrightarrow> wp (impl_read_loop os n x sz buf) (read_post s buf sz) t"
proof (induction n arbitrary: buf s t)
  case 0
  then show ?case
    by (subst impl_read_loop.simps) (simp add: wp_simps read_post_def hush_step_def)
next
  case (Suc n)
  have stop: "read_post s buf sz (Ret buf) u" if "hush_step s u" for u
    using Suc.prems that by (simp add: read_post_def hush_step_def)
  show ?case
  proof (cases "length buf < sz")
    case False
    with Suc.prems stop show ?thesis by (subst impl_read_loop.simps) (simp add: wp_simps)
  next
    case True
    have chunk: "wp (bind (gets s_fd) (\<lambda>fd.
      bind (read_call os fd (sz - length buf)) (\<lambda>r.
        case r of
          Inl e \<Rightarrow> throw E
        | Inr bs \<Rightarrow>
            if bs = [] then throw E
            else if length (buf @ bs) = sz then return (buf @ bs)
            else if length (buf @ bs) < sz then impl_read_loop os n x sz (buf @ bs)
            else throw E'))) (read_post s buf sz) v" if "hush_step s v" for v E E'
      unfolding wp_bind [of "gets _"] wp_gets onward_simps
      by (rule read_chunk_post [OF Suc.IH that]) (simp_all add: hush.R_refl)
    show ?thesis
      by (subst impl_read_loop.simps, unfold if_P [OF True] nat.case,
          rule wp_bind_steps [OF hush_remaining],
          unfold wp_if wp_return wp_bind [of "gets s_timeout"] wp_gets onward_simps)
        (auto intro!: read_wait_post chunk Suc.IH [OF Suc.prems(1)] intro: stop
          hush.R_trans [OF Suc.prems(2)])
  qed
qed

lemma impl_read_post: "wp (impl_read os sz) (read_post s [] sz) s"
proof -
  have fill: "wp (bind (read_call os fd sz) (\<lambda>r. impl_read_loop os n x sz
      (case r of Inl e \<Rightarrow> [] | Inr bs \<Rightarrow> bs))) (read_post s [] sz) t"
    if st: "hush_step s t" for fd n x t
    unfolding wp_bind
  proof (rule wp_mono [OF wp_read_call])
    fix r u
    assume r: "\<forall>x. r = Ret x \<longrightarrow> (case x of Inl e \<Rightarrow> hush_step t u
      | Inr bs \<Rightarrow> length bs \<le> sz \<and> inbox u = inbox t @ bs)"
    have "wp (impl_read_loop os n x sz bs) (read_post s [] sz) u"
      if "length bs \<le> sz" "inbox u = inbox s @ bs" for bs
      by (rule wp_mono [OF read_loop_post [OF that(1) hush.R_refl]])
        (rule read_post_more, use that in auto)
    then show "onward (\<lambda>r. wp (impl_read_loop os n x sz
      (case r of Inl e \<Rightarrow> [] | Inr bs \<Rightarrow> bs)) (read_post s [] sz)) (read_post s [] sz) r u"
      using r st by (cases r) (auto split: sum.splits simp: hush_step_def)
  qed
  show ?thesis
    unfolding impl_read_def wp_bind [of "gets _"] wp_gets onward_simps wp_if wp_throw
    by (auto simp: wp_bind [of "gets _"] wp_gets intro!: wp_bind_steps [OF hush_timer] fill)
qed

text \<open>What a write promises: whatever happens, a prefix of the data went out, and the count returned
  is its length.\<close>

definition write_post :: "('w, 'z) simpl_scheme \<Rightarrow> string \<Rightarrow> nat outcome \<Rightarrow> ('w, 'z) simpl_scheme \<Rightarrow> bool" where
  "write_post s data r t = (\<exists>k \<le> length data.
     io_step s t \<and> wire t = wire s @ take k data \<and> inbox t = inbox s \<and> (\<forall>n. r = Ret n \<longrightarrow> n = k))"

text \<open>The state of the write loop: \<open>k\<close> bytes of \<open>data\<close> are out.\<close>

definition writing :: "('w, 'z) simpl_scheme \<Rightarrow> string \<Rightarrow> nat \<Rightarrow> ('w, 'z) simpl_scheme \<Rightarrow> bool" where
  "writing s data k t =
     (k \<le> length data \<and> io_step s t \<and> wire t = wire s @ take k data \<and> inbox t = inbox s)"

lemma writing_hush: "writing s data k t \<Longrightarrow> hush_step t u \<Longrightarrow> writing s data k u"
  by (auto simp: writing_def hush_step_def quiet_step_def intro: io_step_trans)

lemma writing_post: "writing s data k t \<Longrightarrow> (\<And>n. r = Ret n \<Longrightarrow> n = k) \<Longrightarrow> write_post s data r t"
  by (auto simp: writing_def write_post_def)

lemma writing_fail [intro]:
  "writing s data k t \<Longrightarrow> write_post s data (Exn e) t"
  "writing s data k t \<Longrightarrow> write_post s data (Stuck x) t"
  "writing s data k t \<Longrightarrow> write_post s data (Ret k) t"
  by (auto intro: writing_post)

lemma wp_write_call:
  assumes "writing s data k t"
  shows "wp (write_call os fd (drop k data)) (\<lambda>r u. \<exists>x. r = Ret x \<and>
     (case x of Inl e \<Rightarrow> writing s data k u | Inr j \<Rightarrow> writing s data (min (k + j) (length data)) u)) t"
proof -
  have "take k data @ take j (drop k data) = take (min (k + j) (length data)) data" for j
    using assms by (auto simp: writing_def take_append_take min_def)
  then show ?thesis
    using assms
    by (auto simp: write_call_def wp_simps writing_def split: prod.splits sum.splits
        intro: io_step_trans)
qed

lemma write_chunk_post:
  assumes loop: "\<And>k u. writing s data k u \<Longrightarrow> wp (loop k) (write_post s data) u"
    and wr: "writing s data k t"
  shows "wp (bind (write_call os fd (drop k data)) (\<lambda>w.
      case w of
        Inl e \<Rightarrow> if e = EINTR then loop k else throw E
      | Inr j \<Rightarrow>
          if j < 1 then throw E
          else if k + j = length data then return (k + j)
          else if k + j < length data then loop (k + j)
          else throw E')) (write_post s data) t"
  (is "wp (bind _ ?f) _ _")
  unfolding wp_bind
proof (rule wp_mono [OF wp_write_call [OF wr]])
  fix r :: "(errno + nat) outcome" and u
  assume "\<exists>x. r = Ret x \<and> (case x of Inl e \<Rightarrow> writing s data k u
    | Inr j \<Rightarrow> writing s data (min (k + j) (length data)) u)"
  then obtain x where x: "r = Ret x" "case x of Inl e \<Rightarrow> writing s data k u
    | Inr j \<Rightarrow> writing s data (min (k + j) (length data)) u"
    by blast
  show "onward (\<lambda>w. wp (?f w) (write_post s data)) (write_post s data) r u"
  proof (cases x)
    case (Inl e)
    then show ?thesis using loop x by (auto simp: wp_simps)
  next
    case (Inr j)
    with x have "k + j < length data \<Longrightarrow> wp (loop (k + j)) (write_post s data) u"
      and "k + j = length data \<Longrightarrow> write_post s data (Ret (k + j)) u"
      and "write_post s data (Exn E) u" "write_post s data (Exn E') u"
      using loop by (auto simp: min_def)
    then show ?thesis unfolding x(1) Inr onward_simps sum.case wp_if wp_throw wp_return by simp
  qed
qed

lemma write_loop_post:
  "writing s data k t \<Longrightarrow> wp (impl_write_loop os n x first data k) (write_post s data) t"
proof (induction n arbitrary: k first t)
  case 0
  then show ?case by (subst impl_write_loop.simps) (auto simp: wp_simps)
next
  case (Suc n)
  show ?case
  proof (cases "k < length data")
    case False
    with Suc.prems show ?thesis by (subst impl_write_loop.simps) (auto simp: wp_simps)
  next
    case True
    have select: "wp (bind (syscall f) (\<lambda>r.
        case r of
          Inl e \<Rightarrow> if e = EINTR then impl_write_loop os n x False data k else throw (IOException_errno e)
        | Inr Sel_timeout \<Rightarrow> return k
        | Inr (Sel_ready isset) \<Rightarrow> if isset then m else throw E)) (write_post s data) u"
      if u: "writing s data k u" and m: "\<And>v. writing s data k v \<Longrightarrow> wp m (write_post s data) v" for f m E u
      by (rule wp_bind_steps [OF hush_syscall])
        (auto simp: wp_simps split: sum.splits selected.splits
          intro: m Suc.IH writing_hush [OF u])
    show ?thesis
      apply (subst impl_write_loop.simps)
      unfolding if_P [OF True] nat.case
      apply (rule wp_bind_steps [OF hush_remaining])
        apply (unfold wp_if wp_return wp_stuck wp_bind [of "gets s_fd"] wp_gets onward_simps)
      using writing_hush [OF Suc.prems]
        apply (auto intro!: select write_chunk_post Suc.IH)
      done
  qed
qed

lemma impl_write_post: "wp (impl_write os data) (write_post s data) s"
proof -
  have s: "writing s data 0 s" by (simp add: writing_def io_step_refl)
  show ?thesis
    unfolding impl_write_def wp_bind [of "gets _"] wp_gets onward_simps wp_if wp_throw
    using writing_hush [OF s]
    by (auto simp: wp_bind [of "gets _"] wp_gets intro!: wp_bind_steps [OF hush_timer] write_loop_post
        intro: s)
qed
end
