(* ===== verification/Serial_Timing.thy ===== *)
theory Serial_Timing
  imports Serial_Impl
begin

text \<open>
  The reading loop of \<open>src/src/impl/unix.cc\<close> comes to an end: under a kernel that keeps time, a read of
  \<open>n\<close> bytes needs at most \<open>n\<close> iterations plus one for each millisecond of its total timeout. So does the writing loop,
  with one more for its first pass, if signals do not interrupt it more than once a millisecond.
\<close>

section \<open>Reads return\<close>

text \<open>A kernel that keeps time: \<open>clk\<close> reads the monotonic clock of a world in nanoseconds, no call
  turns it back, and a wait for input that ends without any blocks for at least a millisecond.\<close>

definition ns_of :: "timespec \<Rightarrow> int" where
  "ns_of ts = tv_sec ts * 1000000000 + tv_nsec ts"

definition timed_kernel :: "'w os \<Rightarrow> ('w \<Rightarrow> int) \<Rightarrow> bool" where
  "timed_kernel os clk =
     ((\<forall>w. ns_of (fst (sys_clock os w)) = clk w \<and> clk w \<le> clk (snd (sys_clock os w))
           \<and> 0 \<le> tv_nsec (fst (sys_clock os w)))
    \<and> (\<forall>fd n w. clk w \<le> clk (snd (sys_read os fd n w)))
    \<and> (\<forall>fd w. clk w \<le> clk (snd (sys_inq os fd w)))
    \<and> (\<forall>ts w. clk w \<le> clk (sys_select_none os ts w))
    \<and> (\<forall>fd ts w. clk w + (if fst (sys_select_read os fd ts w) = Inr (Sel_ready True) then 0 else 1000000)
           \<le> clk (snd (sys_select_read os fd ts w))))"

definition later :: "('w \<Rightarrow> int) \<Rightarrow> ('w, 'z) simpl_scheme \<Rightarrow> ('w, 'z) simpl_scheme \<Rightarrow> bool" where
  "later clk s t = (clk (world s) \<le> clk (world t))"

interpretation later: step_rel "later clk" for clk
  by unfold_locales (auto simp: later_def)

lemma later_syscall: "(\<And>w. clk w \<le> clk (snd (f w))) \<Longrightarrow> steps (later clk) (syscall f)"
  by (rule stepsI) (auto simp: run_simps later_def split: prod.splits, metis snd_conv)

lemma later_sysdo: "(\<And>w. clk w \<le> clk (f w)) \<Longrightarrow> steps (later clk) (sysdo f)"
  by (rule stepsI) (auto simp: run_simps later_def)

lemma later_event: "steps (later clk) (record_event e)"
  by (rule stepsI) (auto simp: run_simps later_def)

lemma later_grab_wait: "timed_kernel os clk \<Longrightarrow> steps (later clk) (read_grab_wait os n k)"
  unfolding read_grab_wait_def impl_waitByteTimes_def impl_available_def
  by (intro later.steps_rules later_syscall later_sysdo) (auto simp: timed_kernel_def)

lemma later_read_call: "timed_kernel os clk \<Longrightarrow> steps (later clk) (read_call os fd n)"
  unfolding read_call_def
  by (intro later.steps_rules later_syscall later_event) (auto simp: timed_kernel_def)

lemma never_grab_wait: "never Out_of_fuel (read_grab_wait os n k)"
  unfolding read_grab_wait_def impl_waitByteTimes_def impl_available_def
  by (intro never_intros)

lemma never_read_call: "never Out_of_fuel (read_call os fd n)"
  unfolding read_call_def by (intro never_intros) simp

lemma never_waitReadable: "never Out_of_fuel (impl_waitReadable os ms)"
  unfolding impl_waitReadable_def by (intro never_intros) simp

text \<open>Milliseconds until the timer expires.\<close>

definition ms_left :: "('w \<Rightarrow> int) \<Rightarrow> timespec \<Rightarrow> ('w, 'z) simpl_scheme \<Rightarrow> nat" where
  "ms_left clk x s = nat ((ns_of x - clk (world s)) div 1000000)"

lemma timer_left_ns: "0 \<le> ns_of x - ns_of now \<Longrightarrow> timer_left x now = (ns_of x - ns_of now) div 1000000"
  by (cases "ns_of x - ns_of now = 0")
     (auto simp: timer_left_def cquot_def ns_of_def sgn_if algebra_simps)

lemma timer_left_nonpos: "ns_of x - ns_of now \<le> 0 \<Longrightarrow> timer_left x now \<le> 0"
proof -
  assume a: "ns_of x - ns_of now \<le> 0"
  have "timer_left x now = sgn (ns_of x - ns_of now) * (\<bar>ns_of x - ns_of now\<bar> div 1000000)"
    by (simp add: timer_left_def cquot_def ns_of_def algebra_simps)
  then show ?thesis using a by (auto simp: sgn_if)
qed

lemma timer_left_pos:
  assumes "0 < timer_left x now"
  shows "1 \<le> (ns_of x - ns_of now) div 1000000"
proof -
  have "0 \<le> ns_of x - ns_of now"
    using assms timer_left_nonpos [of x now] by linarith
  then show ?thesis using assms timer_left_ns by fastforce
qed

lemma timer_expiry_ns: "0 \<le> tv_nsec now \<Longrightarrow> ns_of (timer_expiry now ms) = ns_of now + uint ms * 1000000"
proof -
  have "n div 1000000000 * 1000000000 + n mod 1000000000 = n" for n :: int by simp
  then show ?thesis by (simp add: timer_expiry_def ns_of_def Let_def algebra_simps)
qed


lemma wp_waitReadable_timed:
  assumes "timed_kernel os clk"
  shows "wp (impl_waitReadable os ms)
    (\<lambda>r t. later clk s t \<and> (r = Ret False \<longrightarrow> clk (world s) + 1000000 \<le> clk (world t))) s"
proof -
  obtain a v where av: "sys_select_read os (s_fd s) (timespec_from_ms ms) (world s) = (a, v)"
    by fastforce
  have "clk w + (if fst (sys_select_read os fd ts w) = Inr (Sel_ready True) then 0 else 1000000)
      \<le> clk (snd (sys_select_read os fd ts w))" for fd ts w
    using assms unfolding timed_kernel_def by blast
  from this [of "world s" "s_fd s" "timespec_from_ms ms"]
  have "clk (world s) + (if a = Inr (Sel_ready True) then 0 else 1000000) \<le> clk v"
    by (simp add: av)
  then show ?thesis
    by (simp add: impl_waitReadable_def wp_simps later_def av split: sum.splits selected.splits if_splits)
qed

lemma ms_left_later: "later clk s t \<Longrightarrow> ms_left clk x t \<le> ms_left clk x s"
  by (auto simp: ms_left_def later_def intro!: nat_mono zdiv_mono1)

lemma ms_left_wait:
  assumes "clk (world s) + 1000000 \<le> clk (world t)" "0 < ms_left clk x s"
  shows "ms_left clk x t < ms_left clk x s"
proof -
  have "(ns_of x - clk (world t)) div 1000000 \<le> (ns_of x - clk (world s) - 1000000) div 1000000"
    using assms(1) by (intro zdiv_mono1) auto
  also have "\<dots> = (ns_of x - clk (world s)) div 1000000 - 1" by simp
  finally show ?thesis using assms(2) by (simp add: ms_left_def)
qed

lemma wp_remaining_clock:
  assumes "\<And>w. ns_of (fst (sys_clock os w)) = clk w \<and> clk w \<le> clk (snd (sys_clock os w))"
  shows "wp (timer_remaining os x)
    (\<lambda>r t. later clk s t \<and> (\<exists>left. r = Ret left \<and> (0 < left \<longrightarrow> 0 < ms_left clk x s))) s"
proof -
  obtain now v where nv: "sys_clock os (world s) = (now, v)" by fastforce
  from assms [of "world s"] have "ns_of now = clk (world s)" "clk (world s) \<le> clk v"
    by (simp_all add: nv)
  then show ?thesis
    using timer_left_pos [of x now]
    by (auto simp: timer_remaining_def wp_simps later_def ms_left_def nv)
qed

lemma wp_remaining_timed:
  assumes "timed_kernel os clk"
  shows "wp (timer_remaining os x)
    (\<lambda>r t. later clk s t \<and> (\<exists>left. r = Ret left \<and> (0 < left \<longrightarrow> 0 < ms_left clk x s))) s"
  by (rule wp_remaining_clock) (use assms in \<open>auto simp: timed_kernel_def\<close>)

abbreviation in_fuel :: "'a outcome \<Rightarrow> 's \<Rightarrow> bool" where
  "in_fuel r t \<equiv> r \<noteq> Stuck Out_of_fuel"

lemma read_chunk_returns:
  assumes tk: "timed_kernel os clk"
    and loop: "\<And>bs u. later clk s u \<Longrightarrow> bs \<noteq> [] \<Longrightarrow> length (buf @ bs) < sz \<Longrightarrow> wp (loop (buf @ bs)) in_fuel u"
    and t: "later clk s t"
  shows "wp (bind (read_call os fd (sz - length buf)) (\<lambda>r.
        case r of
          Inl e \<Rightarrow> throw E
        | Inr bs \<Rightarrow>
            if bs = [] then throw E
            else if length (buf @ bs) = sz then return (buf @ bs)
            else if length (buf @ bs) < sz then loop (buf @ bs)
            else throw E')) in_fuel t"
  unfolding wp_bind
  by (rule wp_mono [OF wp_conj [OF steps_wp [OF later_read_call [OF tk]] never_wp [OF never_read_call]]])
    (use loop [OF later.R_trans [OF t]] in \<open>auto simp: onward_def wp_simps split: outcome.splits sum.splits\<close>)

lemma read_wait_returns:
  assumes tk: "timed_kernel os clk" and t: "later clk s t"
    and m: "\<And>v. later clk s v \<Longrightarrow> wp m in_fuel v"
    and loop: "\<And>v. later clk s v \<Longrightarrow> clk (world s) + 1000000 \<le> clk (world v) \<Longrightarrow> wp loop in_fuel v"
  shows "wp (bind (impl_waitReadable os ms) (\<lambda>ready.
      if ready then andthen (read_grab_wait os sz k) m else loop)) in_fuel t"
  unfolding wp_bind
proof (rule wp_mono [OF wp_conj [OF wp_waitReadable_timed [OF tk] never_wp [OF never_waitReadable]]])
  fix r u
  assume r: "(later clk t u \<and> (r = Ret False \<longrightarrow> clk (world t) + 1000000 \<le> clk (world u))) \<and> in_fuel r u"
  then have su: "later clk s u" using t later.R_trans by blast
  have "wp (andthen (read_grab_wait os sz k) m) in_fuel u"
    unfolding wp_andthen
    by (rule wp_mono [OF wp_conj [OF steps_wp [OF later_grab_wait [OF tk]] never_wp [OF never_grab_wait]]])
      (auto simp: onward_def split: outcome.splits intro: m later.R_trans [OF su])
  moreover have "wp loop in_fuel u" if "r = Ret False"
    by (rule loop [OF su]) (use r t that in \<open>simp add: later_def\<close>)
  ultimately show "onward (\<lambda>ready. wp (if ready then andthen (read_grab_wait os sz k) m else loop) in_fuel)
      in_fuel r u"
    using r by (auto simp: onward_def split: outcome.splits)
qed

lemma read_loop_returns:
  assumes tk: "timed_kernel os clk"
  shows "sz - length buf + ms_left clk x s \<le> n \<Longrightarrow> wp (impl_read_loop os n x sz buf) in_fuel s"
proof (induction n arbitrary: buf s)
  case 0
  then show ?case by (subst impl_read_loop.simps) (simp add: wp_simps)
next
  case (Suc n)
  show ?case
  proof (cases "length buf < sz")
    case False
    then show ?thesis by (subst impl_read_loop.simps) (simp add: wp_simps)
  next
    case True
    have more: "wp (impl_read_loop os n x sz (buf @ bs)) in_fuel u"
      if "later clk s u" "bs \<noteq> []" "length (buf @ bs) < sz" for bs u
    proof (rule Suc.IH)
      have "ms_left clk x u \<le> ms_left clk x s" "1 \<le> length bs"
        using that by (auto simp: ms_left_later Suc_le_eq)
      then show "sz - length (buf @ bs) + ms_left clk x u \<le> n"
        using Suc.prems that(3) unfolding length_append by linarith
    qed
    have again: "wp (impl_read_loop os n x sz buf) in_fuel v"
      if "later clk s v" "clk (world s) + 1000000 \<le> clk (world v)" "0 < ms_left clk x s" for v
      by (rule Suc.IH) (use ms_left_wait [OF that(2,3)] Suc.prems in simp)
    show ?thesis
      by (subst impl_read_loop.simps, unfold if_P [OF True] nat.case wp_bind [of "timer_remaining os x"],
          rule wp_mono [OF wp_remaining_timed [OF tk]])
        (auto simp: wp_return wp_bind [of "gets _"] wp_gets
          intro!: read_wait_returns [OF tk] read_chunk_returns [OF tk] more again)
  qed
qed

text \<open>When a timer is set, no more is left of it than its duration.\<close>

lemma ms_left_expiry:
  assumes "ns_of now = clk w" "0 \<le> tv_nsec now" "clk w \<le> clk (world u)"
  shows "ms_left clk (timer_expiry now ms) u \<le> unat ms"
proof -
  have "(ns_of (timer_expiry now ms) - clk (world u)) div 1000000 \<le> (uint ms * 1000000) div 1000000"
    using assms by (intro zdiv_mono1) (auto simp: timer_expiry_ns)
  then show ?thesis by (simp add: ms_left_def nat_le_iff)
qed

lemma impl_read_returns:
  assumes tk: "timed_kernel os clk"
    and fuel: "sz + unat (total_timeout (read_timeout_constant (s_timeout s))
                 (read_timeout_multiplier (s_timeout s)) sz) \<le> fuel os"
  shows "fst (impl_read os sz s) \<noteq> Stuck Out_of_fuel"
proof -
  let ?ms = "total_timeout (read_timeout_constant (s_timeout s)) (read_timeout_multiplier (s_timeout s)) sz"
  obtain now v where nv: "sys_clock os (world s) = (now, v)" by fastforce
  have "ns_of (fst (sys_clock os w)) = clk w \<and> clk w \<le> clk (snd (sys_clock os w))
      \<and> 0 \<le> tv_nsec (fst (sys_clock os w))" for w
    using tk unfolding timed_kernel_def by blast
  from this [of "world s"]
  have clock: "ns_of now = clk (world s)" "clk (world s) \<le> clk v" "0 \<le> tv_nsec now"
    by (simp_all add: nv)
  let ?x = "timer_expiry now ?ms"
  have left: "ms_left clk ?x u \<le> unat ?ms" if "later clk (s\<lparr>world := v\<rparr>) u" for u
    by (rule ms_left_expiry [of now clk "world s"]) (use clock that in \<open>auto simp: later_def\<close>)
  have "wp (bind (read_call os fd sz) (\<lambda>r. impl_read_loop os (fuel os) ?x sz
      (case r of Inl e \<Rightarrow> [] | Inr bs \<Rightarrow> bs))) in_fuel (s\<lparr>world := v\<rparr>)" for fd
    unfolding wp_bind
    by (rule wp_mono [OF wp_conj [OF steps_wp [OF later_read_call [OF tk]] never_wp [OF never_read_call]]])
      (use fuel in \<open>auto simp: onward_def split: outcome.splits
         intro!: read_loop_returns [OF tk] dest!: left\<close>)
  then have "wp (impl_read os sz) in_fuel s"
    by (simp add: impl_read_def MillisecondTimer_def wp_simps nv)
  then show ?thesis by (simp add: wp_def case_prod_unfold)
qed

section \<open>Writes return\<close>

text \<open>Signals interrupt the calls of a write at most once a millisecond.\<close>

definition timed_writes :: "'w os \<Rightarrow> ('w \<Rightarrow> int) \<Rightarrow> bool" where
  "timed_writes os clk =
     ((\<forall>w. ns_of (fst (sys_clock os w)) = clk w \<and> clk w \<le> clk (snd (sys_clock os w))
           \<and> 0 \<le> tv_nsec (fst (sys_clock os w)))
    \<and> (\<forall>fd ts w. clk w + (if fst (sys_select_write os fd ts w) = Inl EINTR then 1000000 else 0)
           \<le> clk (snd (sys_select_write os fd ts w)))
    \<and> (\<forall>fd bs w. clk w + (if fst (sys_write os fd bs w) = Inl EINTR then 1000000 else 0)
           \<le> clk (snd (sys_write os fd bs w))))"

text \<open>Both calls of an iteration, with the time an interruption takes.\<close>

lemma wp_write_call_timed:
  assumes "timed_writes os clk"
  shows "wp (write_call os fd bs) (\<lambda>r t. later clk s t \<and> (\<exists>w. r = Ret w
      \<and> (w = Inl EINTR \<longrightarrow> clk (world s) + 1000000 \<le> clk (world t)))) s"
proof -
  obtain a v where av: "sys_write os fd bs (world s) = (a, v)" by fastforce
  have "clk w + (if fst (sys_write os fd bs w) = Inl EINTR then 1000000 else 0) \<le> clk (snd (sys_write os fd bs w))" for w
    using assms unfolding timed_writes_def by blast
  from this [of "world s"] have "clk (world s) + (if a = Inl EINTR then 1000000 else 0) \<le> clk v" by (simp add: av)
  then show ?thesis by (auto simp: write_call_def wp_simps later_def av split: sum.splits if_splits)
qed

lemma wp_select_write_timed:
  assumes "timed_writes os clk"
  shows "wp (syscall (sys_select_write os fd ts)) (\<lambda>r t. later clk s t \<and> (\<exists>w. r = Ret w
      \<and> (w = Inl EINTR \<longrightarrow> clk (world s) + 1000000 \<le> clk (world t)))) s"
proof -
  obtain a v where av: "sys_select_write os fd ts (world s) = (a, v)" by fastforce
  have "clk w + (if fst (sys_select_write os fd ts w) = Inl EINTR then 1000000 else 0)
      \<le> clk (snd (sys_select_write os fd ts w))" for w
    using assms unfolding timed_writes_def by blast
  from this [of "world s"] have "clk (world s) + (if a = Inl EINTR then 1000000 else 0) \<le> clk v" by (simp add: av)
  then show ?thesis by (auto simp: wp_simps later_def av split: if_splits)
qed

lemma write_iteration_returns:
  assumes tk: "timed_writes os clk" and t: "later clk s t"
    and more: "\<And>j u. later clk s u \<Longrightarrow> 1 \<le> j \<Longrightarrow> k + j < len \<Longrightarrow> wp (loop (k + j)) in_fuel u"
    and again: "\<And>u. later clk s u \<Longrightarrow> clk (world s) + 1000000 \<le> clk (world u) \<Longrightarrow> wp (loop k) in_fuel u"
  shows "wp (bind (syscall (sys_select_write os fd ts)) (\<lambda>r.
      case r of
        Inl e \<Rightarrow> if e = EINTR then loop k else throw (E0 e)
      | Inr Sel_timeout \<Rightarrow> return k
      | Inr (Sel_ready isset) \<Rightarrow>
          if isset then
            bind (write_call os fd bs) (\<lambda>w.
              case w of
                Inl e \<Rightarrow> if e = EINTR then loop k else throw E1
              | Inr j \<Rightarrow>
                  if j < 1 then throw E1
                  else if k + j = len then return (k + j)
                  else if k + j < len then loop (k + j)
                  else throw E2)
          else throw E3)) in_fuel t"
proof -
  have "wp (bind (write_call os fd bs) (\<lambda>w.
              case w of
                Inl e \<Rightarrow> if e = EINTR then loop k else throw E1
              | Inr j \<Rightarrow>
                  if j < 1 then throw E1
                  else if k + j = len then return (k + j)
                  else if k + j < len then loop (k + j)
                  else throw E2)) in_fuel v" if "later clk s v" for v
    unfolding wp_bind
    by (rule wp_mono [OF wp_write_call_timed [OF tk]])
      (use that in \<open>auto simp: onward_def wp_simps later_def split: sum.splits intro!: more again\<close>)
  then show ?thesis
    unfolding wp_bind [of "syscall _"]
    by (intro wp_mono [OF wp_select_write_timed [OF tk]])
      (use t in \<open>auto simp: onward_def wp_throw wp_return later_def split: sum.splits selected.splits intro!: again\<close>)
qed

lemma write_loop_returns:
  assumes tk: "timed_writes os clk"
  shows "length data - k + ms_left clk x s + of_bool first \<le> n \<Longrightarrow> wp (impl_write_loop os n x first data k) in_fuel s"
proof (induction n arbitrary: k s first)
  case 0
  then show ?case by (subst impl_write_loop.simps) (simp add: wp_simps)
next
  case (Suc n)
  have clock: "ns_of (fst (sys_clock os w)) = clk w \<and> clk w \<le> clk (snd (sys_clock os w))" for w
    using tk unfolding timed_writes_def by blast
  show ?case
  proof (cases "k < length data")
    case False
    then show ?thesis by (subst impl_write_loop.simps) (simp add: wp_simps)
  next
    case True
    have more: "wp (impl_write_loop os n x False data (k + j)) in_fuel u"
      if "later clk s u" "1 \<le> j" "k + j < length data" for j u
      by (rule Suc.IH) (use ms_left_later [OF that(1), of x] Suc.prems that in simp)
    have again: "wp (impl_write_loop os n x False data k) in_fuel v"
      if "later clk s v" "clk (world s) + 1000000 \<le> clk (world v)" "first \<or> 0 < ms_left clk x s" for v
      by (rule Suc.IH)
        (use ms_left_wait [OF that(2), of x] ms_left_later [OF that(1), of x] that(3) Suc.prems in auto)
    show ?thesis
      by (subst impl_write_loop.simps, unfold if_P [OF True] nat.case wp_bind [of "timer_remaining os x"],
          rule wp_mono [OF wp_remaining_clock [OF clock]])
        (auto simp: wp_return wp_stuck wp_bind [of "gets _"] wp_gets
          intro!: write_iteration_returns [OF tk] more again)
  qed
qed

lemma impl_write_returns:
  assumes tk: "timed_writes os clk"
    and fuel: "Suc (length data + unat (total_timeout (write_timeout_constant (s_timeout s))
                 (write_timeout_multiplier (s_timeout s)) (length data))) \<le> fuel os"
  shows "fst (impl_write os data s) \<noteq> Stuck Out_of_fuel"
proof -
  let ?ms = "total_timeout (write_timeout_constant (s_timeout s)) (write_timeout_multiplier (s_timeout s)) (length data)"
  obtain now v where nv: "sys_clock os (world s) = (now, v)" by fastforce
  have "ns_of (fst (sys_clock os w)) = clk w \<and> clk w \<le> clk (snd (sys_clock os w))
      \<and> 0 \<le> tv_nsec (fst (sys_clock os w))" for w
    using tk unfolding timed_writes_def by blast
  from this [of "world s"]
  have clock: "ns_of now = clk (world s)" "clk (world s) \<le> clk v" "0 \<le> tv_nsec now"
    by (simp_all add: nv)
  have "ms_left clk (timer_expiry now ?ms) (s\<lparr>world := v\<rparr>) \<le> unat ?ms"
    by (rule ms_left_expiry [of now clk "world s"]) (use clock in auto)
  then have "wp (impl_write_loop os (fuel os) (timer_expiry now ?ms) True data 0) in_fuel (s\<lparr>world := v\<rparr>)"
    by (intro write_loop_returns [OF tk]) (use fuel in simp)
  then have "wp (impl_write os data) in_fuel s"
    by (simp add: impl_write_def MillisecondTimer_def wp_simps nv)
  then show ?thesis by (simp add: wp_def case_prod_unfold)
qed

end
