(* ===== verification/Serial_Config.thy ===== *)
theory Serial_Config
  imports Serial_Timing
begin

text \<open>
  Facts about the configuring half of \<open>src/src/impl/unix.cc\<close>: \<open>reconfigurePort\<close>, the setters, \<open>open\<close>
  and \<open>close\<close>. What they may touch, what \<open>tcsetattr\<close> is given, and the invariant that an open port has
  a descriptor.
\<close>

section \<open>Frames\<close>

text \<open>\<open>line_step\<close>: what configuring the line may touch. \<open>conf_step\<close>: what opening and closing may touch
  besides. Neither moves a byte.\<close>

definition line_step :: "('w, 'z) simpl_scheme \<Rightarrow> ('w, 'z) simpl_scheme \<Rightarrow> bool" where
  "line_step s t = ((\<exists>w h x r b. t = s\<lparr>world := w, history := history s @ h,
     s_xonxoff := x, s_rtscts := r, s_byte_time_ns := b\<rparr>) \<and> wire t = wire s \<and> inbox t = inbox s)"

definition conf_step :: "('w, 'z) simpl_scheme \<Rightarrow> ('w, 'z) simpl_scheme \<Rightarrow> bool" where
  "conf_step s t = ((\<exists>w h f op x r b. t = s\<lparr>world := w, history := history s @ h, s_fd := f, s_is_open := op,
     s_xonxoff := x, s_rtscts := r, s_byte_time_ns := b\<rparr>) \<and> wire t = wire s \<and> inbox t = inbox s)"

lemma line_stepI:
  "t = s\<lparr>world := world t, history := history s @ h, s_xonxoff := s_xonxoff t, s_rtscts := s_rtscts t,
     s_byte_time_ns := s_byte_time_ns t\<rparr>
   \<Longrightarrow> wire t = wire s \<Longrightarrow> inbox t = inbox s \<Longrightarrow> line_step s t"
  unfolding line_step_def by blast

lemma conf_stepI:
  "t = s\<lparr>world := world t, history := history s @ h, s_fd := s_fd t, s_is_open := s_is_open t,
     s_xonxoff := s_xonxoff t, s_rtscts := s_rtscts t, s_byte_time_ns := s_byte_time_ns t\<rparr>
   \<Longrightarrow> wire t = wire s \<Longrightarrow> inbox t = inbox s \<Longrightarrow> conf_step s t"
  unfolding conf_step_def by blast

interpretation line: step_rel line_step
proof
  fix s t u :: "('w, 'z) simpl_scheme"
  show "line_step s s"
    by (rule line_stepI [where h = "[]"]) simp_all
  show "line_step s t \<Longrightarrow> line_step t u \<Longrightarrow> line_step s u"
    unfolding line_step_def by fastforce
qed

interpretation conf: step_rel conf_step
proof
  fix s t u :: "('w, 'z) simpl_scheme"
  show "conf_step s s"
    by (rule conf_stepI [where h = "[]"]) simp_all
  show "conf_step s t \<Longrightarrow> conf_step t u \<Longrightarrow> conf_step s u"
    unfolding conf_step_def by fastforce
qed

lemma hush_line: "hush_step s t \<Longrightarrow> line_step s t"
proof -
  assume h: "hush_step s t"
  then obtain w h' where t: "t = s\<lparr>world := w, history := history s @ h'\<rparr>"
    by (auto simp: hush_step_def quiet_step_def io_step_def)
  show ?thesis
    by (rule line_stepI [where h = h']) (use h t in \<open>simp_all add: hush_step_def quiet_step_def\<close>)
qed

lemma line_conf: "line_step s t \<Longrightarrow> conf_step s t"
proof -
  assume h: "line_step s t"
  then obtain w h' x r b where t: "t = s\<lparr>world := w, history := history s @ h',
      s_xonxoff := x, s_rtscts := r, s_byte_time_ns := b\<rparr>"
    by (auto simp: line_step_def)
  show ?thesis
    by (rule conf_stepI [where h = h']) (use h t in \<open>simp_all add: line_step_def\<close>)
qed

lemma line_step_fields:
  assumes "line_step s t"
  shows "s_fd t = s_fd s" "s_is_open t = s_is_open s" "s_port t = s_port s"
    "s_timeout t = s_timeout s" "s_baudrate t = s_baudrate s"
    "s_read_mutex t = s_read_mutex s" "s_write_mutex t = s_write_mutex s" "simpl.more t = simpl.more s"
    "wire t = wire s" "inbox t = inbox s"
  using assms by (auto simp: line_step_def)

lemma conf_step_fields:
  assumes "conf_step s t"
  shows "s_port t = s_port s" "s_timeout t = s_timeout s" "s_baudrate t = s_baudrate s"
    "s_read_mutex t = s_read_mutex s" "s_write_mutex t = s_write_mutex s" "simpl.more t = simpl.more s"
    "wire t = wire s" "inbox t = inbox s" "prefix (history s) (history t)"
  using assms by (auto simp: conf_step_def)

lemma line_syscall: "steps line_step (syscall f)"
  and line_sysdo: "steps line_step (sysdo d)"
  by (auto intro: steps_mono [OF hush_syscall] steps_mono [OF hush_sysdo] hush_line)

lemma line_configured: "steps line_step (record_event (Configured fd t))"
  by (rule stepsI, rule hush_line)
    (simp add: run_simps hush_step_def quiet_step_def)

lemma line_flags: "steps line_step (modify (\<lambda>s. s\<lparr>s_xonxoff := f s, s_rtscts := g s\<rparr>))"
  by (rule stepsI, rule line_stepI [where h = "[]"]) (auto simp: run_simps wire_def inbox_def)

lemma line_byte_time: "steps line_step (modify (\<lambda>s. s\<lparr>s_byte_time_ns := b\<rparr>))"
  by (rule stepsI, rule line_stepI [where h = "[]"]) (auto simp: run_simps wire_def inbox_def)

lemma line_custom_baud: "steps line_step (custom_baud os fd b)"
  unfolding custom_baud_def by (intro line.steps_rules line_syscall)

lemma line_reconfigure: "steps line_step (reconfigurePort os)"
  unfolding reconfigurePort_def
  by (intro line.steps_rules line_syscall line_sysdo line_configured line_flags line_byte_time
      line_custom_baud)

lemma conf_fields: "steps conf_step (modify (\<lambda>s. s\<lparr>s_fd := f\<rparr>))"
    "steps conf_step (modify (\<lambda>s. s\<lparr>s_is_open := b\<rparr>))"
  by (auto intro!: stepsI conf_stepI [where h = "[]"] simp: run_simps wire_def inbox_def)

lemma conf_event: "sent_of e = [] \<Longrightarrow> received_of e = [] \<Longrightarrow> steps conf_step (record_event e)"
  by (rule stepsI, rule line_conf, rule hush_line)
    (simp add: run_simps hush_step_def quiet_step_def)

lemma conf_syscall: "steps conf_step (syscall f)"
  by (rule steps_mono [OF line_syscall line_conf])

lemma conf_open_loop: "steps conf_step (impl_open_loop os n)"
proof (induction n)
  case 0
  show ?case
    by (subst impl_open_loop.simps)
      (intro conf.steps_rules conf_syscall conf_fields conf_event steps_mono [OF line_reconfigure line_conf];
       auto intro: conf.steps_rules split: errno.splits)
next
  case (Suc n)
  then show ?case
    by (subst impl_open_loop.simps)
      (intro conf.steps_rules conf_syscall conf_fields conf_event steps_mono [OF line_reconfigure line_conf];
       auto intro: conf.steps_rules split: errno.splits)
qed

lemma conf_open: "steps conf_step (impl_open os)"
  unfolding impl_open_def by (rule conf_open_loop)

lemma conf_close: "steps conf_step (impl_close os)"
  unfolding impl_close_def
  by (intro conf.steps_rules conf_syscall conf_fields conf_event) simp_all

section \<open>The line settings\<close>

lemmas termios_defs = termios_raw_def termios_speed_def termios_charlen_def
  termios_stopbits_def termios_parity_def termios_flow_def

lemma termios_speed_fields [simp]:
  "c_iflag (termios_speed os b t) = c_iflag t" "c_oflag (termios_speed os b t) = c_oflag t"
  "c_cflag (termios_speed os b t) = c_cflag t" "c_lflag (termios_speed os b t) = c_lflag t"
  by (simp_all add: termios_speed_def)

lemma termios_stopbits_fields [simp]:
  "c_iflag (termios_stopbits sb t) = c_iflag t" "c_oflag (termios_stopbits sb t) = c_oflag t"
  "c_lflag (termios_stopbits sb t) = c_lflag t" "c_csize (termios_stopbits sb t) = c_csize t"
  "c_ispeed (termios_stopbits sb t) = c_ispeed t" "c_ospeed (termios_stopbits sb t) = c_ospeed t"
  by (simp_all add: termios_stopbits_def split: stopbits_t.splits)

lemma termios_parity_fields [simp]:
  "c_iflag (termios_parity p t) = c_iflag t - {INPCK, ISTRIP}"
  "c_oflag (termios_parity p t) = c_oflag t"
  "c_lflag (termios_parity p t) = c_lflag t" "c_csize (termios_parity p t) = c_csize t"
  "c_ispeed (termios_parity p t) = c_ispeed t" "c_ospeed (termios_parity p t) = c_ospeed t"
  by (simp_all add: termios_parity_def Let_def split: parity_t.splits)

text \<open>Whatever the settings, the line is raw, enabled and polled.\<close>

lemma port_termios_raw:
  "c_lflag (port_termios os b bs sb p f t) = c_lflag t - {ICANON, ECHO, ECHOE, ECHOK, ECHONL, ISIG, IEXTEN}"
  "c_oflag (port_termios os b bs sb p f t) = c_oflag t - {OPOST}"
  "c_vmin (port_termios os b bs sb p f t) = 0" "c_vtime (port_termios os b bs sb p f t) = 0"
  by (simp_all add: port_termios_def termios_raw_def termios_charlen_def termios_flow_def split: prod.splits)

lemma port_termios_size:
  "c_csize (port_termios os b bs sb p f t) = bytesize_num bs"
  "c_ospeed (port_termios os b bs sb p f t) = (if standard_baud os b then b else c_ospeed t)"
  "c_ispeed (port_termios os b bs sb p f t) = (if standard_baud os b then b else c_ispeed t)"
  by (simp_all add: port_termios_def termios_raw_def termios_charlen_def termios_flow_def
      termios_speed_def split: prod.splits)

lemma port_termios_input:
  "c_iflag (port_termios os b bs sb p f t) =
     c_iflag t - {INLCR, IGNCR, ICRNL, IGNBRK, IUCLC, PARMRK, INPCK, ISTRIP}
       - (if f = flowcontrol_software then {} else {IXON, IXOFF, IXANY})
       \<union> (if f = flowcontrol_software then {IXON, IXOFF} else {})"
  by (cases f) (auto simp: port_termios_def termios_raw_def termios_charlen_def termios_flow_def
      flow_flags_def)

text \<open>The control flags: switched on, switched off, the others untouched.\<close>

definition cflags_on :: "stopbits_t \<Rightarrow> parity_t \<Rightarrow> flowcontrol_t \<Rightarrow> tflag set" where
  "cflags_on sb p f = {CLOCAL, CREAD} \<union> (if sb = stopbits_one then {} else {CSTOPB})
     \<union> (if p = parity_none then {} else {PARENB})
     \<union> (if p = parity_odd \<or> p = parity_mark then {PARODD} else {})
     \<union> (if p = parity_mark \<or> p = parity_space then {CMSPAR} else {})
     \<union> (if f = flowcontrol_hardware then {CRTSCTS} else {})"

definition cflags_off :: "stopbits_t \<Rightarrow> parity_t \<Rightarrow> flowcontrol_t \<Rightarrow> tflag set" where
  "cflags_off sb p f = (if sb = stopbits_one then {CSTOPB} else {})
     \<union> (if p = parity_none then {PARENB} else {})
     \<union> (if p = parity_odd \<or> p = parity_mark then {} else {PARODD})
     \<union> (if f = flowcontrol_hardware then {} else {CRTSCTS})"

lemma port_termios_control:
  "c_cflag (port_termios os b bs sb p f t) = c_cflag t \<union> cflags_on sb p f - cflags_off sb p f"
proof -
  have "c_cflag (port_termios os b bs sb p f t) =
      (let c = c_cflag (termios_parity p (termios_stopbits sb (termios_raw t)\<lparr>c_csize := bytesize_num bs\<rparr>))
       in if f = flowcontrol_hardware then c \<union> {CRTSCTS} else c - {CRTSCTS})"
    by (cases f; cases sb; cases p) (simp_all add: port_termios_def termios_charlen_def termios_flow_def
      flow_flags_def termios_parity_def termios_stopbits_def)
  also have "\<dots> = c_cflag t \<union> cflags_on sb p f - cflags_off sb p f"
    by (cases sb; cases p) (auto simp: termios_raw_def termios_stopbits_def termios_parity_def
      cflags_on_def cflags_off_def Let_def split: if_splits)
  finally show ?thesis .
qed

text \<open>Applying the settings twice is applying them once.\<close>

lemma port_termios_idem:
  "port_termios os b bs sb p f (port_termios os b bs sb p f t) = port_termios os b bs sb p f t"
  by (rule termios.equality)
    (auto simp: port_termios_raw port_termios_size port_termios_input port_termios_control)

text \<open>A configuration that returns has handed the settings of the object to the kernel and has the byte
  time that belongs to them.\<close>

lemma reconfigure_ret:
  "wp (reconfigurePort os) (\<lambda>r t. r = Ret () \<longrightarrow> s_fd s \<noteq> - 1 \<and>
     (\<exists>t0. history t = history s @ [Configured (s_fd s) (port_termios os (unat (s_baudrate s)) (s_bytesize s)
             (s_stopbits s) (s_parity s) (s_flowcontrol s) t0)]) \<and>
     byte_time (s_baudrate s) (s_bytesize s) (s_parity s) (s_stopbits s) = Some (s_byte_time_ns t)) s"
  by (auto simp: reconfigurePort_def custom_baud_def Let_def wp_simps
      split: prod.splits sum.splits option.splits)

section \<open>Open and close\<close>

text \<open>An open port has a descriptor.\<close>

definition port_ok :: "('w, 'z) simpl_scheme \<Rightarrow> bool" where
  "port_ok s = (s_is_open s \<longrightarrow> s_fd s \<noteq> - 1)"

lemma port_ok_io: "io_step s t \<Longrightarrow> port_ok s \<Longrightarrow> port_ok t"
  by (simp add: port_ok_def io_step_fields)

lemma port_ok_line: "line_step s t \<Longrightarrow> port_ok s \<Longrightarrow> port_ok t"
  by (simp add: port_ok_def line_step_fields)

text \<open>Opening: on return the port is open and configured, in every other case it is as open as before,
  which is not at all unless the call was refused for that reason.\<close>

definition open_post ::
    "'w os \<Rightarrow> ('w, 'z) simpl_scheme \<Rightarrow> unit outcome \<Rightarrow> ('w, 'z) simpl_scheme \<Rightarrow> bool" where
  "open_post os s r t =
     (if r = Ret () then s_port s \<noteq> [] \<and> \<not> s_is_open s \<and> s_is_open t \<and> s_fd t \<noteq> - 1 \<and>
        (\<exists>t0. last (history t) = Configured (s_fd t) (port_termios os (unat (s_baudrate s))
           (s_bytesize s) (s_stopbits s) (s_parity s) (s_flowcontrol s) t0))
      else s_is_open t = s_is_open s \<and> (s_is_open s \<longrightarrow> s_fd t = s_fd s))"

lemma open_tail_post:
  assumes "\<not> s_is_open s" "s_port s \<noteq> []" and t: "io_step s t"
  shows "wp (andthen (modify (\<lambda>s. s\<lparr>s_fd := fd\<rparr>)) (andthen (record_event (Opened p fd))
    (andthen (reconfigurePort os) (modify (\<lambda>s. s\<lparr>s_is_open := True\<rparr>))))) (open_post os s) t"
proof -
  let ?u = "t\<lparr>history := history t @ [Opened p fd], s_fd := fd\<rparr>"
  have u: "t\<lparr>s_fd := fd, history := history t @ [Opened p fd]\<rparr> = ?u" by simp
  show ?thesis
    unfolding wp_simps onward_simps u
    by (rule wp_mono [OF wp_conj [OF reconfigure_ret steps_wp [OF line_reconfigure]]])
      (use assms in \<open>auto simp: onward_def open_post_def line_step_fields io_step_fields wp_simps
        split: outcome.splits\<close>)
qed

text \<open>An attempt that was interrupted leaves no descriptor; the next one starts from there.\<close>

lemma open_post_retry:
  assumes "open_post os (t\<lparr>s_fd := - 1\<rparr>) r u" "io_step s t" "\<not> s_is_open s"
  shows "open_post os s r u"
  using assms by (auto simp: open_post_def io_step_fields)

lemma impl_open_loop_post: "wp (impl_open_loop os n) (open_post os s) s"
proof (induction n arbitrary: s)
  case 0
  have "open_post os s (Exn e) (s\<lparr>world := w, s_fd := - 1\<rparr>) \<and> open_post os s (Stuck x) (s\<lparr>world := w, s_fd := - 1\<rparr>)"
    if "\<not> s_is_open s" for e x w using that by (simp add: open_post_def)
  moreover have "open_post os s (Exn e) s" for e by (simp add: open_post_def)
  ultimately show ?case
    by (subst impl_open_loop.simps)
      (auto simp: wp_bind wp_gets wp_throw wp_syscall wp_stuck wp_andthen [of "modify (\<lambda>s. s\<lparr>s_fd := - 1\<rparr>)"]
          wp_modify intro!: open_tail_post split: prod.splits sum.splits errno.splits)
next
  case (Suc n)
  have "open_post os s (Exn e) (s\<lparr>world := w, s_fd := - 1\<rparr>)"
    if "\<not> s_is_open s" for e x w using that by (simp add: open_post_def)
  moreover have "open_post os s (Exn e) s" for e by (simp add: open_post_def)
  moreover have "wp (impl_open_loop os n) (open_post os s) (s\<lparr>world := w, s_fd := - 1\<rparr>)"
    if "\<not> s_is_open s" for w
    by (rule wp_mono [OF Suc]) (use that open_post_retry [of os "s\<lparr>world := w\<rparr>"] in auto)
  ultimately show ?case
    by (subst impl_open_loop.simps)
      (auto simp: wp_bind wp_gets wp_throw wp_syscall wp_stuck wp_andthen [of "modify (\<lambda>s. s\<lparr>s_fd := - 1\<rparr>)"]
          wp_modify intro!: open_tail_post split: prod.splits sum.splits errno.splits)
qed

lemma impl_open_post: "wp (impl_open os) (open_post os s) s"
  unfolding impl_open_def by (rule impl_open_loop_post)

lemma impl_close_post:
  "wp (impl_close os) (\<lambda>r t.
     if r = Ret () then \<not> s_is_open t \<and> (s_is_open s \<longrightarrow> s_fd t = - 1)
       \<and> (s_is_open s \<and> s_fd s \<noteq> - 1 \<longrightarrow> last (history t) = Closed (s_fd s))
     else s_is_open t = s_is_open s \<and> s_fd t = s_fd s) s"
  by (auto simp: impl_close_def wp_simps split: prod.splits sum.splits)

lemma port_ok_open: "port_ok s \<Longrightarrow> wp (impl_open os) (\<lambda>_. port_ok) s"
  by (rule wp_mono [OF impl_open_post]) (auto simp: open_post_def port_ok_def split: if_splits)

lemma port_ok_close: "port_ok s \<Longrightarrow> wp (impl_close os) (\<lambda>_. port_ok) s"
  by (rule wp_mono [OF impl_close_post]) (auto simp: port_ok_def split: if_splits)

end
