(* ===== verification/Serial_Port.thy ===== *)
theory Serial_Port
  imports Serial_Config
begin

text \<open>
  \<open>src/src/serial.cc\<close>: the class \<open>serial::Serial\<close> the devices inherit from. It adds to the backend the
  scoped locks, line-wise reading and the reopening of a port whose name changes. A by-reference
  \<open>string &buffer\<close> argument is passed in and returned.
\<close>

section \<open>Scoped locks\<close>

definition ScopedReadLock ::
    "(('w, 'z) simpl_scheme, 'a) prog \<Rightarrow> (('w, 'z) simpl_scheme, 'a) prog" where
  "ScopedReadLock m = andthen impl_readLock (finally_do m impl_readUnlock)"

definition ScopedWriteLock ::
    "(('w, 'z) simpl_scheme, 'a) prog \<Rightarrow> (('w, 'z) simpl_scheme, 'a) prog" where
  "ScopedWriteLock m = andthen impl_writeLock (finally_do m impl_writeUnlock)"

section \<open>Operations\<close>

definition Serial ::
    "'w os \<Rightarrow> string \<Rightarrow> 32 word \<Rightarrow> timeout \<Rightarrow> bytesize_t \<Rightarrow> parity_t \<Rightarrow> stopbits_t \<Rightarrow> flowcontrol_t
       \<Rightarrow> (('w, 'z) simpl_scheme, unit) prog" where
  "Serial os port baudrate timeout bytesize parity stopbits flowcontrol =
     andthen (SerialImpl os port (ucast baudrate) bytesize parity stopbits flowcontrol)
       (impl_setTimeout timeout)"

definition Serial_destroy :: "'w os \<Rightarrow> (('w, 'z) simpl_scheme, unit) prog" where
  "Serial_destroy os = SerialImpl_destroy os"

definition Serial_open :: "'w os \<Rightarrow> (('w, 'z) simpl_scheme, unit) prog" where
  "Serial_open os = impl_open os"

definition Serial_close :: "'w os \<Rightarrow> (('w, 'z) simpl_scheme, unit) prog" where
  "Serial_close os = impl_close os"

definition Serial_isOpen :: "(('w, 'z) simpl_scheme, bool) prog" where
  "Serial_isOpen = impl_isOpen"

definition Serial_available :: "'w os \<Rightarrow> (('w, 'z) simpl_scheme, nat) prog" where
  "Serial_available os = impl_available os"

definition Serial_waitReadable :: "'w os \<Rightarrow> (('w, 'z) simpl_scheme, bool) prog" where
  "Serial_waitReadable os =
     bind impl_getTimeout (\<lambda>t. impl_waitReadable os (read_timeout_constant t))"

definition Serial_waitByteTimes :: "'w os \<Rightarrow> nat \<Rightarrow> (('w, 'z) simpl_scheme, unit) prog" where
  "Serial_waitByteTimes os count = impl_waitByteTimes os count"

text \<open>\<open>read (string &buffer, size_t size)\<close> appends to the buffer; the other overloads differ in the
  container only.\<close>

definition Serial_read_into ::
    "'w os \<Rightarrow> string \<Rightarrow> nat \<Rightarrow> (('w, 'z) simpl_scheme, nat \<times> string) prog" where
  "Serial_read_into os buffer sz =
     ScopedReadLock (bind (impl_read os sz) (\<lambda>bs. return (length bs, buffer @ bs)))"

definition Serial_read :: "'w os \<Rightarrow> nat \<Rightarrow> (('w, 'z) simpl_scheme, string) prog" where
  "Serial_read os sz = bind (Serial_read_into os [] sz) (\<lambda>r. return (snd r))"

definition ends_with :: "string \<Rightarrow> string \<Rightarrow> bool" where
  "ends_with eol buf = (drop (length buf - length eol) buf = eol)"

text \<open>The loop of \<open>readline\<close>. \<open>rd\<close> is \<open>read_ (.., 1)\<close>, \<open>buf\<close> the bytes so far and \<open>room\<close> what is left of the
  stack buffer, \<open>size - read_so_far\<close>. A byte stored when there is no room overruns it.\<close>

primrec readline_loop :: "('s, string) prog \<Rightarrow> string \<Rightarrow> nat \<Rightarrow> string \<Rightarrow> ('s, string) prog" where
  "readline_loop rd eol 0 buf =
     bind rd (\<lambda>bs. if bs = [] then return buf else stuck Undefined_behaviour)"
| "readline_loop rd eol (Suc room) buf =
     bind rd (\<lambda>bs.
     if bs = [] then return buf
     else if length (buf @ bs) < length eol then readline_loop rd eol room (buf @ bs)
     else if ends_with eol (buf @ bs) then return (buf @ bs)
     else if room = 0 then return (buf @ bs)
     else readline_loop rd eol room (buf @ bs))"

definition Serial_readline_into ::
    "'w os \<Rightarrow> string \<Rightarrow> nat \<Rightarrow> string \<Rightarrow> (('w, 'z) simpl_scheme, nat \<times> string) prog" where
  "Serial_readline_into os buffer sz eol =
     ScopedReadLock (bind (readline_loop (impl_read os 1) eol sz []) (\<lambda>line.
       return (length line, buffer @ line)))"

definition Serial_readline :: "'w os \<Rightarrow> nat \<Rightarrow> string \<Rightarrow> (('w, 'z) simpl_scheme, string) prog" where
  "Serial_readline os sz eol = bind (Serial_readline_into os [] sz eol) (\<lambda>r. return (snd r))"

text \<open>The loop of \<open>readlines\<close>, with \<open>start_of_line\<close> and the lines found so far.\<close>

definition flush_line :: "string \<Rightarrow> nat \<Rightarrow> string list \<Rightarrow> string list" where
  "flush_line buf start lines = (if start \<noteq> length buf then lines @ [drop start buf] else lines)"

primrec readlines_loop ::
    "('s, string) prog \<Rightarrow> string \<Rightarrow> nat \<Rightarrow> string \<Rightarrow> nat \<Rightarrow> string list \<Rightarrow> ('s, string list) prog" where
  "readlines_loop rd eol 0 buf start lines = return lines"
| "readlines_loop rd eol (Suc room) buf start lines =
     bind rd (\<lambda>bs.
     if bs = [] then return (flush_line buf start lines)
     else if length (buf @ bs) < length eol then readlines_loop rd eol room (buf @ bs) start lines
     else
       let (start', lines') =
             (if ends_with eol (buf @ bs) then (length (buf @ bs), lines @ [drop start (buf @ bs)])
              else (start, lines))
       in if room = 0 then return (flush_line (buf @ bs) start' lines')
          else readlines_loop rd eol room (buf @ bs) start' lines')"

definition Serial_readlines ::
    "'w os \<Rightarrow> nat \<Rightarrow> string \<Rightarrow> (('w, 'z) simpl_scheme, string list) prog" where
  "Serial_readlines os sz eol = ScopedReadLock (readlines_loop (impl_read os 1) eol sz [] 0 [])"

definition Serial_write :: "'w os \<Rightarrow> string \<Rightarrow> (('w, 'z) simpl_scheme, nat) prog" where
  "Serial_write os data = ScopedWriteLock (impl_write os data)"

definition Serial_setPort :: "'w os \<Rightarrow> string \<Rightarrow> (('w, 'z) simpl_scheme, unit) prog" where
  "Serial_setPort os port =
     ScopedReadLock (ScopedWriteLock (bind impl_isOpen (\<lambda>was_open.
       andthen (whenM was_open (Serial_close os))
      (andthen (impl_setPort port)
         (whenM was_open (Serial_open os))))))"

definition Serial_getPort :: "(('w, 'z) simpl_scheme, string) prog" where
  "Serial_getPort = impl_getPort"

definition Serial_setTimeout :: "timeout \<Rightarrow> (('w, 'z) simpl_scheme, unit) prog" where
  "Serial_setTimeout t = impl_setTimeout t"

definition Serial_setBaudrate :: "'w os \<Rightarrow> 32 word \<Rightarrow> (('w, 'z) simpl_scheme, unit) prog" where
  "Serial_setBaudrate os b = impl_setBaudrate os (ucast b)"

definition Serial_getBaudrate :: "(('w, 'z) simpl_scheme, 32 word) prog" where
  "Serial_getBaudrate = bind impl_getBaudrate (\<lambda>b. return (ucast b))"

definition Serial_setBytesize :: "'w os \<Rightarrow> bytesize_t \<Rightarrow> (('w, 'z) simpl_scheme, unit) prog" where
  "Serial_setBytesize os b = impl_setBytesize os b"

definition Serial_setParity :: "'w os \<Rightarrow> parity_t \<Rightarrow> (('w, 'z) simpl_scheme, unit) prog" where
  "Serial_setParity os p = impl_setParity os p"

definition Serial_setStopbits :: "'w os \<Rightarrow> stopbits_t \<Rightarrow> (('w, 'z) simpl_scheme, unit) prog" where
  "Serial_setStopbits os sb = impl_setStopbits os sb"

definition Serial_setFlowcontrol :: "'w os \<Rightarrow> flowcontrol_t \<Rightarrow> (('w, 'z) simpl_scheme, unit) prog" where
  "Serial_setFlowcontrol os f = impl_setFlowcontrol os f"

definition Serial_flush :: "'w os \<Rightarrow> (('w, 'z) simpl_scheme, unit) prog" where
  "Serial_flush os = ScopedReadLock (ScopedWriteLock (impl_flush os))"

definition Serial_flushInput :: "'w os \<Rightarrow> (('w, 'z) simpl_scheme, unit) prog" where
  "Serial_flushInput os = ScopedReadLock (impl_flushInput os)"

definition Serial_flushOutput :: "'w os \<Rightarrow> (('w, 'z) simpl_scheme, unit) prog" where
  "Serial_flushOutput os = ScopedWriteLock (impl_flushOutput os)"

definition Serial_getTimeout :: "(('w, 'z) simpl_scheme, timeout) prog" where
  "Serial_getTimeout = impl_getTimeout"

definition Serial_getBytesize :: "(('w, 'z) simpl_scheme, bytesize_t) prog" where
  "Serial_getBytesize = impl_getBytesize"

definition Serial_getParity :: "(('w, 'z) simpl_scheme, parity_t) prog" where
  "Serial_getParity = impl_getParity"

definition Serial_getStopbits :: "(('w, 'z) simpl_scheme, stopbits_t) prog" where
  "Serial_getStopbits = impl_getStopbits"

definition Serial_getFlowcontrol :: "(('w, 'z) simpl_scheme, flowcontrol_t) prog" where
  "Serial_getFlowcontrol = impl_getFlowcontrol"

definition Serial_sendBreak :: "'w os \<Rightarrow> int \<Rightarrow> (('w, 'z) simpl_scheme, unit) prog" where
  "Serial_sendBreak os duration = impl_sendBreak os duration"

definition Serial_setBreak :: "'w os \<Rightarrow> bool \<Rightarrow> (('w, 'z) simpl_scheme, unit) prog" where
  "Serial_setBreak os level = impl_setBreak os level"

definition Serial_setRTS :: "'w os \<Rightarrow> bool \<Rightarrow> (('w, 'z) simpl_scheme, unit) prog" where
  "Serial_setRTS os level = impl_setRTS os level"

definition Serial_setDTR :: "'w os \<Rightarrow> bool \<Rightarrow> (('w, 'z) simpl_scheme, unit) prog" where
  "Serial_setDTR os level = impl_setDTR os level"

definition Serial_waitForChange :: "'w os \<Rightarrow> (('w, 'z) simpl_scheme, bool) prog" where
  "Serial_waitForChange os = impl_waitForChange os"

definition Serial_getCTS :: "'w os \<Rightarrow> (('w, 'z) simpl_scheme, bool) prog" where
  "Serial_getCTS os = impl_getCTS os"

definition Serial_getDSR :: "'w os \<Rightarrow> (('w, 'z) simpl_scheme, bool) prog" where
  "Serial_getDSR os = impl_getDSR os"

definition Serial_getRI :: "'w os \<Rightarrow> (('w, 'z) simpl_scheme, bool) prog" where
  "Serial_getRI os = impl_getRI os"

definition Serial_getCD :: "'w os \<Rightarrow> (('w, 'z) simpl_scheme, bool) prog" where
  "Serial_getCD os = impl_getCD os"

section \<open>Frames of the port\<close>

text \<open>\<open>port_step\<close>: only the world, the log and the mutexes change. \<open>listen_step\<close>: besides, nothing is sent.\<close>

definition port_step :: "('w, 'z) simpl_scheme \<Rightarrow> ('w, 'z) simpl_scheme \<Rightarrow> bool" where
  "port_step s t = (\<exists>w h a b. t = s\<lparr>world := w, history := history s @ h,
     s_read_mutex := a, s_write_mutex := b\<rparr>)"

definition listen_step :: "('w, 'z) simpl_scheme \<Rightarrow> ('w, 'z) simpl_scheme \<Rightarrow> bool" where
  "listen_step s t = (port_step s t \<and> wire t = wire s)"

lemma port_stepI:
  "t = s\<lparr>world := world t, history := history s @ h, s_read_mutex := s_read_mutex t,
     s_write_mutex := s_write_mutex t\<rparr> \<Longrightarrow> port_step s t"
  unfolding port_step_def by blast

lemma port_step_refl: "port_step s s"
  by (rule port_stepI [where h = "[]"]) simp

lemma port_step_trans: "port_step s t \<Longrightarrow> port_step t u \<Longrightarrow> port_step s u"
  unfolding port_step_def by fastforce

interpretation port: step_rel port_step
  by unfold_locales (auto intro: port_step_refl port_step_trans)

interpretation listen: step_rel listen_step
  by unfold_locales (auto simp: listen_step_def intro: port_step_refl port_step_trans)

lemma io_port: "io_step s t \<Longrightarrow> port_step s t"
  unfolding io_step_def by (elim exE) (rule port_stepI, simp)

lemma quiet_listen: "quiet_step s t \<Longrightarrow> listen_step s t"
  by (simp add: quiet_step_def listen_step_def io_port)

lemma listen_port: "listen_step s t \<Longrightarrow> port_step s t"
  by (simp add: listen_step_def)

lemma port_step_fields:
  assumes "port_step s t"
  shows "s_fd t = s_fd s" "s_is_open t = s_is_open s" "s_port t = s_port s"
    "s_timeout t = s_timeout s" "s_baudrate t = s_baudrate s" "s_byte_time_ns t = s_byte_time_ns s"
    "simpl.more t = simpl.more s" "prefix (history s) (history t)"
  using assms by (auto simp: port_step_def)

lemma listen_locks:
  "steps listen_step impl_readLock" "steps listen_step impl_readUnlock"
  "steps listen_step impl_writeLock" "steps listen_step impl_writeUnlock"
  unfolding impl_readLock_def impl_readUnlock_def impl_writeLock_def impl_writeUnlock_def
  by (auto intro!: listen.steps_rules listen.steps_modify port_stepI [where h = "[]"]
      simp: listen_step_def wire_def)

lemma listen_Scoped:
  assumes "steps listen_step m"
  shows "steps listen_step (ScopedReadLock m)" "steps listen_step (ScopedWriteLock m)"
  unfolding ScopedReadLock_def ScopedWriteLock_def
  by (intro listen.steps_rules listen_locks assms)+

lemma port_Scoped:
  assumes "steps port_step m"
  shows "steps port_step (ScopedReadLock m)" "steps port_step (ScopedWriteLock m)"
  unfolding ScopedReadLock_def ScopedWriteLock_def
  by (intro port.steps_andthen port.steps_finally assms listen_locks [THEN steps_mono] listen_port;
      assumption)+

lemma listen_impl_read: "steps listen_step (impl_read os n)"
  by (rule steps_mono [OF quiet_impl_read quiet_listen])

lemma listen_readline_loop: "steps listen_step rd \<Longrightarrow> steps listen_step (readline_loop rd eol room buf)"
  by (induction room arbitrary: buf) (simp_all add: listen.steps_rules)

lemma listen_readlines_loop:
  "steps listen_step rd \<Longrightarrow> steps listen_step (readlines_loop rd eol room buf start lines)"
  by (induction room arbitrary: buf start lines) (simp_all add: listen.steps_rules split: prod.splits)

lemma listen_readline: "steps listen_step (Serial_readline_into os b n eol)"
    "steps listen_step (Serial_readline os n eol)"
  unfolding Serial_readline_def Serial_readline_into_def
  by (intro listen.steps_rules listen_Scoped listen_readline_loop listen_impl_read)+

lemma listen_readlines: "steps listen_step (Serial_readlines os n eol)"
  unfolding Serial_readlines_def
  by (intro listen_Scoped listen_readlines_loop listen_impl_read)

lemma listen_read: "steps listen_step (Serial_read_into os b n)" "steps listen_step (Serial_read os n)"
  unfolding Serial_read_def Serial_read_into_def
  by (intro listen.steps_rules listen_Scoped listen_impl_read)+

lemma listen_flush: "steps listen_step (Serial_flush os)" "steps listen_step (Serial_flushInput os)"
    "steps listen_step (Serial_flushOutput os)"
  unfolding Serial_flush_def Serial_flushInput_def Serial_flushOutput_def impl_flush_def
    impl_flushInput_def impl_flushOutput_def on_open_port_def
  by (intro listen_Scoped listen.steps_rules steps_mono [OF quiet_sysdo quiet_listen]
      steps_mono [OF quiet_event quiet_listen]; simp)+

text \<open>Writing sends a prefix of the data and reports its length, on every path.\<close>

lemma wp_ScopedWriteLock:
  assumes "wp m (\<lambda>r t. case r of
      Stuck x \<Rightarrow> Q (Stuck x) t
    | Ret a \<Rightarrow> s_write_mutex t \<and> Q (Ret a) (t\<lparr>s_write_mutex := False\<rparr>)
    | Exn e \<Rightarrow> s_write_mutex t \<and> Q (Exn e) (t\<lparr>s_write_mutex := False\<rparr>)) (s\<lparr>s_write_mutex := True\<rparr>)"
    and "s_write_mutex s \<Longrightarrow> Q (Stuck Deadlock) s"
  shows "wp (ScopedWriteLock m) Q s"
  using assms
  by (auto simp: ScopedWriteLock_def impl_writeLock_def impl_writeUnlock_def wp_simps
      elim!: wp_mono split: outcome.splits)

lemma wp_ScopedReadLock:
  assumes "wp m (\<lambda>r t. case r of
      Stuck x \<Rightarrow> Q (Stuck x) t
    | Ret a \<Rightarrow> s_read_mutex t \<and> Q (Ret a) (t\<lparr>s_read_mutex := False\<rparr>)
    | Exn e \<Rightarrow> s_read_mutex t \<and> Q (Exn e) (t\<lparr>s_read_mutex := False\<rparr>)) (s\<lparr>s_read_mutex := True\<rparr>)"
    and "s_read_mutex s \<Longrightarrow> Q (Stuck Deadlock) s"
  shows "wp (ScopedReadLock m) Q s"
  using assms
  by (auto simp: ScopedReadLock_def impl_readLock_def impl_readUnlock_def wp_simps
      elim!: wp_mono split: outcome.splits)

lemma wire_mutex [simp]:
  "wire (s\<lparr>s_write_mutex := b\<rparr>) = wire s" "inbox (s\<lparr>s_write_mutex := b\<rparr>) = inbox s"
  "wire (s\<lparr>s_read_mutex := b\<rparr>) = wire s" "inbox (s\<lparr>s_read_mutex := b\<rparr>) = inbox s"
  by (simp_all add: wire_def inbox_def)

lemma io_impl_write: "steps io_step (impl_write os data)"
proof (rule stepsI)
  fix s
  show "io_step s (snd (impl_write os data s))"
    using impl_write_post [of os data s] by (auto simp: wp_def write_post_def case_prod_unfold)
qed

lemma Serial_write_wire:
  "wp (Serial_write os data) (\<lambda>r t. port_step s t \<and> inbox t = inbox s \<and>
     (\<exists>k \<le> length data. wire t = wire s @ take k data \<and> (\<forall>n. r = Ret n \<longrightarrow> n = k))) s"
proof -
  have "steps port_step (Serial_write os data)"
    unfolding Serial_write_def by (intro port_Scoped steps_mono [OF io_impl_write io_port])
  moreover have "wp (Serial_write os data) (\<lambda>r t. inbox t = inbox s \<and>
     (\<exists>k \<le> length data. wire t = wire s @ take k data \<and> (\<forall>n. r = Ret n \<longrightarrow> n = k))) s"
    unfolding Serial_write_def
    by (rule wp_ScopedWriteLock, rule wp_mono [OF impl_write_post])
      (auto simp: write_post_def io_step_fields split: outcome.splits)
  ultimately show ?thesis using wp_conj [OF steps_wp] by fastforce
qed
section \<open>Locks are released on every path\<close>

definition unlocked :: "('w, 'z) simpl_scheme \<Rightarrow> bool" where
  "unlocked s = (\<not> s_read_mutex s \<and> \<not> s_write_mutex s)"

definition settled :: "'a outcome \<Rightarrow> bool" where
  "settled r = (\<forall>x. r \<noteq> Stuck x)"

lemma settled_simps [simp]: "settled (Ret a)" "settled (Exn e)" "\<not> settled (Stuck x)"
  by (simp_all add: settled_def)

text \<open>Started with both mutexes free, \<open>m\<close> never waits for itself, and whether it returns or throws both
  are free again.\<close>

definition lock_safe :: "(('w, 'z) simpl_scheme, 'a) prog \<Rightarrow> bool" where
  "lock_safe m = (\<forall>s. unlocked s \<longrightarrow>
     wp m (\<lambda>r t. r \<noteq> Stuck Deadlock \<and> (settled r \<longrightarrow> unlocked t)) s)"

definition keeps_locks :: "('w, 'z) simpl_scheme \<Rightarrow> ('w, 'z) simpl_scheme \<Rightarrow> bool" where
  "keeps_locks s t = (s_read_mutex t = s_read_mutex s \<and> s_write_mutex t = s_write_mutex s)"

lemma io_keeps: "io_step s t \<Longrightarrow> keeps_locks s t"
  by (simp add: keeps_locks_def io_step_fields)

lemma line_keeps: "line_step s t \<Longrightarrow> keeps_locks s t"
  by (simp add: keeps_locks_def line_step_fields)

lemma conf_keeps: "conf_step s t \<Longrightarrow> keeps_locks s t"
  by (simp add: keeps_locks_def conf_step_fields)

interpretation keeps: step_rel keeps_locks
  by unfold_locales (auto simp: keeps_locks_def)

lemma lock_safeD:
  "lock_safe m \<Longrightarrow> unlocked s \<Longrightarrow> wp m (\<lambda>r t. r \<noteq> Stuck Deadlock \<and> (settled r \<longrightarrow> unlocked t)) s"
  by (simp add: lock_safe_def)

lemma unlocked_after: "lock_safe m \<Longrightarrow> unlocked s \<Longrightarrow> m s = (r, t) \<Longrightarrow> settled r \<Longrightarrow> unlocked t"
  using wp_runD [OF lock_safeD] by blast

lemma lock_safe_keeps: "steps keeps_locks m \<Longrightarrow> never Deadlock m \<Longrightarrow> lock_safe m"
  unfolding lock_safe_def
  by (intro allI impI, rule wp_mono [OF wp_conj [OF steps_wp never_wp]])
    (auto simp: keeps_locks_def unlocked_def)

lemma lock_safe_Scoped:
  assumes "steps keeps_locks m" "never Deadlock m"
  shows "lock_safe (ScopedReadLock m)" "lock_safe (ScopedWriteLock m)"
    "lock_safe (ScopedReadLock (ScopedWriteLock m))"
  unfolding lock_safe_def
  by (auto intro!: wp_ScopedReadLock wp_ScopedWriteLock
      wp_mono [OF wp_conj [OF steps_wp [OF assms(1)] never_wp [OF assms(2)]]]
      simp: keeps_locks_def unlocked_def split: outcome.splits)

lemma lock_safe_prims:
  "lock_safe (return a)" "lock_safe (throw e)" "lock_safe (gets f)" "lock_safe (lift r)"
  "x \<noteq> Deadlock \<Longrightarrow> lock_safe (stuck x)"
  by (auto simp: lock_safe_def wp_simps split: sum.splits)

lemma lock_safe_modify: "(\<And>s. keeps_locks s (g s)) \<Longrightarrow> lock_safe (modify g)"
  by (auto simp: lock_safe_def wp_simps keeps_locks_def unlocked_def)

lemma lock_safe_bind: "lock_safe m \<Longrightarrow> (\<And>a. lock_safe (f a)) \<Longrightarrow> lock_safe (bind m f)"
  unfolding lock_safe_def wp_bind
  by (intro allI impI) (auto elim!: allE impE wp_mono simp: onward_def split: outcome.splits)

lemma lock_safe_andthen: "lock_safe m \<Longrightarrow> lock_safe n \<Longrightarrow> lock_safe (andthen m n)"
  by (simp add: andthen_def lock_safe_bind)

lemma lock_safe_try: "lock_safe m \<Longrightarrow> (\<And>e. lock_safe (h e)) \<Longrightarrow> lock_safe (try_catch m h)"
  unfolding lock_safe_def wp_try_catch
  by (intro allI impI) (auto elim!: allE impE wp_mono split: outcome.splits)

lemma lock_safe_branch:
  "lock_safe m \<Longrightarrow> lock_safe n \<Longrightarrow> lock_safe (if c then m else n)"
  "lock_safe u \<Longrightarrow> lock_safe (whenM c u)"
  "(\<And>a. lock_safe (f a)) \<Longrightarrow> (\<And>b. lock_safe (g b)) \<Longrightarrow> lock_safe (case q of Inl a \<Rightarrow> f a | Inr b \<Rightarrow> g b)"
  "lock_safe k \<Longrightarrow> (\<And>a. lock_safe (h a)) \<Longrightarrow> lock_safe (case z of None \<Rightarrow> k | Some a \<Rightarrow> h a)"
  "(\<And>a b. lock_safe (l a b)) \<Longrightarrow> lock_safe (case p of (a, b) \<Rightarrow> l a b)"
  "(\<And>a. lock_safe (j a)) \<Longrightarrow> lock_safe (let v = y in j v)"
  by (auto simp: whenM_def lock_safe_prims split: sum.splits option.splits prod.splits)

lemmas lock_rules = lock_safe_prims lock_safe_bind lock_safe_andthen lock_safe_branch lock_safe_try

lemma nodead_read_parts:
  "never Deadlock (MillisecondTimer os ms)" "never Deadlock (timer_remaining os x)"
  "never Deadlock (impl_available os)" "never Deadlock (impl_waitReadable os ms)"
  "never Deadlock (read_grab_wait os n k)" "never Deadlock (read_call os fd n)"
  "never Deadlock (write_call os fd bs)"
  unfolding MillisecondTimer_def timer_remaining_def impl_available_def impl_waitReadable_def
    read_grab_wait_def impl_waitByteTimes_def read_call_def write_call_def
  by (intro never_intros; simp)+

lemma nodead_read_loop: "never Deadlock (impl_read_loop os n x sz buf)"
proof (induction n arbitrary: buf)
  case 0
  show ?case by (subst impl_read_loop.simps) (simp add: never_prims)
next
  case (Suc n)
  show ?case
    by (subst impl_read_loop.simps, unfold nat.case) (intro never_intros nodead_read_parts Suc)
qed

lemma nodead_read: "never Deadlock (impl_read os sz)"
  unfolding impl_read_def by (intro never_intros nodead_read_parts nodead_read_loop)

lemma nodead_write_loop: "never Deadlock (impl_write_loop os n x first data k)"
proof (induction n arbitrary: first k)
  case 0
  show ?case by (subst impl_write_loop.simps) (simp add: never_prims)
next
  case (Suc n)
  show ?case
    by (subst impl_write_loop.simps, unfold nat.case)
      (intro never_intros nodead_read_parts Suc; simp)
qed

lemma nodead_write: "never Deadlock (impl_write os data)"
  unfolding impl_write_def by (intro never_intros nodead_read_parts nodead_write_loop)

lemma nodead_reconfigure: "never Deadlock (reconfigurePort os)"
  unfolding reconfigurePort_def custom_baud_def by (intro never_intros; simp)

lemma nodead_open: "never Deadlock (impl_open os)"
proof -
  have "never Deadlock (impl_open_loop os n)" for n
  proof (induction n)
    case 0
    show ?case by (subst impl_open_loop.simps)
        (intro never_intros nodead_reconfigure; auto intro: never_prims split: errno.splits)
  next
    case (Suc n)
    then show ?case by (subst impl_open_loop.simps)
        (intro never_intros nodead_reconfigure; auto intro: never_prims split: errno.splits)
  qed
  then show ?thesis by (simp add: impl_open_def)
qed

lemma nodead_close: "never Deadlock (impl_close os)"
  unfolding impl_close_def by (intro never_intros)

lemma nodead_readline_loop: "never Deadlock rd \<Longrightarrow> never Deadlock (readline_loop rd eol room buf)"
  by (induction room arbitrary: buf) (simp_all add: never_rules)

lemma nodead_readlines_loop:
  "never Deadlock rd \<Longrightarrow> never Deadlock (readlines_loop rd eol room buf start lines)"
  by (induction room arbitrary: buf start lines) (simp_all add: never_rules split: prod.splits)

lemma keeps_read: "steps keeps_locks (impl_read os n)"
  by (rule steps_mono [OF quiet_impl_read]) (simp add: quiet_step_def io_keeps)

lemma keeps_readline_loop: "steps keeps_locks rd \<Longrightarrow> steps keeps_locks (readline_loop rd eol room buf)"
  by (induction room arbitrary: buf) (simp_all add: keeps.steps_rules)

lemma keeps_readlines_loop:
  "steps keeps_locks rd \<Longrightarrow> steps keeps_locks (readlines_loop rd eol room buf start lines)"
  by (induction room arbitrary: buf start lines) (simp_all add: keeps.steps_rules split: prod.splits)

lemma lock_safe_write: "lock_safe (Serial_write os data)"
  unfolding Serial_write_def
  by (rule lock_safe_Scoped [OF steps_mono [OF io_impl_write io_keeps] nodead_write])

lemma lock_safe_read: "lock_safe (Serial_read_into os b n)" "lock_safe (Serial_read os n)"
  unfolding Serial_read_def Serial_read_into_def
  by (intro lock_rules lock_safe_Scoped keeps.steps_rules never_rules keeps_read nodead_read)+

lemma lock_safe_readline: "lock_safe (Serial_readline_into os b n eol)" "lock_safe (Serial_readline os n eol)"
  unfolding Serial_readline_def Serial_readline_into_def
  by (intro lock_rules lock_safe_Scoped keeps.steps_rules never_rules keeps_readline_loop
      nodead_readline_loop keeps_read nodead_read)+

lemma lock_safe_readlines: "lock_safe (Serial_readlines os n eol)"
  unfolding Serial_readlines_def
  by (intro lock_safe_Scoped keeps_readlines_loop nodead_readlines_loop keeps_read nodead_read)

lemma lock_safe_flush: "lock_safe (Serial_flush os)" "lock_safe (Serial_flushInput os)"
    "lock_safe (Serial_flushOutput os)"
  unfolding Serial_flush_def Serial_flushInput_def Serial_flushOutput_def impl_flush_def
    impl_flushInput_def impl_flushOutput_def on_open_port_def
  by (intro lock_safe_Scoped keeps.steps_rules never_intros steps_mono [OF quiet_sysdo]
      steps_mono [OF io_event io_keeps]; simp add: quiet_step_def io_keeps)+

lemma lock_safe_open: "lock_safe (Serial_open os)" "lock_safe (Serial_close os)"
  unfolding Serial_open_def Serial_close_def
  by (intro lock_safe_keeps steps_mono [OF conf_open conf_keeps] steps_mono [OF conf_close conf_keeps]
      nodead_open nodead_close; assumption)+

lemma lock_safe_setPort: "lock_safe (Serial_setPort os p)"
  unfolding Serial_setPort_def impl_isOpen_def impl_setPort_def Serial_open_def Serial_close_def
  by (intro lock_safe_Scoped keeps.steps_rules keeps.steps_modify never_rules
      steps_mono [OF conf_open conf_keeps] steps_mono [OF conf_close conf_keeps]
      nodead_open nodead_close; simp add: keeps_locks_def)

lemma lock_safe_setBaudrate: "lock_safe (Serial_setBaudrate os b)"
  unfolding Serial_setBaudrate_def impl_setBaudrate_def reconfigure_if_open_def
  by (intro lock_rules lock_safe_modify lock_safe_keeps steps_mono [OF line_reconfigure line_keeps]
      nodead_reconfigure; simp add: keeps_locks_def)

lemma lock_safe_setTimeout: "lock_safe (Serial_setTimeout t)"
  unfolding Serial_setTimeout_def impl_setTimeout_def
  by (rule lock_safe_modify) (simp add: keeps_locks_def)

end
