(* ===== verification/Serial_Lines.thy ===== *)
theory Serial_Lines
  imports Serial_Port
begin

text \<open>
  What \<open>readline\<close> and \<open>readlines\<close> of \<open>src/src/serial.cc\<close> return, stated against the bytes that arrive.
  Both rely on \<open>read_\<close> only through the contract of the locale \<open>byte_source\<close>, which the backend's
  \<open>impl_read\<close> meets.
\<close>

locale byte_source =
  fixes rd :: "('s, string) prog" and arrived :: "'s \<Rightarrow> string"
  assumes rd_one: "rd s = (Ret bs, t) \<Longrightarrow> length bs \<le> 1 \<and> arrived t = arrived s @ bs"
begin

lemma rd_cases:
  assumes "bind rd f s = (Ret x, t)"
  obtains u where "rd s = (Ret [], u)" "arrived u = arrived s" "f [] u = (Ret x, t)"
    | c u where "rd s = (Ret [c], u)" "arrived u = arrived s @ [c]" "f [c] u = (Ret x, t)"
proof -
  obtain bs u where bs: "rd s = (Ret bs, u)" "f bs u = (Ret x, t)"
    using assms by (auto simp: run_bind split: outcome.splits prod.splits)
  with rd_one [OF bs(1)] that show ?thesis by (cases bs) auto
qed

text \<open>One line: the bytes that arrived, none left out; no earlier point to stop at; and a reason to stop.\<close>

lemma readline_loop_spec:
  "readline_loop rd eol room buf s = (Ret line, t) \<Longrightarrow>
   \<exists>new. line = buf @ new \<and> arrived t = arrived s @ new \<and> length new \<le> room
     \<and> (\<forall>k. length buf < k \<and> k < length line \<and> length eol \<le> k \<longrightarrow> \<not> ends_with eol (take k line))
     \<and> (new \<noteq> [] \<and> length eol \<le> length line \<and> ends_with eol line \<or> length new = room
        \<or> (\<exists>u. rd u = (Ret [], t)))"
proof (induction room arbitrary: buf s)
  case 0
  then show ?case
    unfolding readline_loop.simps
    by (cases rule: rd_cases) (auto simp: run_return run_stuck)
next
  case (Suc room)
  from Suc.prems show ?case
    unfolding readline_loop.simps
  proof (cases rule: rd_cases)
    case (1 u)
    then show ?thesis by (auto simp: run_simps)
  next
    case (2 c u)
    have step: ?thesis if run: "readline_loop rd eol room (buf @ [c]) u = (Ret line, t)"
      and no: "length eol \<le> Suc (length buf) \<Longrightarrow> \<not> ends_with eol (buf @ [c])"
    proof -
      from Suc.IH [OF run] obtain new where new:
        "line = (buf @ [c]) @ new" "arrived t = arrived u @ new" "length new \<le> room"
        "\<forall>k. length (buf @ [c]) < k \<and> k < length line \<and> length eol \<le> k \<longrightarrow> \<not> ends_with eol (take k line)"
        "new \<noteq> [] \<and> length eol \<le> length line \<and> ends_with eol line \<or> length new = room
          \<or> (\<exists>u. rd u = (Ret [], t))"
        by blast
      have "\<not> ends_with eol (take k line)" if "length buf < k" "k < length line" "length eol \<le> k" for k
      proof (cases "k = Suc (length buf)")
        case True
        then show ?thesis using no that new(1) by simp
      next
        case False
        then show ?thesis using new(4) that by simp
      qed
      then show ?thesis
        by (intro exI [of _ "c # new"]) (use new 2 in auto)
    qed
    have stop: ?thesis if "line = buf @ [c]" "t = u"
      "ends_with eol (buf @ [c]) \<and> length eol \<le> Suc (length buf) \<or> room = 0"
      by (intro exI [of _ "[c]"]) (use that 2 in auto)
    from 2(2,3) show ?thesis
      by (auto simp: run_simps split: if_splits intro: step stop)
  qed
qed

lemma readlines_loop_spec:
  "readlines_loop rd eol room buf start lines s = (Ret out, t) \<Longrightarrow>
   start \<le> length buf \<Longrightarrow> concat lines = take start buf \<Longrightarrow> [] \<notin> set lines \<Longrightarrow>
   (\<forall>i < length lines. ends_with eol (concat (take (Suc i) lines))) \<Longrightarrow>
   length eol \<le> length buf + room \<Longrightarrow> (room = 0 \<longrightarrow> start = length buf) \<Longrightarrow>
   \<exists>new. concat out = buf @ new \<and> arrived t = arrived s @ new \<and> length new \<le> room \<and> [] \<notin> set out
     \<and> (\<forall>i. Suc i < length out \<longrightarrow> ends_with eol (concat (take (Suc i) out)))"
proof (induction room arbitrary: buf start lines s)
  case 0
  then show ?case by (auto simp: run_simps)
next
  case (Suc room)
  have flush: "concat (flush_line b st ls) = b" "[] \<notin> set (flush_line b st ls)"
    "\<forall>i. Suc i < length (flush_line b st ls) \<longrightarrow> ends_with eol (concat (take (Suc i) (flush_line b st ls)))"
    if "st \<le> length b" "concat ls = take st b" "[] \<notin> set ls"
      "\<forall>i < length ls. ends_with eol (concat (take (Suc i) ls))" for b st ls
    using that by (auto simp: flush_line_def)
  from Suc.prems(1) show ?case
    unfolding readlines_loop.simps
  proof (cases rule: rd_cases)
    case (1 u)
    with flush [OF Suc.prems(2-5)] show ?thesis by (auto simp: run_simps)
  next
    case (2 c u)
    let ?b = "buf @ [c]"
    define st' ls' where "st' = (if ends_with eol ?b then length ?b else start)"
      and "ls' = (if ends_with eol ?b then lines @ [drop start ?b] else lines)"
    have inv: "st' \<le> length ?b" "concat ls' = take st' ?b" "[] \<notin> set ls'"
      "\<forall>i < length ls'. ends_with eol (concat (take (Suc i) ls'))"
      using Suc.prems(2-5) append_take_drop_id [of start buf]
      by (auto simp: st'_def ls'_def less_Suc_eq simp flip: append_assoc)
    have cont: ?thesis if "readlines_loop rd eol room ?b st ls u = (Ret out, t)" "st \<le> length ?b"
      "concat ls = take st ?b" "[] \<notin> set ls"
      "\<forall>i < length ls. ends_with eol (concat (take (Suc i) ls))" "room = 0 \<longrightarrow> st = length ?b" for st ls
    proof -
      have "length eol \<le> length ?b + room" using Suc.prems(6) by simp
      from Suc.IH [OF that(1-5) this that(6)] show ?thesis
        using 2(2) by (metis append.assoc append_Cons append_Nil length_Cons not_less_eq_eq Suc_le_mono)
    qed
    show ?thesis
    proof (cases "length ?b < length eol")
      case True
      then show ?thesis using 2(3) Suc.prems by (intro cont [of start lines]) (auto simp: run_simps)
    next
      case False
      then have run: "(if room = 0 then return (flush_line ?b st' ls')
          else readlines_loop rd eol room ?b st' ls') u = (Ret out, t)"
        using 2(3) by (auto simp: st'_def ls'_def Let_def split: if_splits)
      show ?thesis
      proof (cases "room = 0")
        case True
        with run flush [OF inv] 2(2) show ?thesis by (intro exI [of _ "[c]"]) (auto simp: run_simps)
      next
        case False
        then show ?thesis using run inv by (intro cont [of st' ls']) auto
      qed
    qed
  qed
qed

end

interpretation impl: byte_source "impl_read os 1" inbox for os :: "'w os"
proof
  fix s :: "('w, 'z) simpl_scheme" and bs t
  assume "impl_read os 1 s = (Ret bs, t)"
  with impl_read_post [of os 1 s] show "length bs \<le> 1 \<and> inbox t = inbox s @ bs"
    by (simp add: wp_def read_post_def)
qed

lemma ScopedReadLock_ret:
  assumes "ScopedReadLock m s = (Ret a, t)"
  obtains u where "m (s\<lparr>s_read_mutex := True\<rparr>) = (Ret a, u)" "t = u\<lparr>s_read_mutex := False\<rparr>"
    "\<not> s_read_mutex s"
  using assms
  by (auto simp: ScopedReadLock_def impl_readLock_def impl_readUnlock_def run_simps
      split: if_splits prod.splits outcome.splits)

text \<open>\<open>no_eol_inside\<close>: reading byte by byte, the end-of-line test fails before the last byte.\<close>

definition no_eol_inside :: "string \<Rightarrow> string \<Rightarrow> bool" where
  "no_eol_inside eol line =
     (\<forall>k. 0 < k \<and> k < length line \<and> length eol \<le> k \<longrightarrow> \<not> ends_with eol (take k line))"

text \<open>The last one-byte read came back empty.\<close>

definition timed_out_at :: "'w os \<Rightarrow> ('w, 'z) simpl_scheme \<Rightarrow> bool" where
  "timed_out_at os t = (\<exists>u. impl_read os 1 u = (Ret [], t))"

lemma Serial_readline_into_spec:
  assumes "Serial_readline_into os buffer sz eol s = (Ret (n, buffer'), t)"
  obtains line where "buffer' = buffer @ line" "n = length line" "inbox t = inbox s @ line"
    "length line \<le> sz" "no_eol_inside eol line"
    "line \<noteq> [] \<and> length eol \<le> length line \<and> ends_with eol line \<or> length line = sz
      \<or> timed_out_at os (t\<lparr>s_read_mutex := True\<rparr>)"
proof -
  from ScopedReadLock_ret [OF assms [unfolded Serial_readline_into_def]] obtain u where
    u: "bind (readline_loop (impl_read os 1) eol sz []) (\<lambda>line. return (length line, buffer @ line))
      (s\<lparr>s_read_mutex := True\<rparr>) = (Ret (n, buffer'), u)" "t = u\<lparr>s_read_mutex := False\<rparr>" .
  then obtain line where l: "readline_loop (impl_read os 1) eol sz [] (s\<lparr>s_read_mutex := True\<rparr>) = (Ret line, u)"
    "n = length line" "buffer' = buffer @ line"
    by (auto simp: run_simps split: prod.splits outcome.splits)
  have "keeps_locks (s\<lparr>s_read_mutex := True\<rparr>) u"
    by (rule stepsD [OF keeps_readline_loop [OF keeps_read] l(1)])
  then have lock: "t\<lparr>s_read_mutex := True\<rparr> = u" using u(2) by (simp add: keeps_locks_def)
  from impl.readline_loop_spec [OF l(1)]
  have line: "inbox u = inbox (s\<lparr>s_read_mutex := True\<rparr>) @ line" "length line \<le> sz" "no_eol_inside eol line"
    "line \<noteq> [] \<and> length eol \<le> length line \<and> ends_with eol line \<or> length line = sz \<or> timed_out_at os u"
    unfolding no_eol_inside_def timed_out_at_def by (elim exE conjE; simp)+
  have "inbox t = inbox s @ line" using line(1) u(2) by simp
  from that [OF l(3,2) this line(2,3)] line(4) lock show ?thesis by simp
qed

lemma Serial_readlines_spec:
  assumes "Serial_readlines os sz eol s = (Ret lines, t)" "length eol \<le> sz"
  shows "inbox t = inbox s @ concat lines" "length (concat lines) \<le> sz" "[] \<notin> set lines"
    "Suc i < length lines \<Longrightarrow> ends_with eol (concat (take (Suc i) lines))"
proof -
  from ScopedReadLock_ret [OF assms(1) [unfolded Serial_readlines_def]] obtain u where
    u: "readlines_loop (impl_read os 1) eol sz [] 0 [] (s\<lparr>s_read_mutex := True\<rparr>) = (Ret lines, u)"
      "t = u\<lparr>s_read_mutex := False\<rparr>" .
  from impl.readlines_loop_spec [OF u(1)] assms(2)
  have "inbox u = inbox (s\<lparr>s_read_mutex := True\<rparr>) @ concat lines \<and> length (concat lines) \<le> sz \<and> [] \<notin> set lines
    \<and> (\<forall>i. Suc i < length lines \<longrightarrow> ends_with eol (concat (take (Suc i) lines)))"
    by auto
  then show "inbox t = inbox s @ concat lines" "length (concat lines) \<le> sz" "[] \<notin> set lines"
    "Suc i < length lines \<Longrightarrow> ends_with eol (concat (take (Suc i) lines))"
    using u(2) by simp_all
qed

end
