(* ===== verification/Sim_Line.thy ===== *)
theory Sim_Line
  imports Serial_Lines
begin

text \<open>
  A small kernel with a scripted device at the end of the line, on which the properties are run. Each
  \<open>write\<close> takes at most the next number of \<open>caps\<close> bytes (all of them when the list is empty) and makes the
  next element of \<open>replies\<close> arrive; waiting for input that is not there lasts as long as asked.
\<close>

record line =
  rx :: string
  replies :: "string list"
  caps :: "nat list"
  clock :: int

definition advance :: "timespec \<Rightarrow> line \<Rightarrow> line" where
  "advance ts w = w\<lparr>clock := clock w + max 1000000 (tv_sec ts * 1000000000 + tv_nsec ts)\<rparr>"

definition blank_termios :: termios where
  "blank_termios = \<lparr>c_iflag = {}, c_oflag = {}, c_cflag = {}, c_lflag = {}, c_csize = 8,
     c_ispeed = 9600, c_ospeed = 9600, c_vmin = 1, c_vtime = 0\<rparr>"

definition line_write :: "int \<Rightarrow> string \<Rightarrow> line \<Rightarrow> (errno + nat) \<times> line" where
  "line_write fd bs w =
     (Inr (case caps w of [] \<Rightarrow> length bs | c # _ \<Rightarrow> min c (length bs)),
      w\<lparr>rx := rx w @ (case replies w of [] \<Rightarrow> [] | r # _ \<Rightarrow> r), replies := tl (replies w), caps := tl (caps w)\<rparr>)"

definition line_select :: "int \<Rightarrow> timespec \<Rightarrow> line \<Rightarrow> (errno + selected) \<times> line" where
  "line_select fd ts w = (if rx w = [] then (Inr Sel_timeout, advance ts w) else (Inr (Sel_ready True), w))"

definition line_os :: "line os" where
  "line_os = \<lparr>fuel = 4000, has_B = (\<lambda>_. True),
     sys_open = (\<lambda>_ w. (Inr 3, w)),
     sys_close = (\<lambda>_ w. (Inr (), w)),
     sys_read = (\<lambda>_ n w. (Inr (take n (rx w)), w\<lparr>rx := drop n (rx w)\<rparr>)),
     sys_write = line_write,
     sys_select_read = line_select,
     sys_select_write = (\<lambda>_ _ w. (Inr (Sel_ready True), w)),
     sys_select_none = (\<lambda>_ w. w),
     sys_clock = (\<lambda>w. (\<lparr>tv_sec = clock w div 1000000000, tv_nsec = clock w mod 1000000000\<rparr>, w)),
     sys_sleep_ms = (\<lambda>ms w. w\<lparr>clock := clock w + int ms * 1000000\<rparr>),
     sys_tcgetattr = (\<lambda>_ w. (Inr blank_termios, w)),
     sys_tcsetattr = (\<lambda>_ _ w. w),
     sys_tcflush = (\<lambda>_ q w. if q = TCIFLUSH then w\<lparr>rx := []\<rparr> else w),
     sys_tcdrain = (\<lambda>_ w. w),
     sys_tcsendbreak = (\<lambda>_ _ w. w),
     sys_inq = (\<lambda>_ w. (Inr (length (rx w)), w)),
     sys_break = (\<lambda>_ _ w. (Inr (), w)),
     sys_modem_set = (\<lambda>_ _ _ w. (Inr (), w)),
     sys_modem_get = (\<lambda>_ w. (Inr {}, w)),
     sys_modem_wait = (\<lambda>_ _ w. (Inr (), w)),
     sys_get_serial = (\<lambda>_ w. (Inr \<lparr>baud_base = 115200, custom_divisor = 0, spd_flags = SPD_NORMAL\<rparr>, w)),
     sys_set_serial = (\<lambda>_ _ w. (Inr (), w))\<rparr>"

lemma line_os_simps [simp]:
  "fuel line_os = 4000"
  "sys_open line_os p w = (Inr 3, w)"
  "sys_close line_os fd w = (Inr (), w)"
  "sys_read line_os fd n w = (Inr (take n (rx w)), w\<lparr>rx := drop n (rx w)\<rparr>)"
  "sys_write line_os = line_write"
  "sys_select_read line_os = line_select"
  "sys_select_write line_os fd ts w = (Inr (Sel_ready True), w)"
  "sys_select_none line_os ts w = w"
  "sys_clock line_os w = (\<lparr>tv_sec = clock w div 1000000000, tv_nsec = clock w mod 1000000000\<rparr>, w)"
  "sys_sleep_ms line_os ms w = w\<lparr>clock := clock w + int ms * 1000000\<rparr>"
  "sys_tcgetattr line_os fd w = (Inr blank_termios, w)"
  "sys_tcsetattr line_os fd tio w = w"
  "sys_tcflush line_os fd q w = (if q = TCIFLUSH then w\<lparr>rx := []\<rparr> else w)"
  "sys_inq line_os fd w = (Inr (length (rx w)), w)"
  "has_B line_os b = True"
  by (simp_all add: line_os_def)

text \<open>A line with the given replies and write limits, and an open port on it.\<close>

definition quiet_line :: "string list \<Rightarrow> nat list \<Rightarrow> line" where
  "quiet_line rs cs = \<lparr>rx = [], replies = rs, caps = cs, clock = 0\<rparr>"

definition open_port :: "line \<Rightarrow> 'z \<Rightarrow> (line, 'z) simpl_scheme" where
  "open_port w z = \<lparr>world = w, history = [], s_port = ''/dev/ttyUSB0'', s_fd = 3, s_is_open = True,
     s_xonxoff = False, s_rtscts = False, s_timeout = simpleTimeout 500, s_baudrate = 9600,
     s_byte_time_ns = 1041660, s_parity = parity_none, s_bytesize = eightbits, s_stopbits = stopbits_one,
     s_flowcontrol = flowcontrol_none, s_read_mutex = False, s_write_mutex = False, \<dots> = z\<rparr>"

lemma line_timed: "timed_kernel line_os clock"
  by (auto simp: timed_kernel_def ns_of_def line_select_def advance_def)

lemma line_timed_writes: "timed_writes line_os clock"
  by (auto simp: timed_writes_def ns_of_def line_write_def)

section \<open>Running the model\<close>

text \<open>The collection \<open>sim_run\<close> unfolds a run of the port on this kernel.\<close>

named_theorems sim_run "unfolding a run on the scripted line"

lemmas [sim_run] = run_simps impl_isOpen_def impl_flushInput_def impl_flushOutput_def on_open_port_def
  impl_write_def impl_read_def MillisecondTimer_def timer_remaining_def timer_expiry_def timer_left_def
  cquot_def total_timeout_def write_call_def read_call_def fd_settable_def impl_readLock_def
  impl_readUnlock_def impl_writeLock_def impl_writeUnlock_def impl_waitReadable_def read_grab_wait_def
  timespec_from_ms_def simpleTimeout_def Timeout_max_def impl_getTimeout_def impl_write_loop.simps
  impl_read_loop.simps impl_close_def impl_open_def impl_open_loop.simps

lemmas [sim_run] = ScopedReadLock_def ScopedWriteLock_def Serial_isOpen_def Serial_flushInput_def
  Serial_flushOutput_def Serial_write_def Serial_readline_into_def Serial_readline_def Serial_readlines_def
  ends_with_def flush_line_def Serial_open_def Serial_close_def

lemmas [sim_run] = line_write_def line_select_def advance_def quiet_line_def open_port_def wire_def inbox_def

text \<open>Loops over a buffer whose size is a numeral.\<close>

lemma readline_loop_numeral [sim_run]:
  "readline_loop rd eol (numeral n) buf =
     bind rd (\<lambda>bs.
     if bs = [] then return buf
     else if length (buf @ bs) < length eol then readline_loop rd eol (pred_numeral n) (buf @ bs)
     else if ends_with eol (buf @ bs) then return (buf @ bs)
     else if pred_numeral n = 0 then return (buf @ bs)
     else readline_loop rd eol (pred_numeral n) (buf @ bs))"
  by (simp add: numeral_eq_Suc)

lemma readlines_loop_numeral [sim_run]:
  "readlines_loop rd eol (numeral n) buf start lines =
     bind rd (\<lambda>bs.
     if bs = [] then return (flush_line buf start lines)
     else if length (buf @ bs) < length eol then readlines_loop rd eol (pred_numeral n) (buf @ bs) start lines
     else
       let (start', lines') =
             (if ends_with eol (buf @ bs) then (length (buf @ bs), lines @ [drop start (buf @ bs)])
              else (start, lines))
       in if pred_numeral n = 0 then return (flush_line (buf @ bs) start' lines')
          else readlines_loop rd eol (pred_numeral n) (buf @ bs) start' lines')"
  by (simp add: numeral_eq_Suc)

end
