(* ===== verification/Serial_Theorems.thy ===== *)
theory Serial_Theorems
  imports Sim_Line
begin

text \<open>
  The properties of the serial port (\<open>src/src/serial.cc\<close> over \<open>src/src/impl/unix.cc\<close>), each with a run on the
  scripted line where it has a hypothesis.
\<close>

section \<open>Reading and writing\<close>

definition port_on :: "line \<Rightarrow> line simpl" where
  "port_on w = open_port w ()"

text \<open>C11. Writing: whatever the kernel does (short writes, interrupts, errors, disconnection), what went out is
  a prefix of the data, nothing was read, and a returned count is the length of that prefix.\<close>

theorem write_sends_prefix:
  assumes "Serial_write os data s = (r, t)"
  shows "\<exists>k \<le> length data. wire t = wire s @ take k data \<and> inbox t = inbox s \<and> (\<forall>n. r = Ret n \<longrightarrow> n = k)"
  using wp_runD [OF Serial_write_wire assms] by blast

theorem write_sends_prefix_witness:
  "\<exists>k \<le> 5. wire (snd (Serial_write line_os ''hello'' (port_on (quiet_line [] [2, 3])))) = take k ''hello''
     \<and> fst (Serial_write line_os ''hello'' (port_on (quiet_line [] [2, 3]))) = Ret k"
proof -
  define s where "s = port_on (quiet_line [] [2, 3])"
  obtain r t where run: "Serial_write line_os ''hello'' s = (r, t)" by fastforce
  have r: "r = Ret 5" "wire s = []" using run by (auto simp: s_def port_on_def sim_run)
  from write_sends_prefix [OF run] r show ?thesis
    unfolding s_def [symmetric] run by auto
qed

text \<open>C8. Reading a line: the buffer grows by the bytes that arrived and by nothing else; none of them is lost;
  the line stops at the first end-of-line, at the size limit, or when a byte does not come in time.\<close>

theorem readline_correct:
  assumes "Serial_readline_into os buffer sz eol s = (Ret (n, buffer'), t)"
  shows "\<exists>line. buffer' = buffer @ line \<and> n = length line \<and> inbox t = inbox s @ line \<and> length line \<le> sz
     \<and> (\<forall>k. 0 < k \<and> k < length line \<and> length eol \<le> k \<longrightarrow> \<not> ends_with eol (take k line))
     \<and> (line \<noteq> [] \<and> ends_with eol line \<or> length line = sz \<or> timed_out_at os (t\<lparr>s_read_mutex := True\<rparr>))"
  using assms by (rule Serial_readline_into_spec) (auto simp: no_eol_inside_def)

theorem readline_correct_witness:
  "\<exists>line. fst (Serial_readline_into line_os ''>'' 100 ''\<newline>'' (port_on ((quiet_line [] [])\<lparr>rx := ''ok\<newline>next''\<rparr>)))
       = Ret (length line, ''>'' @ line)
     \<and> inbox (snd (Serial_readline_into line_os ''>'' 100 ''\<newline>'' (port_on ((quiet_line [] [])\<lparr>rx := ''ok\<newline>next''\<rparr>)))) = line
     \<and> line \<noteq> []"
proof -
  define s where "s = port_on ((quiet_line [] [])\<lparr>rx := ''ok\<newline>next''\<rparr>)"
  obtain r t where run: "Serial_readline_into line_os ''>'' 100 ''\<newline>'' s = (r, t)" by fastforce
  have r: "r = Ret (3, ''>ok\<newline>'')" "inbox s = []" using run by (auto simp: s_def port_on_def sim_run)
  from readline_correct [OF run [unfolded r(1)]] r show ?thesis
    unfolding s_def [symmetric] run by auto
qed





text \<open>C17. Writing comes back: if signals interrupt the calls at most once a millisecond, as many iterations as bytes to send
  plus milliseconds of total timeout plus one are enough, however few bytes the kernel takes at a time.\<close>

theorem write_returns:
  assumes "timed_writes os clk"
    "Suc (length data + unat (total_timeout (write_timeout_constant (s_timeout s))
       (write_timeout_multiplier (s_timeout s)) (length data))) \<le> fuel os"
  shows "fst (impl_write os data s) \<noteq> Stuck Out_of_fuel"
  by (rule impl_write_returns [OF assms])

theorem write_returns_witness: "fst (impl_write line_os ''PD 099'' (port_on (quiet_line [] [1, 1, 2]))) \<noteq> Stuck Out_of_fuel"
  by (rule write_returns [OF line_timed_writes])
    (simp add: port_on_def open_port_def simpleTimeout_def total_timeout_def)

section \<open>The port as a state machine\<close>

text \<open>One call of a public member function of \<open>Serial\<close> that returns or throws.\<close>

inductive port_call :: "'w os \<Rightarrow> ('w, 'z) simpl_scheme \<Rightarrow> ('w, 'z) simpl_scheme \<Rightarrow> bool" for os where
  call_open: "Serial_open os s = (r, t) \<Longrightarrow> settled r \<Longrightarrow> port_call os s t"
| call_close: "Serial_close os s = (r, t) \<Longrightarrow> settled r \<Longrightarrow> port_call os s t"
| call_read: "Serial_read_into os b n s = (nb, t) \<Longrightarrow> settled nb \<Longrightarrow> port_call os s t"
| call_readline: "Serial_readline_into os b n eol s = (nb, t) \<Longrightarrow> settled nb \<Longrightarrow> port_call os s t"
| call_readlines: "Serial_readlines os n eol s = (ls, t) \<Longrightarrow> settled ls \<Longrightarrow> port_call os s t"
| call_write: "Serial_write os data s = (c, t) \<Longrightarrow> settled c \<Longrightarrow> port_call os s t"
| call_setPort: "Serial_setPort os p s = (r, t) \<Longrightarrow> settled r \<Longrightarrow> port_call os s t"
| call_setBaudrate: "Serial_setBaudrate os br s = (r, t) \<Longrightarrow> settled r \<Longrightarrow> port_call os s t"
| call_flushInput: "Serial_flushInput os s = (r, t) \<Longrightarrow> settled r \<Longrightarrow> port_call os s t"

text \<open>Both mutexes free, and a descriptor whenever the port is open.\<close>

definition port_inv :: "('w, 'z) simpl_scheme \<Rightarrow> bool" where
  "port_inv s = (unlocked s \<and> port_ok s)"

text \<open>Keeping \<open>port_ok\<close> is a preorder, so it is checked part by part.\<close>

definition ok_step :: "('w, 'z) simpl_scheme \<Rightarrow> ('w, 'z) simpl_scheme \<Rightarrow> bool" where
  "ok_step s t = (port_ok s \<longrightarrow> port_ok t)"

interpretation okp: step_rel ok_step
  by unfold_locales (auto simp: ok_step_def)

lemma ok_modify: "(\<And>s. s_is_open (f s) = s_is_open s \<and> s_fd (f s) = s_fd s) \<Longrightarrow> steps ok_step (modify f)"
  by (rule okp.steps_modify) (simp add: ok_step_def port_ok_def)

lemma ok_port_step: "port_step s t \<Longrightarrow> ok_step s t"
  by (simp add: ok_step_def port_ok_def port_step_fields)

lemma ok_stepI: "(\<And>s. port_ok s \<Longrightarrow> wp m (\<lambda>_. port_ok) s) \<Longrightarrow> steps ok_step m"
  by (rule stepsI) (simp add: ok_step_def wp_def case_prod_unfold)

lemma ok_open_close: "steps ok_step (Serial_open os)" "steps ok_step (Serial_close os)"
  unfolding Serial_open_def Serial_close_def
  by (rule ok_stepI [OF port_ok_open], assumption, rule ok_stepI [OF port_ok_close])

lemma ok_locks: "steps ok_step impl_readLock" "steps ok_step impl_readUnlock"
    "steps ok_step impl_writeLock" "steps ok_step impl_writeUnlock"
  unfolding impl_readLock_def impl_readUnlock_def impl_writeLock_def impl_writeUnlock_def
  by (intro okp.steps_rules ok_modify; simp)+

lemma ok_ops:
  "steps ok_step (Serial_read_into os b n)" "steps ok_step (Serial_readline_into os b n eol)"
  "steps ok_step (Serial_readlines os n eol)" "steps ok_step (Serial_flushInput os)"
  "steps ok_step (Serial_write os data)" "steps ok_step (Serial_setPort os p)"
  "steps ok_step (Serial_setBaudrate os br)"
proof -
  note listen = listen_step_def ok_port_step
  show "steps ok_step (Serial_read_into os b n)" by (rule steps_mono [OF listen_read(1)]) (simp add: listen)
  show "steps ok_step (Serial_readline_into os b n eol)"
    by (rule steps_mono [OF listen_readline(1)]) (simp add: listen)
  show "steps ok_step (Serial_readlines os n eol)" by (rule steps_mono [OF listen_readlines]) (simp add: listen)
  show "steps ok_step (Serial_flushInput os)" by (rule steps_mono [OF listen_flush(2)]) (simp add: listen)
  show "steps ok_step (Serial_write os data)"
  proof (rule stepsI, rule ok_port_step)
    fix s show "port_step s (snd (Serial_write os data s))"
      using Serial_write_wire [of os data s] by (auto simp: wp_def case_prod_unfold)
  qed
  show "steps ok_step (Serial_setPort os p)"
    unfolding Serial_setPort_def ScopedReadLock_def ScopedWriteLock_def impl_isOpen_def impl_setPort_def
    by (intro okp.steps_rules ok_locks ok_open_close ok_modify) simp
  show "steps ok_step (Serial_setBaudrate os br)"
    unfolding Serial_setBaudrate_def impl_setBaudrate_def reconfigure_if_open_def
    by (intro okp.steps_rules ok_modify steps_mono [OF line_reconfigure])
      (auto simp: ok_step_def intro: port_ok_line)
qed

lemma port_inv_call:
  assumes "lock_safe m" "steps ok_step m" "m s = (r, t)" "settled r" "port_inv s"
  shows "port_inv t"
  using unlocked_after [OF assms(1) _ assms(3,4)] stepsD [OF assms(2,3)] assms(5)
  by (simp add: port_inv_def ok_step_def)

lemmas port_inv_calls =
  port_inv_call [OF lock_safe_open(1) ok_open_close(1)] port_inv_call [OF lock_safe_open(2) ok_open_close(2)]
  port_inv_call [OF lock_safe_read(1) ok_ops(1)] port_inv_call [OF lock_safe_readline(1) ok_ops(2)]
  port_inv_call [OF lock_safe_readlines ok_ops(3)] port_inv_call [OF lock_safe_write ok_ops(5)]
  port_inv_call [OF lock_safe_setPort ok_ops(6)] port_inv_call [OF lock_safe_setBaudrate ok_ops(7)]
  port_inv_call [OF lock_safe_flush(2) ok_ops(4)]

lemma port_call_inv: "port_call os s t \<Longrightarrow> port_inv s \<Longrightarrow> port_inv t"
  by (induction rule: port_call.induct) (erule (2) port_inv_calls)+



section \<open>Opening, closing, configuring\<close>

text \<open>C18. Opening: a call that returns found the port closed and named, and leaves it open, with a descriptor
  and configured with the settings of the object as its last act; a call that throws leaves it as open or closed
  as it was.\<close>

theorem open_correct:
  assumes "Serial_open os s = (r, t)"
  shows "(r = Ret () \<longrightarrow> s_port s \<noteq> [] \<and> \<not> s_is_open s \<and> s_is_open t \<and> s_fd t \<noteq> - 1 \<and>
        (\<exists>t0. last (history t) = Configured (s_fd t) (port_termios os (unat (s_baudrate s))
           (s_bytesize s) (s_stopbits s) (s_parity s) (s_flowcontrol s) t0)))
     \<and> (r \<noteq> Ret () \<longrightarrow> s_is_open t = s_is_open s) \<and> wire t = wire s \<and> inbox t = inbox s"
  using wp_runD [OF impl_open_post assms [unfolded Serial_open_def]]
    conf_step_fields [OF stepsD [OF conf_open assms [unfolded Serial_open_def]]]
  by (simp add: open_post_def split: if_splits)

definition closed_port :: "line simpl" where
  "closed_port = (port_on (quiet_line [] []))\<lparr>s_is_open := False, s_fd := - 1\<rparr>"

theorem open_correct_witness:
  "s_is_open (snd (Serial_open line_os closed_port))
   \<and> (\<exists>t0. last (history (snd (Serial_open line_os closed_port)))
        = Configured 3 (port_termios line_os 9600 eightbits stopbits_one parity_none flowcontrol_none t0))"
proof -
  obtain r t where run: "Serial_open line_os closed_port = (r, t)" by fastforce
  have std: "standard_baud line_os 9600" by (simp add: standard_baud_def baud_cases_def)
  have bt: "byte_time 9600 eightbits parity_none stopbits_one = Some 1041660"
    by (simp add: byte_time_def Let_def)
  have r: "r = Ret () \<and> s_fd t = 3"
    using run std bt
    by (auto simp: closed_port_def port_on_def sim_run reconfigurePort_def Let_def flow_flags_def)
  from open_correct [OF run] r show ?thesis
    unfolding run snd_conv by (simp add: closed_port_def port_on_def open_port_def)
qed

text \<open>C19. Closing: on return the port is closed, and if it was open its descriptor has been given back to the
  kernel exactly then; if the kernel refuses, the call throws and the port still counts as open.\<close>

theorem close_correct:
  assumes "Serial_close os s = (r, t)" "port_ok s"
  shows "(r = Ret () \<longrightarrow> \<not> s_is_open t \<and> history t = history s @ (if s_is_open s then [Closed (s_fd s)] else []))
     \<and> (r \<noteq> Ret () \<longrightarrow> s_is_open t = s_is_open s \<and> s_fd t = s_fd s \<and> history t = history s)"
  using assms
  by (auto simp: Serial_close_def impl_close_def port_ok_def run_simps split: prod.splits sum.splits if_splits)

theorem close_correct_witness:
  "history (snd (Serial_close line_os (port_on (quiet_line [] [])))) = [Closed 3]"
proof -
  define s where "s = port_on (quiet_line [] [])"
  obtain r t where run: "Serial_close line_os s = (r, t)" by fastforce
  have "r = Ret ()" "port_ok s" "history s = []" "s_is_open s" "s_fd s = 3"
    using run by (auto simp: s_def port_on_def sim_run port_ok_def)
  then show ?thesis using close_correct [OF run] unfolding s_def [symmetric] run by simp
qed


text \<open>A line whose descriptor is not a terminal.\<close>

definition no_tty_os :: "line os" where
  "no_tty_os = line_os\<lparr>sys_tcgetattr := (\<lambda>_ w. (Inl (Errno 25), w))\<rparr>"



text \<open>C39. Mark and space parity stick: setting up a port for odd parity that was set up for mark parity leaves the
  stick bit on, and with it the kernel sends mark parity.\<close>

theorem stick_parity_survives:
  "CMSPAR \<in> c_cflag (port_termios os b bs sb parity_odd f (port_termios os b' bs' sb' parity_mark f' t))
   \<and> CMSPAR \<in> c_cflag (port_termios os b bs sb parity_even f (port_termios os b' bs' sb' parity_space f' t))"
  by (simp add: port_termios_control cflags_on_def cflags_off_def)

text \<open>Timers: what is left of a timer at the moment it was set is what it was set to, for every duration a
  \<open>uint32_t\<close> holds, and a duration survives the conversion to a \<open>timespec\<close> of proper form.\<close>

lemma timer_roundtrip:
  assumes "0 \<le> tv_nsec now"
  shows "timer_left (timer_expiry now ms) now = uint ms
     \<and> tv_sec (timespec_from_ms ms) * 1000 + tv_nsec (timespec_from_ms ms) div 1000000 = uint ms
     \<and> 0 \<le> tv_nsec (timespec_from_ms ms) \<and> tv_nsec (timespec_from_ms ms) < 1000000000"
proof -
  have "ns_of (timer_expiry now ms) - ns_of now = uint ms * 1000000"
    using timer_expiry_ns [OF assms] by simp
  then have "timer_left (timer_expiry now ms) now = uint ms" using timer_left_ns [of "timer_expiry now ms" now] by simp
  moreover have "uint ms mod 1000 < 1000" by simp
  ultimately show ?thesis by (simp add: timespec_from_ms_def)
qed

end
