(* ===== verification/Simulation.thy ===== *)
theory Simulation
  imports Prelude
begin

text \<open>
  What a simulator class promises about the driver it stands in for. The sources have one simulator per
  instrument (\<open>LaserSim\<close>, \<open>AttenuatorSim\<close>, \<open>PowerMeterSim\<close>) that user code swaps for the driver; the
  locale \<open>simulator\<close> is the contract that makes the swap harmless, proved once for whole scripts of calls and
  interpreted for each pair of classes in the theory of the simulator.
\<close>

section \<open>Scripts\<close>

text \<open>The calls of a script, up to the first one that does not return.\<close>

primrec run_all :: "('op \<Rightarrow> ('s, unit) prog) \<Rightarrow> 'op list \<Rightarrow> ('s, unit) prog" where
  "run_all f [] = return ()"
| "run_all f (c # cs) = andthen (f c) (run_all f cs)"

section \<open>The contract\<close>

text \<open>\<open>dview\<close> and \<open>sview\<close> are the settings the two classes have in common. A call that the driver carries out
  changes them as the simulator does; a call the simulator refuses, the driver refuses with the same exception
  and without any effect.\<close>

locale simulator =
  fixes drv :: "'op \<Rightarrow> ('s, unit) prog" and sim :: "'op \<Rightarrow> ('v, unit) prog"
    and dview :: "'s \<Rightarrow> 'a" and sview :: "'v \<Rightarrow> 'a"
  assumes accepts: "drv c s = (Ret (), t) \<Longrightarrow> dview s = sview v
      \<Longrightarrow> \<exists>w. sim c v = (Ret (), w) \<and> dview t = sview w"
    and refuses: "sim c v = (Exn e, w) \<Longrightarrow> dview s = sview v \<Longrightarrow> drv c s = (Exn e, s)"
begin

lemma script_accepts:
  "run_all drv cs s = (Ret (), t) \<Longrightarrow> dview s = sview v
     \<Longrightarrow> \<exists>w. run_all sim cs v = (Ret (), w) \<and> dview t = sview w"
proof (induction cs arbitrary: s v)
  case Nil
  then show ?case by (simp add: run_simps)
next
  case (Cons c cs)
  from Cons.prems(1) obtain u where u: "drv c s = (Ret (), u)" "run_all drv cs u = (Ret (), t)"
    by (auto elim: andthen_RetE)
  from accepts [OF u(1) Cons.prems(2)] obtain x where x: "sim c v = (Ret (), x)" "dview u = sview x"
    by blast
  from Cons.IH [OF u(2) x(2)] show ?case by (auto simp: run_simps x(1))
qed

lemma script_refused:
  "fst (run_all sim cs v) \<noteq> Ret () \<Longrightarrow> dview s = sview v \<Longrightarrow> fst (run_all drv cs s) \<noteq> Ret ()"
proof
  assume "fst (run_all sim cs v) \<noteq> Ret ()" "dview s = sview v" "fst (run_all drv cs s) = Ret ()"
  moreover then obtain t where "run_all drv cs s = (Ret (), t)" by (metis prod.collapse)
  ultimately show False using script_accepts by fastforce
qed

text \<open>The driver gives up at a call the simulator refuses, with the settings of the calls before it.\<close>

lemma script_stops:
  assumes "run_all drv cs s = (Ret (), t)" "dview s = sview v" "run_all sim cs v = (Ret (), w)"
    "sim c w = (Exn e, x)"
  shows "run_all drv (cs @ [c]) s = (Exn e, t)"
proof -
  have "run_all drv (as @ [c]) u = andthen (run_all drv as) (drv c) u" for as u
    by (induction as arbitrary: u) (auto simp: run_simps split: outcome.splits prod.splits)
  moreover have "dview t = sview w" using script_accepts [OF assms(1,2)] assms(3) by auto
  ultimately show ?thesis using assms(1) refuses [OF assms(4)] by (simp add: run_simps)
qed

end

end
