(* ===== verification/Cpp_Strings.thy ===== *)
theory Cpp_Strings
  imports Prelude
begin

text \<open>
  The part of the C++ standard library the sources use on strings: \<open>std::string\<close> members with
  the exceptions they throw, decimal output of integers through \<open>std::ostream\<close>, and the number
  readers \<open>std::stol\<close>, \<open>std::stoul\<close>, \<open>std::stoi\<close> (LP64: \<open>long\<close> has 64 bits).
  A \<open>std::string\<close> is a \<open>string\<close> of 8-bit characters, and so is a buffer of \<open>uint8_t\<close>.

  The lemmas are the ones the drivers need: reading back a printed number gives the number, and
  members applied inside their range do not throw.
\<close>

named_theorems cstr_simps "std::string members inside and outside their range"

section \<open>std::string members\<close>

text \<open>\<open>size_t\<close> subtraction wraps around.\<close>

definition size_sub :: "nat \<Rightarrow> nat \<Rightarrow> nat" where
  "size_sub a b = (if b \<le> a then a - b else 2 ^ 64 + a - b)"

definition str_substr :: "string \<Rightarrow> nat \<Rightarrow> nat \<Rightarrow> exn + string" where
  "str_substr s pos n =
     (if length s < pos then Inl (out_of_range ''basic_string::substr'')
      else Inr (take n (drop pos s)))"

definition str_substr_from :: "string \<Rightarrow> nat \<Rightarrow> exn + string" where
  "str_substr_from s pos =
     (if length s < pos then Inl (out_of_range ''basic_string::substr'') else Inr (drop pos s))"

text \<open>\<open>s.erase(pos)\<close> keeps the first \<open>pos\<close> characters.\<close>

definition str_erase_from :: "string \<Rightarrow> nat \<Rightarrow> exn + string" where
  "str_erase_from s pos =
     (if length s < pos then Inl (out_of_range ''basic_string::erase'') else Inr (take pos s))"

definition str_at :: "string \<Rightarrow> nat \<Rightarrow> exn + char" where
  "str_at s i = (if i < length s then Inr (s ! i) else Inl (out_of_range ''basic_string::at''))"

definition vec_at :: "'a list \<Rightarrow> nat \<Rightarrow> exn + 'a" where
  "vec_at xs i = (if i < length xs then Inr (xs ! i) else Inl (out_of_range ''vector::_M_range_check''))"

text \<open>\<open>s.find(pat)\<close>, with \<open>None\<close> for \<open>npos\<close>.\<close>

fun str_find :: "string \<Rightarrow> string \<Rightarrow> nat option" where
  "str_find pat [] = (if pat = [] then Some 0 else None)"
| "str_find pat (c # s) =
     (if prefix pat (c # s) then Some 0 else map_option Suc (str_find pat s))"

lemma str_substr_from_ok [cstr_simps]: "pos \<le> length s \<Longrightarrow> str_substr_from s pos = Inr (drop pos s)"
  and str_substr_ok [cstr_simps]: "pos \<le> length s \<Longrightarrow> str_substr s pos n = Inr (take n (drop pos s))"
  and str_erase_from_ok [cstr_simps]: "pos \<le> length s \<Longrightarrow> str_erase_from s pos = Inr (take pos s)"
  and str_at_ok [cstr_simps]: "pos < length s \<Longrightarrow> str_at s pos = Inr (s ! pos)"
  by (simp_all add: str_substr_from_def str_substr_def str_erase_from_def str_at_def)

lemma vec_at_ok [cstr_simps]: "i < length xs \<Longrightarrow> vec_at xs i = Inr (xs ! i)"
  by (simp add: vec_at_def)

lemma size_sub_le [cstr_simps]: "b \<le> a \<Longrightarrow> size_sub a b = a - b"
  by (simp add: size_sub_def)

text \<open>Erasing the last character of an empty string throws: the wrapped position is out of range.\<close>

lemma str_erase_last_empty: "str_erase_from [] (size_sub 0 1) = Inl (out_of_range ''basic_string::erase'')"
  by (simp add: str_erase_from_def size_sub_def)

lemma str_erase_suffix: "str_erase_from (p @ q) (size_sub (length (p @ q)) (length q)) = Inr p"
  by (simp add: str_erase_from_def size_sub_def)

lemma str_find_None: "str_find pat s = None \<longleftrightarrow> \<not> sublist pat s"
proof (induction s)
  case Nil
  then show ?case by auto
next
  case (Cons c s)
  then show ?case by (auto simp: sublist_Cons_right)
qed

lemma str_find_Some:
  "str_find pat s = Some i \<Longrightarrow> i + length pat \<le> length s \<and> prefix pat (drop i s)"
proof (induction s arbitrary: i)
  case Nil
  then show ?case by (auto split: if_splits)
next
  case (Cons c s)
  show ?case
  proof (cases "prefix pat (c # s)")
    case True
    then show ?thesis using Cons.prems prefix_length_le by fastforce
  next
    case False
    with Cons.prems obtain j where "str_find pat s = Some j" "i = Suc j" by auto
    with Cons.IH show ?thesis by simp
  qed
qed

lemma str_find_first:
  "str_find pat s = Some i \<Longrightarrow> j < i \<Longrightarrow> \<not> prefix pat (drop j s)"
proof (induction s arbitrary: i j)
  case Nil
  then show ?case by (auto split: if_splits)
next
  case (Cons c s)
  show ?case
  proof (cases "prefix pat (c # s)")
    case True
    then show ?thesis using Cons.prems by simp
  next
    case False
    with Cons.prems obtain k where k: "str_find pat s = Some k" "i = Suc k" by auto
    with Cons.prems False Cons.IH [OF k(1)] show ?thesis by (cases j) auto
  qed
qed

lemma str_find_char:
  "str_find [c] s = (if c \<in> set s then Some (length (takeWhile (\<lambda>x. x \<noteq> c) s)) else None)"
  by (induction s) auto

section \<open>Integers on an output stream\<close>

definition digit_char :: "nat \<Rightarrow> char" where
  "digit_char d = char_of (48 + d)"

fun show_nat :: "nat \<Rightarrow> string" where
  "show_nat n = (if n < 10 then [digit_char n] else show_nat (n div 10) @ [digit_char (n mod 10)])"

declare show_nat.simps [simp del]

definition show_int :: "int \<Rightarrow> string" where
  "show_int i = (if i < 0 then CHR ''-'' # show_nat (nat (- i)) else show_nat (nat i))"

lemma digit_chars:
  "digit_char 0 = CHR ''0''" "digit_char (Suc 0) = CHR ''1''" "digit_char 2 = CHR ''2''" "digit_char 3 = CHR ''3''"
  "digit_char 4 = CHR ''4''" "digit_char 5 = CHR ''5''" "digit_char 6 = CHR ''6''" "digit_char 7 = CHR ''7''"
  "digit_char 8 = CHR ''8''" "digit_char 9 = CHR ''9''"
  by code_simp+

text \<open>\<open>std::setfill(c) << std::setw(w)\<close>: pad on the left.\<close>

definition setw_fill :: "char \<Rightarrow> nat \<Rightarrow> string \<Rightarrow> string" where
  "setw_fill c w s = replicate (w - length s) c @ s"

definition is_digit :: "char \<Rightarrow> bool" where
  "is_digit c = (48 \<le> (of_char c :: nat) \<and> (of_char c :: nat) < 58)"

lemma of_char_digit [simp]: "d < 10 \<Longrightarrow> (of_char (digit_char d) :: nat) = 48 + d"
  by (simp add: digit_char_def)

lemma is_digit_digit_char [simp]: "d < 10 \<Longrightarrow> is_digit (digit_char d)"
  by (simp add: is_digit_def)

lemma show_nat_nonempty [simp]: "show_nat n \<noteq> []"
  by (subst show_nat.simps) simp

lemma show_nat_digits: "c \<in> set (show_nat n) \<Longrightarrow> is_digit c"
proof (induction n rule: show_nat.induct)
  case (1 n)
  then show ?case by (cases "n < 10") (auto simp: show_nat.simps [of n])
qed

lemma hd_show_nat: "is_digit (hd (show_nat n))"
  by (rule show_nat_digits) (rule hd_in_set, simp)

lemma length_show_nat: "0 < k \<Longrightarrow> n < 10 ^ k \<Longrightarrow> length (show_nat n) \<le> k"
proof (induction k arbitrary: n)
  case 0
  then show ?case by simp
next
  case (Suc k)
  show ?case
  proof (cases "n < 10")
    case True
    then show ?thesis by (simp add: show_nat.simps [of n])
  next
    case False
    then have "0 < k" using Suc.prems by (cases k) auto
    moreover have "n div 10 < 10 ^ k" using Suc.prems by auto
    ultimately have "length (show_nat (n div 10)) \<le> k" by (rule Suc.IH)
    then show ?thesis using False by (simp add: show_nat.simps [of n])
  qed
qed

lemma length_setw: "length s \<le> w \<Longrightarrow> length (setw_fill c w s) = w"
  by (simp add: setw_fill_def)

section \<open>Reading integers\<close>

definition is_space :: "char \<Rightarrow> bool" where
  "is_space c = (c = CHR '' '' \<or> (9 \<le> (of_char c :: nat) \<and> (of_char c :: nat) \<le> 13))"

text \<open>The value of a character as a digit of base 16; 16 and above is not a digit.\<close>

definition digit_val :: "char \<Rightarrow> nat" where
  "digit_val c = (let k = of_char c :: nat in
     if 48 \<le> k \<and> k < 58 then k - 48
     else if 97 \<le> k \<and> k < 103 then k - 87
     else if 65 \<le> k \<and> k < 71 then k - 55 else 16)"

definition digits_val :: "nat \<Rightarrow> string \<Rightarrow> nat" where
  "digits_val b ds = foldl (\<lambda>acc c. acc * b + digit_val c) 0 ds"

text \<open>What \<open>strtol\<close> and \<open>strtoul\<close> accept in base 10 or 16: blanks, a sign, for base 16 an
  optional \<open>0x\<close>, then the longest run of digits. \<open>None\<close> when no digit was read.\<close>

definition scan_sign :: "string \<Rightarrow> bool \<times> string" where
  "scan_sign s = (case s of
      [] \<Rightarrow> (False, [])
    | c # r \<Rightarrow> if c = CHR ''-'' then (True, r) else if c = CHR ''+'' then (False, r) else (False, s))"

definition skip_0x :: "nat \<Rightarrow> string \<Rightarrow> string" where
  "skip_0x b s = (case s of
      z # x # d # r \<Rightarrow>
        if b = 16 \<and> z = CHR ''0'' \<and> (x = CHR ''x'' \<or> x = CHR ''X'') \<and> digit_val d < 16
        then d # r else s
    | _ \<Rightarrow> s)"

definition scan_number :: "nat \<Rightarrow> string \<Rightarrow> (bool \<times> nat) option" where
  "scan_number b s =
     (case scan_sign (dropWhile is_space s) of (neg, t) \<Rightarrow>
        let ds = takeWhile (\<lambda>c. digit_val c < b) (skip_0x b t)
        in if ds = [] then None else Some (neg, digits_val b ds))"

definition stoul_base :: "nat \<Rightarrow> string \<Rightarrow> exn + 64 word" where
  "stoul_base b s = (case scan_number b s of
      None \<Rightarrow> Inl (invalid_argument ''stoul'')
    | Some (neg, n) \<Rightarrow>
        if 2 ^ 64 \<le> n then Inl (out_of_range ''stoul'')
        else Inr (if neg then - of_nat n else of_nat n))"

definition stoul :: "string \<Rightarrow> exn + 64 word" where
  "stoul s = stoul_base 10 s"

definition signed_of :: "bool \<Rightarrow> nat \<Rightarrow> int" where
  "signed_of neg n = (if neg then - int n else int n)"

definition stol :: "string \<Rightarrow> exn + int" where
  "stol s = (case scan_number 10 s of
      None \<Rightarrow> Inl (invalid_argument ''stol'')
    | Some (neg, n) \<Rightarrow>
        if signed_of neg n < - (2 ^ 63) \<or> 2 ^ 63 \<le> signed_of neg n
        then Inl (out_of_range ''stol'') else Inr (signed_of neg n))"

definition stoi :: "string \<Rightarrow> exn + int" where
  "stoi s = (case scan_number 10 s of
      None \<Rightarrow> Inl (invalid_argument ''stoi'')
    | Some (neg, n) \<Rightarrow>
        if signed_of neg n < - (2 ^ 31) \<or> 2 ^ 31 \<le> signed_of neg n
        then Inl (out_of_range ''stoi'') else Inr (signed_of neg n))"

lemma digit_val_digit_char [simp]: "d < 10 \<Longrightarrow> digit_val (digit_char d) = d"
  by (simp add: digit_val_def)

lemma digit_val_less: "is_digit c \<Longrightarrow> digit_val c < 10"
  by (auto simp: is_digit_def digit_val_def Let_def)

lemma digit_not_special:
  assumes "is_digit c"
  shows "\<not> is_space c" "c \<noteq> CHR ''-''" "c \<noteq> CHR ''+''"
  using assms by (auto simp: is_digit_def is_space_def)

lemma digits_val_snoc: "digits_val b (ds @ [c]) = digits_val b ds * b + digit_val c"
  by (simp add: digits_val_def)

lemma digits_val_show_nat [simp]: "digits_val 10 (show_nat n) = n"
proof (induction n rule: show_nat.induct)
  case (1 n)
  show ?case
  proof (cases "n < 10")
    case True
    then show ?thesis by (simp add: show_nat.simps [of n] digits_val_def)
  next
    case False
    then have "digits_val 10 (show_nat (n div 10)) = n div 10" using "1" by simp
    then show ?thesis using False
      by (simp add: show_nat.simps [of n] digits_val_snoc)
  qed
qed

text \<open>Printed digits followed by a character that is no digit are read up to that character.\<close>

lemma takeWhile_digits:
  assumes "\<And>c. c \<in> set ds \<Longrightarrow> is_digit c" and "r = [] \<or> \<not> digit_val (hd r) < 10"
  shows "takeWhile (\<lambda>c. digit_val c < 10) (ds @ r) = ds"
proof -
  have "takeWhile (\<lambda>c. digit_val c < 10) r = []" using assms(2) by (cases r) auto
  then show ?thesis using assms(1) by (simp add: takeWhile_append2 digit_val_less)
qed

lemma skip_0x_10 [simp]: "skip_0x 10 s = s"
  by (auto simp: skip_0x_def split: list.splits)

lemma scan_number_nat:
  assumes "r = [] \<or> \<not> digit_val (hd r) < 10"
  shows "scan_number 10 (show_nat n @ r) = Some (False, n)"
proof -
  obtain c cs where c: "show_nat n = c # cs" by (cases "show_nat n") auto
  then have d: "is_digit c" using hd_show_nat [of n] by simp
  have "takeWhile (\<lambda>c. digit_val c < 10) (show_nat n @ r) = show_nat n"
    using show_nat_digits assms by (intro takeWhile_digits) auto
  then show ?thesis
    using c digit_not_special [OF d] digits_val_show_nat [of n] show_nat_nonempty [of n]
    by (simp add: scan_number_def scan_sign_def Let_def)
qed

lemma scan_number_int:
  assumes "r = [] \<or> \<not> digit_val (hd r) < 10"
  shows "scan_number 10 (show_int i @ r) = Some (i < 0, nat \<bar>i\<bar>)"
proof (cases "i < 0")
  case False
  then show ?thesis using scan_number_nat [OF assms, of "nat i"] by (simp add: show_int_def)
next
  case True
  have "takeWhile (\<lambda>c. digit_val c < 10) (show_nat (nat (- i)) @ r) = show_nat (nat (- i))"
    using show_nat_digits assms by (intro takeWhile_digits) auto
  with True show ?thesis
    by (simp add: scan_number_def show_int_def scan_sign_def Let_def is_space_def)
qed

lemma stoul_show_nat:
  "n < 2 ^ 64 \<Longrightarrow> r = [] \<or> \<not> digit_val (hd r) < 10 \<Longrightarrow> stoul (show_nat n @ r) = Inr (of_nat n)"
  using scan_number_nat [of r n] by (simp add: stoul_def stoul_base_def)

lemma stol_show_int:
  assumes "- (2 ^ 63) \<le> i" "i < 2 ^ 63" and "r = [] \<or> \<not> digit_val (hd r) < 10"
  shows "stol (show_int i @ r) = Inr i"
proof -
  have "signed_of (i < 0) (nat \<bar>i\<bar>) = i" by (simp add: signed_of_def)
  then show ?thesis using assms scan_number_int [OF assms(3), of i] by (simp add: stol_def)
qed

lemma stol_show_nat:
  "n < 2 ^ 63 \<Longrightarrow> r = [] \<or> \<not> digit_val (hd r) < 10 \<Longrightarrow> stol (show_nat n @ r) = Inr (int n)"
  using stol_show_int [of "int n" r] by (simp add: show_int_def)

lemma stoi_show_int:
  assumes "- (2 ^ 31) \<le> i" "i < 2 ^ 31" and "r = [] \<or> \<not> digit_val (hd r) < 10"
  shows "stoi (show_int i @ r) = Inr i"
proof -
  have "signed_of (i < 0) (nat \<bar>i\<bar>) = i" by (simp add: signed_of_def)
  then show ?thesis using assms scan_number_int [OF assms(3), of i] by (simp add: stoi_def)
qed

lemma stoul_Nil [simp]: "stoul [] = Inl (invalid_argument ''stoul'')"
  and stol_Nil [simp]: "stol [] = Inl (invalid_argument ''stol'')"
  by (simp_all add: stoul_def stoul_base_def stol_def scan_number_def scan_sign_def skip_0x_def Let_def)

lemma show_int_chars: "c \<in> set (show_int i) \<Longrightarrow> is_digit c \<or> c = CHR ''-''"
  by (auto simp: show_int_def dest: show_nat_digits split: if_splits)

lemma show_int_nonempty [simp]: "show_int i \<noteq> []"
  by (simp add: show_int_def)

text \<open>Any run of digits reads back as its value; zero padding does not change it.\<close>

lemma stoul_digits:
  assumes "ds \<noteq> []" "\<forall>c \<in> set ds. is_digit c" "digits_val 10 ds < 2 ^ 64"
  shows "stoul ds = Inr (of_nat (digits_val 10 ds))"
proof -
  obtain c cs where c: "ds = c # cs" using assms(1) by (cases ds) auto
  have "takeWhile (\<lambda>c. digit_val c < 10) ds = ds"
    using takeWhile_digits [of ds "[]"] assms(2) by simp
  then have "scan_number 10 ds = Some (False, digits_val 10 ds)"
    using assms(1,2) c digit_not_special [of c] by (simp add: scan_number_def scan_sign_def Let_def)
  then show ?thesis using assms(3) by (simp add: stoul_def stoul_base_def)
qed

lemma padded_digits:
  assumes "0 < w" "n < 10 ^ w"
  shows "length (setw_fill CHR ''0'' w (show_nat n)) = w"
    "\<forall>c \<in> set (setw_fill CHR ''0'' w (show_nat n)). is_digit c"
    "digits_val 10 (setw_fill CHR ''0'' w (show_nat n)) = n"
proof -
  show "length (setw_fill CHR ''0'' w (show_nat n)) = w"
    by (rule length_setw) (use assms length_show_nat [of w n] in simp)
  show "\<forall>c \<in> set (setw_fill CHR ''0'' w (show_nat n)). is_digit c"
    using show_nat_digits by (auto simp: setw_fill_def is_digit_def)
  have "digits_val 10 (replicate k CHR ''0'' @ ds) = digits_val 10 ds" for k ds
    by (induction k) (simp_all add: digits_val_def digit_val_def)
  then show "digits_val 10 (setw_fill CHR ''0'' w (show_nat n)) = n"
    by (simp add: setw_fill_def)
qed

end
