(* ===== verification/Cpp_Map.thy ===== *)
theory Cpp_Map
  imports Prelude
begin

text \<open>
  \<open>std::map\<close>: the entries in ascending key order, each key once. \<open>insert\<close> leaves an existing
  entry alone, as \<open>std::map::insert\<close> does. The locale \<open>ordered_map\<close> is the contract the drivers
  rely on; the interpretation \<open>stdmap\<close> discharges it for the list of entries below.
\<close>

type_synonym ('k, 'v) std_map = "('k \<times> 'v) list"

fun map_insert :: "'k::linorder \<Rightarrow> 'v \<Rightarrow> ('k, 'v) std_map \<Rightarrow> ('k, 'v) std_map" where
  "map_insert k v [] = [(k, v)]"
| "map_insert k v ((k', v') # m) =
     (if k < k' then (k, v) # (k', v') # m
      else if k = k' then (k', v') # m
      else (k', v') # map_insert k v m)"

definition map_find :: "('k, 'v) std_map \<Rightarrow> 'k \<Rightarrow> 'v option" where
  "map_find m k = map_of m k"

text \<open>\<open>m.at(k)\<close> throws when the key is missing.\<close>

definition map_at :: "('k, 'v) std_map \<Rightarrow> 'k \<Rightarrow> exn + 'v" where
  "map_at m k = (case map_find m k of None \<Rightarrow> Inl (out_of_range ''map::at'') | Some v \<Rightarrow> Inr v)"

definition map_ok :: "('k::linorder, 'v) std_map \<Rightarrow> bool" where
  "map_ok m = sorted_wrt (<) (map fst m)"

text \<open>\<open>for (t : ts) m.insert({k++, t})\<close>\<close>

fun map_insert_from :: "int \<Rightarrow> string list \<Rightarrow> (int, string) std_map \<Rightarrow> (int, string) std_map" where
  "map_insert_from k [] m = m"
| "map_insert_from k (t # ts) m = map_insert_from (k + 1) ts (map_insert k t m)"

text \<open>The same with a key type that is narrower than the counter: \<open>conv\<close> is the conversion.\<close>

fun map_insert_conv ::
    "(int \<Rightarrow> int) \<Rightarrow> int \<Rightarrow> string list \<Rightarrow> (int, string) std_map \<Rightarrow> (int, string) std_map" where
  "map_insert_conv conv k [] m = m"
| "map_insert_conv conv k (t # ts) m = map_insert_conv conv (k + 1) ts (map_insert (conv k) t m)"

section \<open>The contract\<close>

locale ordered_map =
  fixes emp :: 'm
    and ins :: "'k::linorder \<Rightarrow> 'v \<Rightarrow> 'm \<Rightarrow> 'm"
    and look :: "'m \<Rightarrow> 'k \<Rightarrow> 'v option"
    and keys :: "'m \<Rightarrow> 'k list"
    and ok :: "'m \<Rightarrow> bool"
  assumes ok_emp: "ok emp"
    and ok_ins: "ok m \<Longrightarrow> ok (ins k v m)"
    and look_emp: "look emp k = None"
    and look_ins: "ok m \<Longrightarrow>
      look (ins k v m) k' = (if k' = k \<and> look m k = None then Some v else look m k')"
    and keys_sorted: "ok m \<Longrightarrow> sorted_wrt (<) (keys m)"
    and keys_look: "ok m \<Longrightarrow> k \<in> set (keys m) \<longleftrightarrow> look m k \<noteq> None"
begin

text \<open>Filling an empty map from a list of distinct entries gives back exactly those entries.\<close>

lemma ok_fold: "ok m \<Longrightarrow> ok (fold (\<lambda>(k, v). ins k v) es m)"
  by (induction es arbitrary: m) (auto simp: ok_ins)

lemma look_fold:
  "ok m \<Longrightarrow> distinct (map fst es) \<Longrightarrow> (\<And>k. k \<in> set (map fst es) \<Longrightarrow> look m k = None) \<Longrightarrow>
    look (fold (\<lambda>(k, v). ins k v) es m) k = (case map_of es k of Some v \<Rightarrow> Some v | None \<Rightarrow> look m k)"
proof (induction es arbitrary: m)
  case Nil
  then show ?case by simp
next
  case (Cons e es)
  obtain k' v' where e: "e = (k', v')" by (cases e)
  have "look (fold (\<lambda>(k, v). ins k v) es (ins k' v' m)) k =
      (case map_of es k of Some v \<Rightarrow> Some v | None \<Rightarrow> look (ins k' v' m) k)"
    using Cons.prems e by (intro Cons.IH) (auto simp: ok_ins look_ins)
  moreover have "k = k' \<Longrightarrow> map_of es k = None"
    using Cons.prems(2) e by (auto simp: map_of_eq_None_iff)
  ultimately show ?case
    using Cons.prems e by (auto simp: look_ins split: option.splits)
qed

lemma look_filled:
  "distinct (map fst es) \<Longrightarrow> look (fold (\<lambda>(k, v). ins k v) es emp) k = map_of es k"
  using look_fold [of emp es k] by (simp add: ok_emp look_emp split: option.splits)

end

section \<open>The list of entries implements it\<close>

lemma map_of_map_insert:
  "map_ok m \<Longrightarrow> map_of (map_insert k v m) k' =
     (if k' = k \<and> map_of m k = None then Some v else map_of m k')"
proof (induction m)
  case Nil
  then show ?case by simp
next
  case (Cons e m)
  obtain a b where e: "e = (a, b)" by (cases e)
  have ok: "map_ok m" and gt: "\<And>c. c \<in> fst ` set m \<Longrightarrow> a < c"
    using Cons.prems e by (auto simp: map_ok_def)
  have "k < a \<Longrightarrow> map_of m k = None"
    using gt by (force simp: map_of_eq_None_iff)
  then show ?case using Cons.IH [OF ok] e by auto
qed

lemma keys_map_insert: "set (map fst (map_insert k v m)) = insert k (set (map fst m))"
  by (induction k v m rule: map_insert.induct) auto

lemma map_ok_insert: "map_ok m \<Longrightarrow> map_ok (map_insert k v m)"
proof (induction m)
  case Nil
  then show ?case by (simp add: map_ok_def)
next
  case (Cons e m)
  obtain a b where e: "e = (a, b)" by (cases e)
  have ok: "map_ok m" using Cons.prems by (auto simp: map_ok_def)
  have "\<forall>c \<in> set (map fst (map_insert k v m)). a < c" if "a < k"
    using Cons.prems that e unfolding keys_map_insert by (auto simp: map_ok_def)
  then show ?case
    using Cons e ok by (auto simp: map_ok_def not_less_iff_gr_or_eq)
qed

interpretation stdmap: ordered_map "[] :: ('k::linorder, 'v) std_map" map_insert map_find "map fst" map_ok
proof (unfold_locales, goal_cases)
  case 1
  show ?case by (simp add: map_ok_def)
next
  case 2
  then show ?case by (rule map_ok_insert)
next
  case 3
  show ?case by (simp add: map_find_def)
next
  case 4
  then show ?case by (simp add: map_find_def map_of_map_insert)
next
  case 5
  then show ?case by (simp add: map_ok_def)
next
  case (6 m k)
  show ?case by (simp add: map_find_def map_of_eq_None_iff)
qed

lemma map_insert_from_fold:
  "map_insert_from k ts m = fold (\<lambda>(k, v). map_insert k v) (zip (map (\<lambda>i. k + int i) [0..<length ts]) ts) m"
proof (induction ts arbitrary: k m)
  case Nil
  then show ?case by simp
next
  case (Cons t ts)
  have "map (\<lambda>i. k + int i) [0..<length (t # ts)] = k # map (\<lambda>i. (k + 1) + int i) [0..<length ts]"
    by (simp add: upt_conv_Cons o_def add.commute add.left_commute del: upt_Suc flip: map_Suc_upt)
  then show ?case using Cons.IH [of "k + 1" "map_insert k t m"] by simp
qed

text \<open>A map filled from position \<open>k\<close> answers the entry at each position and nothing else.\<close>

lemma map_find_insert_from:
  "map_find (map_insert_from k ts []) j =
     (if k \<le> j \<and> j < k + int (length ts) then Some (ts ! nat (j - k)) else None)"
proof -
  let ?ks = "map (\<lambda>i. k + int i) [0..<length ts]"
  have d: "distinct (map fst (zip ?ks ts))" by (auto simp: distinct_map inj_on_def)
  have f: "map_find (map_insert_from k ts []) j = map_of (zip ?ks ts) j"
    unfolding map_insert_from_fold by (rule stdmap.look_filled [OF d])
  show ?thesis
  proof (cases "k \<le> j \<and> j < k + int (length ts)")
    case True
    then have n: "nat (j - k) < length ts" by linarith
    have "(j, ts ! nat (j - k)) \<in> set (zip ?ks ts)"
      using True n by (auto simp: in_set_zip intro!: exI [of _ "nat (j - k)"])
    then show ?thesis using True d f by (simp add: map_of_eq_Some_iff)
  next
    case False
    then have "j \<notin> set ?ks" by auto
    then show ?thesis using f False by (auto simp: map_of_eq_None_iff dest: set_zip_leftD)
  qed
qed

lemma map_ok_insert_from: "map_ok m \<Longrightarrow> map_ok (map_insert_from k ts m)"
  unfolding map_insert_from_fold by (rule stdmap.ok_fold)

text \<open>As long as the counter fits the key type, the conversion does not matter.\<close>

lemma map_insert_conv_id:
  "(\<And>j. k \<le> j \<Longrightarrow> j < k + int (length ts) \<Longrightarrow> conv j = j) \<Longrightarrow> map_insert_conv conv k ts m = map_insert_from k ts m"
  by (induction conv k ts m rule: map_insert_conv.induct) auto

end
