(* ===== verification/Utilities.thy ===== *)
theory Utilities
  imports Cpp_Strings Cpp_Map
begin

text \<open>
  \<open>src/src/utilities.cpp\<close>: tokenising, trimming, escaping, port lookup and map printing. The
  definitions follow the C++ calls (\<open>find\<close>, \<open>find_first_not_of\<close>, \<open>seekp\<close>); the lemmas give
  their usual functional readings, which the device parsers use.
\<close>

named_theorems util_simps "functional readings of the utilities"

section \<open>tokenize_string\<close>

text \<open>The loop of \<open>tokenize_string\<close> for a non-empty separator: cut at the first occurrence.\<close>

function split_on :: "string \<Rightarrow> string \<Rightarrow> string list" where
  "split_on sep s =
     (if sep = [] then [s]
      else case str_find sep s of
          None \<Rightarrow> [s]
        | Some pos \<Rightarrow> take pos s # split_on sep (drop (pos + length sep) s))"
  by pat_completeness auto
termination
proof (relation "measure (\<lambda>(sep, s). length s)", simp)
  fix sep s :: string and pos
  assume "sep \<noteq> []" and "str_find sep s = Some pos"
  then have "pos + length sep \<le> length s" "0 < length sep"
    using str_find_Some by auto
  then have "length (drop (pos + length sep) s) < length s"
    unfolding length_drop by linarith
  then show "((sep, drop (pos + length sep) s), sep, s) \<in> measure (\<lambda>(sep, s). length s)"
    by simp
qed

declare split_on.simps [simp del]

text \<open>The tokens found are appended to the caller's vector; the string argument, passed by
  reference, keeps the part after the last separator. With an empty separator \<open>find\<close> answers
  position 0 for ever and the loop does not end.\<close>

definition tokenize_string :: "string \<Rightarrow> string list \<Rightarrow> string \<Rightarrow> ('s, string list \<times> string) prog" where
  "tokenize_string str tokens sep =
     (if sep = [] then stuck Out_of_fuel
      else return (tokens @ split_on sep str, last (split_on sep str)))"

section \<open>Trimming\<close>

definition WHITESPACE :: string where
  "WHITESPACE = [CHR '' '', CHR 0x0A, CHR 0x0D, CHR 0x09, CHR 0x0C, CHR 0x0B]"

fun find_first_not_of :: "string \<Rightarrow> string \<Rightarrow> nat option" where
  "find_first_not_of ws [] = None"
| "find_first_not_of ws (c # s) =
     (if c \<in> set ws then map_option Suc (find_first_not_of ws s) else Some 0)"

definition find_last_not_of :: "string \<Rightarrow> string \<Rightarrow> nat option" where
  "find_last_not_of ws s = map_option (\<lambda>i. length s - 1 - i) (find_first_not_of ws (rev s))"

definition ltrim :: "string \<Rightarrow> string" where
  "ltrim s = (case find_first_not_of WHITESPACE s of None \<Rightarrow> [] | Some start \<Rightarrow> drop start s)"

definition rtrim :: "string \<Rightarrow> string" where
  "rtrim s = (case find_last_not_of WHITESPACE s of None \<Rightarrow> [] | Some e \<Rightarrow> take (e + 1) s)"

definition trim :: "string \<Rightarrow> string" where
  "trim s = rtrim (ltrim s)"

section \<open>escape\<close>

text \<open>The \<open>const char*\<close> argument ends at the first NUL. The characters of \<open>escapee\<close> get the
  marker; newline, carriage return and tab are replaced by their letter.\<close>

definition escape_specials :: "char \<Rightarrow> char" where
  "escape_specials c =
     (if c = CHR 0x0A then CHR ''n'' else if c = CHR 0x0D then CHR ''r''
      else if c = CHR 0x09 then CHR ''t'' else c)"

fun escape_with :: "string \<Rightarrow> char list \<Rightarrow> char \<Rightarrow> string" where
  "escape_with [] escapee marker = []"
| "escape_with (c # src) escapee marker =
     (if c = CHR 0x00 then []
      else (if c \<in> set escapee then [marker] else []) @ [escape_specials c]
             @ escape_with src escapee marker)"

definition escape :: "string \<Rightarrow> string" where
  "escape src = escape_with src [CHR 0x0A, CHR 0x09, CHR 0x0D] (CHR 0x5C)"

text \<open>\<open>char2int\<close>, for a signed \<open>char\<close>.\<close>

definition char2int :: "char \<Rightarrow> int" where
  "char2int c = (let k = int (of_char c) in (if k < 128 then k else k - 256) - 48)"

section \<open>find_port\<close>

record port_info =
  port :: string
  description :: string
  hardware_id :: string

definition port_matches :: "string \<Rightarrow> port_info \<Rightarrow> bool" where
  "port_matches param d =
     (if str_find param (description d) \<noteq> None then True
      else if str_find param (port d) \<noteq> None then True
      else str_find param (hardware_id d) \<noteq> None)"

text \<open>\<open>devices_found\<close> is what \<open>serial::list_ports()\<close> answered.\<close>

definition find_port :: "port_info list \<Rightarrow> string \<Rightarrow> string" where
  "find_port devices_found param =
     (case filter (port_matches param) devices_found of [] \<Rightarrow> [] | d # _ \<Rightarrow> port d)"

section \<open>serialize_map\<close>

text \<open>Every entry is written with a trailing comma; \<open>seekp(-1, cur)\<close> moves the put position back
  by one and the closing brace overwrites the character found there.\<close>

definition overwrite_last :: "string \<Rightarrow> char \<Rightarrow> string" where
  "overwrite_last buf c = take (length buf - 1) buf @ [c]"

definition map_entry :: "int \<times> string \<Rightarrow> string" where
  "map_entry e = CHR 0x22 # show_int (fst e) @ [CHR 0x22, CHR '':'', CHR 0x22] @ snd e
                   @ [CHR 0x22, CHR '','']"

definition serial_map :: "(int, string) std_map \<Rightarrow> string" where
  "serial_map m = overwrite_last (CHR ''{'' # concat (map map_entry m)) (CHR ''}'')"

section \<open>Functional readings\<close>

lemma find_first_not_of_None: "find_first_not_of ws s = None \<longleftrightarrow> set s \<subseteq> set ws"
  by (induction s) auto

lemma find_first_not_of_Some:
  "find_first_not_of ws s = Some i \<Longrightarrow> i = length (takeWhile (\<lambda>c. c \<in> set ws) s) \<and> i < length s"
  by (induction s arbitrary: i) (auto split: if_splits)

lemma ltrim_dropWhile [util_simps]: "ltrim s = dropWhile (\<lambda>c. c \<in> set WHITESPACE) s"
proof (cases "find_first_not_of WHITESPACE s")
  case None
  then have "dropWhile (\<lambda>c. c \<in> set WHITESPACE) s = []"
    by (auto simp: find_first_not_of_None dropWhile_eq_Nil_conv)
  moreover have "ltrim s = []" using None by (simp add: ltrim_def)
  ultimately show ?thesis by metis
next
  case (Some i)
  then show ?thesis
    using find_first_not_of_Some [OF Some] by (simp add: ltrim_def dropWhile_eq_drop)
qed

lemma rtrim_dropWhile [util_simps]:
  "rtrim s = rev (dropWhile (\<lambda>c. c \<in> set WHITESPACE) (rev s))"
proof (cases "find_first_not_of WHITESPACE (rev s)")
  case None
  then have "dropWhile (\<lambda>c. c \<in> set WHITESPACE) (rev s) = []"
    by (auto simp: find_first_not_of_None dropWhile_eq_Nil_conv)
  then show ?thesis using None by (simp add: rtrim_def find_last_not_of_def)
next
  case (Some i)
  then have i: "i = length (takeWhile (\<lambda>c. c \<in> set WHITESPACE) (rev s))" "i < length s"
    using find_first_not_of_Some by fastforce+
  then have "rev (dropWhile (\<lambda>c. c \<in> set WHITESPACE) (rev s)) = take (length s - i) s"
    by (simp add: dropWhile_eq_drop drop_rev)
  moreover have "length s - 1 - i + 1 = length s - i" using i(2) by simp
  ultimately show ?thesis using Some by (simp add: rtrim_def find_last_not_of_def)
qed

text \<open>A string without blanks at its ends is left as it is.\<close>

lemma trim_id:
  assumes "s \<noteq> []" "hd s \<notin> set WHITESPACE" "last s \<notin> set WHITESPACE"
  shows "trim s = s"
proof -
  have "ltrim s = s" using assms by (simp add: ltrim_dropWhile dropWhile_hd)
  moreover have "rtrim s = s"
    using assms by (simp add: rtrim_dropWhile dropWhile_hd hd_rev)
  ultimately show ?thesis by (simp add: trim_def)
qed

lemma trim_pad:
  assumes "set a \<subseteq> set WHITESPACE" "set b \<subseteq> set WHITESPACE"
    and "s \<noteq> []" "hd s \<notin> set WHITESPACE" "last s \<notin> set WHITESPACE"
  shows "trim (a @ s @ b) = s"
proof -
  have "ltrim (a @ s @ b) = s @ b"
    using assms by (cases s) (auto simp: ltrim_dropWhile dropWhile_append3 subset_iff)
  moreover have "rtrim (s @ b) = s"
    using assms by (cases s rule: rev_cases)
      (auto simp: rtrim_dropWhile dropWhile_append3 subset_iff)
  ultimately show ?thesis by (simp add: trim_def)
qed

lemma split_on_char_step [util_simps]:
  "c \<notin> set a \<Longrightarrow> split_on [c] (a @ c # r) = a # split_on [c] r"
proof -
  assume a: "c \<notin> set a"
  have "takeWhile (\<lambda>x. x \<noteq> c) (a @ c # r) = a" using a by (induction a) auto
  then show ?thesis by (subst split_on.simps) (simp add: str_find_char)
qed

lemma split_on_char_end [util_simps]: "c \<notin> set a \<Longrightarrow> split_on [c] a = [a]"
  by (subst split_on.simps) (simp add: str_find_char)

lemma split_on_char_Cons [util_simps]: "split_on [c] (c # r) = [] # split_on [c] r"
  using split_on_char_step [of c "[]" r] by simp

lemma split_on_nonempty [simp]: "split_on sep s \<noteq> []"
  by (subst split_on.simps) (simp split: option.splits)

text \<open>Joining tokens that do not contain the separator character, and splitting again.\<close>

fun join :: "char \<Rightarrow> string list \<Rightarrow> string" where
  "join c [] = []"
| "join c [t] = t"
| "join c (t # ts) = t @ c # join c ts"

lemma split_on_join:
  "ts \<noteq> [] \<Longrightarrow> (\<And>t. t \<in> set ts \<Longrightarrow> c \<notin> set t) \<Longrightarrow> split_on [c] (join c ts) = ts"
  by (induction c ts rule: join.induct) (simp_all add: util_simps)

lemma join_split_on: "join c (split_on [c] s) = s"
proof (induction "[c]" s rule: split_on.induct)
  case (1 s)
  show ?case
  proof (cases "c \<in> set s")
    case False
    then show ?thesis by (simp add: split_on_char_end)
  next
    case True
    let ?pos = "length (takeWhile (\<lambda>x. x \<noteq> c) s)"
    have f: "str_find [c] s = Some ?pos" using True by (simp add: str_find_char)
    have IH: "join c (split_on [c] (drop (?pos + length [c]) s)) = drop (?pos + length [c]) s"
      using f by (rule "1.hyps" [rotated]) simp
    have s: "s = take ?pos s @ c # drop (?pos + 1) s"
    proof -
      have lt: "?pos < length s" using str_find_Some [OF f] by simp
      moreover have "s ! ?pos = c"
        using nth_length_takeWhile [of "\<lambda>x. x \<noteq> c" s] lt by simp
      ultimately show ?thesis by (metis Suc_eq_plus1 id_take_nth_drop)
    qed
    have "split_on [c] s = take ?pos s # split_on [c] (drop (?pos + 1) s)"
      by (subst split_on.simps) (simp add: f)
    then show ?thesis using IH s
      by (cases "split_on [c] (drop (?pos + 1) s)") auto
  qed
qed

lemma split_on_no_sep: "t \<in> set (split_on [c] s) \<Longrightarrow> c \<notin> set t"
proof (induction "[c]" s rule: split_on.induct)
  case (1 s)
  show ?case
  proof (cases "c \<in> set s")
    case False
    then show ?thesis using 1 by (simp add: split_on_char_end)
  next
    case True
    let ?pos = "length (takeWhile (\<lambda>x. x \<noteq> c) s)"
    have f: "str_find [c] s = Some ?pos" using True by (simp add: str_find_char)
    have "split_on [c] s = take ?pos s # split_on [c] (drop (?pos + 1) s)"
      by (subst split_on.simps) (simp add: f)
    then consider "t = take ?pos s" | "t \<in> set (split_on [c] (drop (?pos + length [c]) s))"
      using "1.prems" by auto
    then show ?thesis
    proof cases
      case 1
      then show ?thesis
        by (metis (mono_tags, lifting) set_takeWhileD takeWhile_eq_take)
    next
      case 2
      then show ?thesis using f "1.hyps" [rotated, OF f] by simp
    qed
  qed
qed

lemma wp_tokenize [wp_simps]:
  "sep \<noteq> [] \<Longrightarrow> wp (tokenize_string str tokens sep) Q s =
     Q (Ret (tokens @ split_on sep str, last (split_on sep str))) s"
  by (simp add: tokenize_string_def wp_simps)

lemma run_tokenize [run_simps]:
  "sep \<noteq> [] \<Longrightarrow> tokenize_string str tokens sep s =
     (Ret (tokens @ split_on sep str, last (split_on sep str)), s)"
  by (simp add: tokenize_string_def run_simps)

context step_rel
begin

lemma steps_tokenize: "steps R (tokenize_string str tokens sep)"
  by (simp add: tokenize_string_def steps_return steps_stuck)

end

section \<open>Properties\<close>

text \<open>C36. Tokenizing at a one-character separator cuts the string and loses nothing: the tokens appended to the
  caller's vector are at least one, none contains the separator, put together again with it they are the
  string, and the string argument is left holding the last one.\<close>

theorem tokenize_partitions:
  "\<exists>ts. tokenize_string str tokens [c] s = (Ret (tokens @ ts, last ts), s)
     \<and> ts \<noteq> [] \<and> join c ts = str \<and> c \<notin> set (concat ts)"
  using join_split_on [of c str] split_on_no_sep [of _ c str]
  by (intro exI [of _ "split_on [c] str"]) (auto simp: run_tokenize)

text \<open>Trimming takes the blanks off both ends of a text and nothing else.\<close>

lemma trim_correct:
  assumes "set a \<subseteq> set WHITESPACE" "set b \<subseteq> set WHITESPACE"
    "s \<noteq> []" "hd s \<notin> set WHITESPACE" "last s \<notin> set WHITESPACE"
  shows "trim (a @ s @ b) = s \<and> trim (a @ b) = []"
proof
  show "trim (a @ s @ b) = s" by (rule trim_pad [OF assms])
  have "set (a @ b) \<subseteq> set WHITESPACE" using assms(1,2) by simp
  then have "dropWhile (\<lambda>c. c \<in> set WHITESPACE) (a @ b) = []"
    unfolding dropWhile_eq_Nil_conv by blast
  then have "ltrim (a @ b) = []" unfolding ltrim_dropWhile .
  then show "trim (a @ b) = []" by (simp add: trim_def rtrim_dropWhile)
qed

lemma escape_with_clean:
  "escapee = [CHR 0x0A, CHR 0x09, CHR 0x0D] \<Longrightarrow> marker = CHR 0x5C \<Longrightarrow>
   set (escape_with src escapee marker) \<inter> {CHR 0x0A, CHR 0x0D, CHR 0x09, CHR 0x00} = {}"
  by (induction src) (auto simp: escape_specials_def)

lemma escape_with_id:
  "set src \<inter> {CHR 0x0A, CHR 0x0D, CHR 0x09, CHR 0x00} = {} \<Longrightarrow>
   escape_with src [CHR 0x0A, CHR 0x09, CHR 0x0D] m = src"
  by (induction src) (auto simp: escape_specials_def)

text \<open>Escaped text is safe to print on one line: it has no line feed, carriage return, tab or NUL, and text
  that has none of them to begin with is left alone.\<close>

lemma escape_correct:
  "set (escape src) \<inter> {CHR 0x0A, CHR 0x0D, CHR 0x09, CHR 0x00} = {}
   \<and> (set src \<inter> {CHR 0x0A, CHR 0x0D, CHR 0x09, CHR 0x00} = {} \<longrightarrow> escape src = src)"
  by (simp add: escape_def escape_with_clean escape_with_id)

text \<open>Finding a port: the answer is the port of the first listed device one of whose fields contains the
  text, and empty when there is none. An empty text therefore finds the first device.\<close>

lemma find_port_correct:
  "find_port ds param =
     (case List.find (port_matches param) ds of None \<Rightarrow> [] | Some d \<Rightarrow> port d)
   \<and> find_port (d # ds) [] = port d"
proof -
  have "str_find [] x = Some 0" for x by (cases x) simp_all
  then have "find_port (d # ds) [] = port d" by (simp add: find_port_def port_matches_def)
  moreover have "find_port ds param = (case List.find (port_matches param) ds of None \<Rightarrow> [] | Some d \<Rightarrow> port d)"
    unfolding find_port_def by (induction ds) auto
  ultimately show ?thesis by blast
qed

text \<open>Serializing a map: the entries between braces, separated by commas. The empty map comes out as a lone
  closing brace, which no reader of the format accepts.\<close>

lemma serial_map_correct:
  "serial_map [] = [CHR ''}'']
   \<and> serial_map (m @ [e]) = CHR ''{'' # concat (map map_entry m) @ butlast (map_entry e) @ [CHR ''}'']"
proof -
  have "overwrite_last b c = butlast b @ [c]" for b c
    by (simp add: overwrite_last_def butlast_conv_take)
  then show ?thesis by (simp add: serial_map_def map_entry_def butlast_append)
qed

end
