(* ===== verification/Device.thy ===== *)
theory Device
  imports Sim_Line Utilities
begin

text \<open>
  \<open>src/src/Device.cpp\<close> and \<open>src/include/Device.hh\<close>: the base class of the three instruments, and the
  contract its \<open>write_cmd\<close> gives to them (locale \<open>command_link\<close>). The member \<open>m_serial\<close> is the first
  part of the state record, so a device is a port with more fields.
\<close>

section \<open>State and operations\<close>

record 'w device = "'w simpl" +
  m_comport :: string
  m_baud :: "32 word"
  m_com_pre :: string
  m_com_sfx :: string
  m_read_sfx :: string
  m_timeout_ms :: "32 word"

text \<open>\<open>'\r'\<close>, and the largest line the drivers ask for.\<close>

definition CR :: string where
  "CR = [CHR 0x0D]"

definition LF :: string where
  "LF = [CHR 0x0A]"

definition read_max :: nat where
  "read_max = 65535"

text \<open>The constructor leaves a port with the defaults of \<open>serial::Serial\<close>, not opened.\<close>

definition Device_ctor :: "'w os \<Rightarrow> string \<Rightarrow> 32 word \<Rightarrow> (('w, 'z) device_scheme, unit) prog" where
  "Device_ctor os comport baud_rate =
     andthen (modify (\<lambda>s. s\<lparr>m_comport := comport, m_baud := baud_rate, m_com_pre := [], m_com_sfx := CR,
        m_read_sfx := [], m_timeout_ms := 500\<rparr>))
       (Serial os [] 9600 Timeout_default eightbits parity_none stopbits_one flowcontrol_none)"

definition Device_destroy :: "'w os \<Rightarrow> (('w, 'z) device_scheme, unit) prog" where
  "Device_destroy os = noexcept (bind Serial_isOpen (\<lambda>is_open. whenM is_open (Serial_close os)))"

definition Device_is_open :: "(('w, 'z) device_scheme, bool) prog" where
  "Device_is_open = Serial_isOpen"

definition Device_close :: "'w os \<Rightarrow> (('w, 'z) device_scheme, unit) prog" where
  "Device_close os = Serial_close os"

text \<open>\<open>m_com_pre + cmd + m_com_sfx\<close>\<close>

definition Device_msg :: "('w, 'z) device_scheme \<Rightarrow> string \<Rightarrow> string" where
  "Device_msg s cmd = m_com_pre s @ cmd @ m_com_sfx s"

definition Device_write_cmd :: "'w os \<Rightarrow> string \<Rightarrow> (('w, 'z) device_scheme, bool) prog" where
  "Device_write_cmd os cmd =
     bind Serial_isOpen (\<lambda>is_open.
     andthen (whenM (\<not> is_open) (Serial_open os))
    (andthen (Serial_flushInput os)
    (andthen (Serial_flushOutput os)
    (bind (gets (\<lambda>s. Device_msg s cmd)) (\<lambda>msg.
     bind (Serial_write os msg) (\<lambda>written_bytes.
       return (written_bytes = length msg)))))))"

definition Device_set_timeout_ms :: "32 word \<Rightarrow> (('w, 'z) device_scheme, unit) prog" where
  "Device_set_timeout_ms t = Serial_setTimeout (simpleTimeout t)"

definition Device_read_cmd :: "'w os \<Rightarrow> string \<Rightarrow> (('w, 'z) device_scheme, bool \<times> string) prog" where
  "Device_read_cmd os answer =
     bind (gets m_read_sfx) (\<lambda>sfx.
     bind (Serial_readline_into os answer read_max sfx) (\<lambda>(nbytes, answer).
     if nbytes = 0 then return (False, answer)
     else if nbytes < length sfx then return (False, answer)
     else if length answer < length sfx then return (True, rtrim answer)
     else bind (lift (str_erase_from answer (length answer - length sfx))) (\<lambda>answer.
       return (True, answer))))"

definition Device_read_lines :: "'w os \<Rightarrow> (('w, 'z) device_scheme, string list) prog" where
  "Device_read_lines os = bind (gets m_read_sfx) (\<lambda>sfx. Serial_readlines os read_max sfx)"

definition Device_reset_connection :: "'w os \<Rightarrow> (('w, 'z) device_scheme, unit) prog" where
  "Device_reset_connection os = andthen (Serial_close os) (Serial_open os)"

text \<open>How every driver sends a command: once, and once more over a fresh connection when the port took
  only a part of it.\<close>

definition write_retry ::
    "(string \<Rightarrow> ('s, bool) prog) \<Rightarrow> ('s, unit) prog \<Rightarrow> string \<Rightarrow> exn \<Rightarrow> ('s, unit) prog" where
  "write_retry wr reset cmd e =
     bind (wr cmd) (\<lambda>ok.
     whenM (\<not> ok)
       (andthen reset
         (bind (wr cmd) (\<lambda>ok. whenM (\<not> ok) (throw e)))))"

section \<open>Frames\<close>

text \<open>\<open>dev_step\<close>: the fields of the device and of its subclass stay, the log grows.\<close>

definition dev_step :: "('w, 'z) simpl_scheme \<Rightarrow> ('w, 'z) simpl_scheme \<Rightarrow> bool" where
  "dev_step s t = (simpl.more t = simpl.more s \<and> prefix (history s) (history t))"

interpretation dev: step_rel dev_step
  by unfold_locales (auto simp: dev_step_def intro: prefix_order.trans)

lemma port_dev: "port_step s t \<Longrightarrow> dev_step s t"
  by (simp add: dev_step_def port_step_fields)

lemma conf_dev: "conf_step s t \<Longrightarrow> dev_step s t"
  by (simp add: dev_step_def conf_step_fields)

lemma listen_dev: "listen_step s t \<Longrightarrow> dev_step s t"
  by (simp add: listen_step_def port_dev)

lemma dev_Serial:
  "steps dev_step (Serial_open os)" "steps dev_step (Serial_close os)"
  "steps dev_step (Serial_flushInput os)" "steps dev_step (Serial_flushOutput os)"
  "steps dev_step (Serial_write os data)" "steps dev_step (Serial_readline_into os b n eol)"
  "steps dev_step (Serial_readlines os n eol)" "steps dev_step (Serial_waitReadable os)"
  "steps dev_step Serial_isOpen"
proof -
  show "steps dev_step (Serial_open os)" "steps dev_step (Serial_close os)"
    unfolding Serial_open_def Serial_close_def
    by (rule steps_mono [OF conf_open conf_dev], assumption, rule steps_mono [OF conf_close conf_dev])
  show "steps dev_step (Serial_flushInput os)" "steps dev_step (Serial_flushOutput os)"
    by (rule steps_mono [OF listen_flush(2) listen_dev], assumption,
        rule steps_mono [OF listen_flush(3) listen_dev])
  show "steps dev_step (Serial_write os data)"
  proof (rule stepsI)
    fix s show "dev_step s (snd (Serial_write os data s))"
      using Serial_write_wire [of os data s] by (auto simp: wp_def case_prod_unfold port_dev)
  qed
  show "steps dev_step (Serial_readline_into os b n eol)"
    by (rule steps_mono [OF listen_readline(1) listen_dev])
  show "steps dev_step (Serial_readlines os n eol)"
    by (rule steps_mono [OF listen_readlines listen_dev])
  show "steps dev_step (Serial_waitReadable os)"
    unfolding Serial_waitReadable_def impl_getTimeout_def
    by (intro dev.steps_rules steps_mono [OF quiet_waitReadable]) (auto intro: listen_dev quiet_listen)
  show "steps dev_step Serial_isOpen"
    unfolding Serial_isOpen_def impl_isOpen_def by (rule dev.steps_gets)
qed

lemma dev_sleep: "steps dev_step (sleep_for os ms)"
  by (rule stepsI) (simp add: run_simps dev_step_def)

lemma dev_setTimeout: "steps dev_step (Serial_setTimeout t)"
  unfolding Serial_setTimeout_def impl_setTimeout_def
  by (rule dev.steps_modify) (simp add: dev_step_def)

lemma dev_write_cmd: "steps dev_step (Device_write_cmd os cmd)"
  unfolding Device_write_cmd_def by (intro dev.steps_rules dev_Serial)

lemma dev_read_cmd: "steps dev_step (Device_read_cmd os answer)"
  unfolding Device_read_cmd_def by (intro dev.steps_rules dev_Serial)

lemma dev_read_lines: "steps dev_step (Device_read_lines os)"
  unfolding Device_read_lines_def by (intro dev.steps_rules dev_Serial)

lemma dev_reset: "steps dev_step (Device_reset_connection os)"
  unfolding Device_reset_connection_def by (intro dev.steps_rules dev_Serial)

lemma dev_write_retry:
  "(\<And>c. steps dev_step (wr c)) \<Longrightarrow> steps dev_step reset \<Longrightarrow> steps dev_step (write_retry wr reset cmd e)"
  unfolding write_retry_def by (intro dev.steps_rules)

lemmas dev_ops = dev_Serial dev_sleep dev_setTimeout dev_write_cmd dev_read_cmd dev_read_lines dev_reset
  dev_write_retry

text \<open>The derived fields through \<open>simpl.more\<close>.\<close>

lemma dev_step_fields:
  fixes s t :: "('w, 'z) device_scheme"
  assumes "dev_step s t"
  shows "m_comport t = m_comport s" "m_baud t = m_baud s" "m_com_pre t = m_com_pre s"
    "m_com_sfx t = m_com_sfx s" "m_read_sfx t = m_read_sfx s" "m_timeout_ms t = m_timeout_ms s"
    "device.more t = device.more s" "Device_msg t = Device_msg s"
proof -
  have m: "simpl.more t = simpl.more s" using assms by (simp add: dev_step_def)
  show f: "m_comport t = m_comport s" "m_baud t = m_baud s" "m_com_pre t = m_com_pre s"
    "m_com_sfx t = m_com_sfx s" "m_read_sfx t = m_read_sfx s" "m_timeout_ms t = m_timeout_ms s"
    "device.more t = device.more s"
    using m by (cases s, cases t, simp)+
  show "Device_msg t = Device_msg s" by (rule ext) (simp add: Device_msg_def f)
qed

section \<open>Locks\<close>

lemma lock_Serial_isOpen: "lock_safe Serial_isOpen"
  unfolding Serial_isOpen_def impl_isOpen_def by (rule lock_rules)

lemma lock_waitReadable: "lock_safe (Serial_waitReadable os)"
  unfolding Serial_waitReadable_def impl_getTimeout_def
  by (intro lock_rules lock_safe_keeps nodead_read_parts steps_mono [OF quiet_waitReadable])
    (simp add: quiet_step_def io_keeps)

lemma lock_sleep: "lock_safe (sleep_for os ms)"
  unfolding sleep_for_def sysdo_def record_event_def
  by (intro lock_rules lock_safe_modify) (simp_all add: keeps_locks_def)

lemmas lock_Serial = lock_Serial_isOpen lock_waitReadable lock_sleep lock_safe_open lock_safe_flush
  lock_safe_write lock_safe_read lock_safe_readline lock_safe_readlines lock_safe_setPort
  lock_safe_setBaudrate lock_safe_setTimeout

lemma lock_write_cmd: "lock_safe (Device_write_cmd os cmd)"
  unfolding Device_write_cmd_def by (intro lock_rules lock_Serial)

lemma lock_read_cmd: "lock_safe (Device_read_cmd os answer)"
  unfolding Device_read_cmd_def by (intro lock_rules lock_Serial)

lemma lock_read_lines: "lock_safe (Device_read_lines os)"
  unfolding Device_read_lines_def by (intro lock_rules lock_Serial)

lemma lock_reset: "lock_safe (Device_reset_connection os)"
  unfolding Device_reset_connection_def by (intro lock_rules lock_Serial)

lemma lock_write_retry:
  "(\<And>c. lock_safe (wr c)) \<Longrightarrow> lock_safe reset \<Longrightarrow> lock_safe (write_retry wr reset cmd e)"
  unfolding write_retry_def by (intro lock_rules)

lemmas lock_ops = lock_Serial lock_write_cmd lock_read_cmd lock_read_lines lock_reset lock_write_retry

section \<open>What goes over the wire\<close>

text \<open>\<open>mute_step\<close>: a \<open>dev_step\<close> that sends nothing.\<close>

definition mute_step :: "('w, 'z) simpl_scheme \<Rightarrow> ('w, 'z) simpl_scheme \<Rightarrow> bool" where
  "mute_step s t = (dev_step s t \<and> wire t = wire s)"

interpretation mute: step_rel mute_step
  by unfold_locales (auto simp: mute_step_def intro: dev.R_refl dev.R_trans)

lemma listen_mute: "listen_step s t \<Longrightarrow> mute_step s t"
  by (simp add: mute_step_def listen_dev, simp add: listen_step_def)

lemma conf_mute: "conf_step s t \<Longrightarrow> mute_step s t"
  by (simp add: mute_step_def conf_dev conf_step_fields)

lemma mute_Serial:
  "steps mute_step (Serial_open os)" "steps mute_step (Serial_close os)"
  "steps mute_step (Serial_flushInput os)" "steps mute_step (Serial_flushOutput os)"
  "steps mute_step (Serial_readline_into os b n eol)"
  "steps mute_step (Serial_readlines os n eol)" "steps mute_step (Serial_waitReadable os)"
  "steps mute_step Serial_isOpen" "steps mute_step (sleep_for os ms)"
  "steps mute_step (Serial_setTimeout tmo)"
proof -
  show "steps mute_step (Serial_open os)" "steps mute_step (Serial_close os)"
    unfolding Serial_open_def Serial_close_def
    by (rule steps_mono [OF conf_open conf_mute], assumption, rule steps_mono [OF conf_close conf_mute])
  show "steps mute_step (Serial_flushInput os)" "steps mute_step (Serial_flushOutput os)"
    by (rule steps_mono [OF listen_flush(2) listen_mute], assumption,
        rule steps_mono [OF listen_flush(3) listen_mute])
  show "steps mute_step (Serial_readline_into os b n eol)"
    by (rule steps_mono [OF listen_readline(1) listen_mute])
  show "steps mute_step (Serial_readlines os n eol)"
    by (rule steps_mono [OF listen_readlines listen_mute])
  show "steps mute_step (Serial_waitReadable os)"
    unfolding Serial_waitReadable_def impl_getTimeout_def
    by (intro mute.steps_rules steps_mono [OF quiet_waitReadable]) (auto intro: listen_mute quiet_listen)
  show "steps mute_step Serial_isOpen"
    unfolding Serial_isOpen_def impl_isOpen_def by (rule mute.steps_gets)
  show "steps mute_step (sleep_for os ms)"
    by (rule stepsI) (simp add: run_simps mute_step_def dev_step_def)
  show "steps mute_step (Serial_setTimeout tmo)"
    unfolding Serial_setTimeout_def impl_setTimeout_def
    by (rule mute.steps_modify) (simp add: mute_step_def dev_step_def wire_def)
qed

lemma mute_read_cmd: "steps mute_step (Device_read_cmd os answer)"
  unfolding Device_read_cmd_def by (intro mute.steps_rules mute_Serial)

lemma mute_read_lines: "steps mute_step (Device_read_lines os)"
  unfolding Device_read_lines_def by (intro mute.steps_rules mute_Serial)

lemma mute_reset: "steps mute_step (Device_reset_connection os)"
  unfolding Device_reset_connection_def by (intro mute.steps_rules mute_Serial)

lemmas mute_ops = mute_Serial mute_read_cmd mute_read_lines mute_reset

text \<open>An attempt to send \<open>m\<close>: some prefix of it went out, and the answer tells whether it was all.\<close>

definition attempt :: "string \<Rightarrow> bool outcome \<Rightarrow> string \<Rightarrow> bool" where
  "attempt m r p = (\<exists>k \<le> length m. p = take k m \<and> (\<forall>b. r = Ret b \<longrightarrow> b = (k = length m)))"

text \<open>A command sent with a retry: on return it went out whole, after at most one incomplete attempt.\<close>

definition delivered :: "string \<Rightarrow> unit outcome \<Rightarrow> string \<Rightarrow> bool" where
  "delivered m r p =
     (if r = Ret () then p = m \<or> (\<exists>k < length m. p = take k m @ m)
      else \<exists>k \<le> length m. \<exists>j \<le> length m. p = take k m @ take j m)"

lemma delivered_fail:
  "k \<le> length m \<Longrightarrow> j \<le> length m \<Longrightarrow> r \<noteq> Ret () \<Longrightarrow> delivered m r (take k m @ take j m)"
  "k \<le> length m \<Longrightarrow> r \<noteq> Ret () \<Longrightarrow> delivered m r (take k m)"
proof -
  show "delivered m r (take k m @ take j m)" if "k \<le> length m" "j \<le> length m" "r \<noteq> Ret ()" for j
    using that unfolding delivered_def by auto
  from this [of 0] show "delivered m r (take k m)" if "k \<le> length m" "r \<noteq> Ret ()"
    using that by simp
qed

lemma delivered_ok: "k < length m \<Longrightarrow> delivered m (Ret ()) (take k m @ m)" "delivered m (Ret ()) m"
  by (auto simp: delivered_def)

locale command_link = step_rel same
  for same :: "'s \<Rightarrow> 's \<Rightarrow> bool" +
  fixes msg :: "'s \<Rightarrow> string \<Rightarrow> string" and sent :: "'s \<Rightarrow> string"
    and wr :: "string \<Rightarrow> ('s, bool) prog" and reset :: "('s, unit) prog"
  assumes write_law: "wp (wr c) (\<lambda>r t. same s t \<and> (\<exists>p. sent t = sent s @ p \<and> attempt (msg s c) r p)) s"
    and reset_law: "wp reset (\<lambda>r t. same s t \<and> sent t = sent s) s"
    and same_msg: "same s t \<Longrightarrow> msg t c = msg s c"
begin

lemma second_attempt:
  assumes "same s u" "sent u = sent s @ take k (msg s c)" "k \<le> length (msg s c)" "k < length (msg s c)"
  shows "wp (bind (wr c) (\<lambda>ok. whenM (\<not> ok) (throw e)))
    (\<lambda>r t. same s t \<and> (\<exists>p. sent t = sent s @ p \<and> delivered (msg s c) r p)) u"
  unfolding wp_bind
proof (rule wp_mono [OF write_law])
  fix r t
  assume "same u t \<and> (\<exists>p. sent t = sent u @ p \<and> attempt (msg u c) r p)"
  then obtain j where j: "same s t" "j \<le> length (msg s c)" "sent t = sent s @ take k (msg s c) @ take j (msg s c)"
    "\<forall>b. r = Ret b \<longrightarrow> b = (j = length (msg s c))"
    using assms same_msg [OF assms(1)] by (auto simp: attempt_def intro: R_trans)
  then show "onward (\<lambda>ok. wp (whenM (\<not> ok) (throw e))
      (\<lambda>r t. same s t \<and> (\<exists>p. sent t = sent s @ p \<and> delivered (msg s c) r p)))
      (\<lambda>r t. same s t \<and> (\<exists>p. sent t = sent s @ p \<and> delivered (msg s c) r p)) r t"
    using assms(3,4) by (cases r) (auto simp: wp_simps intro: delivered_fail delivered_ok)
qed

lemma retry_delivers:
  "wp (write_retry wr reset c e)
     (\<lambda>r t. same s t \<and> (\<exists>p. sent t = sent s @ p \<and> delivered (msg s c) r p)) s"
  unfolding write_retry_def wp_bind
proof (rule wp_mono [OF write_law])
  let ?Q = "\<lambda>r t. same s t \<and> (\<exists>p. sent t = sent s @ p \<and> delivered (msg s c) r p)"
  fix r t
  assume "same s t \<and> (\<exists>p. sent t = sent s @ p \<and> attempt (msg s c) r p)"
  then obtain k where k: "same s t" "k \<le> length (msg s c)" "sent t = sent s @ take k (msg s c)"
    "\<forall>b. r = Ret b \<longrightarrow> b = (k = length (msg s c))"
    by (auto simp: attempt_def)
  have fail: "?Q q u" if "same s u" "sent u = sent t" "q \<noteq> Ret ()" for q u
    using that k by (auto intro: delivered_fail)
  have again: "wp (andthen reset (bind (wr c) (\<lambda>ok. whenM (\<not> ok) (throw e)))) ?Q t"
    if "k < length (msg s c)"
    unfolding wp_andthen
    by (rule wp_mono [OF reset_law])
      (use k that fail in \<open>auto simp: onward_def split: outcome.splits intro: R_trans
         intro!: second_attempt [of _ _ k]\<close>)
  show "onward (\<lambda>ok. wp (whenM (\<not> ok) (andthen reset (bind (wr c) (\<lambda>ok. whenM (\<not> ok) (throw e))))) ?Q) ?Q r t"
    using k fail again by (cases r) (auto simp: wp_whenM intro: delivered_ok)
qed

end

text \<open>The link \<open>Device\<close> provides; the subclasses wrap it.\<close>

lemma Device_write_attempt:
  "wp (Device_write_cmd os cmd) (\<lambda>r t. dev_step s t \<and> (\<exists>p. wire t = wire s @ p \<and> attempt (Device_msg s cmd) r p)) s"
proof -
  let ?Q = "\<lambda>r t. \<exists>p. wire t = wire s @ p \<and> attempt (Device_msg s cmd) r p"
  have fail: "?Q (Exn e) t" "?Q (Stuck x) t" if "mute_step s t" for e x t
    using that by (auto simp: mute_step_def attempt_def intro!: exI [of _ 0])
  have send: "wp (bind (Serial_write os msg) (\<lambda>n. return (n = length msg))) ?Q t"
    if "mute_step s t" "msg = Device_msg s cmd" for t msg
    unfolding wp_bind
    by (rule wp_mono [OF Serial_write_wire])
      (use that in \<open>auto simp: onward_def wp_simps mute_step_def attempt_def split: outcome.splits\<close>)
  have msg: "Device_msg t cmd = Device_msg s cmd" if "mute_step s t" for t
    using that dev_step_fields(8) [of s t] by (simp add: mute_step_def)
  have "wp (Device_write_cmd os cmd) ?Q s"
    unfolding Device_write_cmd_def
    by (intro wp_bind_steps [OF mute_Serial(8)] wp_andthen_steps [OF mute_Serial(3)]
        wp_andthen_steps [OF mute_Serial(4)] wp_andthen_steps [OF mute.steps_whenM [OF mute_Serial(1)]])
      (auto intro: fail mute.R_trans intro!: send msg simp: wp_bind [of "gets _"] wp_gets)
  then show ?thesis using wp_conj [OF steps_wp [OF dev_write_cmd]] by fastforce
qed

interpretation device_link: command_link dev_step Device_msg wire "Device_write_cmd os" "Device_reset_connection os"
  for os :: "'w os"
proof
  show "wp (Device_write_cmd os c) (\<lambda>r t. dev_step s t \<and> (\<exists>p. wire t = wire s @ p \<and> attempt (Device_msg s c) r p)) s"
    for s :: "('w, 'z) device_scheme" and c
    by (rule Device_write_attempt)
  show "wp (Device_reset_connection os) (\<lambda>r t. dev_step s t \<and> wire t = wire s) s" for s :: "('w, 'z) device_scheme"
    using steps_wp [OF mute_reset] by (simp add: mute_step_def)
  show "Device_msg t c = Device_msg s c" if "dev_step s t" for s t :: "('w, 'z) device_scheme" and c
    using dev_step_fields(8) [OF that] by simp
qed

section \<open>What comes back\<close>

lemma Device_read_cmd_spec:
  assumes "Device_read_cmd os answer s = (Ret (ok, a), t)"
  obtains line where "inbox t = inbox s @ line" "length line \<le> read_max"
    "no_eol_inside (m_read_sfx s) line" "ok = (line \<noteq> [] \<and> length (m_read_sfx s) \<le> length line)"
    "a = answer @ (if ok then take (length line - length (m_read_sfx s)) line else line)"
proof -
  obtain n b where r: "Serial_readline_into os answer read_max (m_read_sfx s) s = (Ret (n, b), t)"
    and ok: "ok = (n \<noteq> 0 \<and> length (m_read_sfx s) \<le> n)"
    and a: "a = (if \<not> ok then b else if length b < length (m_read_sfx s) then rtrim b
         else take (length b - length (m_read_sfx s)) b)"
    using assms
    by (auto simp: Device_read_cmd_def run_simps str_erase_from_def split: prod.splits outcome.splits if_splits)
  from r obtain line where l: "b = answer @ line" "n = length line" "inbox t = inbox s @ line"
    "length line \<le> read_max" "no_eol_inside (m_read_sfx s) line"
    by (rule Serial_readline_into_spec)
  show ?thesis
    by (rule that [OF l(3-5)]) (use ok a l(1,2) in \<open>auto split: if_splits\<close>)
qed


definition hear_step :: "('w, 'z) simpl_scheme \<Rightarrow> ('w, 'z) simpl_scheme \<Rightarrow> bool" where
  "hear_step s t = (dev_step s t \<and> inbox t = inbox s)"

interpretation hear: step_rel hear_step
  by unfold_locales (auto simp: hear_step_def intro: dev.R_refl dev.R_trans)

lemma Device_read_lines_spec:
  assumes "Device_read_lines os s = (Ret lines, t)" "length (m_read_sfx s) \<le> read_max"
  shows "inbox t = inbox s @ concat lines" "[] \<notin> set lines"
    "Suc i < length lines \<Longrightarrow> ends_with (m_read_sfx s) (concat (take (Suc i) lines))"
  using assms Serial_readlines_spec [of os read_max "m_read_sfx s" s lines t]
  by (simp_all add: Device_read_lines_def run_simps)

text \<open>Sending and reconnecting take nothing from the input.\<close>

lemma hear_conf: "conf_step s t \<Longrightarrow> hear_step s t"
  by (simp add: hear_step_def conf_dev conf_step_fields)

lemma hear_Serial:
  "steps hear_step (Serial_open os)" "steps hear_step (Serial_close os)"
  "steps hear_step (Serial_flushInput os)" "steps hear_step (Serial_flushOutput os)"
  "steps hear_step (Serial_write os data)" "steps hear_step Serial_isOpen" "steps hear_step (sleep_for os ms)"
proof -
  show "steps hear_step (Serial_open os)" "steps hear_step (Serial_close os)"
    unfolding Serial_open_def Serial_close_def
    by (rule steps_mono [OF conf_open hear_conf], assumption, rule steps_mono [OF conf_close hear_conf])
  show "steps hear_step (Serial_write os data)"
  proof (rule stepsI)
    fix s show "hear_step s (snd (Serial_write os data s))"
      using Serial_write_wire [of os data s] by (auto simp: wp_def case_prod_unfold hear_step_def port_dev)
  qed
  have lock: "steps hear_step impl_readLock" "steps hear_step impl_readUnlock"
    "steps hear_step impl_writeLock" "steps hear_step impl_writeUnlock"
    unfolding impl_readLock_def impl_readUnlock_def impl_writeLock_def impl_writeUnlock_def
    by (auto intro!: hear.steps_rules hear.steps_modify simp: hear_step_def dev_step_def)
  have sys: "steps hear_step (sysdo f)" "received_of e = [] \<Longrightarrow> steps hear_step (record_event e)" for f e
    by (auto intro!: stepsI simp: run_simps hear_step_def dev_step_def)
  show "steps hear_step (Serial_flushInput os)" "steps hear_step (Serial_flushOutput os)"
    unfolding Serial_flushInput_def Serial_flushOutput_def ScopedReadLock_def ScopedWriteLock_def
      impl_flushInput_def impl_flushOutput_def on_open_port_def
    by (intro hear.steps_rules lock sys; simp)+
  show "steps hear_step Serial_isOpen" unfolding Serial_isOpen_def impl_isOpen_def by (rule hear.steps_gets)
  show "steps hear_step (sleep_for os ms)" unfolding sleep_for_def by (intro hear.steps_rules sys) simp
qed

lemma hear_write_cmd: "steps hear_step (Device_write_cmd os cmd)"
  unfolding Device_write_cmd_def by (intro hear.steps_rules hear_Serial)

lemma hear_reset: "steps hear_step (Device_reset_connection os)"
  unfolding Device_reset_connection_def by (intro hear.steps_rules hear_Serial)

lemma hear_write_retry:
  "(\<And>c. steps hear_step (wr c)) \<Longrightarrow> steps hear_step reset \<Longrightarrow> steps hear_step (write_retry wr reset cmd e)"
  unfolding write_retry_def by (intro hear.steps_rules)

lemmas [sim_run] = Device_write_cmd_def Device_msg_def Device_read_cmd_def Device_read_lines_def
  Device_reset_connection_def write_retry_def CR_def LF_def read_max_def

end
