(* ===== verification/Cpp_Float.thy ===== *)
theory Cpp_Float
  imports Cpp_Strings
begin

text \<open>
  The floating-point values of the sources, as far as the drivers look at them: comparing with a
  literal, and printing with \<open>std::fixed << std::setprecision(p)\<close>. A finite value is kept as sign,
  mantissa and binary exponent, so both \<open>float\<close> and \<open>double\<close> values are represented exactly and the
  promotion from one to the other is the identity.
\<close>

section \<open>Values and comparison\<close>

datatype cfloat = Fin bool nat int | Infty bool | NaN bool

text \<open>\<open>Fin s m x\<close> is \<open>(- 1) ^ s * m * 2 ^ x\<close>; \<open>scaled\<close> is that value over \<open>2 ^ e\<close>, for \<open>e \<le> x\<close>.\<close>

definition scaled :: "bool \<Rightarrow> nat \<Rightarrow> int \<Rightarrow> int \<Rightarrow> int" where
  "scaled s m x e = (if s then - 1 else 1) * int m * 2 ^ nat (x - e)"

text \<open>The operator \<open><\<close>: false when an operand is a NaN.\<close>

fun cless :: "cfloat \<Rightarrow> cfloat \<Rightarrow> bool" where
  "cless (NaN _) _ = False"
| "cless _ (NaN _) = False"
| "cless (Infty s) (Infty s') = (s \<and> \<not> s')"
| "cless (Infty s) (Fin _ _ _) = s"
| "cless (Fin _ _ _) (Infty s) = (\<not> s)"
| "cless (Fin s m x) (Fin s' m' x') = (scaled s m x (min x x') < scaled s' m' x' (min x x'))"

text \<open>Literals: 0, and the \<open>double\<close> nearest to 1.3.\<close>

definition f_zero :: cfloat where
  "f_zero = Fin False 0 0"

definition d_1_3 :: cfloat where
  "d_1_3 = Fin False 5854679515581645 (- 52)"

definition is_fin :: "cfloat \<Rightarrow> bool" where
  "is_fin f = (case f of Fin _ _ _ \<Rightarrow> True | _ \<Rightarrow> False)"

section \<open>Fixed notation\<close>

text \<open>\<open>m * 2 ^ x * 10 ^ p\<close> rounded to an integer, ties to even.\<close>

definition round_fixed :: "nat \<Rightarrow> nat \<Rightarrow> int \<Rightarrow> nat" where
  "round_fixed p m x =
     (if 0 \<le> x then m * 2 ^ nat x * 10 ^ p
      else let d = 2 ^ nat (- x); q = m * 10 ^ p div d; r = m * 10 ^ p mod d
           in if 2 * r < d \<or> 2 * r = d \<and> even q then q else q + 1)"

definition show_decimal :: "nat \<Rightarrow> nat \<Rightarrow> string" where
  "show_decimal p n =
     show_nat (n div 10 ^ p) @ (if p = 0 then [] else ''.'' @ setw_fill CHR ''0'' p (show_nat (n mod 10 ^ p)))"

definition show_fixed :: "nat \<Rightarrow> cfloat \<Rightarrow> string" where
  "show_fixed p f = (case f of
      Fin s m x \<Rightarrow> (if s then ''-'' else []) @ show_decimal p (round_fixed p m x)
    | Infty s \<Rightarrow> if s then ''-inf'' else ''inf''
    | NaN s \<Rightarrow> if s then ''-nan'' else ''nan'')"

section \<open>Facts\<close>

text \<open>The printed number is within half a unit of the last place.\<close>

lemma round_fixed_exact: "0 \<le> x \<Longrightarrow> round_fixed p m x = m * 2 ^ nat x * 10 ^ p"
  by (simp add: round_fixed_def)

lemma round_fixed_near:
  assumes "x < 0"
  shows "2 * (round_fixed p m x * 2 ^ nat (- x)) \<le> 2 * (m * 10 ^ p) + 2 ^ nat (- x)"
    "2 * (m * 10 ^ p) \<le> 2 * (round_fixed p m x * 2 ^ nat (- x)) + 2 ^ nat (- x)"
proof -
  define d :: nat where "d = 2 ^ nat (- x)"
  define q r where "q = m * 10 ^ p div d" and "r = m * 10 ^ p mod d"
  have eq: "m * 10 ^ p = q * d + r" by (simp add: q_def r_def)
  have r: "r < d" by (simp add: r_def d_def)
  have n: "round_fixed p m x = (if 2 * r < d \<or> 2 * r = d \<and> even q then q else q + 1)"
    using assms by (simp add: round_fixed_def Let_def q_def r_def d_def)
  show "2 * (round_fixed p m x * 2 ^ nat (- x)) \<le> 2 * (m * 10 ^ p) + 2 ^ nat (- x)"
    unfolding n eq d_def [symmetric] using r by (auto simp: algebra_simps)
  show "2 * (m * 10 ^ p) \<le> 2 * (round_fixed p m x * 2 ^ nat (- x)) + 2 ^ nat (- x)"
    unfolding n eq d_def [symmetric] using r by (auto simp: algebra_simps)
qed

lemma not_cless_zero: "\<not> cless (Fin s m x) f_zero \<Longrightarrow> m = 0 \<or> \<not> s"
  by (auto simp: f_zero_def scaled_def zero_less_mult_iff split: if_splits)

lemma le_1_3_scaled:
  assumes "\<not> cless d_1_3 (Fin False m x)" "x < 0"
  shows "m * 2 ^ 52 \<le> 5854679515581645 * 2 ^ nat (- x)"
proof (cases "x \<le> - 52")
  case True
  then have "int m \<le> 5854679515581645 * 2 ^ nat (- 52 - x)"
    using assms by (simp add: d_1_3_def scaled_def min_def split: if_splits)
  then have "int m \<le> int (5854679515581645 * 2 ^ nat (- 52 - x))" by simp
  then have "m \<le> 5854679515581645 * 2 ^ nat (- 52 - x)" by (simp only: of_nat_le_iff)
  then have "m * 2 ^ 52 \<le> 5854679515581645 * 2 ^ nat (- 52 - x) * 2 ^ 52" by (rule mult_right_mono) simp
  also have "\<dots> = 5854679515581645 * 2 ^ nat (- x)"
  proof -
    have "nat (- x) = nat (- 52 - x) + 52" using True by linarith
    then show ?thesis by (simp add: power_add)
  qed
  finally show ?thesis .
next
  case f: False
  then have "int m * 2 ^ nat (x + 52) \<le> 5854679515581645"
    using assms by (simp add: d_1_3_def scaled_def min_def split: if_splits)
  then have "int (m * 2 ^ nat (x + 52)) \<le> int 5854679515581645" by simp
  then have "m * 2 ^ nat (x + 52) \<le> 5854679515581645" by (simp only: of_nat_le_iff)
  then have "m * 2 ^ nat (x + 52) * 2 ^ nat (- x) \<le> 5854679515581645 * 2 ^ nat (- x)" by (rule mult_right_mono) simp
  also have "m * 2 ^ nat (x + 52) * 2 ^ nat (- x) = m * 2 ^ 52"
  proof -
    have "52 = nat (x + 52) + nat (- x)" using f assms(2) by linarith
    then have "(2::nat) ^ 52 = 2 ^ nat (x + 52) * 2 ^ nat (- x)" by (metis power_add)
    then show ?thesis by simp
  qed
  finally show ?thesis by simp
qed

text \<open>A non-negative value up to 1.3 prints as at most 1.30.\<close>

lemma round_up_to_1_3:
  assumes "\<not> cless d_1_3 (Fin False m x)"
  shows "round_fixed 2 m x \<le> 130"
proof (cases "0 \<le> x")
  case True
  then have "int m * 2 ^ nat (x + 52) \<le> 5854679515581645"
    using assms by (simp add: d_1_3_def scaled_def min_def split: if_splits)
  moreover have "nat (x + 52) = nat x + 52" using True by (simp add: nat_add_distrib)
  ultimately have "int m * 2 ^ nat x * 4503599627370496 \<le> 5854679515581645"
    by (simp add: power_add)
  then have "int (m * 2 ^ nat x) \<le> 1" by simp
  then have "m * 2 ^ nat x \<le> 1" by linarith
  then show ?thesis using True by (simp add: round_fixed_exact)
next
  case False
  define d :: nat where "d = 2 ^ nat (- x)"
  have m: "m * 2 ^ 52 \<le> 5854679515581645 * d"
    using le_1_3_scaled [OF assms] False by (simp add: d_def)
  have d: "0 < d" by (simp add: d_def)
  have "2 * (round_fixed 2 m x * d) \<le> 200 * m + d"
    using round_fixed_near(1) [of x 2 m] False by (simp add: d_def)
  then have "2 * round_fixed 2 m x * d * 2 ^ 52 \<le> 200 * (m * 2 ^ 52) + d * 2 ^ 52" by simp
  also have "\<dots> \<le> 200 * (5854679515581645 * d) + d * 2 ^ 52" using m by simp
  also have "\<dots> = (200 * 5854679515581645 + 2 ^ 52) * d" by simp
  finally have "2 * round_fixed 2 m x * 2 ^ 52 * d \<le> (200 * 5854679515581645 + 2 ^ 52) * d"
    by (simp add: ac_simps)
  then have "2 * round_fixed 2 m x * 2 ^ 52 \<le> 200 * 5854679515581645 + 2 ^ 52"
    using d by (simp only: mult_le_cancel2)
  then show ?thesis by simp
qed

end
