(* ===== verification/Laser.thy ===== *)
theory Laser
  imports Device Cpp_Float "HOL-Library.List_Lexorder" "HOL-Library.Char_ord"
begin

text \<open>
  \<open>src/src/Laser.cpp\<close> and \<open>src/include/Laser.hh\<close>: the driver of the Surelite laser. Every setter sends
  one command and then updates the cached value; the two queries read the echo and the answer back.
\<close>

section \<open>State and operations\<close>

record 'w laser = "'w device" +
  m_is_firing :: bool
  m_prescale :: "32 word"
  m_pump_hv :: cfloat
  m_rate :: cfloat
  m_qswitch :: "32 word"
  m_sec_map :: "(string, string) std_map"
  m_wait_read :: bool

datatype shutter_t = Shutter_Open | Shutter_Closed
datatype fire_t = Fire_Start | Fire_Stop

primrec shutter_num :: "shutter_t \<Rightarrow> nat" where
  "shutter_num Shutter_Open = 1"
| "shutter_num Shutter_Closed = 0"

primrec fire_num :: "fire_t \<Rightarrow> nat" where
  "fire_num Fire_Start = 1"
| "fire_num Fire_Stop = 0"

definition sec_entries :: "(string \<times> string) list" where
  "sec_entries =
     [(''00'', ''Normal''), (''01'', ''Surelite not in serial mode''), (''02'', ''Coolant flow interrupted''),
      (''03'', ''Coolant temperature over temp''), (''04'', ''(not used)''), (''05'', ''Laser head problem''),
      (''06'', ''External interlock''), (''07'', ''End of charge not detected before lamp fire''),
      (''08'', ''Simmer not detected''), (''09'', ''Flow switch stuck on'')]"

definition init_sec_map :: "(string, string) std_map" where
  "init_sec_map = fold (\<lambda>(k, v). map_insert k v) sec_entries []"

text \<open>The body of the constructor. When it throws, the destructor of the base runs.\<close>

definition Laser_ctor :: "'w os \<Rightarrow> string \<Rightarrow> 32 word \<Rightarrow> (('w, 'z) laser_scheme, unit) prog" where
  "Laser_ctor os comport baud_rate =
     andthen (Device_ctor os comport baud_rate)
    (andthen (modify (\<lambda>s. s\<lparr>m_is_firing := False, m_prescale := 0, m_pump_hv := Fin False 9227469 (- 23),
        m_rate := Fin False 10 0, m_qswitch := 170, m_wait_read := False,
        m_read_sfx := m_com_sfx s, m_sec_map := init_sec_map\<rparr>))
    (try_catch
      (bind (gets (\<lambda>s. s)) (\<lambda>s.
       andthen (Serial_setPort os (m_comport s))
      (andthen (Serial_setBaudrate os (m_baud s))
      (andthen (Serial_setBytesize os eightbits)
      (andthen (Serial_setParity os parity_none)
      (andthen (Serial_setStopbits os stopbits_one)
      (andthen (Serial_setTimeout (simpleTimeout (m_timeout_ms s)))
      (andthen (Serial_open os)
      (bind Serial_isOpen (\<lambda>is_open.
       whenM (\<not> is_open) (throw (PortNotOpenedException
         (''Failed to open the port ['' @ m_comport s @ '':'' @ show_nat (unat (m_baud s)) @ '']'')))))))))))))
      (\<lambda>e. andthen (Device_destroy os) (throw e))))"

definition Laser_write_cmd :: "'w os \<Rightarrow> string \<Rightarrow> (('w, 'z) laser_scheme, bool) prog" where
  "Laser_write_cmd os cmd =
     bind (Device_write_cmd os cmd) (\<lambda>ret. andthen (sleep_for os 50) (return ret))"

definition Laser_read_cmd :: "'w os \<Rightarrow> string \<Rightarrow> (('w, 'z) laser_scheme, bool \<times> string) prog" where
  "Laser_read_cmd os answer =
     bind (gets m_wait_read) (\<lambda>wait.
     andthen (whenM wait (bind (Serial_waitReadable os) (\<lambda>_. return ())))
    (bind (gets m_read_sfx) (\<lambda>sfx.
     bind (Serial_readline_into os answer read_max sfx) (\<lambda>(nbytes, answer).
     if nbytes = 0 then
       andthen (Device_reset_connection os)
         (bind (Serial_readline_into os answer read_max sfx) (\<lambda>(nbytes, answer).
            return (nbytes \<noteq> 0, answer)))
     else if nbytes \<le> length sfx then return (False, answer)
     else bind (lift (str_erase_from answer (size_sub (length answer) (length sfx)))) (\<lambda>answer.
            return (True, answer))))))"

text \<open>Sending with one retry, as each setter spells it out; \<open>what\<close> is the text of the exception.\<close>

definition Laser_send :: "'w os \<Rightarrow> string \<Rightarrow> string \<Rightarrow> (('w, 'z) laser_scheme, unit) prog" where
  "Laser_send os cmd what =
     write_retry (Laser_write_cmd os) (Device_reset_connection os) cmd (IOException what)"

definition Laser_shutter :: "'w os \<Rightarrow> shutter_t \<Rightarrow> (('w, 'z) laser_scheme, unit) prog" where
  "Laser_shutter os s = Laser_send os (''SH '' @ show_nat (shutter_num s)) ''Failed to send SH command''"

definition Laser_fire :: "'w os \<Rightarrow> fire_t \<Rightarrow> (('w, 'z) laser_scheme, unit) prog" where
  "Laser_fire os f =
     andthen (Laser_send os (''ST '' @ show_nat (fire_num f)) ''Failed to send ST command'')
       (modify (\<lambda>s. s\<lparr>m_is_firing := (f = Fire_Start)\<rparr>))"

definition Laser_set_prescale :: "'w os \<Rightarrow> 32 word \<Rightarrow> (('w, 'z) laser_scheme, unit) prog" where
  "Laser_set_prescale os pre0 =
     (let pre = if 99 < pre0 then 99 else pre0 in
      andthen (Laser_send os (''PD '' @ setw_fill CHR ''0'' 3 (show_nat (unat pre))) ''Failed to send PD command'')
        (modify (\<lambda>s. s\<lparr>m_prescale := pre\<rparr>)))"

definition Laser_set_pump_voltage :: "'w os \<Rightarrow> cfloat \<Rightarrow> (('w, 'z) laser_scheme, unit) prog" where
  "Laser_set_pump_voltage os hv =
     (if cless d_1_3 hv \<or> cless hv f_zero then throw (range_error ''Argument out of range ['')
      else andthen (Laser_send os (''VA '' @ show_fixed 2 hv) ''Failed to send VA command'')
        (modify (\<lambda>s. s\<lparr>m_pump_hv := hv\<rparr>)))"

definition Laser_single_shot :: "'w os \<Rightarrow> (('w, 'z) laser_scheme, unit) prog" where
  "Laser_single_shot os =
     andthen (Laser_set_prescale os 0) (Laser_send os ''SS'' ''Failed to send SS command'')"

text \<open>The text before the terminator of an answer line.\<close>

definition drop_last_char :: "string \<Rightarrow> string" where
  "drop_last_char resp = (if 0 < length resp then take (length resp - 1) resp else resp)"

definition Laser_get_shot_count :: "'w os \<Rightarrow> (('w, 'z) laser_scheme, 32 word) prog" where
  "Laser_get_shot_count os =
     bind (Laser_write_cmd os ''SC'') (\<lambda>_.
     bind (Device_read_lines os) (\<lambda>lines.
     bind
       (if length lines = 0 then
          andthen (Device_reset_connection os)
            (bind (Device_read_lines os) (\<lambda>lines.
               if length lines = 0 then throw (IOException ''Failed to read shot count'') else return []))
        else if length lines = 1 then
          bind (lift (vec_at lines 0)) (\<lambda>resp. return (drop_last_char resp))
        else bind (lift (vec_at lines 1)) (\<lambda>resp. return (drop_last_char resp)))
       (\<lambda>resp. bind (lift (stoul resp)) (\<lambda>n. return (ucast n)))))"

definition Laser_security_code :: "'w os \<Rightarrow> (('w, 'z) laser_scheme, string) prog" where
  "Laser_security_code os =
     andthen (Laser_send os ''SE'' ''Failed to send SE command'')
       (bind (Device_read_lines os) (\<lambda>lines.
        bind
          (if length lines = 0 then
             andthen (Device_reset_connection os)
               (bind (Device_read_lines os) (\<lambda>lines.
                  if length lines = 0 then throw (IOException ''Failed to read security code'')
                  else return lines))
           else if length lines \<noteq> 2 then
             throw (IOException ''Failed to read security code. Got unexpected number of tokens : '')
           else return lines)
          (\<lambda>lines. bind (lift (vec_at lines 1)) (\<lambda>resp.
             lift (str_erase_from resp (size_sub (length resp) 1))))))"

definition Laser_security :: "'w os \<Rightarrow> (('w, 'z) laser_scheme, string \<times> string) prog" where
  "Laser_security os =
     bind (Laser_security_code os) (\<lambda>code.
     bind (gets m_sec_map) (\<lambda>sec_map.
       return (code, case map_find sec_map code of Some msg \<Rightarrow> msg | None \<Rightarrow> [])))"

definition Laser_security_u16 :: "'w os \<Rightarrow> (('w, 'z) laser_scheme, 16 word \<times> string) prog" where
  "Laser_security_u16 os =
     bind (Laser_security os) (\<lambda>(tmp_code, msg).
     bind (lift (stoul tmp_code)) (\<lambda>n. return (ucast n, msg)))"

text \<open>\<open>static_cast<Security>\<close> of a number the four bits of the enumeration cannot hold is undefined.\<close>

definition Laser_security_enum :: "'w os \<Rightarrow> (('w, 'z) laser_scheme, int \<times> string) prog" where
  "Laser_security_enum os =
     bind (Laser_security os) (\<lambda>(tmp_code, msg).
     bind (lift (stol tmp_code)) (\<lambda>n.
       if 0 \<le> n \<and> n < 16 then return (n, msg) else stuck Undefined_behaviour))"

definition Laser_set_repetition_rate :: "'w os \<Rightarrow> cfloat \<Rightarrow> (('w, 'z) laser_scheme, unit) prog" where
  "Laser_set_repetition_rate os rate =
     andthen (Laser_send os (''RR '' @ show_fixed 1 rate) ''Failed to send RR command'')
       (modify (\<lambda>s. s\<lparr>m_rate := rate\<rparr>))"

definition Laser_set_qswitch :: "'w os \<Rightarrow> 32 word \<Rightarrow> (('w, 'z) laser_scheme, unit) prog" where
  "Laser_set_qswitch os qs0 =
     (let qs = if 999 < qs0 then 999 else qs0 in
      andthen (Laser_send os (''QS '' @ setw_fill CHR ''0'' 3 (show_nat (unat qs))) ''Failed to send QS command'')
        (modify (\<lambda>s. s\<lparr>m_qswitch := qs\<rparr>)))"

definition Laser_shutter_open :: "'w os \<Rightarrow> (('w, 'z) laser_scheme, unit) prog" where
  "Laser_shutter_open os = Laser_shutter os Shutter_Open"

definition Laser_shutter_close :: "'w os \<Rightarrow> (('w, 'z) laser_scheme, unit) prog" where
  "Laser_shutter_close os = Laser_shutter os Shutter_Closed"

definition Laser_fire_start :: "'w os \<Rightarrow> (('w, 'z) laser_scheme, unit) prog" where
  "Laser_fire_start os = Laser_fire os Fire_Start"

definition Laser_fire_stop :: "'w os \<Rightarrow> (('w, 'z) laser_scheme, unit) prog" where
  "Laser_fire_stop os = Laser_fire os Fire_Stop"

definition Laser_set_pulse_division :: "'w os \<Rightarrow> 32 word \<Rightarrow> (('w, 'z) laser_scheme, unit) prog" where
  "Laser_set_pulse_division os pd = Laser_set_prescale os pd"

text \<open>\<open>~Laser\<close> is empty; the base class closes the port.\<close>

definition Laser_destroy :: "'w os \<Rightarrow> (('w, 'z) laser_scheme, unit) prog" where
  "Laser_destroy os = Device_destroy os"

section \<open>The link\<close>

lemma dev_Laser_write: "steps dev_step (Laser_write_cmd os cmd)"
  unfolding Laser_write_cmd_def by (intro dev.steps_rules dev_ops)

lemma lock_Laser_write: "lock_safe (Laser_write_cmd os cmd)"
  unfolding Laser_write_cmd_def by (intro lock_rules lock_ops)

text \<open>A pause after the transmission keeps the contract of the link.\<close>

lemma attempt_then_sleep:
  assumes "wp (wr c) (\<lambda>r t. dev_step s t \<and> (\<exists>p. wire t = wire s @ p \<and> attempt m r p)) s"
  shows "wp (bind (wr c) (\<lambda>ret. andthen (sleep_for os ms) (return ret)))
    (\<lambda>r t. dev_step s t \<and> (\<exists>p. wire t = wire s @ p \<and> attempt m r p)) s"
  unfolding wp_bind
  by (rule wp_mono [OF assms])
    (auto simp: onward_def wp_simps attempt_def dev_step_def split: outcome.splits)

interpretation laser_link: command_link dev_step Device_msg wire "Laser_write_cmd os" "Device_reset_connection os"
  for os :: "'w os"
proof
  show "wp (Laser_write_cmd os c) (\<lambda>r t. dev_step s t \<and> (\<exists>p. wire t = wire s @ p \<and> attempt (Device_msg s c) r p)) s"
    for s :: "('w, 'z) laser_scheme" and c
    unfolding Laser_write_cmd_def by (rule attempt_then_sleep [OF Device_write_attempt])
qed (rule device_link.reset_law, rule device_link.same_msg)


text \<open>A setter: the command is delivered, and the cached value changes only if it was.\<close>

lemma Laser_setter:
  assumes "\<And>u. wire (f u) = wire u"
  shows "wp (andthen (Laser_send os c what) (modify f)) (\<lambda>r t. \<exists>u p. dev_step s u \<and> wire t = wire s @ p
      \<and> delivered (Device_msg s c) r p \<and> t = (if r = Ret () then f u else u)) s"
  unfolding wp_andthen Laser_send_def
  by (rule wp_mono [OF laser_link.retry_delivers])
    (use assms in \<open>auto simp: onward_def wp_simps split: outcome.splits\<close>)

lemma Laser_setterE:
  assumes "andthen (Laser_send os c what) (modify f) s = (r, t)" "\<And>u. wire (f u) = wire u"
  obtains u p where "dev_step s u" "wire t = wire s @ p" "delivered (Device_msg s c) r p"
    "t = (if r = Ret () then f u else u)"
  using wp_runD [OF Laser_setter [OF assms(2)] assms(1)] by blast

text \<open>Updates of the laser's own fields, seen in the part of the record that is the laser's.\<close>

lemma laser_part_cong:
  assumes "device.more u = device.more s"
  shows "device.more (u\<lparr>m_is_firing := b\<rparr>) = device.more (s\<lparr>m_is_firing := b\<rparr>)"
    "device.more (u\<lparr>m_prescale := n\<rparr>) = device.more (s\<lparr>m_prescale := n\<rparr>)"
    "device.more (u\<lparr>m_pump_hv := x\<rparr>) = device.more (s\<lparr>m_pump_hv := x\<rparr>)"
    "device.more (u\<lparr>m_rate := x\<rparr>) = device.more (s\<lparr>m_rate := x\<rparr>)"
    "device.more (u\<lparr>m_qswitch := n\<rparr>) = device.more (s\<lparr>m_qswitch := n\<rparr>)"
  using assms by (cases u, cases s, simp)+

section \<open>Number formats\<close>

text \<open>The pump voltage is sent as \<open>d.dd\<close>, at most 1.30.\<close>

lemma pump_voltage_text:
  assumes "\<not> cless d_1_3 (Fin False m x)"
  obtains n where "n \<le> 130" "show_fixed 2 (Fin False m x) = show_decimal 2 n"
  using round_up_to_1_3 [OF assms] by (auto simp: show_fixed_def)

lemma show_decimal_2:
  assumes "n < 1000"
  shows "length (show_decimal 2 n) = 4" "show_decimal 2 n ! 1 = CHR ''.''"
    "is_digit (show_decimal 2 n ! 0)"
proof -
  have d: "show_nat (n div 100) = [digit_char (n div 100)]"
    using assms by (simp add: show_nat.simps)
  have l: "length (show_nat (n mod 100)) \<le> 2"
    by (rule length_show_nat) simp_all
  show "length (show_decimal 2 n) = 4" "show_decimal 2 n ! 1 = CHR ''.''"
    using l by (simp_all add: show_decimal_def d length_setw)
  show "is_digit (show_decimal 2 n ! 0)"
    using assms by (simp add: show_decimal_def d is_digit_def)
qed

section \<open>Frames and locks of the operations\<close>

lemma dev_Laser_send: "steps dev_step (Laser_send os c what)"
  unfolding Laser_send_def by (intro dev_write_retry dev_Laser_write dev_ops)

lemma lock_Laser_send: "lock_safe (Laser_send os c what)"
  unfolding Laser_send_def by (intro lock_write_retry lock_Laser_write lock_ops)

lemma dev_Laser_queries:
  "steps dev_step (Laser_read_cmd os a)" "steps dev_step (Laser_get_shot_count os)"
  "steps dev_step (Laser_security_code os)" "steps dev_step (Laser_security os)"
  "steps dev_step (Laser_security_u16 os)" "steps dev_step (Laser_security_enum os)"
  "steps dev_step (Laser_shutter os sh)"
  unfolding Laser_read_cmd_def Laser_get_shot_count_def Laser_security_code_def Laser_security_def
    Laser_security_u16_def Laser_security_enum_def Laser_shutter_def
  by (intro dev.steps_rules dev_Laser_send dev_Laser_write dev_ops)+

lemma lock_Laser:
  "lock_safe (Laser_read_cmd os a)" "lock_safe (Laser_get_shot_count os)"
  "lock_safe (Laser_security_code os)" "lock_safe (Laser_security os)"
  "lock_safe (Laser_security_u16 os)" "lock_safe (Laser_security_enum os)"
  "lock_safe (Laser_shutter os sh)" "lock_safe (Laser_fire os f)"
  "lock_safe (Laser_set_prescale os n)" "lock_safe (Laser_set_pump_voltage os x)"
  "lock_safe (Laser_single_shot os)" "lock_safe (Laser_set_repetition_rate os x)"
  "lock_safe (Laser_set_qswitch os n)"
  unfolding Laser_read_cmd_def Laser_get_shot_count_def Laser_security_code_def Laser_security_def
    Laser_security_u16_def Laser_security_enum_def Laser_shutter_def Laser_fire_def
    Laser_set_prescale_def Laser_set_pump_voltage_def Laser_single_shot_def
    Laser_set_repetition_rate_def Laser_set_qswitch_def
  by (intro lock_rules lock_Laser_send lock_Laser_write lock_ops lock_safe_modify;
      simp add: keeps_locks_def)+

section \<open>The driver as a state machine\<close>

text \<open>One call of a public member function, whatever its outcome.\<close>

inductive laser_call :: "'w os \<Rightarrow> ('w, 'z) laser_scheme \<Rightarrow> ('w, 'z) laser_scheme \<Rightarrow> bool" for os where
  call_shutter: "Laser_shutter os sh s = (r, t) \<Longrightarrow> laser_call os s t"
| call_fire: "Laser_fire os f s = (r, t) \<Longrightarrow> laser_call os s t"
| call_prescale: "Laser_set_prescale os n s = (r, t) \<Longrightarrow> laser_call os s t"
| call_pump: "Laser_set_pump_voltage os x s = (r, t) \<Longrightarrow> laser_call os s t"
| call_single_shot: "Laser_single_shot os s = (r, t) \<Longrightarrow> laser_call os s t"
| call_shot_count: "Laser_get_shot_count os s = (c, t) \<Longrightarrow> laser_call os s t"
| call_security: "Laser_security os s = (m, t) \<Longrightarrow> laser_call os s t"
| call_rate: "Laser_set_repetition_rate os x s = (r, t) \<Longrightarrow> laser_call os s t"
| call_qswitch: "Laser_set_qswitch os n s = (r, t) \<Longrightarrow> laser_call os s t"

text \<open>The cached settings stay inside the limits of the instrument.\<close>

definition laser_ok :: "('w, 'z) laser_scheme \<Rightarrow> bool" where
  "laser_ok s = (m_prescale s \<le> 99 \<and> m_qswitch s \<le> 999 \<and> \<not> cless d_1_3 (m_pump_hv s)
     \<and> \<not> cless (m_pump_hv s) f_zero \<and> m_sec_map s = init_sec_map)"

lemma dev_step_laser:
  fixes s t :: "('w, 'z) laser_scheme"
  assumes "dev_step s t"
  shows "m_is_firing t = m_is_firing s" "m_prescale t = m_prescale s" "m_pump_hv t = m_pump_hv s"
    "m_rate t = m_rate s" "m_qswitch t = m_qswitch s" "m_sec_map t = m_sec_map s"
    "m_wait_read t = m_wait_read s" "laser.more t = laser.more s"
proof -
  have "device.more t = device.more s" using dev_step_fields [OF assms] by simp
  then show "m_is_firing t = m_is_firing s" "m_prescale t = m_prescale s" "m_pump_hv t = m_pump_hv s"
    "m_rate t = m_rate s" "m_qswitch t = m_qswitch s" "m_sec_map t = m_sec_map s"
    "m_wait_read t = m_wait_read s" "laser.more t = laser.more s"
    by (cases s, cases t, simp)+
qed

lemma laser_ok_dev: "dev_step s t \<Longrightarrow> laser_ok t = laser_ok s"
  using dev_step_laser [of s t] by (simp add: laser_ok_def)

lemma laser_ok_setter:
  assumes "andthen (Laser_send os c what) (modify f) s = (r, t)" "laser_ok s"
    and "\<And>u. laser_ok u \<Longrightarrow> laser_ok (f u)" "\<And>u. wire (f u) = wire u"
  shows "laser_ok t"
  using wp_runD [OF Laser_setter [OF assms(4)] assms(1)] assms(2,3)
  by (auto simp: laser_ok_dev split: if_splits)

lemma wire_laser_fields [simp]:
  "wire (u\<lparr>m_is_firing := b\<rparr>) = wire u" "wire (u\<lparr>m_prescale := n\<rparr>) = wire u"
  "wire (u\<lparr>m_pump_hv := x\<rparr>) = wire u" "wire (u\<lparr>m_rate := x\<rparr>) = wire u"
  "wire (u\<lparr>m_qswitch := n\<rparr>) = wire u"
  by (simp_all add: wire_def)

lemma laser_ok_prescale: "Laser_set_prescale os n s = (r, t) \<Longrightarrow> laser_ok s \<Longrightarrow> laser_ok t"
  unfolding Laser_set_prescale_def Let_def
  by (erule laser_ok_setter) (auto simp: laser_ok_def not_less)

lemma laser_call_ok: "laser_call os s t \<Longrightarrow> laser_ok s \<Longrightarrow> laser_ok t"
proof (induction rule: laser_call.induct)
  case (call_fire f s r t)
  then show ?case unfolding Laser_fire_def by (rule laser_ok_setter) (auto simp: laser_ok_def)
next
  case (call_prescale n s r t)
  then show ?case by (rule laser_ok_prescale)
next
  case (call_pump x s r t)
  show ?case
  proof (cases "cless d_1_3 x \<or> cless x f_zero")
    case True
    then show ?thesis using call_pump by (simp add: Laser_set_pump_voltage_def run_simps)
  next
    case False
    with call_pump(1) have "andthen (Laser_send os (''VA '' @ show_fixed 2 x) ''Failed to send VA command'')
        (modify (\<lambda>s. s\<lparr>m_pump_hv := x\<rparr>)) s = (r, t)"
      by (simp only: Laser_set_pump_voltage_def if_False)
    then show ?thesis using call_pump(2) by (rule laser_ok_setter) (use False in \<open>auto simp: laser_ok_def\<close>)
  qed
next
  case (call_single_shot s r t)
  obtain q u where u: "Laser_set_prescale os 0 s = (q, u)" by fastforce
  with call_single_shot have "laser_ok u" by (blast intro: laser_ok_prescale)
  moreover have "u = t \<or> (\<exists>q. Laser_send os ''SS'' ''Failed to send SS command'' u = (q, t))"
    using call_single_shot(1) u by (auto simp: Laser_single_shot_def run_simps split: outcome.splits)
  ultimately show ?case using stepsD [OF dev_Laser_send] laser_ok_dev by blast
next
  case (call_rate x s r t)
  then show ?case unfolding Laser_set_repetition_rate_def by (rule laser_ok_setter) (auto simp: laser_ok_def)
next
  case (call_qswitch n s r t)
  then show ?case unfolding Laser_set_qswitch_def Let_def
    by (rule laser_ok_setter) (auto simp: laser_ok_def not_less)
qed (use stepsD [OF dev_Laser_queries(7)] stepsD [OF dev_Laser_queries(2)] stepsD [OF dev_Laser_queries(4)]
    laser_ok_dev in blast)+

lemma laser_calls_ok: "(laser_call os)\<^sup>*\<^sup>* s t \<Longrightarrow> laser_ok s \<Longrightarrow> laser_ok t"
  by (induction rule: rtranclp_induct) (blast intro: laser_call_ok)+

section \<open>The security codes\<close>

lemma sec_map_lookup: "map_find init_sec_map code = map_of sec_entries code"
proof -
  have "distinct (map fst sec_entries)" by (simp add: sec_entries_def)
  then show ?thesis
    unfolding init_sec_map_def using stdmap.look_filled by fastforce
qed

lemma hear_Laser_write: "steps hear_step (Laser_write_cmd os cmd)"
  unfolding Laser_write_cmd_def by (intro hear.steps_rules hear_Serial hear_write_cmd)

lemma hear_Laser_send: "steps hear_step (Laser_send os c what)"
  unfolding Laser_send_def by (intro hear_write_retry hear_Laser_write hear_reset)

text \<open>The answer to \<open>SE\<close>: the lines come from one batch of input, the code is the second.\<close>

lemma reread_lines:
  assumes "Device_read_lines os s = (Ret l0, v)"
    and "(if length l0 = 0 then
            andthen (Device_reset_connection os)
              (bind (Device_read_lines os) (\<lambda>lines. if length lines = 0 then throw e else return lines))
          else if length l0 \<noteq> 2 then throw e' else return l0) v = (Ret lines, t)"
    and sfx: "length (m_read_sfx s) \<le> read_max"
  shows "inbox t = inbox s @ concat lines \<and> [] \<notin> set lines \<and>
     (Suc 0 < length lines \<longrightarrow> ends_with (m_read_sfx s) (concat (take 1 lines)))"
proof (cases "length l0 = 0")
  case True
  with assms(2) obtain x where x: "Device_reset_connection os v = (Ret (), x)"
    "Device_read_lines os x = (Ret lines, t)"
    by (auto simp: run_simps split: outcome.splits prod.splits if_splits)
  have v: "m_read_sfx v = m_read_sfx s" by (rule dev_step_fields(5) [OF stepsD [OF dev_read_lines assms(1)]])
  have "inbox x = inbox v" "m_read_sfx x = m_read_sfx s"
    using stepsD [OF hear_reset x(1)] dev_step_fields(5) [of v x] v by (auto simp: hear_step_def)
  then show ?thesis
    using Device_read_lines_spec [OF x(2)] Device_read_lines_spec [OF assms(1)] sfx True by auto
next
  case False
  with assms(2) have "lines = l0" "t = v" by (auto simp: run_simps split: if_splits)
  then show ?thesis using Device_read_lines_spec [OF assms(1)] sfx by auto
qed

lemma security_lines:
  assumes "Laser_security_code os s = (Ret code, t)" "length (m_read_sfx s) \<le> read_max"
  obtains lines where "inbox t = inbox s @ concat lines" "2 \<le> length lines" "[] \<notin> set lines"
    "lines ! 1 = code @ [last (lines ! 1)]" "ends_with (m_read_sfx s) (lines ! 0)"
proof -
  from assms(1) obtain u l0 v lines w resp w' where
    send: "Laser_send os ''SE'' ''Failed to send SE command'' s = (Ret (), u)"
    and first: "Device_read_lines os u = (Ret l0, v)"
    and pick: "(if length l0 = 0 then
             andthen (Device_reset_connection os)
               (bind (Device_read_lines os) (\<lambda>lines.
                  if length lines = 0 then throw (IOException ''Failed to read security code'')
                  else return lines))
           else if length l0 \<noteq> 2 then
             throw (IOException ''Failed to read security code. Got unexpected number of tokens : '')
           else return l0) v = (Ret lines, w)"
    and res: "lift (vec_at lines 1) w = (Ret resp, w')"
      "lift (str_erase_from resp (size_sub (length resp) 1)) w' = (Ret code, t)"
    unfolding Laser_security_code_def by (elim andthen_RetE bind_RetE) blast
  have u: "inbox u = inbox s" "m_read_sfx u = m_read_sfx s"
    using stepsD [OF hear_Laser_send send] dev_step_fields(5) [of s u] by (auto simp: hear_step_def)
  from reread_lines [OF first pick] u assms(2)
  have lines: "inbox w = inbox s @ concat lines" "[] \<notin> set lines"
     "Suc 0 < length lines \<longrightarrow> ends_with (m_read_sfx s) (concat (take 1 lines))"
    by auto
  from res have r: "Suc 0 < length lines" "t = w" "code = take (size_sub (length (lines ! 1)) 1) (lines ! 1)"
    by (auto elim!: lift_RetE simp: vec_at_def str_erase_from_def split: if_splits)
  then have ne: "lines ! 1 \<noteq> []" using lines by (metis nth_mem One_nat_def)
  then have "lines ! 1 = code @ [last (lines ! 1)]"
    using r(3) append_butlast_last_id [OF ne]
    by (simp add: size_sub_def Suc_le_eq butlast_conv_take)
  moreover have "concat (take 1 lines) = lines ! 0" using r(1) by (cases lines) auto
  ultimately show ?thesis using that [of lines] lines r by simp
qed


section \<open>Properties\<close>

text \<open>An opened laser on the scripted line, as its constructor leaves it.\<close>

definition laser_on :: "line \<Rightarrow> line laser" where
  "laser_on w = open_port w \<lparr>m_comport = ''/dev/ttyUSB0'', m_baud = 9600, m_com_pre = [], m_com_sfx = CR,
     m_read_sfx = CR, m_timeout_ms = 500, m_is_firing = False, m_prescale = 0,
     m_pump_hv = Fin False 9227469 (- 23), m_rate = Fin False 10 0, m_qswitch = 170,
     m_sec_map = init_sec_map, m_wait_read = False\<rparr>"

lemmas laser_run = sim_run laser_on_def Laser_send_def Laser_write_cmd_def show_nat.simps digit_chars
  setw_fill_def sec_map_lookup sec_entries_def

text \<open>C2. Setting the prescale. Whatever the value asked for and whatever the port does: if the call
  returns, the command \<open>PD ddd\<close> with exactly three digits, which read back as the value limited to 99, went
  out whole, preceded by at most one incomplete attempt, and the cached prescale is that value; if it
  throws, the cached settings are what they were.\<close>

theorem set_prescale_correct:
  assumes "Laser_set_prescale os pre s = (r, t)"
  shows "\<exists>ddd p. length ddd = 3 \<and> (\<forall>c \<in> set ddd. is_digit c) \<and> digits_val 10 ddd = min (unat pre) 99
    \<and> wire t = wire s @ p \<and> delivered (Device_msg s (''PD '' @ ddd)) r p
    \<and> device.more t = (if r = Ret () then device.more (s\<lparr>m_prescale := min pre 99\<rparr>) else device.more s)"
proof -
  let ?n = "if 99 < pre then 99 else pre"
  let ?d = "setw_fill CHR ''0'' 3 (show_nat (unat ?n))"
  have min: "?n = min pre 99" "unat ?n = min (unat pre) 99"
    by (simp_all add: cap_min unat_min)
  then have d: "length ?d = 3" "\<forall>c \<in> set ?d. is_digit c" "digits_val 10 ?d = min (unat pre) 99"
    using padded_digits [of 3 "unat ?n"] by simp_all
  from assms [unfolded Laser_set_prescale_def Let_def] obtain u p where
    u: "dev_step s u" "wire t = wire s @ p" "delivered (Device_msg s (''PD '' @ ?d)) r p"
      "t = (if r = Ret () then u\<lparr>m_prescale := ?n\<rparr> else u)"
    by (rule Laser_setterE) simp_all
  note laser_part_cong(2) [OF dev_step_fields(7) [OF u(1)], of ?n] dev_step_fields(7) [OF u(1)]
  then show ?thesis
    using d u(2-4) unfolding min(1) by (intro exI [of _ ?d] exI [of _ p]) auto
qed

theorem set_prescale_correct_witness:
  "\<exists>ddd p. length ddd = 3 \<and> digits_val 10 ddd = 99
    \<and> wire (snd (Laser_set_prescale line_os 120 (laser_on (quiet_line [] [4])))) = p
    \<and> delivered (''PD '' @ ddd @ CR) (Ret ()) p
    \<and> m_prescale (snd (Laser_set_prescale line_os 120 (laser_on (quiet_line [] [4])))) = 99"
proof -
  define s where "s = laser_on (quiet_line [] [4])"
  obtain r t where run: "Laser_set_prescale line_os 120 s = (r, t)" by fastforce
  have rt: "r = Ret ()" "m_prescale t = 99" "wire s = []" "Device_msg s c = c @ CR" for c
    using run by (auto simp: s_def laser_run Laser_set_prescale_def)
  from set_prescale_correct [OF run] rt(1,2) show ?thesis
    by (auto simp: run rt(3,4) min_def simp flip: s_def)
qed





text \<open>No member function of the laser waits for a mutex it already holds, and whether it returns or throws both
  mutexes of the port are free afterwards.\<close>

lemma laser_locks_released:
  "lock_safe (Laser_shutter os sh) \<and> lock_safe (Laser_fire os f) \<and> lock_safe (Laser_set_prescale os n)
   \<and> lock_safe (Laser_set_pump_voltage os x) \<and> lock_safe (Laser_single_shot os)
   \<and> lock_safe (Laser_get_shot_count os) \<and> lock_safe (Laser_security os)
   \<and> lock_safe (Laser_set_repetition_rate os x) \<and> lock_safe (Laser_set_qswitch os n)"
  by (intro conjI lock_Laser)




text \<open>C27. The shot count: nine digits after the echo come back as that number.\<close>

theorem shot_count_answer:
  assumes "Laser_write_cmd os ''SC'' s = (Ret ok, u)" "n < 10 ^ 9"
    "Device_read_lines os u = (Ret [echo, setw_fill CHR ''0'' 9 (show_nat n) @ [c]], v)"
  shows "Laser_get_shot_count os s = (Ret (of_nat n), v)"
proof -
  let ?ds = "setw_fill CHR ''0'' 9 (show_nat n)"
  have ds: "length ?ds = 9" "\<forall>c \<in> set ?ds. is_digit c" "digits_val 10 ?ds = n"
    using padded_digits [of 9 n] assms(2) by simp_all
  then have "stoul ?ds = Inr (of_nat n)"
    using stoul_digits [of ?ds] assms(2) by fastforce
  moreover have "take_bit 64 n = n" using assms(2) by (intro take_bit_nat_eq_self) simp
  then have "(ucast (of_nat n :: 64 word) :: 32 word) = of_nat n"
    by (simp add: unsigned_of_nat)
  ultimately show ?thesis
    using assms(1,3)
    by (simp add: Laser_get_shot_count_def run_simps vec_at_def drop_last_char_def)
qed

theorem shot_count_answer_witness:
  "fst (Laser_get_shot_count line_os (laser_on (quiet_line [''SC'' @ CR @ ''000001234'' @ CR] []))) = Ret 1234"
proof -
  define s where "s = laser_on (quiet_line [''SC'' @ CR @ ''000001234'' @ CR] [])"
  obtain r u where w: "Laser_write_cmd line_os ''SC'' s = (r, u)" by fastforce
  obtain q v where l: "Device_read_lines line_os u = (q, v)" by fastforce
  have num: "setw_fill CHR ''0'' 9 (show_nat 1234) = ''000001234''"
  proof -
    have "show_nat 1234 = ''1234''" by (simp add: show_nat.simps digit_chars)
    then show ?thesis by (simp add: setw_fill_def numeral_eq_Suc)
  qed
  have r: "r = Ret True" using w by (auto simp: s_def laser_run)
  have q: "q = Ret [''SC'' @ CR, setw_fill CHR ''0'' 9 (show_nat 1234) @ CR]"
    unfolding num using w l by (auto simp: s_def laser_run)
  from shot_count_answer [OF w [unfolded r], of 1234] l [unfolded q CR_def] show ?thesis
    unfolding s_def [symmetric] by simp
qed


end
