(* ===== verification/Laser_Sim.thy ===== *)
theory Laser_Sim
  imports Simulation Laser
begin

text \<open>
  \<open>src/src/LaserSim.cpp\<close> and \<open>src/include/LaserSim.hh\<close>: the laser without an instrument. The state is the
  members of the class; its operations talk to nobody. The last section compares it with the driver.
\<close>

section \<open>State and operations\<close>

record lasersim =
  sim_is_firing :: bool
  sim_prescale :: "32 word"
  sim_pump_hv :: cfloat
  sim_rate :: cfloat
  sim_qswitch :: "32 word"
  sim_sec_map :: "(string, string) std_map"
  sim_wait_read :: bool
  sim_shot_count :: "32 word"
  sim_shutter_state :: "32 word"

text \<open>The constructor; 1.1 and 10.0 become \<open>float\<close> members.\<close>

definition LaserSim :: lasersim where
  "LaserSim = \<lparr>sim_is_firing = False, sim_prescale = 0, sim_pump_hv = Fin False 9227469 (- 23),
     sim_rate = Fin False 10 0, sim_qswitch = 170, sim_sec_map = init_sec_map, sim_wait_read = False,
     sim_shot_count = 0, sim_shutter_state = 0\<rparr>"

definition LaserSim_shutter :: "shutter_t \<Rightarrow> (lasersim, unit) prog" where
  "LaserSim_shutter s = modify (\<lambda>v. v\<lparr>sim_shutter_state := of_nat (shutter_num s)\<rparr>)"

definition LaserSim_fire :: "fire_t \<Rightarrow> (lasersim, unit) prog" where
  "LaserSim_fire s =
     (if s = Fire_Start then modify (\<lambda>v. v\<lparr>sim_is_firing := True\<rparr>)
      else modify (\<lambda>v. v\<lparr>sim_is_firing := False\<rparr>))"

definition LaserSim_set_prescale :: "32 word \<Rightarrow> (lasersim, unit) prog" where
  "LaserSim_set_prescale pre0 =
     (let pre = if 99 < pre0 then 99 else pre0 in modify (\<lambda>v. v\<lparr>sim_prescale := pre\<rparr>))"

definition LaserSim_set_pump_voltage :: "cfloat \<Rightarrow> (lasersim, unit) prog" where
  "LaserSim_set_pump_voltage hv =
     (if cless d_1_3 hv \<or> cless hv f_zero then throw (range_error ''Argument out of range ['')
      else modify (\<lambda>v. v\<lparr>sim_pump_hv := hv\<rparr>))"

definition LaserSim_single_shot :: "(lasersim, unit) prog" where
  "LaserSim_single_shot = LaserSim_set_prescale 0"

definition LaserSim_get_shot_count :: "(lasersim, 32 word) prog" where
  "LaserSim_get_shot_count = gets sim_shot_count"

definition LaserSim_security_code :: "(lasersim, string) prog" where
  "LaserSim_security_code = return ''00''"

definition LaserSim_security :: "(lasersim, string \<times> string) prog" where
  "LaserSim_security =
     bind LaserSim_security_code (\<lambda>code.
     bind (gets sim_sec_map) (\<lambda>sec_map.
       return (code, case map_find sec_map code of Some msg \<Rightarrow> msg | None \<Rightarrow> [])))"

definition LaserSim_security_u16 :: "(lasersim, 16 word \<times> string) prog" where
  "LaserSim_security_u16 =
     bind LaserSim_security (\<lambda>(tmp_code, msg).
     bind (lift (stoul tmp_code)) (\<lambda>n. return (ucast n, msg)))"

definition LaserSim_security_enum :: "(lasersim, int \<times> string) prog" where
  "LaserSim_security_enum =
     bind LaserSim_security (\<lambda>(tmp_code, msg).
     bind (lift (stol tmp_code)) (\<lambda>n.
       if 0 \<le> n \<and> n < 16 then return (n, msg) else stuck Undefined_behaviour))"

definition LaserSim_set_repetition_rate :: "cfloat \<Rightarrow> (lasersim, unit) prog" where
  "LaserSim_set_repetition_rate rate = modify (\<lambda>v. v\<lparr>sim_rate := rate\<rparr>)"

definition LaserSim_set_qswitch :: "32 word \<Rightarrow> (lasersim, unit) prog" where
  "LaserSim_set_qswitch qs0 =
     (let qs = if 999 < qs0 then 999 else qs0 in modify (\<lambda>v. v\<lparr>sim_qswitch := qs\<rparr>))"

section \<open>Driver and simulator\<close>

text \<open>The calls that change settings, and what each class does with them.\<close>

datatype laser_op =
    Op_shutter shutter_t
  | Op_fire fire_t
  | Op_prescale "32 word"
  | Op_pump_voltage cfloat
  | Op_single_shot
  | Op_repetition_rate cfloat
  | Op_qswitch "32 word"

primrec Laser_do :: "'w os \<Rightarrow> laser_op \<Rightarrow> (('w, 'z) laser_scheme, unit) prog" where
  "Laser_do os (Op_shutter s) = Laser_shutter os s"
| "Laser_do os (Op_fire f) = Laser_fire os f"
| "Laser_do os (Op_prescale n) = Laser_set_prescale os n"
| "Laser_do os (Op_pump_voltage x) = Laser_set_pump_voltage os x"
| "Laser_do os Op_single_shot = Laser_single_shot os"
| "Laser_do os (Op_repetition_rate x) = Laser_set_repetition_rate os x"
| "Laser_do os (Op_qswitch n) = Laser_set_qswitch os n"

primrec LaserSim_do :: "laser_op \<Rightarrow> (lasersim, unit) prog" where
  "LaserSim_do (Op_shutter s) = LaserSim_shutter s"
| "LaserSim_do (Op_fire f) = LaserSim_fire f"
| "LaserSim_do (Op_prescale n) = LaserSim_set_prescale n"
| "LaserSim_do (Op_pump_voltage x) = LaserSim_set_pump_voltage x"
| "LaserSim_do Op_single_shot = LaserSim_single_shot"
| "LaserSim_do (Op_repetition_rate x) = LaserSim_set_repetition_rate x"
| "LaserSim_do (Op_qswitch n) = LaserSim_set_qswitch n"

text \<open>The settings the classes share.\<close>

definition laser_settings :: "('w, 'z) laser_scheme \<Rightarrow> bool \<times> 32 word \<times> cfloat \<times> cfloat \<times> 32 word" where
  "laser_settings s = (m_is_firing s, m_prescale s, m_pump_hv s, m_rate s, m_qswitch s)"

definition lasersim_settings :: "lasersim \<Rightarrow> bool \<times> 32 word \<times> cfloat \<times> cfloat \<times> 32 word" where
  "lasersim_settings v = (sim_is_firing v, sim_prescale v, sim_pump_hv v, sim_rate v, sim_qswitch v)"

lemma laser_settings_dev: "dev_step s t \<Longrightarrow> laser_settings t = laser_settings s"
  by (simp add: laser_settings_def dev_step_laser)

lemma setter_settings:
  assumes "andthen (Laser_send os c what) (modify f) s = (Ret (), t)"
  obtains u where "laser_settings u = laser_settings s" "t = f u"
proof -
  from assms obtain u where u: "Laser_send os c what s = (Ret (), u)" "modify f u = (Ret (), t)"
    by (rule andthen_RetE)
  from u(2) show ?thesis
    by (intro that [OF laser_settings_dev [OF stepsD [OF dev_Laser_send u(1)]]]) (simp add: run_simps)
qed

lemmas sim_defs = LaserSim_shutter_def LaserSim_fire_def LaserSim_set_prescale_def LaserSim_set_pump_voltage_def
  LaserSim_single_shot_def LaserSim_set_repetition_rate_def LaserSim_set_qswitch_def

lemma prescale_settings:
  assumes "Laser_set_prescale os n s = (Ret (), t)"
  shows "laser_settings t = (m_is_firing s, if 99 < n then 99 else n, m_pump_hv s, m_rate s, m_qswitch s)"
  using assms unfolding Laser_set_prescale_def Let_def
  by (rule setter_settings) (auto simp: laser_settings_def)

interpretation laser_pair: simulator "Laser_do os" LaserSim_do laser_settings lasersim_settings
  for os :: "'w os"
proof
  fix c and s t :: "('w, 'z) laser_scheme" and v
  assume run: "Laser_do os c s = (Ret (), t)" and eq: "laser_settings s = lasersim_settings v"
  show "\<exists>w. LaserSim_do c v = (Ret (), w) \<and> laser_settings t = lasersim_settings w"
  proof (cases c)
    case (Op_shutter sh)
    then have "laser_settings t = laser_settings s"
      using run laser_settings_dev [OF stepsD [OF dev_Laser_queries(7)]] by simp
    then show ?thesis using eq by (simp add: Op_shutter sim_defs run_simps lasersim_settings_def)
  next
    case (Op_fire f)
    then have "andthen (Laser_send os (''ST '' @ show_nat (fire_num f)) ''Failed to send ST command'')
       (modify (\<lambda>s. s\<lparr>m_is_firing := (f = Fire_Start)\<rparr>)) s = (Ret (), t)"
      using run by (simp add: Laser_fire_def)
    then show ?thesis
      by (rule setter_settings)
        (use eq in \<open>auto simp: Op_fire sim_defs run_simps laser_settings_def lasersim_settings_def\<close>)
  next
    case (Op_prescale n)
    then show ?thesis using prescale_settings [of os n s t] run eq
      by (simp add: sim_defs run_simps Let_def laser_settings_def lasersim_settings_def)
  next
    case (Op_pump_voltage x)
    have in_range: "\<not> (cless d_1_3 x \<or> cless x f_zero)"
      using run by (auto simp: Op_pump_voltage Laser_set_pump_voltage_def run_simps split: if_splits)
    then have "andthen (Laser_send os (''VA '' @ show_fixed 2 x) ''Failed to send VA command'')
       (modify (\<lambda>s. s\<lparr>m_pump_hv := x\<rparr>)) s = (Ret (), t)"
      using run by (simp add: Op_pump_voltage Laser_set_pump_voltage_def)
    then show ?thesis
      by (rule setter_settings)
        (use eq in_range in \<open>auto simp: Op_pump_voltage sim_defs run_simps laser_settings_def lasersim_settings_def\<close>)
  next
    case Op_single_shot
    with run obtain u where u: "Laser_set_prescale os 0 s = (Ret (), u)"
      "Laser_send os ''SS'' ''Failed to send SS command'' u = (Ret (), t)"
      by (auto simp: Laser_single_shot_def elim!: andthen_RetE)
    from laser_settings_dev [OF stepsD [OF dev_Laser_send u(2)]] prescale_settings [OF u(1)] eq show ?thesis
      by (simp add: Op_single_shot sim_defs run_simps Let_def laser_settings_def lasersim_settings_def)
  next
    case (Op_repetition_rate x)
    then have "andthen (Laser_send os (''RR '' @ show_fixed 1 x) ''Failed to send RR command'')
       (modify (\<lambda>s. s\<lparr>m_rate := x\<rparr>)) s = (Ret (), t)"
      using run by (simp add: Laser_set_repetition_rate_def)
    then show ?thesis
      by (rule setter_settings)
        (use eq in \<open>auto simp: Op_repetition_rate sim_defs run_simps laser_settings_def lasersim_settings_def\<close>)
  next
    case (Op_qswitch n)
    then have "andthen (Laser_send os (''QS '' @ setw_fill CHR ''0'' 3 (show_nat (unat (if 999 < n then 999 else n))))
        ''Failed to send QS command'')
       (modify (\<lambda>s. s\<lparr>m_qswitch := (if 999 < n then 999 else n)\<rparr>)) s = (Ret (), t)"
      using run by (simp only: Laser_set_qswitch_def Let_def Laser_do.simps)
    then show ?thesis
      by (rule setter_settings)
        (use eq in \<open>auto simp: Op_qswitch sim_defs run_simps laser_settings_def lasersim_settings_def\<close>)
  qed
next
  fix c e and s :: "('w, 'z) laser_scheme" and v w
  assume "LaserSim_do c v = (Exn e, w)"
  then show "Laser_do os c s = (Exn e, s)"
    by (cases c) (auto simp: sim_defs run_simps Let_def Laser_set_pump_voltage_def split: if_splits)
qed

section \<open>Properties\<close>

text \<open>C28. The simulated laser stands in for the instrument: a script of calls that runs through on the driver,
  over whatever line, runs through on the simulator and leaves the same settings; and a script followed by a call
  the simulator refuses stops on the driver at that call, with the same exception.\<close>

theorem laser_sim_refines:
  assumes "run_all (Laser_do os) cs s = (Ret (), t)" "laser_settings s = lasersim_settings v"
  shows "\<exists>w. run_all LaserSim_do cs v = (Ret (), w) \<and> laser_settings t = lasersim_settings w
    \<and> (\<forall>c e x. LaserSim_do c w = (Exn e, x) \<longrightarrow> run_all (Laser_do os) (cs @ [c]) s = (Exn e, t))"
  using laser_pair.script_accepts [OF assms] laser_pair.script_stops [OF assms] by blast

theorem laser_sim_refines_witness:
  "\<exists>t. run_all (Laser_do line_os) [Op_prescale 120, Op_fire Fire_Start] (laser_on (quiet_line [] [])) = (Ret (), t)
    \<and> (\<exists>w. run_all LaserSim_do [Op_prescale 120, Op_fire Fire_Start] LaserSim = (Ret (), w)
        \<and> laser_settings t = lasersim_settings w)"
proof -
  define s where "s = laser_on (quiet_line [] [])"
  let ?cs = "[Op_prescale 120, Op_fire Fire_Start]"
  obtain r t where run: "run_all (Laser_do line_os) ?cs s = (r, t)" by fastforce
  have r: "r = Ret ()"
    using run by (auto simp: s_def laser_run Laser_set_prescale_def Laser_fire_def)
  have eq: "laser_settings s = lasersim_settings LaserSim"
    by (simp add: s_def laser_on_def open_port_def laser_settings_def lasersim_settings_def LaserSim_def)
  from laser_sim_refines [OF run [unfolded r] eq] run r show ?thesis unfolding s_def [symmetric] by blast
qed

end
