(* ===== verification/Cpp_Arith.thy ===== *)
theory Cpp_Arith
  imports Cpp_Float Complex_Main
begin

text \<open>
  Arithmetic of the sources at its width. \<open>int32_t\<close> arithmetic that leaves the range is undefined and makes a
  program stuck; narrowing conversions wrap around. \<open>double\<close> and \<open>float\<close> products and quotients are the exact
  results rounded to nearest, ties to even (IEEE 754 binary64 and binary32, with gradual underflow and overflow to
  infinity). The functions of \<open><cmath>\<close> are a parameter, the record \<open>libm\<close>: the standard does not fix their
  last bits.
\<close>

section \<open>Integers\<close>

definition int32_ok :: "int \<Rightarrow> bool" where
  "int32_ok x = (- (2 ^ 31) \<le> x \<and> x < 2 ^ 31)"

definition int32 :: "int \<Rightarrow> ('s, int) prog" where
  "int32 x = (if int32_ok x then return x else stuck Undefined_behaviour)"

definition to_int32 :: "int \<Rightarrow> int" where
  "to_int32 x = (x + 2 ^ 31) mod 2 ^ 32 - 2 ^ 31"

text \<open>\<open>static_cast\<close> to an enumeration: defined for the values its bits can hold.\<close>

definition cast_enum :: "'e option \<Rightarrow> ('s, 'e) prog" where
  "cast_enum v = (case v of Some e \<Rightarrow> return e | None \<Rightarrow> stuck Undefined_behaviour)"

lemma to_int32_id: "int32_ok x \<Longrightarrow> to_int32 x = x"
  by (simp add: to_int32_def int32_ok_def)

lemma to_int32_ok [simp]: "int32_ok (to_int32 x)"
proof -
  have "0 \<le> (x + 2 ^ 31) mod 2 ^ 32" "(x + 2 ^ 31) mod 2 ^ 32 < 2 ^ 32"
    by (auto intro: pos_mod_bound)
  then show ?thesis unfolding to_int32_def int32_ok_def by simp
qed

lemma run_int32 [run_simps]:
  "int32 x s = (if int32_ok x then (Ret x, s) else (Stuck Undefined_behaviour, s))"
  by (simp add: int32_def run_simps)

lemma run_cast_enum [run_simps]:
  "cast_enum (Some e) s = (Ret e, s)" "cast_enum None s = (Stuck Undefined_behaviour, s)"
  by (simp_all add: cast_enum_def run_simps)

lemma int32_RetE:
  assumes "int32 x s = (Ret y, t)"
  obtains "y = x" "t = s" "int32_ok x"
  using assms by (auto simp: run_simps split: if_splits)

section \<open>Floating-point arithmetic\<close>

fun bit_size :: "nat \<Rightarrow> nat" where
  "bit_size n = (if n = 0 then 0 else Suc (bit_size (n div 2)))"

declare bit_size.simps [simp del]

text \<open>\<open>n / 2 ^ k\<close> rounded to the nearest integer, ties to even.\<close>

definition half_even :: "nat \<Rightarrow> nat \<Rightarrow> nat" where
  "half_even n k =
     (let d = 2 ^ k; q = n div d; r = n mod d
      in if 2 * r < d \<or> 2 * r = d \<and> even q then q else q + 1)"

text \<open>Rounding \<open>m * 2 ^ e\<close> to \<open>p\<close> bits, with smallest exponent \<open>emin\<close> and values below \<open>2 ^ emax\<close>.\<close>

definition fl :: "nat \<Rightarrow> int \<Rightarrow> int \<Rightarrow> bool \<Rightarrow> nat \<Rightarrow> int \<Rightarrow> cfloat" where
  "fl p emin emax neg m e =
     (let k = nat (max (int (bit_size m) - int p) (emin - e)); m' = half_even m k; e' = e + int k
      in if m' \<noteq> 0 \<and> emax < int (bit_size m') + e' then Infty neg else Fin neg m' e')"

definition fl_double :: "bool \<Rightarrow> nat \<Rightarrow> int \<Rightarrow> cfloat" where
  "fl_double = fl 53 (- 1074) 1024"

definition fl_float :: "bool \<Rightarrow> nat \<Rightarrow> int \<Rightarrow> cfloat" where
  "fl_float = fl 24 (- 149) 128"

text \<open>The quotient with enough bits, the last one sticky.\<close>

definition quot_bits :: "nat \<Rightarrow> nat \<Rightarrow> nat \<Rightarrow> nat" where
  "quot_bits a b k = (let q = a * 2 ^ k div b in if a * 2 ^ k mod b = 0 then 2 * q else 2 * q + 1)"

fun d_mul :: "cfloat \<Rightarrow> cfloat \<Rightarrow> cfloat" where
  "d_mul (NaN s) _ = NaN s"
| "d_mul _ (NaN s) = NaN s"
| "d_mul (Infty s) (Infty s') = Infty (s \<noteq> s')"
| "d_mul (Infty s) (Fin s' m x) = (if m = 0 then NaN True else Infty (s \<noteq> s'))"
| "d_mul (Fin s' m x) (Infty s) = (if m = 0 then NaN True else Infty (s \<noteq> s'))"
| "d_mul (Fin s m x) (Fin s' m' x') = fl_double (s \<noteq> s') (m * m') (x + x')"

fun d_div :: "cfloat \<Rightarrow> cfloat \<Rightarrow> cfloat" where
  "d_div (NaN s) _ = NaN s"
| "d_div _ (NaN s) = NaN s"
| "d_div (Infty s) (Infty s') = NaN True"
| "d_div (Infty s) (Fin s' m x) = Infty (s \<noteq> s')"
| "d_div (Fin s m x) (Infty s') = Fin (s \<noteq> s') 0 0"
| "d_div (Fin s m x) (Fin s' m' x') =
     (if m' = 0 then (if m = 0 then NaN True else Infty (s \<noteq> s'))
      else let k = 55 + bit_size m' in fl_double (s \<noteq> s') (quot_bits m m' k) (x - x' - int k - 1))"

definition d_of_int :: "int \<Rightarrow> cfloat" where
  "d_of_int i = Fin (i < 0) (nat \<bar>i\<bar>) 0"

definition f_of_d :: "cfloat \<Rightarrow> cfloat" where
  "f_of_d f = (case f of Fin s m x \<Rightarrow> fl_float s m x | _ \<Rightarrow> f)"

text \<open>Conversion to an integer drops the fraction.\<close>

definition d_trunc :: "bool \<Rightarrow> nat \<Rightarrow> int \<Rightarrow> int" where
  "d_trunc s m x =
     (let n = int (if 0 \<le> x then m * 2 ^ nat x else m div 2 ^ nat (- x)) in if s then - n else n)"

definition d_to_int32 :: "cfloat \<Rightarrow> ('s, int) prog" where
  "d_to_int32 f = (case f of Fin s m x \<Rightarrow> int32 (d_trunc s m x) | _ \<Rightarrow> stuck Undefined_behaviour)"

text \<open>Literals: the doubles nearest to pi and to one.\<close>

definition M_PI :: cfloat where
  "M_PI = Fin False 7074237752028440 (- 51)"

definition d_one :: cfloat where
  "d_one = Fin False 1 0"

record libm =
  lm_sqrt :: "cfloat \<Rightarrow> cfloat"
  lm_acos :: "cfloat \<Rightarrow> cfloat"
  lm_cos :: "cfloat \<Rightarrow> cfloat"
  lm_pow :: "cfloat \<Rightarrow> cfloat \<Rightarrow> cfloat"
  lm_sqrtf :: "cfloat \<Rightarrow> cfloat"
  lm_acosf :: "cfloat \<Rightarrow> cfloat"

section \<open>Facts\<close>

text \<open>The magnitude of a finite value as a real number, and the error of one rounding.\<close>

definition mag :: "nat \<Rightarrow> int \<Rightarrow> real" where
  "mag m x = real m * 2 powi x"

lemma bit_size_bounds: "0 < n \<Longrightarrow> 2 ^ (bit_size n - 1) \<le> n \<and> n < 2 ^ bit_size n"
proof (induction n rule: bit_size.induct)
  case (1 n)
  show ?case
  proof (cases "n = 1")
    case True
    then show ?thesis by (simp add: bit_size.simps)
  next
    case False
    with 1 have ih: "2 ^ (bit_size (n div 2) - 1) \<le> n div 2" "n div 2 < 2 ^ bit_size (n div 2)"
      by auto
    have "0 < bit_size (n div 2)" using False 1 by (simp add: bit_size.simps [of "n div 2"])
    then obtain b where b: "bit_size (n div 2) = Suc b" by (cases "bit_size (n div 2)") auto
    have "bit_size n = Suc (Suc b)" using 1 b by (simp add: bit_size.simps [of n])
    then show ?thesis using ih b by auto
  qed
qed

lemma half_even_near: "2 * (half_even n k * 2 ^ k) \<le> 2 * n + 2 ^ k"
proof -
  define d :: nat where "d = 2 ^ k"
  define q r where "q = n div d" and "r = n mod d"
  have eq: "n = q * d + r" by (simp add: q_def r_def)
  have r: "r < d" by (simp add: r_def d_def)
  have h: "half_even n k = (if 2 * r < d \<or> 2 * r = d \<and> even q then q else q + 1)"
    by (simp add: half_even_def Let_def q_def r_def d_def)
  show ?thesis unfolding h d_def [symmetric] using r by (simp add: eq algebra_simps)
qed

lemma powi_nat: "(2::real) powi (e + int k) = 2 powi e * 2 ^ k"
  by (simp add: power_int_add)

text \<open>The unit of the last place of a \<open>p\<close>-bit result, with the floor of gradual underflow.\<close>

lemma ulp_bound:
  assumes "0 < m" "k = nat (max (int (bit_size m) - int p) (emin - e))" "0 < p" "0 < k"
  shows "2 powi (e + int k) \<le> max (mag m e / 2 ^ (p - 1)) (2 powi emin)"
proof -
  consider "e + int k = emin" | "e + int k = e + (int (bit_size m) - int p)" "p < bit_size m"
    using assms(2,4) by linarith
  then show ?thesis
  proof cases
    case 1
    then show ?thesis by simp
  next
    case 2
    then have k: "k = bit_size m - p" by simp
    have "bit_size m - 1 = k + (p - 1)" using 2 assms(3) k by simp
    then have "2 ^ k * 2 ^ (p - 1) \<le> m"
      using bit_size_bounds [OF assms(1)] by (metis power_add)
    then have "real (2 ^ k * 2 ^ (p - 1)) \<le> real m" by (rule of_nat_mono)
    then have "2 powi e * 2 ^ k \<le> mag m e / 2 ^ (p - 1)"
      by (simp add: mag_def field_simps)
    then show ?thesis unfolding powi_nat by simp
  qed
qed

lemma round_near:
  assumes "k = nat (max (int (bit_size m) - int p) (emin - e))" "0 < p"
  shows "mag (half_even m k) (e + int k) \<le> mag m e + max (mag m e / 2 ^ (p - 1)) (2 powi emin) / 2"
proof -
  have pos: "0 \<le> max (mag m e / 2 ^ (p - 1)) (2 powi emin)" by (simp add: le_max_iff_disj)
  consider "k = 0 \<or> m = 0" | "0 < k" "0 < m" by auto
  then show ?thesis
  proof cases
    case 1
    then have "mag (half_even m k) (e + int k) = mag m e" by (auto simp: half_even_def Let_def mag_def)
    then show ?thesis using pos by simp
  next
    case 2
    have "real (2 * (half_even m k * 2 ^ k)) \<le> real (2 * m + 2 ^ k)" by (rule of_nat_mono [OF half_even_near])
    then have "2 * (real (half_even m k) * 2 ^ k) \<le> 2 * real m + 2 ^ k" by simp
    then have "2 * (real (half_even m k) * 2 ^ k) * 2 powi e \<le> (2 * real m + 2 ^ k) * 2 powi e"
      by (rule mult_right_mono) simp
    then have "2 * mag (half_even m k) (e + int k) \<le> 2 * mag m e + 2 powi (e + int k)"
      by (simp add: mag_def powi_nat algebra_simps)
    then show ?thesis using ulp_bound [OF 2(2) assms 2(1)] by simp
  qed
qed

text \<open>A result that stays below the overflow threshold is finite, keeps its sign, and is that close.\<close>

lemma fl_near:
  assumes "mag m e + max (mag m e / 2 ^ (p - 1)) (2 powi emin) / 2 < 2 powi (emax - 1)" "0 < p"
  obtains m' e' where "fl p emin emax neg m e = Fin neg m' e'"
    "mag m' e' \<le> mag m e + max (mag m e / 2 ^ (p - 1)) (2 powi emin) / 2"
proof -
  define k where "k = nat (max (int (bit_size m) - int p) (emin - e))"
  define m' where "m' = half_even m k"
  have near: "mag m' (e + int k) \<le> mag m e + max (mag m e / 2 ^ (p - 1)) (2 powi emin) / 2"
    unfolding m'_def by (rule round_near [OF k_def assms(2)])
  have "\<not> (m' \<noteq> 0 \<and> emax < int (bit_size m') + (e + int k))"
  proof
    assume big: "m' \<noteq> 0 \<and> emax < int (bit_size m') + (e + int k)"
    then have b: "2 ^ (bit_size m' - 1) \<le> m'" using bit_size_bounds [of m'] by simp
    have pos: "0 < bit_size m'" using big by (simp add: bit_size.simps [of m'])
    have "2 powi (emax - 1) \<le> (2::real) powi (int (bit_size m' - 1) + (e + int k))"
      using big pos by (intro power_int_increasing) auto
    also have "\<dots> = 2 powi (e + int k) * 2 ^ (bit_size m' - 1)" by (simp add: power_int_add algebra_simps)
    also have "\<dots> \<le> 2 powi (e + int k) * real m'"
      using b by (intro mult_left_mono) (simp_all flip: of_nat_le_iff)
    finally have "2 powi (emax - 1) \<le> mag m' (e + int k)" by (simp add: mag_def mult.commute)
    then show False using near assms(1) by linarith
  qed
  then have "fl p emin emax neg m e = Fin neg m' (e + int k)"
    by (simp add: fl_def Let_def m'_def k_def)
  then show ?thesis using near by (rule that)
qed

text \<open>A conversion to an integer stays below a bound on the magnitude.\<close>

lemma d_trunc_bound:
  assumes "mag m x < real n"
  shows "\<bar>d_trunc s m x\<bar> < int n" "d_trunc s m x \<le> 0 \<or> \<not> s" "0 \<le> d_trunc s m x \<or> s"
proof -
  have "(if 0 \<le> x then m * 2 ^ nat x else m div 2 ^ nat (- x)) < n"
  proof (cases "0 \<le> x")
    case True
    then have "mag m x = real (m * 2 ^ nat x)" by (simp add: mag_def power_int_def)
    then have "real (m * 2 ^ nat x) < real n" using assms by linarith
    then have "m * 2 ^ nat x < n" by (simp only: of_nat_less_iff)
    then show ?thesis using True by simp
  next
    case False
    then have "2 powi x = inverse ((2::real) ^ nat (- x))" by (simp add: power_int_def power_one_over inverse_eq_divide)
    then have "mag m x = real m / 2 ^ nat (- x)" by (simp only: mag_def divide_inverse)
    with assms have "real m / 2 ^ nat (- x) < real n" by simp
    then have "real m < real (n * 2 ^ nat (- x))" by (simp add: field_simps)
    then have "m < n * 2 ^ nat (- x)" by (simp only: of_nat_less_iff)
    then show ?thesis using False by (simp add: less_mult_imp_div_less)
  qed
  moreover obtain j where "j = (if 0 \<le> x then m * 2 ^ nat x else m div 2 ^ nat (- x))" by blast
  ultimately have "d_trunc s m x = (if s then - int j else int j)" "j < n"
    unfolding d_trunc_def Let_def by simp_all
  then show "\<bar>d_trunc s m x\<bar> < int n" "d_trunc s m x \<le> 0 \<or> \<not> s" "0 \<le> d_trunc s m x \<or> s"
    by auto
qed

end
