(* ===== verification/Attenuator.thy ===== *)
theory Attenuator
  imports Device Cpp_Arith
begin

text \<open>
  \<open>src/src/Attenuator.cpp\<close> and \<open>src/include/Attenuator.hh\<close>: the driver of the motorised attenuator. A command
  is sent with one retry over a fresh connection and followed by a pause; answers end in \<open>"\n\r"\<close>. Commands
  that move the motor or renumber its counter ask for the position first and refuse unless the motor stands still.
  The theory holds the state, the operations, and their frames.
\<close>

section \<open>State\<close>

datatype op_mode = StepDir | Command

datatype motor_state = Stopped | Accelerating | Decelerating | Running | Unknown | Unnamed_state nat

datatype resolution = Full | Half | Quarter | Eighth | Sixteeth | Unnamed_resolution nat

text \<open>The values a cast can produce: an enumeration holds what the bits of its largest enumerator hold.\<close>

definition op_mode_of :: "int \<Rightarrow> op_mode option" where
  "op_mode_of n = (if n = 0 then Some StepDir else if n = 1 then Some Command else None)"

definition motor_state_of :: "int \<Rightarrow> motor_state option" where
  "motor_state_of n =
     (if n = 0 then Some Stopped else if n = 1 then Some Accelerating else if n = 2 then Some Decelerating
      else if n = 3 then Some Running else if n = 4 then Some Unknown
      else if 4 < n \<and> n < 8 then Some (Unnamed_state (nat n)) else None)"

definition resolution_of :: "nat \<Rightarrow> resolution option" where
  "resolution_of n =
     (if n = 1 then Some Full else if n = 2 then Some Half else if n = 4 then Some Quarter
      else if n = 8 then Some Eighth else if n = 6 then Some Sixteeth
      else if n < 16 then Some (Unnamed_resolution n) else None)"

primrec resolution_num :: "resolution \<Rightarrow> nat" where
  "resolution_num Full = 1"
| "resolution_num Half = 2"
| "resolution_num Quarter = 4"
| "resolution_num Eighth = 8"
| "resolution_num Sixteeth = 6"
| "resolution_num (Unnamed_resolution n) = n"

text \<open>\<open>m_position\<close>, \<open>m_offset\<close> and \<open>m_cal_offset\<close> are \<open>int32_t\<close>.\<close>

record 'w attenuator = "'w device" +
  m_offset :: int
  m_max_speed :: "32 word"
  m_op_mode :: op_mode
  m_motor_state :: motor_state
  m_acceleration :: "16 word"
  m_deceleration :: "16 word"
  m_resolution :: resolution
  m_motor_enabled :: bool
  m_position :: int
  m_current_idle :: "16 word"
  m_current_move :: "16 word"
  m_reset_on_zero :: bool
  m_report_on_zero :: bool
  m_serial_number :: string
  m_cal_scale :: cfloat
  m_cal_offset :: int

section \<open>Talking to the instrument\<close>

function Attenuator_write_cmd :: "'w os \<Rightarrow> string \<Rightarrow> bool \<Rightarrow> (('w, 'z) attenuator_scheme, bool) prog" where
  "Attenuator_write_cmd os cmd repeat =
     bind (Device_write_cmd os cmd) (\<lambda>st.
     if \<not> st then
       (if repeat then andthen (Device_reset_connection os) (Attenuator_write_cmd os cmd False)
        else return False)
     else andthen (sleep_for os 50) (return True))"
  by pat_completeness auto
termination by (relation "measure (\<lambda>(os, cmd, repeat). if repeat then 1 else 0)") auto

definition answer_end :: string where
  "answer_end = LF @ CR"

function Attenuator_read_cmd ::
    "'w os \<Rightarrow> string \<Rightarrow> bool \<Rightarrow> (('w, 'z) attenuator_scheme, bool \<times> string) prog" where
  "Attenuator_read_cmd os answer repeat =
     bind (Serial_readline_into os answer read_max answer_end) (\<lambda>(nbytes, answer).
     if nbytes = 0 then
       (if repeat then andthen (Device_reset_connection os) (Attenuator_read_cmd os answer False)
        else return (False, answer))
     else if nbytes < 2 then return (False, answer)
     else bind (lift (str_erase_from answer (size_sub (length answer) 2))) (\<lambda>answer.
            return (True, answer)))"
  by pat_completeness auto
termination by (relation "measure (\<lambda>(os, answer, repeat). if repeat then 1 else 0)") auto

declare Attenuator_write_cmd.simps [simp del] Attenuator_read_cmd.simps [simp del]

text \<open>Sending a command, with the text of the exception when that fails; asking, and reading the answer.\<close>

definition Attenuator_command :: "'w os \<Rightarrow> string \<Rightarrow> string \<Rightarrow> (('w, 'z) attenuator_scheme, unit) prog" where
  "Attenuator_command os cmd what =
     bind (Attenuator_write_cmd os cmd True) (\<lambda>st. whenM (\<not> st) (throw (IOException what)))"

definition Attenuator_ask ::
    "'w os \<Rightarrow> string \<Rightarrow> string \<Rightarrow> string \<Rightarrow> string \<Rightarrow> (('w, 'z) attenuator_scheme, string) prog" where
  "Attenuator_ask os cmd answer what_send what_read =
     andthen (Attenuator_command os cmd what_send)
       (bind (Attenuator_read_cmd os answer True) (\<lambda>(st, resp).
        if \<not> st then throw (IOException what_read) else return resp))"

section \<open>Position\<close>

text \<open>\<open>get_position(position, status, false)\<close>. The position is a reference parameter: \<open>setp\<close> is the
  assignment to it, which happens before the status is looked at.\<close>

definition Attenuator_query ::
    "'w os \<Rightarrow> (int \<Rightarrow> (('w, 'z) attenuator_scheme, unit) prog) \<Rightarrow> (('w, 'z) attenuator_scheme, int \<times> 16 word) prog" where
  "Attenuator_query os setp =
     bind (Attenuator_ask os ''o'' [] ''Failed to send get position command'' ''Failed to read position'') (\<lambda>resp.
     bind (lift (str_substr_from resp 1)) (\<lambda>resp.
     bind (tokenize_string resp [] '';'') (\<lambda>(tokens, _).
     bind (lift (vec_at tokens 1)) (\<lambda>t1.
     bind (lift (stol t1)) (\<lambda>p.
     andthen (setp (to_int32 p))
    (bind (lift (vec_at tokens 0)) (\<lambda>t0.
     if length t0 \<noteq> 1 then throw (runtime_error ''Expected only 1 char as status. Got '')
     else bind (lift (stoul t0)) (\<lambda>n. return (to_int32 p, ucast n))))))))) "

primrec Attenuator_wait_loop ::
    "'w os \<Rightarrow> (int \<Rightarrow> (('w, 'z) attenuator_scheme, unit) prog) \<Rightarrow> nat \<Rightarrow> int \<times> 16 word
       \<Rightarrow> (('w, 'z) attenuator_scheme, int \<times> 16 word) prog" where
  "Attenuator_wait_loop os setp 0 ps = (if snd ps = 0 then return ps else stuck Out_of_fuel)"
| "Attenuator_wait_loop os setp (Suc n) ps =
     (if snd ps = 0 then return ps
      else bind (Attenuator_query os setp) (\<lambda>ps. andthen (sleep_for os 50) (Attenuator_wait_loop os setp n ps)))"

definition Attenuator_get_position ::
    "'w os \<Rightarrow> (int \<Rightarrow> (('w, 'z) attenuator_scheme, unit) prog) \<Rightarrow> bool
       \<Rightarrow> (('w, 'z) attenuator_scheme, int \<times> 16 word) prog" where
  "Attenuator_get_position os setp wait =
     bind (Attenuator_query os setp) (\<lambda>ps.
       if wait then Attenuator_wait_loop os setp (fuel os) ps else return ps)"

text \<open>The overload with a \<open>MotorState\<close>.\<close>

definition Attenuator_get_position_state ::
    "'w os \<Rightarrow> (int \<Rightarrow> (('w, 'z) attenuator_scheme, unit) prog) \<Rightarrow> bool
       \<Rightarrow> (('w, 'z) attenuator_scheme, int \<times> motor_state) prog" where
  "Attenuator_get_position_state os setp wait =
     bind (Attenuator_get_position os setp wait) (\<lambda>(p, tmp_st).
     bind (cast_enum (motor_state_of (int (unat tmp_st)))) (\<lambda>st. return (p, st)))"

definition Attenuator_refresh_position :: "'w os \<Rightarrow> (('w, 'z) attenuator_scheme, unit) prog" where
  "Attenuator_refresh_position os =
     bind (Attenuator_get_position_state os (\<lambda>p. modify (\<lambda>s. s\<lparr>m_position := p\<rparr>)) False) (\<lambda>(_, st).
       modify (\<lambda>s. s\<lparr>m_motor_state := st\<rparr>))"

text \<open>The guard of every command that moves or renumbers.\<close>

definition Attenuator_need_stop :: "'w os \<Rightarrow> string \<Rightarrow> (('w, 'z) attenuator_scheme, unit) prog" where
  "Attenuator_need_stop os what =
     andthen (Attenuator_refresh_position os)
       (bind (gets m_motor_state) (\<lambda>st. whenM (st \<noteq> Stopped) (throw (runtime_error what))))"

definition no_move :: string where
  "no_move = ''Can't move motor until it is in a stopped (state=''"

definition no_reconf :: string where
  "no_reconf = ''Can't reconfigure motor until it is in a stopped (state=''"

section \<open>Movement\<close>

text \<open>\<open>move\<close> and \<open>go\<close> assign their output parameter only when they wait: \<open>None\<close> is "left as it was".\<close>

definition Attenuator_wait_position :: "'w os \<Rightarrow> bool \<Rightarrow> (('w, 'z) attenuator_scheme, int option) prog" where
  "Attenuator_wait_position os wait =
     (if wait then bind (Attenuator_get_position_state os (\<lambda>_. return ()) wait) (\<lambda>(p, _). return (Some p))
      else return None)"

definition Attenuator_move :: "'w os \<Rightarrow> int \<Rightarrow> bool \<Rightarrow> (('w, 'z) attenuator_scheme, int option) prog" where
  "Attenuator_move os n wait =
     andthen (Attenuator_need_stop os no_move)
    (andthen (Attenuator_command os (''m '' @ show_int n) ''Failed to send move command'')
       (Attenuator_wait_position os wait))"

definition Attenuator_go :: "'w os \<Rightarrow> int \<Rightarrow> bool \<Rightarrow> (('w, 'z) attenuator_scheme, int option) prog" where
  "Attenuator_go os target wait =
     andthen (Attenuator_need_stop os no_move)
    (andthen (Attenuator_command os (''g '' @ show_int target) ''Failed to send go command'')
       (Attenuator_wait_position os wait))"

definition Attenuator_set_current_position :: "'w os \<Rightarrow> int \<Rightarrow> (('w, 'z) attenuator_scheme, unit) prog" where
  "Attenuator_set_current_position os pos =
     andthen (Attenuator_need_stop os no_reconf)
    (andthen (Attenuator_command os (''i '' @ show_int pos) ''Failed to send set position command'')
    (bind (gets (\<lambda>s. s)) (\<lambda>s.
     bind (int32 (pos - m_position s)) (\<lambda>d.
     bind (int32 (m_offset s + d)) (\<lambda>off.
       modify (\<lambda>s. s\<lparr>m_offset := off\<rparr>))))))"

definition Attenuator_set_zero :: "'w os \<Rightarrow> (('w, 'z) attenuator_scheme, unit) prog" where
  "Attenuator_set_zero os =
     andthen (Attenuator_need_stop os no_reconf)
    (bind (gets (\<lambda>s. m_offset s + m_position s)) (\<lambda>x.
     bind (int32 x) (\<lambda>off.
     andthen (modify (\<lambda>s. s\<lparr>m_offset := off\<rparr>))
       (Attenuator_command os ''h'' ''Failed to send set zero command''))))"

definition Attenuator_stop :: "'w os \<Rightarrow> bool \<Rightarrow> (('w, 'z) attenuator_scheme, unit) prog" where
  "Attenuator_stop os force =
     Attenuator_command os (if force then ''b'' else ''st'') ''Failed to send stop command''"

definition Attenuator_go_home :: "'w os \<Rightarrow> (('w, 'z) attenuator_scheme, unit) prog" where
  "Attenuator_go_home os =
     andthen (Attenuator_need_stop os no_reconf)
    (andthen (Attenuator_command os ''zp'' ''Failed to send go home command'')
       (modify (\<lambda>s. s\<lparr>m_offset := 0\<rparr>)))"

section \<open>Registers\<close>

definition Attenuator_set_resolution :: "'w os \<Rightarrow> resolution \<Rightarrow> (('w, 'z) attenuator_scheme, unit) prog" where
  "Attenuator_set_resolution os res =
     (let r = if resolution_num res = 16 then 6 else resolution_num res in
      andthen (modify (\<lambda>s. s\<lparr>m_resolution := res\<rparr>))
        (Attenuator_command os (''r '' @ show_nat r) ''Failed to set resolution''))"

definition Attenuator_set_resolution_u16 :: "'w os \<Rightarrow> 16 word \<Rightarrow> (('w, 'z) attenuator_scheme, unit) prog" where
  "Attenuator_set_resolution_u16 os res =
     bind (cast_enum (resolution_of (unat res))) (Attenuator_set_resolution os)"

text \<open>\<open>val & 0xFF\<close>\<close>

definition low_byte :: "16 word \<Rightarrow> nat" where
  "low_byte val = unat (and val 0xFF)"

definition Attenuator_set_idle_current :: "'w os \<Rightarrow> 16 word \<Rightarrow> (('w, 'z) attenuator_scheme, unit) prog" where
  "Attenuator_set_idle_current os val =
     andthen (Attenuator_command os (''ws '' @ show_nat (low_byte val)) ''Failed to set idle current'')
       (modify (\<lambda>s. s\<lparr>m_current_idle := val\<rparr>))"

definition Attenuator_set_moving_current :: "'w os \<Rightarrow> 16 word \<Rightarrow> (('w, 'z) attenuator_scheme, unit) prog" where
  "Attenuator_set_moving_current os val =
     andthen (Attenuator_command os (''wm '' @ show_nat (low_byte val)) ''Failed to set moving current'')
       (modify (\<lambda>s. s\<lparr>m_current_move := val\<rparr>))"

definition Attenuator_set_acceleration :: "'w os \<Rightarrow> 16 word \<Rightarrow> (('w, 'z) attenuator_scheme, unit) prog" where
  "Attenuator_set_acceleration os val =
     andthen (Attenuator_command os (''a '' @ show_nat (low_byte val)) ''Failed to set acceleration'')
       (modify (\<lambda>s. s\<lparr>m_acceleration := val\<rparr>))"

definition Attenuator_set_deceleration :: "'w os \<Rightarrow> 16 word \<Rightarrow> (('w, 'z) attenuator_scheme, unit) prog" where
  "Attenuator_set_deceleration os val =
     andthen (Attenuator_command os (''d '' @ show_nat (low_byte val)) ''Failed to set deceleration'')
       (modify (\<lambda>s. s\<lparr>m_deceleration := val\<rparr>))"

definition Attenuator_set_max_speed :: "'w os \<Rightarrow> 32 word \<Rightarrow> (('w, 'z) attenuator_scheme, unit) prog" where
  "Attenuator_set_max_speed os speed =
     andthen (Attenuator_command os (''s '' @ show_nat (unat speed)) ''Failed to set max speed'')
       (modify (\<lambda>s. s\<lparr>m_max_speed := speed\<rparr>))"

definition Attenuator_get_status_raw :: "'w os \<Rightarrow> (('w, 'z) attenuator_scheme, string) prog" where
  "Attenuator_get_status_raw os =
     bind (Attenuator_ask os ''p'' [] ''Failed to send get status command'' ''Failed to read status'') (\<lambda>resp.
       lift (str_substr_from resp 1))"

section \<open>Status\<close>

definition token_field :: "string list \<Rightarrow> nat \<Rightarrow> (string \<Rightarrow> exn + 'a) \<Rightarrow> ('s, 'a) prog" where
  "token_field tokens i rd = bind (lift (vec_at tokens i)) (\<lambda>t. lift (rd t))"

text \<open>The registers are assigned one after the other: a token that does not read throws with the earlier ones
  already assigned.\<close>

definition Attenuator_load :: "string list \<Rightarrow> (('w, 'z) attenuator_scheme, unit) prog" where
  "Attenuator_load tokens =
     andthen (bind (token_field tokens 0 stol) (\<lambda>n. bind (cast_enum (op_mode_of n)) (\<lambda>m.
       modify (\<lambda>s. s\<lparr>m_op_mode := m\<rparr>))))
    (andthen (bind (token_field tokens 1 stol) (\<lambda>n. bind (cast_enum (motor_state_of n)) (\<lambda>m.
       modify (\<lambda>s. s\<lparr>m_motor_state := m\<rparr>))))
    (andthen (bind (token_field tokens 2 stoul) (\<lambda>n. modify (\<lambda>s. s\<lparr>m_acceleration := ucast (and n 0xFF)\<rparr>)))
    (andthen (bind (token_field tokens 3 stoul) (\<lambda>n. modify (\<lambda>s. s\<lparr>m_deceleration := ucast (and n 0xFF)\<rparr>)))
    (andthen (bind (token_field tokens 4 stoul) (\<lambda>n. modify (\<lambda>s. s\<lparr>m_max_speed := ucast n\<rparr>)))
    (andthen (bind (token_field tokens 5 stoul) (\<lambda>n. modify (\<lambda>s. s\<lparr>m_current_move := ucast (and n 0xFF)\<rparr>)))
    (andthen (bind (token_field tokens 6 stoul) (\<lambda>n. modify (\<lambda>s. s\<lparr>m_current_idle := ucast (and n 0xFF)\<rparr>)))
    (andthen (bind (token_field tokens 8 stoul) (\<lambda>n. bind (cast_enum (resolution_of (unat n))) (\<lambda>r.
       modify (\<lambda>s. s\<lparr>m_resolution := r\<rparr>))))
    (andthen (bind (token_field tokens 9 stol) (\<lambda>n. modify (\<lambda>s. s\<lparr>m_motor_enabled := (n \<noteq> 0)\<rparr>)))
    (andthen (bind (token_field tokens 11 stol) (\<lambda>n. modify (\<lambda>s. s\<lparr>m_reset_on_zero := (n \<noteq> 0)\<rparr>)))
       (bind (token_field tokens 12 stol) (\<lambda>n. modify (\<lambda>s. s\<lparr>m_report_on_zero := (n \<noteq> 0)\<rparr>))))))))))))"

definition Attenuator_refresh_status :: "'w os \<Rightarrow> (('w, 'z) attenuator_scheme, unit) prog" where
  "Attenuator_refresh_status os =
     bind (Attenuator_ask os ''pc'' [] ''Failed to send get status command'' ''Failed to read status'') (\<lambda>resp.
     bind (lift (str_substr_from resp 2)) (\<lambda>resp.
     bind (tokenize_string resp [] '';'') (\<lambda>(tokens, _). Attenuator_load tokens)))"

section \<open>Transmission\<close>

definition Attenuator_trans_to_steps :: "libm \<Rightarrow> cfloat \<Rightarrow> (('w, 'z) attenuator_scheme, int) prog" where
  "Attenuator_trans_to_steps lm tr =
     bind (gets (\<lambda>s. s)) (\<lambda>s.
     bind (d_to_int32 (d_mul (d_div (d_mul (m_cal_scale s) (d_of_int 180)) M_PI) (lm_acos lm (lm_sqrt lm tr)))) (\<lambda>n.
     bind (int32 (n + m_offset s)) (\<lambda>a. int32 (a + m_cal_offset s))))"

definition Attenuator_steps_to_trans :: "libm \<Rightarrow> int \<Rightarrow> (('w, 'z) attenuator_scheme, cfloat) prog" where
  "Attenuator_steps_to_trans lm n =
     bind (gets (\<lambda>s. s)) (\<lambda>s.
     bind (int32 (n - m_offset s)) (\<lambda>a.
     bind (int32 (a - m_cal_offset s)) (\<lambda>step_raw.
       return (lm_pow lm (lm_cos lm (d_div (d_mul (d_of_int step_raw) M_PI) (d_mul (m_cal_scale s) (d_of_int 180))))
         (d_of_int 2)))))"

text \<open>The output parameter \<open>success\<close> is assigned only on the way out by an exception.\<close>

definition Attenuator_set_transmission ::
    "'w os \<Rightarrow> libm \<Rightarrow> cfloat \<Rightarrow> bool \<Rightarrow> (('w, 'z) attenuator_scheme, bool option) prog" where
  "Attenuator_set_transmission os lm tr wait =
     (if cless tr f_zero \<or> cless d_one tr
      then throw (range_error ''Attenuator::set_transmission : transmission ['')
      else bind (Attenuator_trans_to_steps lm tr) (\<lambda>n.
           bind (Attenuator_go os n wait) (\<lambda>_. return None)))"

definition Attenuator_get_transmission :: "libm \<Rightarrow> (('w, 'z) attenuator_scheme, cfloat) prog" where
  "Attenuator_get_transmission lm = bind (gets m_position) (Attenuator_steps_to_trans lm)"

definition Attenuator_convert_current :: "16 word \<Rightarrow> cfloat" where
  "Attenuator_convert_current val = f_of_d (d_mul (Fin False 4813447281733586 (- 59)) (d_of_int (int (unat val))))"

section \<open>Settings and serial number\<close>

definition Attenuator_save_settings :: "'w os \<Rightarrow> (('w, 'z) attenuator_scheme, unit) prog" where
  "Attenuator_save_settings os = Attenuator_command os ''ss'' ''Failed to send save settings command''"

definition Attenuator_reset_controller :: "'w os \<Rightarrow> (('w, 'z) attenuator_scheme, unit) prog" where
  "Attenuator_reset_controller os = Attenuator_command os ''j'' ''Failed to send reset command''"

definition serial_name :: "string \<Rightarrow> string" where
  "serial_name sn =
     (if 20 < length sn then take 20 sn
      else if length sn < 20 then replicate (20 - length sn) CHR '' '' @ sn
      else replicate 20 CHR '' '')"

definition Attenuator_set_serial_number :: "'w os \<Rightarrow> string \<Rightarrow> (('w, 'z) attenuator_scheme, unit) prog" where
  "Attenuator_set_serial_number os sn =
     Attenuator_command os (''sn '' @ serial_name sn) ''Failed to send command to set serial number''"

text \<open>The caller's string \<open>sn\<close> is what the answer is appended to.\<close>

definition Attenuator_get_serial_number :: "'w os \<Rightarrow> string \<Rightarrow> (('w, 'z) attenuator_scheme, string) prog" where
  "Attenuator_get_serial_number os sn =
     bind (Attenuator_ask os ''n'' sn ''Failed to send command to get serial number'' ''Failed to read serial number'')
       (\<lambda>sn. bind (lift (str_substr_from sn 1)) (\<lambda>sn.
          andthen (modify (\<lambda>s. s\<lparr>m_serial_number := sn\<rparr>)) (return sn)))"

section \<open>Cached values\<close>

definition Attenuator_get_resolution :: "(('w, 'z) attenuator_scheme, 16 word) prog" where
  "Attenuator_get_resolution =
     bind (gets m_resolution) (\<lambda>r.
       let res = of_nat (resolution_num r) in return (if res = 6 then 16 else res))"

definition Attenuator_get_offset :: "(('w, 'z) attenuator_scheme, int) prog" where
  "Attenuator_get_offset = gets m_offset"

definition Attenuator_get_max_speed :: "(('w, 'z) attenuator_scheme, 32 word) prog" where
  "Attenuator_get_max_speed = gets m_max_speed"

definition Attenuator_get_op_mode :: "(('w, 'z) attenuator_scheme, op_mode) prog" where
  "Attenuator_get_op_mode = gets m_op_mode"

definition Attenuator_get_motor_state :: "(('w, 'z) attenuator_scheme, motor_state) prog" where
  "Attenuator_get_motor_state = gets m_motor_state"

definition Attenuator_get_acceleration :: "(('w, 'z) attenuator_scheme, 16 word) prog" where
  "Attenuator_get_acceleration = gets m_acceleration"

definition Attenuator_get_deceleration :: "(('w, 'z) attenuator_scheme, 16 word) prog" where
  "Attenuator_get_deceleration = gets m_deceleration"

definition Attenuator_get_current_idle :: "(('w, 'z) attenuator_scheme, 16 word) prog" where
  "Attenuator_get_current_idle = gets m_current_idle"

definition Attenuator_get_current_move :: "(('w, 'z) attenuator_scheme, 16 word) prog" where
  "Attenuator_get_current_move = gets m_current_move"

definition Attenuator_get_reset_on_zero :: "(('w, 'z) attenuator_scheme, bool) prog" where
  "Attenuator_get_reset_on_zero = gets m_reset_on_zero"

definition Attenuator_get_report_on_zero :: "(('w, 'z) attenuator_scheme, bool) prog" where
  "Attenuator_get_report_on_zero = gets m_report_on_zero"

definition Attenuator_set_cal_parameters :: "int \<Rightarrow> cfloat \<Rightarrow> (('w, 'z) attenuator_scheme, unit) prog" where
  "Attenuator_set_cal_parameters off scale = modify (\<lambda>s. s\<lparr>m_cal_offset := off, m_cal_scale := scale\<rparr>)"

definition Attenuator_get_cal_parameters :: "(('w, 'z) attenuator_scheme, int \<times> cfloat) prog" where
  "Attenuator_get_cal_parameters = gets (\<lambda>s. (m_cal_offset s, m_cal_scale s))"

section \<open>Construction\<close>

text \<open>As the instrument's registers are unknown at first, the constructor ends by asking for them. When its body
  throws, the destructor of the base runs.\<close>

definition Attenuator_ctor :: "'w os \<Rightarrow> string \<Rightarrow> 32 word \<Rightarrow> (('w, 'z) attenuator_scheme, unit) prog" where
  "Attenuator_ctor os comport baud_rate =
     andthen (Device_ctor os comport baud_rate)
    (andthen (modify (\<lambda>s. s\<lparr>m_offset := 0, m_max_speed := 59000, m_op_mode := Command, m_motor_state := Stopped,
        m_acceleration := 0, m_deceleration := 0, m_resolution := Half, m_motor_enabled := True, m_position := 0,
        m_current_idle := 10, m_current_move := 100, m_reset_on_zero := False, m_report_on_zero := False,
        m_serial_number := ''unknown'', m_cal_scale := Fin True 6098619804147935 (- 47), m_cal_offset := 3900\<rparr>))
    (try_catch
      (bind (gets (\<lambda>s. s)) (\<lambda>s.
       andthen (Serial_setBaudrate os (m_baud s))
      (andthen (Serial_setPort os (m_comport s))
      (andthen (Serial_setBytesize os eightbits)
      (andthen (Serial_setParity os parity_none)
      (andthen (modify (\<lambda>s. s\<lparr>m_timeout_ms := 50\<rparr>))
      (andthen (Serial_setTimeout (simpleTimeout 50))
      (andthen (Serial_setStopbits os stopbits_one)
      (andthen (Serial_open os)
      (bind Serial_isOpen (\<lambda>is_open.
       andthen (whenM (\<not> is_open) (throw (PortNotOpenedException ''initial communication'')))
      (andthen (Attenuator_refresh_status os)
         (Attenuator_refresh_position os)))))))))))))
      (\<lambda>e. andthen (Device_destroy os) (throw e))))"

definition Attenuator_destroy :: "'w os \<Rightarrow> (('w, 'z) attenuator_scheme, unit) prog" where
  "Attenuator_destroy os =
     andthen (noexcept (bind Serial_isOpen (\<lambda>is_open. whenM is_open (Serial_close os)))) (Device_destroy os)"

end
