(* ===== verification/Attenuator_Motion.thy ===== *)
theory Attenuator_Motion
  imports Attenuator Sim_Line
begin

text \<open>
  The attenuator driver in motion: its command link, what polling does, and the safety of the commands that move
  the motor or renumber its counter.
\<close>

section \<open>The link\<close>

lemma write_once:
  "Attenuator_write_cmd os cmd False =
     bind (Device_write_cmd os cmd) (\<lambda>st. if \<not> st then return False else andthen (sleep_for os 50) (return True))"
  by (subst Attenuator_write_cmd.simps) simp

lemma command_retry:
  "(Attenuator_command os cmd what :: (('w, 'z) attenuator_scheme, unit) prog) =
     write_retry (\<lambda>c. Attenuator_write_cmd os c False) (Device_reset_connection os) cmd (IOException what)"
proof (rule ext)
  fix s :: "('w, 'z) attenuator_scheme"
  obtain r t where w: "Device_write_cmd os cmd s = (r, t)" by fastforce
  show "Attenuator_command os cmd what s =
     write_retry (\<lambda>c. Attenuator_write_cmd os c False) (Device_reset_connection os) cmd (IOException what) s"
    unfolding Attenuator_command_def write_retry_def
    by (subst Attenuator_write_cmd.simps)
      (cases r; simp add: run_simps w write_once split: outcome.splits prod.splits)
qed

interpretation att_link: command_link dev_step Device_msg wire "\<lambda>c. Attenuator_write_cmd os c False"
    "Device_reset_connection os"
  for os :: "'w os"
proof
  show "wp (Attenuator_write_cmd os c False)
      (\<lambda>r t. dev_step s t \<and> (\<exists>p. wire t = wire s @ p \<and> attempt (Device_msg s c) r p)) s"
    for s :: "('w, 'z) attenuator_scheme" and c
    unfolding write_once wp_bind
    by (rule wp_mono [OF Device_write_attempt])
      (auto simp: onward_def wp_simps attempt_def dev_step_def split: outcome.splits)
qed (rule device_link.reset_law, rule device_link.same_msg)

lemma command_delivers:
  "wp (Attenuator_command os c what)
     (\<lambda>r t. dev_step s t \<and> (\<exists>p. wire t = wire s @ p \<and> delivered (Device_msg s c) r p)) s"
  unfolding command_retry by (rule att_link.retry_delivers)

lemma dev_write_once: "steps dev_step (Attenuator_write_cmd os c False)"
  unfolding write_once by (intro dev.steps_rules dev_ops)

lemma dev_command: "steps dev_step (Attenuator_command os c what)"
  unfolding command_retry by (intro dev_write_retry dev_write_once dev_ops)

lemma lock_command: "lock_safe (Attenuator_command os c what)"
  unfolding command_retry by (intro lock_write_retry lock_ops) (auto simp: write_once intro!: lock_rules lock_ops)

lemma read_once:
  "Attenuator_read_cmd os answer False =
     bind (Serial_readline_into os answer read_max answer_end) (\<lambda>(nbytes, answer).
     if nbytes = 0 then return (False, answer)
     else if nbytes < 2 then return (False, answer)
     else bind (lift (str_erase_from answer (size_sub (length answer) 2))) (\<lambda>answer. return (True, answer)))"
  by (subst Attenuator_read_cmd.simps, unfold if_False, rule refl)

lemma mute_read_att: "steps mute_step (Attenuator_read_cmd os answer repeat)"
proof -
  have once: "steps mute_step (Attenuator_read_cmd os answer False)" for answer
    unfolding read_once by (intro mute.steps_rules mute_ops)
  show ?thesis
    by (subst Attenuator_read_cmd.simps) (intro mute.steps_rules mute_ops once)
qed

lemma lock_read_att: "lock_safe (Attenuator_read_cmd os answer repeat)"
proof -
  have once: "lock_safe (Attenuator_read_cmd os answer False)" for answer
    unfolding read_once by (intro lock_rules lock_ops)
  show ?thesis
    by (subst Attenuator_read_cmd.simps) (intro lock_rules lock_ops once)
qed

lemma mute_dev: "steps mute_step m \<Longrightarrow> steps dev_step m"
  by (erule steps_mono) (simp add: mute_step_def)

lemma dev_ask: "steps dev_step (Attenuator_ask os cmd answer w w')"
  unfolding Attenuator_ask_def by (intro dev.steps_rules dev_command mute_dev mute_read_att)

lemma lock_ask: "lock_safe (Attenuator_ask os cmd answer w w')"
  unfolding Attenuator_ask_def by (intro lock_rules lock_command lock_read_att)

text \<open>Asking sends the question and nothing else.\<close>

definition asked :: "string \<Rightarrow> string \<Rightarrow> bool" where
  "asked m p = (\<exists>q. delivered m q p)"

lemma wp_bind_inv:
  assumes "wp m (\<lambda>_. I) s" "\<And>a t. I t \<Longrightarrow> wp (f a) (\<lambda>_. I) t"
  shows "wp (bind m f) (\<lambda>_. I) s"
  unfolding wp_bind
  by (rule wp_mono [OF assms(1)]) (auto simp: onward_def assms(2) split: outcome.splits)

lemma wp_andthen_inv:
  assumes "wp m (\<lambda>_. I) s" "\<And>t. I t \<Longrightarrow> wp n (\<lambda>_. I) t"
  shows "wp (andthen m n) (\<lambda>_. I) s"
  unfolding andthen_def by (rule wp_bind_inv [OF assms])

lemma mute_wp:
  assumes "steps mute_step m" "dev_step s t \<and> (\<exists>p. wire t = wire s @ p \<and> P p)"
  shows "wp m (\<lambda>_ u. dev_step s u \<and> (\<exists>p. wire u = wire s @ p \<and> P p)) t"
  using assms(2)
  by (intro wp_mono [OF steps_wp [OF assms(1)]]) (auto simp: mute_step_def intro: dev.R_trans)

lemma ask_sends:
  "wp (Attenuator_ask os cmd answer w w')
     (\<lambda>_ t. dev_step s t \<and> (\<exists>p. wire t = wire s @ p \<and> asked (Device_msg s cmd) p)) s"
  unfolding Attenuator_ask_def
  by (rule wp_andthen_inv [OF wp_mono [OF command_delivers]])
    (auto simp: asked_def intro!: mute_wp mute.steps_rules mute_read_att)

section \<open>Polling\<close>

text \<open>Polling changes the cached position and motor state only, and sends nothing but position requests.\<close>

definition att_frame :: "('w, 'z) attenuator_scheme \<Rightarrow> 'z attenuator_ext device_ext" where
  "att_frame s = simpl.more (s\<lparr>m_position := 0, m_motor_state := Stopped\<rparr>)"

definition poll_step :: "('w, 'z) attenuator_scheme \<Rightarrow> ('w, 'z) attenuator_scheme \<Rightarrow> bool" where
  "poll_step s t = (att_frame t = att_frame s
     \<and> (\<exists>ps. wire t = wire s @ concat ps \<and> (\<forall>p \<in> set ps. asked (Device_msg s ''o'') p)))"

lemma att_frame_fields:
  assumes "att_frame t = att_frame s"
  shows "att_frame t = att_frame s \<and> m_comport t = m_comport s \<and> m_baud t = m_baud s
    \<and> m_timeout_ms t = m_timeout_ms s \<and> m_com_pre t = m_com_pre s \<and> m_com_sfx t = m_com_sfx s
    \<and> m_read_sfx t = m_read_sfx s \<and> m_offset t = m_offset s \<and> m_max_speed t = m_max_speed s
    \<and> m_op_mode t = m_op_mode s \<and> m_acceleration t = m_acceleration s
    \<and> m_deceleration t = m_deceleration s \<and> m_resolution t = m_resolution s
    \<and> m_motor_enabled t = m_motor_enabled s \<and> m_current_idle t = m_current_idle s
    \<and> m_current_move t = m_current_move s \<and> m_reset_on_zero t = m_reset_on_zero s
    \<and> m_report_on_zero t = m_report_on_zero s \<and> m_serial_number t = m_serial_number s
    \<and> m_cal_scale t = m_cal_scale s \<and> m_cal_offset t = m_cal_offset s
    \<and> attenuator.more t = attenuator.more s"
  using assms by (cases s, cases t) (simp add: att_frame_def)

lemma Device_msg_frame: "att_frame t = att_frame s \<Longrightarrow> Device_msg t = Device_msg s"
  by (rule ext, drule att_frame_fields) (simp add: Device_msg_def)

lemma dev_att_frame: "dev_step s t \<Longrightarrow> att_frame t = att_frame s"
  by (cases s, cases t) (simp add: dev_step_def att_frame_def)

interpretation poll: step_rel poll_step
proof
  show "poll_step s s" for s :: "('w, 'z) attenuator_scheme"
    by (auto simp: poll_step_def intro: exI [of _ "[]"])
  show "poll_step s u" if "poll_step s t" "poll_step t u" for s t u :: "('w, 'z) attenuator_scheme"
  proof -
    from that obtain ps qs where "wire t = wire s @ concat ps" "\<forall>p \<in> set ps. asked (Device_msg s ''o'') p"
      "wire u = wire t @ concat qs" "\<forall>p \<in> set qs. asked (Device_msg t ''o'') p"
      and f: "att_frame t = att_frame s" "att_frame u = att_frame t"
      by (auto simp: poll_step_def)
    then show ?thesis
      unfolding poll_step_def Device_msg_frame [OF f(1)] by (intro conjI exI [of _ "ps @ qs"]) auto
  qed
qed

lemma mute_poll: "mute_step s t \<Longrightarrow> poll_step s t"
  by (auto simp: mute_step_def poll_step_def dev_att_frame intro: exI [of _ "[]"])

lemma poll_ask: "steps poll_step (Attenuator_ask os ''o'' answer w w')"
proof (rule stepsI)
  fix s
  obtain r t where run: "Attenuator_ask os ''o'' answer w w' s = (r, t)" by fastforce
  from wp_runD [OF ask_sends run] show "poll_step s (snd (Attenuator_ask os ''o'' answer w w' s))"
    by (auto simp: run poll_step_def dev_att_frame intro: exI [of _ "[_]"])
qed

lemma poll_fields:
  "steps poll_step (modify (\<lambda>s. s\<lparr>m_position := p\<rparr>))" "steps poll_step (modify (\<lambda>s. s\<lparr>m_motor_state := st\<rparr>))"
  "steps poll_step (sleep_for os ms)"
proof -
  have frame: "poll_step s (s\<lparr>m_position := p\<rparr>)" "poll_step s (s\<lparr>m_motor_state := st\<rparr>)" for s
    by (auto simp: poll_step_def att_frame_def wire_def intro: exI [of _ "[]"])
  then show "steps poll_step (modify (\<lambda>s. s\<lparr>m_position := p\<rparr>))" "steps poll_step (modify (\<lambda>s. s\<lparr>m_motor_state := st\<rparr>))"
    by (auto intro: poll.steps_modify)
  show "steps poll_step (sleep_for os ms)" by (rule steps_mono [OF mute_Serial(9) mute_poll])
qed

lemma poll_cast: "steps poll_step (cast_enum v)"
  unfolding cast_enum_def by (cases v) (auto intro: poll.steps_rules)

lemma poll_query: "(\<And>p. steps poll_step (setp p)) \<Longrightarrow> steps poll_step (Attenuator_query os setp)"
  unfolding Attenuator_query_def by (intro poll.steps_rules poll.steps_tokenize poll_ask)

lemma poll_wait_loop:
  "(\<And>p. steps poll_step (setp p)) \<Longrightarrow> steps poll_step (Attenuator_wait_loop os setp n ps)"
  by (induction n arbitrary: ps) (auto intro!: poll.steps_rules poll_query poll_fields)

lemma poll_get_position:
  assumes "\<And>p. steps poll_step (setp p)"
  shows "steps poll_step (Attenuator_get_position os setp wait)"
    "steps poll_step (Attenuator_get_position_state os setp wait)"
  unfolding Attenuator_get_position_state_def Attenuator_get_position_def
  by (intro poll.steps_rules poll_query poll_wait_loop poll_cast assms)+

lemma poll_refresh: "steps poll_step (Attenuator_refresh_position os)"
  unfolding Attenuator_refresh_position_def by (intro poll.steps_rules poll_get_position poll_fields)

lemma poll_need_stop: "steps poll_step (Attenuator_need_stop os what)"
  unfolding Attenuator_need_stop_def by (intro poll.steps_rules poll_refresh)

lemma poll_wait_position: "steps poll_step (Attenuator_wait_position os wait)"
  unfolding Attenuator_wait_position_def by (intro poll.steps_rules poll_get_position)

lemma need_stop_Ret:
  assumes "Attenuator_need_stop os what s = (Ret (), t)"
  shows "Attenuator_refresh_position os s = (Ret (), t)" "m_motor_state t = Stopped"
  using assms by (auto simp: Attenuator_need_stop_def run_simps split: outcome.splits prod.splits if_splits)

lemma need_stop_moving:
  assumes "Attenuator_refresh_position os s = (Ret (), t)" "m_motor_state t \<noteq> Stopped"
  shows "Attenuator_need_stop os what s = (Exn (runtime_error what), t)"
  using assms by (auto simp: Attenuator_need_stop_def run_simps)

section \<open>Motion commands\<close>

datatype motion = M_move int bool | M_go int bool | M_set_current_position int | M_set_zero | M_go_home

primrec Attenuator_motion :: "'w os \<Rightarrow> motion \<Rightarrow> (('w, 'z) attenuator_scheme, unit) prog" where
  "Attenuator_motion os (M_move n wait) = bind (Attenuator_move os n wait) (\<lambda>_. return ())"
| "Attenuator_motion os (M_go n wait) = bind (Attenuator_go os n wait) (\<lambda>_. return ())"
| "Attenuator_motion os (M_set_current_position n) = Attenuator_set_current_position os n"
| "Attenuator_motion os M_set_zero = Attenuator_set_zero os"
| "Attenuator_motion os M_go_home = Attenuator_go_home os"

primrec motion_text :: "motion \<Rightarrow> string" where
  "motion_text (M_move n wait) = ''m '' @ show_int n"
| "motion_text (M_go n wait) = ''g '' @ show_int n"
| "motion_text (M_set_current_position n) = ''i '' @ show_int n"
| "motion_text M_set_zero = ''h''"
| "motion_text M_go_home = ''zp''"

text \<open>What a motion command does after the guard: it sends its text, and then at most polls.\<close>

definition moves :: "string \<Rightarrow> ('w, 'z) attenuator_scheme \<Rightarrow> unit outcome \<Rightarrow> ('w, 'z) attenuator_scheme \<Rightarrow> bool" where
  "moves cmd u r t = (\<exists>d xs c. wire t = wire u @ d @ concat xs \<and> delivered (Device_msg u cmd) c d
     \<and> (\<forall>x \<in> set xs. asked (Device_msg u ''o'') x) \<and> (r = Ret () \<longrightarrow> c = Ret ()))"

lemma moves_nothing: "r \<noteq> Ret () \<Longrightarrow> wire t = wire u \<Longrightarrow> moves cmd u r t"
  unfolding moves_def
  by (intro exI [of _ "[]"] exI [of _ r]) (use delivered_fail(2) [of 0 "Device_msg u cmd" r] in auto)

lemma andthen_bind: "bind (andthen m n) f = andthen m (bind n f)"
  by (simp add: andthen_def bind_assoc)

lemma andthen_stops:
  "m s = (q, u) \<Longrightarrow> q \<noteq> Ret () \<Longrightarrow> andthen m n s = (r, t) \<Longrightarrow> t = u \<and> r \<noteq> Ret x"
  by (cases q) (auto simp: run_andthen)

lemma command_moves:
  assumes "steps poll_step n"
  shows "wp (andthen (Attenuator_command os cmd what) n) (moves cmd u) u"
  unfolding wp_andthen
proof (rule wp_mono [OF command_delivers])
  fix r v
  assume "dev_step u v \<and> (\<exists>p. wire v = wire u @ p \<and> delivered (Device_msg u cmd) r p)"
  then obtain d where d: "dev_step u v" "wire v = wire u @ d" "delivered (Device_msg u cmd) r d" by blast
  have msg: "Device_msg v = Device_msg u" by (rule dev_step_fields(8) [OF d(1)])
  have sent: "moves cmd u q v" if "q \<noteq> Ret ()" for q
    unfolding moves_def using d that by (intro exI [of _ d] exI [of _ "[]"]) auto
  have "wp n (moves cmd u) v" if "r = Ret ()"
  proof (rule wp_mono [OF steps_wp [OF assms]])
    fix q t assume "poll_step v t"
    then obtain xs where "wire t = wire u @ d @ concat xs" "\<forall>x \<in> set xs. asked (Device_msg u ''o'') x"
      using d(2) by (auto simp: poll_step_def msg)
    then show "moves cmd u q t" unfolding moves_def using d(3) that by blast
  qed
  then show "onward (\<lambda>_. wp n (moves cmd u)) (moves cmd u) r v"
    using sent by (cases r) auto
qed

lemma wire_att_fields [simp]:
  "wire (u\<lparr>m_offset := i\<rparr>) = wire u" "wire (u\<lparr>m_max_speed := sp\<rparr>) = wire u"
  "wire (u\<lparr>m_acceleration := w\<rparr>) = wire u" "wire (u\<lparr>m_deceleration := w\<rparr>) = wire u"
  "wire (u\<lparr>m_resolution := rs\<rparr>) = wire u" "wire (u\<lparr>m_current_idle := w\<rparr>) = wire u"
  "wire (u\<lparr>m_current_move := w\<rparr>) = wire u" "wire (u\<lparr>m_serial_number := nm\<rparr>) = wire u"
  by (simp_all add: wire_def)

text \<open>A tail that sends nothing and may change the offset.\<close>

lemma command_then_silent:
  assumes "\<And>v. wire (snd (n v)) = wire v"
  shows "wp (andthen (Attenuator_command os cmd what) n) (moves cmd u) u"
  unfolding wp_andthen
proof (rule wp_mono [OF command_delivers])
  fix r v
  assume "dev_step u v \<and> (\<exists>p. wire v = wire u @ p \<and> delivered (Device_msg u cmd) r p)"
  then obtain d where d: "wire v = wire u @ d" "delivered (Device_msg u cmd) r d" by blast
  have "moves cmd u q t" if "wire t = wire v" "q = Ret () \<Longrightarrow> r = Ret ()" for q t
    unfolding moves_def using d that by (intro exI [of _ d] exI [of _ "[]"]) auto
  then show "onward (\<lambda>_. wp n (moves cmd u)) (moves cmd u) r v"
    using assms [of v] by (cases r) (auto simp: wp_def case_prod_unfold)
qed

lemma motion_guarded:
  obtains what rest where "Attenuator_motion os a = andthen (Attenuator_need_stop os what) rest"
    "\<And>u. wp rest (moves (motion_text a) u) u"
proof (cases a)
  case (M_move n wait)
  show ?thesis
    by (rule that [where what = no_move])
      (auto simp: M_move Attenuator_move_def andthen_bind
        intro!: command_moves poll.steps_rules poll_wait_position)
next
  case (M_go n wait)
  show ?thesis
    by (rule that [where what = no_move])
      (auto simp: M_go Attenuator_go_def andthen_bind
        intro!: command_moves poll.steps_rules poll_wait_position)
next
  case (M_set_current_position n)
  show ?thesis
    by (rule that [where what = no_reconf])
      (auto simp: M_set_current_position Attenuator_set_current_position_def run_simps
        intro!: command_then_silent)
next
  case M_set_zero
  have "wp (bind (gets (\<lambda>s. m_offset s + m_position s)) (\<lambda>x. bind (int32 x) (\<lambda>off.
      andthen (modify (\<lambda>s. s\<lparr>m_offset := off\<rparr>)) (Attenuator_command os ''h'' w)))) (moves ''h'' u) u" for u w
  proof (cases "int32_ok (m_offset u + m_position u)")
    case True
    let ?v = "u\<lparr>m_offset := m_offset u + m_position u\<rparr>"
    have msg: "Device_msg ?v = Device_msg u" by (rule ext) (simp add: Device_msg_def)
    have "moves ''h'' u q t" if "wire t = wire ?v @ p" "delivered (Device_msg ?v ''h'') q p" for p q t
      unfolding moves_def using that by (intro exI [of _ p] exI [of _ "[]"] exI [of _ q]) (simp add: msg)
    then have "wp (Attenuator_command os ''h'' w) (moves ''h'' u) ?v"
      by (blast intro: wp_mono [OF command_delivers])
    then show ?thesis using True by (simp add: wp_simps int32_def)
  next
    case False
    then show ?thesis by (simp add: wp_simps int32_def moves_nothing)
  qed
  then show ?thesis
    by (intro that [where what = no_reconf]) (auto simp: M_set_zero Attenuator_set_zero_def)
next
  case M_go_home
  show ?thesis
    by (rule that [where what = no_reconf])
      (auto simp: M_go_home Attenuator_go_home_def run_simps intro!: command_then_silent)
qed

text \<open>C5. The motor is told to move, or its counter to be renumbered, only when it has reported that it stands still.
  Whatever a motion command does before, it sends nothing but position requests; if it sends its own command then
  the answer to the request was a stopped motor; and it returns only if the command went out whole.\<close>

theorem motion_needs_stop:
  fixes s :: "('w, 'z) attenuator_scheme"
  assumes "Attenuator_motion os a s = (r, t)"
  shows "\<exists>ps. (\<forall>p \<in> set ps. asked (Device_msg s ''o'') p)
    \<and> (wire t = wire s @ concat ps \<and> r \<noteq> Ret ()
     \<or> (\<exists>u d xs c. Attenuator_refresh_position os s = (Ret (), u) \<and> m_motor_state u = Stopped
        \<and> wire t = wire s @ concat ps @ d @ concat xs \<and> delivered (Device_msg s (motion_text a)) c d
        \<and> (r = Ret () \<longrightarrow> c = Ret ()) \<and> (\<forall>x \<in> set xs. asked (Device_msg s ''o'') x)))"
proof -
  obtain what and rest :: "(('w, 'z) attenuator_scheme, unit) prog"
    where m: "Attenuator_motion os a = andthen (Attenuator_need_stop os what) rest"
    and rest: "\<And>u. wp rest (moves (motion_text a) u) u"
    by (rule motion_guarded [of os a], rule that)
  obtain q u where q: "Attenuator_need_stop os what s = (q, u)" by fastforce
  have "poll_step s u" by (rule stepsD [OF poll_need_stop q])
  then obtain ps where ps: "\<forall>p \<in> set ps. asked (Device_msg s ''o'') p" "wire u = wire s @ concat ps"
    and msg: "Device_msg u = Device_msg s"
    using Device_msg_frame [of u s] unfolding poll_step_def by blast
  show ?thesis
  proof (cases "q = Ret ()")
    case False
    then have "t = u \<and> r \<noteq> Ret ()" by (rule andthen_stops [OF q _ assms [unfolded m]])
    then show ?thesis using ps by (intro exI [of _ ps] conjI disjI1) simp_all
  next
    case True
    then have "rest u = (r, t)" using assms unfolding m run_andthen q by simp
    from wp_runD [OF rest this] obtain d xs c where "wire t = wire u @ d @ concat xs"
      "delivered (Device_msg u (motion_text a)) c d" "\<forall>x \<in> set xs. asked (Device_msg u ''o'') x" "r = Ret () \<longrightarrow> c = Ret ()"
      unfolding moves_def by blast
    then show ?thesis using ps need_stop_Ret [OF q [unfolded True]] unfolding msg by (intro exI [of _ ps] conjI disjI2 exI [of _ u] exI [of _ d] exI [of _ xs] exI [of _ c]) simp_all
  qed
qed

section \<open>Running the driver\<close>

text \<open>An attenuator on the scripted line, as its constructor leaves it.\<close>

definition att_on :: "line \<Rightarrow> line attenuator" where
  "att_on w = open_port w \<lparr>m_comport = ''/dev/ttyUSB1'', m_baud = 38400, m_com_pre = [], m_com_sfx = CR,
     m_read_sfx = [], m_timeout_ms = 50, m_offset = 0, m_max_speed = 59000, m_op_mode = Command,
     m_motor_state = Stopped, m_acceleration = 0, m_deceleration = 0, m_resolution = Half, m_motor_enabled = True,
     m_position = 0, m_current_idle = 10, m_current_move = 100, m_reset_on_zero = False, m_report_on_zero = False,
     m_serial_number = ''unknown'', m_cal_scale = Fin True 6098619804147935 (- 47), m_cal_offset = 3900\<rparr>"

lemma read_twice:
  "Attenuator_read_cmd os answer True =
     bind (Serial_readline_into os answer read_max answer_end) (\<lambda>(nbytes, answer).
     if nbytes = 0 then andthen (Device_reset_connection os) (Attenuator_read_cmd os answer False)
     else if nbytes < 2 then return (False, answer)
     else bind (lift (str_erase_from answer (size_sub (length answer) 2))) (\<lambda>answer. return (True, answer)))"
  by (subst Attenuator_read_cmd.simps, unfold if_True, rule refl)

lemmas att_run = sim_run att_on_def command_retry write_once read_twice read_once Attenuator_ask_def answer_end_def
  str_erase_from_def size_sub_def str_substr_from_def vec_at_def show_nat.simps digit_chars

lemmas poll_run = att_run Attenuator_query_def Attenuator_get_position_def Attenuator_get_position_state_def
  Attenuator_refresh_position_def Attenuator_need_stop_def Attenuator_wait_position_def
  run_tokenize run_cast_enum run_int32

lemma answer_40: "split_on '';'' ''0;40'' = [''0'', ''40'']" "stol ''40'' = Inr 40" "to_int32 40 = 40"
  by code_simp+

lemma stoul_0: "stoul ''0'' = Inr 0"
  using stoul_show_nat [of 0 "[]"] by (simp add: show_nat.simps digit_chars)

theorem motion_needs_stop_witness:
  "\<exists>ps u d xs. Attenuator_refresh_position line_os (att_on (quiet_line [''o0;40'' @ LF @ CR] [])) = (Ret (), u)
    \<and> m_motor_state u = Stopped
    \<and> wire (snd (Attenuator_motion line_os (M_go 120 False) (att_on (quiet_line [''o0;40'' @ LF @ CR] []))))
      = concat ps @ d @ concat xs
    \<and> delivered (''g 120'' @ CR) (Ret ()) d"
proof -
  define s where "s = att_on (quiet_line [''o0;40'' @ LF @ CR] [])"
  obtain r t where run: "Attenuator_motion line_os (M_go 120 False) s = (r, t)" by fastforce
  have "r = Ret ()"
    using run by (auto simp: s_def poll_run Attenuator_go_def answer_40 stoul_0 motor_state_of_def show_int_def)
  moreover have "wire s = []" "Device_msg s c = c @ CR" for c
    by (simp_all add: s_def att_on_def open_port_def wire_def Device_msg_def)
  moreover have "motion_text (M_go 120 False) = ''g 120''" by (simp add: show_int_def show_nat.simps digit_chars)
  ultimately show ?thesis
    using motion_needs_stop [OF run] unfolding s_def [symmetric] run by auto
qed

end
