(* ===== verification/Attenuator_Registers.thy ===== *)
theory Attenuator_Registers
  imports Attenuator_Motion
begin

text \<open>
  The attenuator's answers and registers: what the driver caches is what the instrument printed, what it sends is
  what it was asked for up to the width of the register, waiting ends when the motor does, and a transmission is a
  target inside the travel of the motor.
\<close>

section \<open>Answers\<close>

lemma show_no_sep: "CHR '';'' \<notin> set (show_nat n)" "CHR '';'' \<notin> set (show_int i)"
  by (auto dest!: show_nat_digits show_int_chars simp: is_digit_def)

lemma small_digit: "d < 10 \<Longrightarrow> show_nat d = [digit_char d]"
  by (simp add: show_nat.simps)

lemma enum_casts:
  "n < 2 \<Longrightarrow> \<exists>m. op_mode_of (int n) = Some m" "n < 8 \<Longrightarrow> \<exists>st. motor_state_of (int n) = Some st"
  "n < 16 \<Longrightarrow> \<exists>r. resolution_of n = Some r"
  by (simp_all add: op_mode_of_def motor_state_of_def resolution_of_def)

text \<open>C21. The position is read back as the instrument printed it: an answer that echoes the request and holds a motor
  state and a position is what the driver caches, and nothing else of its state changes.\<close>

theorem position_read_back:
  assumes "Attenuator_ask os ''o'' [] ''Failed to send get position command'' ''Failed to read position'' s
      = (Ret (''o'' @ show_nat d @ '';'' @ show_int p), u)"
    "d < 8" "int32_ok p"
  shows "\<exists>st. motor_state_of (int d) = Some st
    \<and> Attenuator_refresh_position os s = (Ret (), u\<lparr>m_position := p, m_motor_state := st\<rparr>)"
proof -
  have split: "split_on '';'' (digit_char d # CHR '';'' # show_int p) = [[digit_char d], show_int p]"
  proof -
    have "CHR '';'' \<notin> set [digit_char d]" using show_no_sep(1) [of d] assms(2) by (simp add: small_digit)
    then show ?thesis
      using split_on_join [of "[[digit_char d], show_int p]" "CHR '';''"] show_no_sep(2) [of p] by fastforce
  qed
  have p: "stol (show_int p) = Inr p"
    using stol_show_int [of p "[]"] assms(3) by (simp add: int32_ok_def)
  have d: "stoul [digit_char d] = Inr (of_nat d)"
    using stoul_show_nat [of d "[]"] assms(2) by (simp add: small_digit)
  have w: "uint (ucast (of_nat d :: 64 word) :: 16 word) = int d"
    using assms(2) by (simp add: unsigned_ucast_eq unsigned_of_nat take_bit_nat_eq_self)
  obtain st where st: "motor_state_of (int d) = Some st"
    using enum_casts(2) [OF assms(2)] by blast
  moreover have "Attenuator_refresh_position os s = (Ret (), u\<lparr>m_position := p, m_motor_state := st\<rparr>)"
    using assms(1,2) st
    by (simp add: Attenuator_refresh_position_def Attenuator_get_position_state_def Attenuator_get_position_def
        Attenuator_query_def run_simps str_substr_from_def vec_at_def small_digit split p d w to_int32_id [OF assms(3)])
  ultimately show ?thesis by blast
qed

theorem position_read_back_witness:
  "\<exists>u. Attenuator_refresh_position line_os (att_on (quiet_line [''o3;-25'' @ LF @ CR] []))
     = (Ret (), u\<lparr>m_position := - 25, m_motor_state := Running\<rparr>)"
proof -
  define s where "s = att_on (quiet_line [''o3;-25'' @ LF @ CR] [])"
  obtain r u where ask: "Attenuator_ask line_os ''o'' [] ''Failed to send get position command''
      ''Failed to read position'' s = (r, u)" by fastforce
  have num: "''o'' @ show_nat 3 @ '';'' @ show_int (- 25) = ''o3;-25''"
    by (simp add: show_int_def show_nat.simps digit_chars)
  have r: "r = Ret (''o'' @ show_nat 3 @ '';'' @ show_int (- 25))"
    unfolding num using ask by (auto simp: s_def att_run)
  from position_read_back [OF ask [unfolded r]] show ?thesis
    unfolding s_def [symmetric] by (auto simp: motor_state_of_def int32_ok_def)
qed

text \<open>The registers, one token each; the tokens between them belong to other modes of the controller.\<close>

lemma stoul_byte:
  assumes "n < 256"
  shows "stoul (show_nat n) = Inr (of_nat n)" "ucast (and (of_nat n :: 64 word) 0xFF) = (of_nat n :: 16 word)"
proof -
  show "stoul (show_nat n) = Inr (of_nat n)" using stoul_show_nat [of n "[]"] assms by simp
  have "and (of_nat n :: 64 word) 0xFF = take_bit 8 (of_nat n)" by (simp add: take_bit_eq_mask mask_numeral)
  also have "\<dots> = of_nat n" using assms by (simp add: take_bit_of_nat take_bit_nat_eq_self)
  finally show "ucast (and (of_nat n :: 64 word) 0xFF) = (of_nat n :: 16 word)"
    using assms by (simp add: unsigned_of_nat take_bit_nat_eq_self)
qed

lemma stoul_word32:
  assumes "n < 2 ^ 32"
  shows "stoul (show_nat n) = Inr (of_nat n)" "ucast (of_nat n :: 64 word) = (of_nat n :: 32 word)"
  using stoul_show_nat [of n "[]"] assms by (simp_all add: unsigned_of_nat take_bit_nat_eq_self)

lemma stol_nat: "n < 2 ^ 63 \<Longrightarrow> stol (show_nat n) = Inr (int n)"
  using stol_show_nat [of n "[]"] by simp

lemma refresh_status_load:
  "Attenuator_ask os ''pc'' [] ''Failed to send get status command'' ''Failed to read status'' s = (Ret (''pc'' @ txt), u)
     \<Longrightarrow> Attenuator_refresh_status os s = Attenuator_load (split_on '';'' txt) u"
  by (simp add: Attenuator_refresh_status_def run_simps str_substr_from_def)

text \<open>C22. The status line is read back as the instrument printed it: a line of at least thirteen numbers, each in
  the range of its register, sets the cached registers to these numbers and changes nothing else.\<close>

theorem status_read_back:
  assumes "Attenuator_ask os ''pc'' [] ''Failed to send get status command'' ''Failed to read status'' s
      = (Ret (''pc'' @ join CHR '';'' (map show_nat [md, st, ac, de, sp, cm, ci, sd, re, en, rv, rz, rp] @ rest)), u)"
    and rest: "CHR '';'' \<notin> set (concat rest)"
    and range: "md < 2" "st < 8" "ac < 256" "de < 256" "sp < 2 ^ 32" "cm < 256" "ci < 256" "re < 16"
      "en < 2 ^ 63" "rz < 2 ^ 63" "rp < 2 ^ 63"
  shows "\<exists>m q r. op_mode_of (int md) = Some m \<and> motor_state_of (int st) = Some q \<and> resolution_of re = Some r
    \<and> Attenuator_refresh_status os s = (Ret (), u\<lparr>m_op_mode := m, m_motor_state := q, m_acceleration := of_nat ac,
        m_deceleration := of_nat de, m_max_speed := of_nat sp, m_current_move := of_nat cm,
        m_current_idle := of_nat ci, m_resolution := r, m_motor_enabled := (en \<noteq> 0),
        m_reset_on_zero := (rz \<noteq> 0), m_report_on_zero := (rp \<noteq> 0)\<rparr>)"
proof -
  let ?ts = "map show_nat [md, st, ac, de, sp, cm, ci, sd, re, en, rv, rz, rp] @ rest"
  have split: "split_on '';'' (join CHR '';'' ?ts) = ?ts"
    by (rule split_on_join) (use rest in \<open>auto dest: show_no_sep(1) [THEN notE]\<close>)
  obtain m where m: "op_mode_of (int md) = Some m" using enum_casts(1) [OF range(1)] by blast
  obtain q where q: "motor_state_of (int st) = Some q" using enum_casts(2) [OF range(2)] by blast
  obtain r where r: "resolution_of re = Some r" using enum_casts(3) [OF range(8)] by blast
  have re: "stoul (show_nat re) = Inr (of_nat re)" "unat (of_nat re :: 64 word) = re"
    using stoul_show_nat [of re "[]"] range(8) by (simp_all add: unsigned_of_nat take_bit_nat_eq_self)
  have small: "md < 2 ^ 63" "st < 2 ^ 63" using range(1,2) by simp_all
  note reads = stol_nat [OF small(1)] stol_nat [OF small(2)] stoul_byte [OF range(3)] stoul_byte [OF range(4)]
    stoul_word32 [OF range(5)] stoul_byte [OF range(6)] stoul_byte [OF range(7)] re stol_nat [OF range(9)]
    stol_nat [OF range(10)] stol_nat [OF range(11)]
  have load: "Attenuator_load ?ts u = (Ret (), u\<lparr>m_op_mode := m, m_motor_state := q, m_acceleration := of_nat ac,
        m_deceleration := of_nat de, m_max_speed := of_nat sp, m_current_move := of_nat cm,
        m_current_idle := of_nat ci, m_resolution := r, m_motor_enabled := (en \<noteq> 0),
        m_reset_on_zero := (rz \<noteq> 0), m_report_on_zero := (rp \<noteq> 0)\<rparr>)"
    by (simp add: Attenuator_load_def token_field_def vec_at_def run_simps m q r reads)
  show ?thesis
    unfolding refresh_status_load [OF assms(1)] split load using m q r by blast
qed

definition status_line :: string where
  "status_line = ''pc1;0;10;20;59000;100;12;0;2;1;0;1;0;9''"

lemma status_line_tokens:
  "status_line = ''pc'' @ join CHR '';'' (map show_nat [1, 0, 10, 20, 59000, 100, 12, 0, 2, 1, 0, 1, 0] @ [''9''])"
  by (simp add: status_line_def show_nat.simps digit_chars)

theorem status_read_back_witness:
  "\<exists>u. Attenuator_refresh_status line_os (att_on (quiet_line [status_line @ LF @ CR] [])) = (Ret (), u)
    \<and> m_max_speed u = 59000 \<and> m_current_idle u = 12 \<and> m_resolution u = Half \<and> m_reset_on_zero u"
proof -
  define s where "s = att_on (quiet_line [status_line @ LF @ CR] [])"
  obtain r u where ask: "Attenuator_ask line_os ''pc'' [] ''Failed to send get status command''
      ''Failed to read status'' s = (r, u)" by fastforce
  have r: "r = Ret status_line" using ask by (auto simp: s_def att_run status_line_def)
  from status_read_back [OF ask [unfolded r status_line_tokens]] show ?thesis
    unfolding s_def [symmetric] by (auto simp: op_mode_of_def motor_state_of_def resolution_of_def)
qed

section \<open>Waiting for the motor\<close>

text \<open>\<open>rests_after os setp n s p t\<close>: asked again and again from state \<open>s\<close> on, the motor is still moving \<open>n\<close> times and
  then stands at \<open>p\<close>.\<close>

inductive rests_after ::
    "'w os \<Rightarrow> (int \<Rightarrow> (('w, 'z) attenuator_scheme, unit) prog) \<Rightarrow> nat \<Rightarrow> ('w, 'z) attenuator_scheme \<Rightarrow> int
       \<Rightarrow> ('w, 'z) attenuator_scheme \<Rightarrow> bool" for os setp where
  rests_now: "Attenuator_query os setp s = (Ret (p, 0), u) \<Longrightarrow> sleep_for os 50 u = (Ret (), t)
     \<Longrightarrow> rests_after os setp 0 s p t"
| rests_later: "Attenuator_query os setp s = (Ret (q, st), u) \<Longrightarrow> st \<noteq> 0 \<Longrightarrow> sleep_for os 50 u = (Ret (), v)
     \<Longrightarrow> rests_after os setp n v p t \<Longrightarrow> rests_after os setp (Suc n) s p t"

lemma wait_loop_rest: "Attenuator_wait_loop os setp n (p, 0) = return (p, 0)"
  by (cases n) auto

lemma wait_loop_rests:
  "rests_after os setp n s p t \<Longrightarrow> st \<noteq> 0 \<Longrightarrow> n < k \<Longrightarrow> Attenuator_wait_loop os setp k (q, st) s = (Ret (p, 0), t)"
proof (induction arbitrary: k q st rule: rests_after.induct)
  case (rests_now s p u t)
  then show ?case by (cases k) (auto simp: run_simps wait_loop_rest)
next
  case (rests_later s q' st' u v n p t)
  then show ?case by (cases k) (auto simp: run_simps)
qed

lemma wait_loop_stopped: "Attenuator_wait_loop os setp k ps s = (Ret qs, t) \<Longrightarrow> snd qs = 0"
proof (induction k arbitrary: ps s)
  case 0
  then show ?case by (auto simp: run_simps split: if_splits)
next
  case (Suc k)
  then show ?case by (auto simp: run_simps split: if_splits prod.splits outcome.splits)
qed

text \<open>C15. Waiting ends: if the motor, asked again and again, comes to rest within the number of polls the loop is
  given, then \<open>get_position\<close> with \<open>wait\<close> returns, with the position it rests at. And it never returns earlier.\<close>

theorem waiting_ends:
  assumes "Attenuator_query os setp s = (Ret (q, st), u)" "st \<noteq> 0" "rests_after os setp n u p t" "n < fuel os"
  shows "Attenuator_get_position os setp True s = (Ret (p, 0), t)
    \<and> (\<forall>v r w. Attenuator_get_position os setp True v = (Ret r, w) \<longrightarrow> snd r = 0)"
proof
  show "Attenuator_get_position os setp True s = (Ret (p, 0), t)"
    using assms wait_loop_rests [OF assms(3,2,4)] by (simp add: Attenuator_get_position_def run_simps)
  show "\<forall>v r w. Attenuator_get_position os setp True v = (Ret r, w) \<longrightarrow> snd r = 0"
    by (auto simp: Attenuator_get_position_def elim!: bind_RetE dest: wait_loop_stopped)
qed

lemma answer_moving:
  "split_on '';'' ''3;10'' = [''3'', ''10'']" "split_on '';'' ''2;35'' = [''2'', ''35'']"
  "stol ''10'' = Inr 10" "stol ''35'' = Inr 35" "to_int32 10 = 10" "to_int32 35 = 35"
  by code_simp+

lemma stoul_23: "stoul ''3'' = Inr 3" "stoul ''2'' = Inr 2"
  using stoul_show_nat [of 3 "[]"] stoul_show_nat [of 2 "[]"] by (simp_all add: show_nat.simps digit_chars)

theorem waiting_ends_witness:
  "\<exists>t. Attenuator_get_position line_os (\<lambda>_. return ()) True
      (att_on (quiet_line [''o3;10'' @ LF @ CR, ''o2;35'' @ LF @ CR, ''o0;40'' @ LF @ CR] [])) = (Ret (40, 0), t)"
proof -
  define s where "s = att_on (quiet_line [''o3;10'' @ LF @ CR, ''o2;35'' @ LF @ CR, ''o0;40'' @ LF @ CR] [])"
  let ?q = "Attenuator_query line_os (\<lambda>_. return ()) :: (line attenuator, int \<times> 16 word) prog"
  obtain r1 u1 where q1: "?q s = (r1, u1)" by fastforce
  obtain r2 u2 where q2: "?q u1 = (r2, u2)" by fastforce
  obtain v2 where s2: "sleep_for line_os 50 u2 = (Ret (), v2)" by (simp add: run_simps)
  obtain r3 u3 where q3: "?q v2 = (r3, u3)" by fastforce
  obtain v3 where s3: "sleep_for line_os 50 u3 = (Ret (), v3)" by (simp add: run_simps)
  note runs = poll_run answer_moving answer_40 stoul_23 stoul_0
  have r1: "r1 = Ret (10, 3)" and r2: "r2 = Ret (35, 2)" and r3: "r3 = Ret (40, 0)"
    using q1 q2 s2 q3 by (auto simp: s_def runs)
  have "rests_after line_os (\<lambda>_. return ()) 1 u1 40 v3"
    using rests_later [OF q2 [unfolded r2] _ s2 rests_now [OF q3 [unfolded r3] s3]] by simp
  from waiting_ends [OF q1 [unfolded r1] _ this] show ?thesis unfolding s_def [symmetric] by auto
qed

end
