(* ===== verification/Attenuator_Settings.thy ===== *)
theory Attenuator_Settings
  imports Attenuator_Motion
begin

text \<open>
  What the attenuator's setters send and keep: transmissions as motor positions, registers of one byte, the serial
  number, and the invariants of the driver's own state.
\<close>

section \<open>Transmission\<close>

text \<open>The calibration a new driver starts with: -43.3333 and 3900.\<close>

definition cal_default :: "('w, 'z) attenuator_scheme \<Rightarrow> bool" where
  "cal_default s = (m_cal_scale s = Fin True 6098619804147935 (- 47) \<and> m_cal_offset s = 3900)"

text \<open>What is asked of \<open><cmath>\<close>: the square root stays inside the unit interval, and the arc cosine of such a
  value lies between 0 and the \<open>double\<close> nearest to half of pi.\<close>

definition unit_interval :: "cfloat \<Rightarrow> bool" where
  "unit_interval x = (is_fin x \<and> \<not> cless x f_zero \<and> \<not> cless d_one x)"

definition libm_unit :: "libm \<Rightarrow> bool" where
  "libm_unit lm = ((\<forall>x. unit_interval x \<longrightarrow> unit_interval (lm_sqrt lm x))
     \<and> (\<forall>x. unit_interval x \<longrightarrow>
          (\<exists>m e. lm_acos lm x = Fin False m e \<and> mag m e \<le> 7074237752028440 / 2 ^ 52)))"

lemma quot_bits_eq:
  assumes "a * 2 ^ k = q * b + r" "r < b"
  shows "quot_bits a b k = (if r = 0 then 2 * q else 2 * q + 1)"
proof -
  have "a * 2 ^ k div b = q" "a * 2 ^ k mod b = r" unfolding assms(1) using assms(2) by simp_all
  then show ?thesis by (simp add: quot_bits_def)
qed

lemma steps_per_radian:
  "d_div (d_mul (Fin True 6098619804147935 (- 47)) (d_of_int 180)) M_PI = Fin True 5459768369259022 (- 41)"
proof -
  have m: "d_mul (Fin True 6098619804147935 (- 47)) (d_of_int 180) = Fin True 8576184099583034 (- 40)"
    by (simp add: d_of_int_def fl_double_def fl_def half_even_def Let_def bit_size.simps)
  have b: "bit_size 7074237752028440 = 53" by (simp add: bit_size.simps)
  have q: "quot_bits 8576184099583034 7074237752028440 108 = 786835545386372849899267290274675"
    by (subst quot_bits_eq [of _ _ 393417772693186424949633645137337 _ 5900439870976424]) simp_all
  have f: "fl_double True 786835545386372849899267290274675 (- 98) = Fin True 5459768369259022 (- 41)"
    by (simp add: fl_double_def fl_def half_even_def Let_def bit_size.simps)
  show ?thesis unfolding m by (simp add: M_PI_def b q f)
qed

lemma steps_of_angle:
  assumes "mag m e \<le> 7074237752028440 / 2 ^ 52"
  obtains m' e' where "d_mul (Fin True 5459768369259022 (- 41)) (Fin False m e) = Fin True m' e'" "mag m' e' < 3900"
proof -
  let ?m = "5459768369259022 * m" and ?e = "- 41 + e"
  have "(2::real) powi ?e = 2 powi e / 2 ^ 41"
    using power_int_add [of "2::real" "- 41" e] by (simp add: power_int_minus field_simps)
  then have v: "mag ?m ?e = 5459768369259022 / 2 ^ 41 * mag m e" by (simp add: mag_def)
  have "5459768369259022 / 2 ^ 41 * mag m e \<le> 5459768369259022 / 2 ^ 41 * (7074237752028440 / 2 ^ 52)"
    using assms by (rule mult_left_mono) simp
  then have le: "mag ?m ?e \<le> 3899.998" unfolding v by simp
  define z big where "z = (2::real) powi (- 1074)" and "big = (2::real) powi (1024 - 1)"
  have "z \<le> 2 powi (- 52)" "2 powi 12 \<le> big"
    unfolding z_def big_def by (rule power_int_increasing, simp_all only:, simp_all)+
  then have z: "z \<le> 1 / 2 ^ 52" and big: "3900 \<le> big"
    by (simp_all add: power_int_minus)
  have "max (mag ?m ?e / 2 ^ (53 - 1)) z \<le> 3900 / 2 ^ 52"
    using le z by (intro max.boundedI) (simp_all add: field_simps)
  then have err: "mag ?m ?e + max (mag ?m ?e / 2 ^ (53 - 1)) z / 2 < 3900" using le by simp
  then have "mag ?m ?e + max (mag ?m ?e / 2 ^ (53 - 1)) z / 2 < big" using big by linarith
  then obtain m' e' where "fl 53 (- 1074) 1024 True ?m ?e = Fin True m' e'"
    "mag m' e' \<le> mag ?m ?e + max (mag ?m ?e / 2 ^ (53 - 1)) z / 2"
    unfolding z_def big_def by (rule fl_near, simp only: zero_less_numeral)
  then show ?thesis using err by (intro that [of m' e']) (simp_all add: fl_double_def)
qed

lemma trans_target:
  assumes "cal_default s" "libm_unit lm" "unit_interval tr" "\<bar>m_offset s\<bar> < 2 ^ 30"
  obtains n where "1 \<le> n" "n \<le> 3900" "Attenuator_trans_to_steps lm tr s = (Ret (m_offset s + n), s)"
proof -
  from assms(2,3) have "unit_interval (lm_sqrt lm tr)" by (simp add: libm_unit_def)
  with assms(2) obtain m e where a: "lm_acos lm (lm_sqrt lm tr) = Fin False m e"
    "mag m e \<le> 7074237752028440 / 2 ^ 52"
    unfolding libm_unit_def by blast
  from a(2) obtain m' e' where d: "d_mul (Fin True 5459768369259022 (- 41)) (Fin False m e) = Fin True m' e'"
    "mag m' e' < 3900"
    by (rule steps_of_angle)
  let ?k = "d_trunc True m' e'"
  have k: "- 3900 < ?k" "?k \<le> 0"
    using d_trunc_bound [of m' e' 3900 True] d(2) by auto
  have "int32_ok ?k" "int32_ok (?k + m_offset s)" "int32_ok (?k + m_offset s + 3900)"
    using k assms(4) by (auto simp: int32_ok_def)
  then have "Attenuator_trans_to_steps lm tr s = (Ret (?k + m_offset s + 3900), s)"
    using assms(1)
    by (simp add: Attenuator_trans_to_steps_def cal_default_def run_simps steps_per_radian a(1) d(1) d_to_int32_def
        del: d_mul.simps d_div.simps)
  moreover have "?k + m_offset s + 3900 = m_offset s + (?k + 3900)" by simp
  ultimately have "Attenuator_trans_to_steps lm tr s = (Ret (m_offset s + (?k + 3900)), s)" by simp
  then show ?thesis using k by (intro that [of "?k + 3900"]) simp_all
qed


text \<open>A mathematical library that knows the ends of the interval.\<close>

definition libm_ends :: libm where
  "libm_ends = \<lparr>lm_sqrt = (\<lambda>x. x), lm_acos = (\<lambda>x. if x = d_one then f_zero else Fin False 7074237752028440 (- 52)),
     lm_cos = (\<lambda>x. if x = f_zero then d_one else f_zero), lm_pow = (\<lambda>x y. x), lm_sqrtf = (\<lambda>x. x),
     lm_acosf = (\<lambda>x. if x = d_one then f_zero else Fin False 13176795 (- 23))\<rparr>"


section \<open>Registers of one byte\<close>

datatype att_register = R_idle_current | R_moving_current | R_acceleration | R_deceleration

primrec Attenuator_set_register :: "'w os \<Rightarrow> att_register \<Rightarrow> 16 word \<Rightarrow> (('w, 'z) attenuator_scheme, unit) prog" where
  "Attenuator_set_register os R_idle_current = Attenuator_set_idle_current os"
| "Attenuator_set_register os R_moving_current = Attenuator_set_moving_current os"
| "Attenuator_set_register os R_acceleration = Attenuator_set_acceleration os"
| "Attenuator_set_register os R_deceleration = Attenuator_set_deceleration os"

primrec register_letters :: "att_register \<Rightarrow> string" where
  "register_letters R_idle_current = ''ws ''"
| "register_letters R_moving_current = ''wm ''"
| "register_letters R_acceleration = ''a ''"
| "register_letters R_deceleration = ''d ''"

primrec register_cache :: "att_register \<Rightarrow> ('w, 'z) attenuator_scheme \<Rightarrow> 16 word" where
  "register_cache R_idle_current s = m_current_idle s"
| "register_cache R_moving_current s = m_current_move s"
| "register_cache R_acceleration s = m_acceleration s"
| "register_cache R_deceleration s = m_deceleration s"

lemma low_byte_mod: "low_byte w = unat w mod 256"
proof -
  have "and w 0xFF = take_bit 8 w" by (simp add: take_bit_eq_mask mask_numeral)
  then have "low_byte w = take_bit 8 (unat w)" unfolding low_byte_def by (simp only: unsigned_take_bit_eq)
  then show ?thesis by (simp add: take_bit_eq_mod)
qed

lemma command_then_modify:
  assumes "andthen (Attenuator_command os c what) (modify f) s = (r, t)" "\<And>u. wire (f u) = wire u"
  obtains u p where "dev_step s u" "wire t = wire s @ p" "delivered (Device_msg s c) r p"
    "t = (if r = Ret () then f u else u)"
proof -
  have "wp (andthen (Attenuator_command os c what) (modify f)) (\<lambda>r t. \<exists>u p. dev_step s u \<and> wire t = wire s @ p
      \<and> delivered (Device_msg s c) r p \<and> t = (if r = Ret () then f u else u)) s"
    unfolding wp_andthen
    by (rule wp_mono [OF command_delivers])
      (use assms(2) in \<open>auto simp: onward_def wp_simps split: outcome.splits\<close>)
  from wp_runD [OF this assms(1)] show ?thesis using that by blast
qed

lemma dev_step_att:
  assumes "dev_step s t"
  shows "m_current_idle t = m_current_idle s \<and> m_current_move t = m_current_move s
    \<and> m_acceleration t = m_acceleration s \<and> m_deceleration t = m_deceleration s \<and> m_offset t = m_offset s
    \<and> m_max_speed t = m_max_speed s \<and> m_resolution t = m_resolution s"
  using att_frame_fields [OF dev_att_frame [OF assms]] by simp

text \<open>C23. A register write: what goes out is the value modulo 256, whatever the value; the cache takes the value as
  it was given, and only if the command went out. For values that do not fit the register the cache and the
  instrument therefore differ.\<close>

theorem register_write:
  assumes "Attenuator_set_register os reg val s = (r, t)"
  shows "\<exists>p. wire t = wire s @ p
    \<and> delivered (Device_msg s (register_letters reg @ show_nat (unat val mod 256))) r p
    \<and> register_cache reg t = (if r = Ret () then val else register_cache reg s)"
proof -
  define f :: "('a, 'b) attenuator_scheme \<Rightarrow> ('a, 'b) attenuator_scheme"
    where "f = (case reg of R_idle_current \<Rightarrow> (\<lambda>s. s\<lparr>m_current_idle := val\<rparr>)
      | R_moving_current \<Rightarrow> (\<lambda>s. s\<lparr>m_current_move := val\<rparr>)
      | R_acceleration \<Rightarrow> (\<lambda>s. s\<lparr>m_acceleration := val\<rparr>)
      | R_deceleration \<Rightarrow> (\<lambda>s. s\<lparr>m_deceleration := val\<rparr>))"
  have "\<exists>what. Attenuator_set_register os reg val s =
      andthen (Attenuator_command os (register_letters reg @ show_nat (unat val mod 256)) what) (modify f) s"
    by (cases reg) (auto simp: f_def low_byte_mod Attenuator_set_idle_current_def Attenuator_set_moving_current_def
        Attenuator_set_acceleration_def Attenuator_set_deceleration_def)
  then obtain what where
    run: "andthen (Attenuator_command os (register_letters reg @ show_nat (unat val mod 256)) what) (modify f) s = (r, t)"
    using assms by auto
  have "wire (f u) = wire u" for u by (cases reg) (simp_all add: f_def)
  from run this obtain u p where u: "dev_step s u" "wire t = wire s @ p"
    "delivered (Device_msg s (register_letters reg @ show_nat (unat val mod 256))) r p"
    "t = (if r = Ret () then f u else u)"
    by (rule command_then_modify)
  moreover have "register_cache reg t = (if r = Ret () then val else register_cache reg s)"
    using u(4) dev_step_att [OF u(1)] by (cases reg) (auto simp: f_def)
  ultimately show ?thesis by blast
qed

theorem register_write_witness:
  "\<exists>p. wire (snd (Attenuator_set_register line_os R_idle_current 300 (att_on (quiet_line [] [])))) = p
    \<and> delivered (''ws 44'' @ CR) (Ret ()) p
    \<and> m_current_idle (snd (Attenuator_set_register line_os R_idle_current 300 (att_on (quiet_line [] [])))) = 300"
proof -
  define s where "s = att_on (quiet_line [] [])"
  obtain r t where run: "Attenuator_set_register line_os R_idle_current 300 s = (r, t)" by fastforce
  have r: "r = Ret ()"
    using run by (auto simp: s_def att_run Attenuator_set_idle_current_def low_byte_mod)
  have "register_letters R_idle_current @ show_nat (unat (300 :: 16 word) mod 256) = ''ws 44''"
    by (simp add: show_nat.simps digit_chars)
  moreover have "wire s = []" "Device_msg s c = c @ CR" for c
    by (simp_all add: s_def att_on_def open_port_def wire_def Device_msg_def)
  ultimately show ?thesis
    using register_write [OF run] r unfolding s_def [symmetric] run by auto
qed

section \<open>The serial number\<close>

text \<open>C34. Naming the instrument: exactly 20 characters are sent after the command letters. A longer name is cut, a
  shorter one is filled with blanks from the left, and a name of exactly 20 characters is lost: blanks are sent.\<close>

theorem serial_number_sent:
  assumes "Attenuator_set_serial_number os sn s = (r, t)"
  shows "\<exists>name p. wire t = wire s @ p \<and> delivered (Device_msg s (''sn '' @ name)) r p \<and> length name = 20
    \<and> (length sn \<noteq> 20 \<longrightarrow> name = replicate (20 - length sn) CHR '' '' @ take 20 sn)
    \<and> (length sn = 20 \<longrightarrow> name = replicate 20 CHR '' '')"
proof -
  have "\<exists>p. wire t = wire s @ p \<and> delivered (Device_msg s (''sn '' @ serial_name sn)) r p"
    using wp_runD [OF command_delivers assms [unfolded Attenuator_set_serial_number_def]] by blast
  then obtain p where "wire t = wire s @ p" "delivered (Device_msg s (''sn '' @ serial_name sn)) r p" by blast
  then show ?thesis by (intro exI [of _ "serial_name sn"] exI [of _ p]) (simp add: serial_name_def)
qed

theorem serial_number_sent_witness:
  "\<exists>p. wire (snd (Attenuator_set_serial_number line_os ''WP-1'' (att_on (quiet_line [] [])))) = p
    \<and> delivered (''sn '' @ replicate 16 CHR '' '' @ ''WP-1'' @ CR) (Ret ()) p"
proof -
  define s where "s = att_on (quiet_line [] [])"
  obtain r t where run: "Attenuator_set_serial_number line_os ''WP-1'' s = (r, t)" by fastforce
  have r: "r = Ret ()"
    using run by (auto simp: s_def att_run Attenuator_set_serial_number_def serial_name_def)
  have "wire s = []" "Device_msg s c = c @ CR" for c
    by (simp_all add: s_def att_on_def open_port_def wire_def Device_msg_def)
  then show ?thesis
    using serial_number_sent [OF run] r unfolding s_def [symmetric] run by auto
qed

section \<open>Invariants\<close>

text \<open>The public member functions that talk to the instrument or change the driver, as programs without a result.\<close>

inductive att_member :: "'w os \<Rightarrow> libm \<Rightarrow> (('w, 'z) attenuator_scheme, unit) prog \<Rightarrow> bool" for os lm where
  mem_motion: "att_member os lm (Attenuator_motion os a)"
| mem_register: "att_member os lm (Attenuator_set_register os reg val)"
| mem_stop: "att_member os lm (Attenuator_stop os force)"
| mem_resolution: "att_member os lm (Attenuator_set_resolution os res)"
| mem_resolution_u16: "att_member os lm (Attenuator_set_resolution_u16 os w)"
| mem_max_speed: "att_member os lm (Attenuator_set_max_speed os sp)"
| mem_status_raw: "att_member os lm (ignore (Attenuator_get_status_raw os))"
| mem_refresh_status: "att_member os lm (Attenuator_refresh_status os)"
| mem_get_position: "att_member os lm (ignore (Attenuator_get_position os (\<lambda>_. return ()) wait))"
| mem_set_transmission: "att_member os lm (ignore (Attenuator_set_transmission os lm tr wait))"
| mem_get_transmission: "att_member os lm (ignore (Attenuator_get_transmission lm))"
| mem_save: "att_member os lm (Attenuator_save_settings os)"
| mem_reset: "att_member os lm (Attenuator_reset_controller os)"
| mem_set_serial: "att_member os lm (Attenuator_set_serial_number os sn)"
| mem_get_serial: "att_member os lm (ignore (Attenuator_get_serial_number os sn))"
| mem_cal: "int32_ok off \<Longrightarrow> att_member os lm (Attenuator_set_cal_parameters off scale)"

text \<open>A call that returns or throws.\<close>

definition att_call :: "'w os \<Rightarrow> libm \<Rightarrow> ('w, 'z) attenuator_scheme \<Rightarrow> ('w, 'z) attenuator_scheme \<Rightarrow> bool" where
  "att_call os lm s t = (\<exists>m r. att_member os lm m \<and> m s = (r, t) \<and> settled r)"

text \<open>The \<open>int32_t\<close> members hold values of their type, and both mutexes are free.\<close>

definition att_ok :: "('w, 'z) attenuator_scheme \<Rightarrow> bool" where
  "att_ok s = (int32_ok (m_offset s) \<and> int32_ok (m_position s) \<and> int32_ok (m_cal_offset s))"

definition att_inv :: "('w, 'z) attenuator_scheme \<Rightarrow> bool" where
  "att_inv s = (att_ok s \<and> unlocked s)"

definition att_ok_step :: "('w, 'z) attenuator_scheme \<Rightarrow> ('w, 'z) attenuator_scheme \<Rightarrow> bool" where
  "att_ok_step s t = (att_ok s \<longrightarrow> att_ok t)"

interpretation aok: step_rel att_ok_step
  by unfold_locales (auto simp: att_ok_step_def)

lemma aok_dev:
  assumes "dev_step s t"
  shows "att_ok_step s t"
proof -
  have "simpl.more t = simpl.more s" using assms by (simp add: dev_step_def)
  then have "m_offset t = m_offset s \<and> m_position t = m_position s \<and> m_cal_offset t = m_cal_offset s"
    by (cases s, cases t) simp
  then show ?thesis by (simp add: att_ok_step_def att_ok_def)
qed

lemma aok_parts:
  "steps att_ok_step (Attenuator_command os c what)" "steps att_ok_step (Attenuator_ask os c a w w')"
  "steps att_ok_step (sleep_for os ms)"
  by (rule steps_mono [OF dev_command aok_dev], assumption, rule steps_mono [OF dev_ask aok_dev], assumption,
      rule steps_mono [OF dev_sleep aok_dev])

lemma aok_modify: "(\<And>s. att_ok s \<Longrightarrow> att_ok (f s)) \<Longrightarrow> steps att_ok_step (modify f)"
  by (rule aok.steps_modify) (simp add: att_ok_step_def)

lemma aok_pure: "steps att_ok_step (cast_enum v)" "steps att_ok_step (int32 x)"
  "steps att_ok_step (token_field tokens i rd)" "steps att_ok_step (d_to_int32 y)"
proof -
  show i: "steps att_ok_step (int32 x)" for x unfolding int32_def by (intro aok.steps_rules)
  show "steps att_ok_step (cast_enum v)" unfolding cast_enum_def by (intro aok.steps_rules)
  show "steps att_ok_step (token_field tokens i rd)" unfolding token_field_def by (intro aok.steps_rules)
  show "steps att_ok_step (d_to_int32 y)" by (cases y) (auto simp: d_to_int32_def intro: i aok.steps_rules)
qed

text \<open>A checked \<open>int32_t\<close> result may be stored.\<close>

lemma aok_int32: "(int32_ok x \<Longrightarrow> steps att_ok_step (f x)) \<Longrightarrow> steps att_ok_step (bind (int32 x) f)"
  by (cases "int32_ok x") (auto simp: int32_def steps_def run_simps aok.R_refl)

lemma aok_query: "(\<And>p. int32_ok p \<Longrightarrow> steps att_ok_step (setp p)) \<Longrightarrow> steps att_ok_step (Attenuator_query os setp)"
  unfolding Attenuator_query_def
  by (intro aok.steps_rules aok.steps_tokenize aok_parts) simp_all

lemma aok_wait_loop:
  "(\<And>p. int32_ok p \<Longrightarrow> steps att_ok_step (setp p)) \<Longrightarrow> steps att_ok_step (Attenuator_wait_loop os setp n ps)"
  by (induction n arbitrary: ps) (auto intro!: aok.steps_rules aok_query aok_parts)

lemma aok_get_position:
  assumes "\<And>p. int32_ok p \<Longrightarrow> steps att_ok_step (setp p)"
  shows "steps att_ok_step (Attenuator_get_position os setp wait)"
    "steps att_ok_step (Attenuator_get_position_state os setp wait)"
  unfolding Attenuator_get_position_state_def Attenuator_get_position_def
  by (intro aok.steps_rules aok_query aok_wait_loop aok_pure assms; assumption)+

lemma aok_refresh: "steps att_ok_step (Attenuator_refresh_position os)"
  unfolding Attenuator_refresh_position_def
  by (intro aok.steps_rules aok_get_position aok_modify) (simp_all add: att_ok_def)

lemma aok_need_stop: "steps att_ok_step (Attenuator_need_stop os what)"
  unfolding Attenuator_need_stop_def by (intro aok.steps_rules aok_refresh)

lemma aok_wait_position: "steps att_ok_step (Attenuator_wait_position os wait)"
  unfolding Attenuator_wait_position_def by (intro aok.steps_rules aok_get_position)

lemmas aok_ops = aok_parts aok_pure aok_need_stop aok_wait_position aok_refresh

lemma aok_motion: "steps att_ok_step (Attenuator_motion os a)"
proof (cases a)
  case (M_set_current_position n)
  show ?thesis unfolding M_set_current_position Attenuator_motion.simps Attenuator_set_current_position_def
    by (intro aok.steps_rules aok_ops aok_int32 aok_modify) (simp_all add: att_ok_def)
next
  case M_set_zero
  show ?thesis unfolding M_set_zero Attenuator_motion.simps Attenuator_set_zero_def
    by (intro aok.steps_rules aok_ops aok_int32 aok_modify) (simp_all add: att_ok_def)
next
  case M_go_home
  show ?thesis unfolding M_go_home Attenuator_motion.simps Attenuator_go_home_def
    by (intro aok.steps_rules aok_ops aok_modify) (simp_all add: att_ok_def int32_ok_def)
qed (auto simp: Attenuator_move_def Attenuator_go_def intro!: aok.steps_rules aok_ops)

lemma aok_transmission:
  "steps att_ok_step (Attenuator_set_transmission os lm tr wait)" "steps att_ok_step (Attenuator_get_transmission lm)"
  unfolding Attenuator_set_transmission_def Attenuator_trans_to_steps_def Attenuator_go_def
    Attenuator_get_transmission_def Attenuator_steps_to_trans_def
  by (intro aok.steps_rules aok_ops)+

lemma aok_status: "steps att_ok_step (Attenuator_refresh_status os)"
  unfolding Attenuator_refresh_status_def Attenuator_load_def
  by (intro aok.steps_rules aok.steps_tokenize aok_ops aok_modify) (simp_all add: att_ok_def)

lemma aok_register: "steps att_ok_step (Attenuator_set_register os reg val)"
  by (cases reg; simp only: Attenuator_set_register.simps Attenuator_set_idle_current_def
      Attenuator_set_moving_current_def Attenuator_set_acceleration_def Attenuator_set_deceleration_def;
    intro aok.steps_rules aok_ops aok_modify; simp add: att_ok_def)

lemma aok_resolution: "steps att_ok_step (Attenuator_set_resolution os res)"
  unfolding Attenuator_set_resolution_def
  by (intro aok.steps_rules aok_ops aok_modify) (simp_all add: att_ok_def)

lemma aok_member: "att_member os lm m \<Longrightarrow> steps att_ok_step m"
proof (induction rule: att_member.induct)
  case (mem_get_position wait)
  show ?case unfolding ignore_def by (intro aok.steps_rules aok_get_position)
next
  case (mem_max_speed sp)
  show ?case unfolding Attenuator_set_max_speed_def
    by (intro aok.steps_rules aok_ops aok_modify) (simp add: att_ok_def)
next
  case (mem_get_serial sn)
  show ?case unfolding Attenuator_get_serial_number_def ignore_def
    by (intro aok.steps_rules aok_ops aok_modify) (simp add: att_ok_def)
next
  case (mem_cal off scale)
  then show ?case unfolding Attenuator_set_cal_parameters_def
    by (intro aok_modify) (simp add: att_ok_def)
qed (auto simp: ignore_def Attenuator_stop_def Attenuator_set_resolution_u16_def Attenuator_get_status_raw_def
    Attenuator_save_settings_def Attenuator_reset_controller_def Attenuator_set_serial_number_def
    intro!: aok.steps_rules aok_ops aok_motion aok_register aok_resolution aok_transmission aok_status)

text \<open>Locks.\<close>

lemma lock_pure: "lock_safe (cast_enum v)" "lock_safe (int32 x)" "lock_safe (token_field tokens i rd)"
  "lock_safe (d_to_int32 y)" "lock_safe (tokenize_string str ts sep)"
proof -
  show i: "lock_safe (int32 x)" for x unfolding int32_def by (intro lock_rules) simp
  show "lock_safe (cast_enum v)" unfolding cast_enum_def by (intro lock_rules) simp
  show "lock_safe (token_field tokens i rd)" unfolding token_field_def by (intro lock_rules)
  show "lock_safe (d_to_int32 y)" by (cases y) (auto simp: d_to_int32_def intro: i lock_rules)
  show "lock_safe (tokenize_string str ts sep)" unfolding tokenize_string_def by (intro lock_rules) simp
qed

lemma lock_query: "(\<And>p. lock_safe (setp p)) \<Longrightarrow> lock_safe (Attenuator_query os setp)"
  unfolding Attenuator_query_def by (intro lock_rules lock_pure lock_ask)

lemma lock_wait_loop: "(\<And>p. lock_safe (setp p)) \<Longrightarrow> lock_safe (Attenuator_wait_loop os setp n ps)"
  by (induction n arbitrary: ps) (auto intro!: lock_rules lock_query lock_ops)

lemma lock_get_position:
  assumes "\<And>p. lock_safe (setp p)"
  shows "lock_safe (Attenuator_get_position os setp wait)" "lock_safe (Attenuator_get_position_state os setp wait)"
  unfolding Attenuator_get_position_state_def Attenuator_get_position_def
  by (intro lock_rules lock_query lock_wait_loop lock_pure assms)+

lemma lock_need_stop: "lock_safe (Attenuator_need_stop os what)"
  unfolding Attenuator_need_stop_def Attenuator_refresh_position_def
  by (intro lock_rules lock_get_position lock_safe_modify) (simp_all add: keeps_locks_def)

lemma lock_wait_position: "lock_safe (Attenuator_wait_position os wait)"
  unfolding Attenuator_wait_position_def by (intro lock_rules lock_get_position)

lemmas lock_att = lock_command lock_ask lock_pure lock_need_stop lock_wait_position

lemma lock_motion: "lock_safe (Attenuator_motion os a)"
  by (cases a; simp only: Attenuator_motion.simps Attenuator_move_def Attenuator_go_def
      Attenuator_set_current_position_def Attenuator_set_zero_def Attenuator_go_home_def;
    intro lock_rules lock_att lock_safe_modify; simp add: keeps_locks_def)

lemma lock_register: "lock_safe (Attenuator_set_register os reg val)"
  by (cases reg; simp only: Attenuator_set_register.simps Attenuator_set_idle_current_def
      Attenuator_set_moving_current_def Attenuator_set_acceleration_def Attenuator_set_deceleration_def;
    intro lock_rules lock_att lock_safe_modify; simp add: keeps_locks_def)

lemma lock_resolution: "lock_safe (Attenuator_set_resolution os res)"
  unfolding Attenuator_set_resolution_def
  by (intro lock_rules lock_att lock_safe_modify) (simp_all add: keeps_locks_def)

lemma lock_transmission:
  "lock_safe (Attenuator_set_transmission os lm tr wait)" "lock_safe (Attenuator_get_transmission lm)"
  unfolding Attenuator_set_transmission_def Attenuator_trans_to_steps_def Attenuator_go_def
    Attenuator_get_transmission_def Attenuator_steps_to_trans_def
  by (intro lock_rules lock_att)+

lemma lock_status: "lock_safe (Attenuator_refresh_status os)"
  unfolding Attenuator_refresh_status_def Attenuator_load_def
  by (intro lock_rules lock_att lock_safe_modify) (simp_all add: keeps_locks_def)

lemma lock_member: "att_member os lm m \<Longrightarrow> lock_safe m"
proof (induction rule: att_member.induct)
  case (mem_get_position wait)
  show ?case unfolding ignore_def by (intro lock_rules lock_get_position)
qed (auto simp: ignore_def Attenuator_stop_def Attenuator_set_resolution_u16_def Attenuator_get_status_raw_def
    Attenuator_save_settings_def Attenuator_reset_controller_def Attenuator_set_serial_number_def keeps_locks_def
    Attenuator_set_max_speed_def Attenuator_get_serial_number_def Attenuator_set_cal_parameters_def
    intro!: lock_rules lock_att lock_motion lock_register lock_resolution lock_transmission lock_status
      lock_safe_modify)

lemma att_call_inv: "att_call os lm s t \<Longrightarrow> att_inv s \<Longrightarrow> att_inv t"
  unfolding att_call_def att_inv_def
  using stepsD [OF aok_member] unlocked_after [OF lock_member] att_ok_step_def by blast



end
