(* ===== verification/Attenuator_Sim.thy ===== *)
theory Attenuator_Sim
  imports Attenuator_Motion Simulation
begin

text \<open>
  \<open>src/src/AttenuatorSim.cpp\<close> and \<open>src/include/AttenuatorSim.hh\<close>: the attenuator without an instrument. Its motor
  is always at rest and arrives at once. The last section compares it with the driver.
\<close>

section \<open>State and operations\<close>

record attsim =
  as_offset :: int
  as_max_speed :: "32 word"
  as_op_mode :: op_mode
  as_motor_state :: motor_state
  as_acceleration :: "16 word"
  as_deceleration :: "16 word"
  as_resolution :: resolution
  as_motor_enabled :: bool
  as_position :: int
  as_current_idle :: "16 word"
  as_current_move :: "16 word"
  as_reset_on_zero :: bool
  as_report_on_zero :: bool
  as_serial_number :: string

definition AttenuatorSim_refresh_status :: "(attsim, unit) prog" where
  "AttenuatorSim_refresh_status = modify (\<lambda>v. v\<lparr>as_op_mode := Command, as_motor_state := Stopped,
     as_acceleration := 200, as_deceleration := 200, as_max_speed := 200, as_current_move := 42,
     as_current_idle := 42, as_resolution := Full, as_motor_enabled := True, as_reset_on_zero := False,
     as_report_on_zero := True\<rparr>)"

definition AttenuatorSim_get_position :: "(int \<Rightarrow> (attsim, unit) prog) \<Rightarrow> (attsim, int \<times> 16 word) prog" where
  "AttenuatorSim_get_position setp =
     bind (gets as_position) (\<lambda>p. andthen (setp p) (return (p, 0)))"

definition AttenuatorSim_get_position_state ::
    "(int \<Rightarrow> (attsim, unit) prog) \<Rightarrow> (attsim, int \<times> motor_state) prog" where
  "AttenuatorSim_get_position_state setp =
     bind (AttenuatorSim_get_position setp) (\<lambda>(p, tmp_st).
     bind (cast_enum (motor_state_of (int (unat tmp_st)))) (\<lambda>st. return (p, st)))"

definition AttenuatorSim_refresh_position :: "(attsim, unit) prog" where
  "AttenuatorSim_refresh_position =
     bind (AttenuatorSim_get_position_state (\<lambda>p. modify (\<lambda>v. v\<lparr>as_position := p\<rparr>))) (\<lambda>(_, st).
       modify (\<lambda>v. v\<lparr>as_motor_state := st\<rparr>))"

text \<open>The initialisers of the constructor, and its body.\<close>

definition attsim_init :: attsim where
  "attsim_init = \<lparr>as_offset = 0, as_max_speed = 59000, as_op_mode = Command, as_motor_state = Stopped,
     as_acceleration = 0, as_deceleration = 0, as_resolution = Half, as_motor_enabled = True, as_position = 0,
     as_current_idle = 10, as_current_move = 100, as_reset_on_zero = False, as_report_on_zero = False,
     as_serial_number = ''unknown''\<rparr>"

definition AttenuatorSim_ctor :: "(attsim, unit) prog" where
  "AttenuatorSim_ctor =
     andthen (modify (\<lambda>_. attsim_init)) (andthen AttenuatorSim_refresh_status AttenuatorSim_refresh_position)"

definition AttenuatorSim_need_stop :: "string \<Rightarrow> (attsim, unit) prog" where
  "AttenuatorSim_need_stop what =
     andthen AttenuatorSim_refresh_position
       (bind (gets as_motor_state) (\<lambda>st. whenM (st \<noteq> Stopped) (throw (runtime_error what))))"

definition AttenuatorSim_move :: "int \<Rightarrow> bool \<Rightarrow> (attsim, int) prog" where
  "AttenuatorSim_move n wait =
     andthen (AttenuatorSim_need_stop no_move)
    (bind (gets as_position) (\<lambda>p.
     bind (int32 (p + n)) (\<lambda>q.
     andthen (modify (\<lambda>v. v\<lparr>as_position := q\<rparr>)) (return q))))"

definition AttenuatorSim_go :: "int \<Rightarrow> bool \<Rightarrow> (attsim, int) prog" where
  "AttenuatorSim_go target wait =
     andthen (AttenuatorSim_need_stop no_move)
    (andthen (modify (\<lambda>v. v\<lparr>as_position := target\<rparr>)) (return target))"

definition AttenuatorSim_set_current_position :: "int \<Rightarrow> (attsim, unit) prog" where
  "AttenuatorSim_set_current_position pos =
     andthen (AttenuatorSim_need_stop no_reconf)
    (bind (gets (\<lambda>v. v)) (\<lambda>v.
     bind (int32 (pos - as_position v)) (\<lambda>d.
     bind (int32 (as_offset v + d)) (\<lambda>off. modify (\<lambda>v. v\<lparr>as_offset := off\<rparr>)))))"

definition AttenuatorSim_set_zero :: "(attsim, unit) prog" where
  "AttenuatorSim_set_zero =
     andthen (AttenuatorSim_need_stop no_reconf)
    (bind (gets (\<lambda>v. as_offset v + as_position v)) (\<lambda>x.
     bind (int32 x) (\<lambda>off. modify (\<lambda>v. v\<lparr>as_offset := off\<rparr>))))"

definition AttenuatorSim_stop :: "bool \<Rightarrow> (attsim, unit) prog" where
  "AttenuatorSim_stop force = return ()"

definition AttenuatorSim_go_home :: "(attsim, unit) prog" where
  "AttenuatorSim_go_home =
     andthen (AttenuatorSim_need_stop no_reconf) (modify (\<lambda>v. v\<lparr>as_offset := 0\<rparr>))"

definition AttenuatorSim_set_resolution :: "resolution \<Rightarrow> (attsim, unit) prog" where
  "AttenuatorSim_set_resolution res = modify (\<lambda>v. v\<lparr>as_resolution := res\<rparr>)"

definition AttenuatorSim_set_resolution_u16 :: "16 word \<Rightarrow> (attsim, unit) prog" where
  "AttenuatorSim_set_resolution_u16 res = bind (cast_enum (resolution_of (unat res))) AttenuatorSim_set_resolution"

definition AttenuatorSim_set_idle_current :: "16 word \<Rightarrow> (attsim, unit) prog" where
  "AttenuatorSim_set_idle_current val = modify (\<lambda>v. v\<lparr>as_current_idle := val\<rparr>)"

definition AttenuatorSim_set_moving_current :: "16 word \<Rightarrow> (attsim, unit) prog" where
  "AttenuatorSim_set_moving_current val = modify (\<lambda>v. v\<lparr>as_current_move := val\<rparr>)"

definition AttenuatorSim_set_acceleration :: "16 word \<Rightarrow> (attsim, unit) prog" where
  "AttenuatorSim_set_acceleration val = modify (\<lambda>v. v\<lparr>as_acceleration := val\<rparr>)"

definition AttenuatorSim_set_deceleration :: "16 word \<Rightarrow> (attsim, unit) prog" where
  "AttenuatorSim_set_deceleration val = modify (\<lambda>v. v\<lparr>as_deceleration := val\<rparr>)"

definition AttenuatorSim_set_max_speed :: "32 word \<Rightarrow> (attsim, unit) prog" where
  "AttenuatorSim_set_max_speed speed = modify (\<lambda>v. v\<lparr>as_max_speed := speed\<rparr>)"

definition AttenuatorSim_get_status_raw :: "(attsim, string) prog" where
  "AttenuatorSim_get_status_raw = return ''unknown''"

text \<open>All in \<open>float\<close> but for the constant factor.\<close>

definition AttenuatorSim_trans_to_steps :: "libm \<Rightarrow> cfloat \<Rightarrow> (attsim, int) prog" where
  "AttenuatorSim_trans_to_steps lm tr =
     bind (gets as_offset) (\<lambda>off.
     bind (d_to_int32 (f_of_d (d_mul (d_div (d_mul (Fin True 6098624448485051 (- 47)) (d_of_int 180)) M_PI)
       (lm_acosf lm (lm_sqrtf lm tr))))) (\<lambda>n.
     bind (int32 (n + off)) (\<lambda>a. int32 (a + 3900))))"

definition AttenuatorSim_set_transmission :: "libm \<Rightarrow> cfloat \<Rightarrow> bool \<Rightarrow> (attsim, unit) prog" where
  "AttenuatorSim_set_transmission lm tr wait =
     (if cless tr f_zero \<or> cless d_one tr
      then throw (range_error ''Attenuator::set_transmission : transmission ['')
      else bind (AttenuatorSim_trans_to_steps lm tr) (\<lambda>n.
           bind (AttenuatorSim_go n wait) (\<lambda>_. return ())))"

definition AttenuatorSim_save_settings :: "(attsim, unit) prog" where
  "AttenuatorSim_save_settings = return ()"

definition AttenuatorSim_reset_controller :: "(attsim, unit) prog" where
  "AttenuatorSim_reset_controller = return ()"

definition AttenuatorSim_set_serial_number :: "string \<Rightarrow> (attsim, unit) prog" where
  "AttenuatorSim_set_serial_number sn = modify (\<lambda>v. v\<lparr>as_serial_number := serial_name sn\<rparr>)"

definition AttenuatorSim_get_serial_number :: "(attsim, string) prog" where
  "AttenuatorSim_get_serial_number = gets as_serial_number"

text \<open>The getter writes the value it returns back into the enumeration.\<close>

definition AttenuatorSim_get_resolution :: "(attsim, 16 word) prog" where
  "AttenuatorSim_get_resolution =
     bind (gets as_resolution) (\<lambda>r.
       let n = resolution_num r; res = (if n = 6 then 16 else n) in
       bind (cast_enum (resolution_of res)) (\<lambda>q.
       andthen (modify (\<lambda>v. v\<lparr>as_resolution := q\<rparr>)) (return (of_nat res))))"

section \<open>Driver and simulator\<close>

datatype att_op =
    Op_resolution resolution
  | Op_idle_current "16 word"
  | Op_moving_current "16 word"
  | Op_acceleration "16 word"
  | Op_deceleration "16 word"
  | Op_max_speed "32 word"
  | Op_stop bool
  | Op_go_home
  | Op_save
  | Op_reset

primrec Attenuator_do :: "'w os \<Rightarrow> att_op \<Rightarrow> (('w, 'z) attenuator_scheme, unit) prog" where
  "Attenuator_do os (Op_resolution r) = Attenuator_set_resolution os r"
| "Attenuator_do os (Op_idle_current w) = Attenuator_set_idle_current os w"
| "Attenuator_do os (Op_moving_current w) = Attenuator_set_moving_current os w"
| "Attenuator_do os (Op_acceleration w) = Attenuator_set_acceleration os w"
| "Attenuator_do os (Op_deceleration w) = Attenuator_set_deceleration os w"
| "Attenuator_do os (Op_max_speed w) = Attenuator_set_max_speed os w"
| "Attenuator_do os (Op_stop force) = Attenuator_stop os force"
| "Attenuator_do os Op_go_home = Attenuator_go_home os"
| "Attenuator_do os Op_save = Attenuator_save_settings os"
| "Attenuator_do os Op_reset = Attenuator_reset_controller os"

primrec AttenuatorSim_do :: "att_op \<Rightarrow> (attsim, unit) prog" where
  "AttenuatorSim_do (Op_resolution r) = AttenuatorSim_set_resolution r"
| "AttenuatorSim_do (Op_idle_current w) = AttenuatorSim_set_idle_current w"
| "AttenuatorSim_do (Op_moving_current w) = AttenuatorSim_set_moving_current w"
| "AttenuatorSim_do (Op_acceleration w) = AttenuatorSim_set_acceleration w"
| "AttenuatorSim_do (Op_deceleration w) = AttenuatorSim_set_deceleration w"
| "AttenuatorSim_do (Op_max_speed w) = AttenuatorSim_set_max_speed w"
| "AttenuatorSim_do (Op_stop force) = AttenuatorSim_stop force"
| "AttenuatorSim_do Op_go_home = AttenuatorSim_go_home"
| "AttenuatorSim_do Op_save = AttenuatorSim_save_settings"
| "AttenuatorSim_do Op_reset = AttenuatorSim_reset_controller"

text \<open>The registers both keep; the position is the motor's own.\<close>

definition att_settings ::
    "('w, 'z) attenuator_scheme \<Rightarrow> int \<times> 32 word \<times> 16 word \<times> 16 word \<times> resolution \<times> 16 word \<times> 16 word" where
  "att_settings s = (m_offset s, m_max_speed s, m_acceleration s, m_deceleration s, m_resolution s,
     m_current_idle s, m_current_move s)"

definition attsim_settings ::
    "attsim \<Rightarrow> int \<times> 32 word \<times> 16 word \<times> 16 word \<times> resolution \<times> 16 word \<times> 16 word" where
  "attsim_settings v = (as_offset v, as_max_speed v, as_acceleration v, as_deceleration v, as_resolution v,
     as_current_idle v, as_current_move v)"

lemma att_settings_frame: "att_frame t = att_frame s \<Longrightarrow> att_settings t = att_settings s"
  using att_frame_fields [of t s] by (simp add: att_settings_def)

lemma command_settings:
  "Attenuator_command os c what s = (r, t) \<Longrightarrow> att_settings t = att_settings s"
  using att_settings_frame [OF dev_att_frame [OF stepsD [OF dev_command]]] .

lemma att_setter_settings:
  assumes "andthen (Attenuator_command os c what) (modify f) s = (Ret (), t)"
  obtains u where "att_settings u = att_settings s" "t = f u"
proof -
  from assms obtain u where u: "Attenuator_command os c what s = (Ret (), u)" "modify f u = (Ret (), t)"
    by (rule andthen_RetE)
  from u(2) show ?thesis by (intro that [OF command_settings [OF u(1)]]) (simp add: run_simps)
qed

lemma sim_refresh: "AttenuatorSim_refresh_position v = (Ret (), v\<lparr>as_motor_state := Stopped\<rparr>)"
  by (simp add: AttenuatorSim_refresh_position_def AttenuatorSim_get_position_state_def
      AttenuatorSim_get_position_def motor_state_of_def run_simps)

lemma sim_need_stop: "AttenuatorSim_need_stop what v = (Ret (), v\<lparr>as_motor_state := Stopped\<rparr>)"
  by (simp add: AttenuatorSim_need_stop_def sim_refresh run_simps)

lemmas attsim_defs = AttenuatorSim_set_resolution_def AttenuatorSim_set_idle_current_def
  AttenuatorSim_set_moving_current_def AttenuatorSim_set_acceleration_def AttenuatorSim_set_deceleration_def
  AttenuatorSim_set_max_speed_def AttenuatorSim_stop_def AttenuatorSim_go_home_def AttenuatorSim_save_settings_def
  AttenuatorSim_reset_controller_def sim_need_stop

lemmas att_views = att_settings_def attsim_settings_def

lemma att_accepts:
  assumes run: "Attenuator_do os c s = (Ret (), t)" and eq: "att_settings s = attsim_settings v"
  shows "\<exists>w. AttenuatorSim_do c v = (Ret (), w) \<and> att_settings t = attsim_settings w"
proof (cases c)
  case (Op_resolution r)
  with run obtain n what where "Attenuator_command os n what (s\<lparr>m_resolution := r\<rparr>) = (Ret (), t)"
    by (auto simp: Attenuator_set_resolution_def Let_def run_simps)
  from command_settings [OF this] eq show ?thesis by (simp add: Op_resolution attsim_defs run_simps att_views)
next
  case (Op_idle_current w)
  from run [unfolded Op_idle_current Attenuator_do.simps Attenuator_set_idle_current_def] show ?thesis
    by (rule att_setter_settings) (use eq in \<open>auto simp: Op_idle_current attsim_defs run_simps att_views\<close>)
next
  case (Op_moving_current w)
  from run [unfolded Op_moving_current Attenuator_do.simps Attenuator_set_moving_current_def] show ?thesis
    by (rule att_setter_settings) (use eq in \<open>auto simp: Op_moving_current attsim_defs run_simps att_views\<close>)
next
  case (Op_acceleration w)
  from run [unfolded Op_acceleration Attenuator_do.simps Attenuator_set_acceleration_def] show ?thesis
    by (rule att_setter_settings) (use eq in \<open>auto simp: Op_acceleration attsim_defs run_simps att_views\<close>)
next
  case (Op_deceleration w)
  from run [unfolded Op_deceleration Attenuator_do.simps Attenuator_set_deceleration_def] show ?thesis
    by (rule att_setter_settings) (use eq in \<open>auto simp: Op_deceleration attsim_defs run_simps att_views\<close>)
next
  case (Op_max_speed w)
  from run [unfolded Op_max_speed Attenuator_do.simps Attenuator_set_max_speed_def] show ?thesis
    by (rule att_setter_settings) (use eq in \<open>auto simp: Op_max_speed attsim_defs run_simps att_views\<close>)
next
  case Op_go_home
  with run obtain u where u: "Attenuator_need_stop os no_reconf s = (Ret (), u)"
    and z: "andthen (Attenuator_command os ''zp'' ''Failed to send go home command'')
       (modify (\<lambda>s. s\<lparr>m_offset := 0\<rparr>)) u = (Ret (), t)"
    by (auto simp: Attenuator_go_home_def elim: andthen_RetE)
  have "att_frame u = att_frame s" using stepsD [OF poll_need_stop u] by (simp add: poll_step_def)
  then have "att_settings u = att_settings s" by (rule att_settings_frame)
  with z show ?thesis
    by (elim att_setter_settings) (use eq in \<open>auto simp: Op_go_home attsim_defs run_simps att_views\<close>)
next
  case (Op_stop force)
  from command_settings [OF run [unfolded Op_stop Attenuator_do.simps Attenuator_stop_def]] eq
  show ?thesis by (simp add: Op_stop attsim_defs run_simps)
next
  case Op_save
  from command_settings [OF run [unfolded Op_save Attenuator_do.simps Attenuator_save_settings_def]] eq
  show ?thesis by (simp add: Op_save attsim_defs run_simps)
next
  case Op_reset
  from command_settings [OF run [unfolded Op_reset Attenuator_do.simps Attenuator_reset_controller_def]] eq
  show ?thesis by (simp add: Op_reset attsim_defs run_simps)
qed

interpretation att_pair: simulator "Attenuator_do os" AttenuatorSim_do att_settings attsim_settings
  for os :: "'w os"
proof
  fix c e and s :: "('w, 'z) attenuator_scheme" and v w
  assume "AttenuatorSim_do c v = (Exn e, w)"
  then show "Attenuator_do os c s = (Exn e, s)" by (cases c) (auto simp: attsim_defs run_simps)
qed (rule att_accepts)

section \<open>Properties\<close>

text \<open>C29. The simulated attenuator stands in for the instrument's registers: a script of register writes, stops, saves
  and homings that runs through on the driver, over whatever line, runs through on the simulator and leaves the
  same registers and the same offset.\<close>

theorem attenuator_sim_refines:
  assumes "run_all (Attenuator_do os) cs s = (Ret (), t)" "att_settings s = attsim_settings v"
  shows "\<exists>w. run_all AttenuatorSim_do cs v = (Ret (), w) \<and> att_settings t = attsim_settings w"
  using att_pair.script_accepts [OF assms] .

text \<open>C40. The simulator's getter for the resolution is undefined where the driver's answers: for a sixteenth step the
  driver reports 16, and the simulator casts 16 to an enumeration that cannot hold it. For every other
  enumerator both report the same number and neither changes its state.\<close>

theorem sim_resolution_undefined:
  assumes "m_resolution s = as_resolution v" "as_resolution v \<in> {Full, Half, Quarter, Eighth, Sixteeth}"
  shows "if as_resolution v = Sixteeth
    then Attenuator_get_resolution s = (Ret 16, s) \<and> AttenuatorSim_get_resolution v = (Stuck Undefined_behaviour, v)
    else \<exists>n. Attenuator_get_resolution s = (Ret n, s) \<and> AttenuatorSim_get_resolution v = (Ret n, v)"
  using assms
  by (cases v; cases "as_resolution v")
    (simp_all add: Attenuator_get_resolution_def AttenuatorSim_get_resolution_def Let_def run_simps resolution_of_def)

theorem sim_resolution_undefined_witness:
  "\<exists>v. AttenuatorSim_set_resolution Sixteeth attsim_init = (Ret (), v)
    \<and> AttenuatorSim_get_resolution v = (Stuck Undefined_behaviour, v)"
proof -
  define v where "v = snd (AttenuatorSim_set_resolution Sixteeth attsim_init)"
  have v: "AttenuatorSim_set_resolution Sixteeth attsim_init = (Ret (), v)" "as_resolution v = Sixteeth"
    by (simp_all add: v_def AttenuatorSim_set_resolution_def run_simps)
  define s where "s = (att_on (quiet_line [] []))\<lparr>m_resolution := Sixteeth\<rparr>"
  have "m_resolution s = as_resolution v" by (simp add: s_def v(2))
  from sim_resolution_undefined [OF this] v show ?thesis by auto
qed

theorem attenuator_sim_refines_witness:
  "\<exists>t w. run_all (Attenuator_do line_os) [Op_max_speed 500, Op_resolution Quarter] (att_on (quiet_line [] [])) = (Ret (), t)
    \<and> m_max_speed t = 500 \<and> att_settings t = attsim_settings w"
proof -
  define s where "s = att_on (quiet_line [] [])"
  let ?cs = "[Op_max_speed 500, Op_resolution Quarter]"
  obtain r t where run: "run_all (Attenuator_do line_os) ?cs s = (r, t)" by fastforce
  have r: "r = Ret ()" "m_max_speed t = 500"
    using run by (auto simp: s_def att_run Attenuator_set_max_speed_def Attenuator_set_resolution_def Let_def)
  have eq: "att_settings s = attsim_settings attsim_init"
    by (simp add: s_def attsim_init_def att_on_def open_port_def att_views)
  from attenuator_sim_refines [OF run [unfolded r(1)] eq] run r show ?thesis unfolding s_def [symmetric] by blast
qed

end
