(* ===== verification/Cpp_Stod.thy ===== *)
theory Cpp_Stod
  imports Cpp_Arith
begin

text \<open>
  \<open>std::stod\<close> and \<open>std::stof\<close>: the longest prefix \<open>strtod\<close> accepts (decimal or hexadecimal number, infinity, NaN),
  correctly rounded to a \<open>double\<close> or a \<open>float\<close>. A result out of range, too large or tiny and inexact, throws \<open>out_of_range\<close>.
\<close>

section \<open>Scanning\<close>

text \<open>The digits of a number with an optional point: the digits read, and how many of them stand after the point.\<close>

definition scan_digits :: "nat \<Rightarrow> string \<Rightarrow> (string \<times> nat) \<times> string" where
  "scan_digits b s =
     (let ds = takeWhile (\<lambda>c. digit_val c < b) s; r = dropWhile (\<lambda>c. digit_val c < b) s in
      case r of
        [] \<Rightarrow> ((ds, 0), [])
      | c # r' \<Rightarrow>
          if c = CHR ''.'' then
            (let fs = takeWhile (\<lambda>c. digit_val c < b) r' in
             ((ds @ fs, length fs), dropWhile (\<lambda>c. digit_val c < b) r'))
          else ((ds, 0), r))"

text \<open>An exponent: a letter, a sign and at least one digit; otherwise the letter is not part of the number.\<close>

definition scan_exponent :: "char list \<Rightarrow> string \<Rightarrow> int" where
  "scan_exponent letters s =
     (case s of
        [] \<Rightarrow> 0
      | c # r \<Rightarrow>
          if c \<in> set letters then
            (case scan_sign r of (neg, t) \<Rightarrow>
               let ds = takeWhile is_digit t in if ds = [] then 0 else signed_of neg (digits_val 10 ds))
          else 0)"

definition lower :: "char \<Rightarrow> char" where
  "lower c = (let k = of_char c :: nat in if 65 \<le> k \<and> k \<le> 90 then char_of (k + 32) else c)"

definition starts_word :: "string \<Rightarrow> string \<Rightarrow> bool" where
  "starts_word w s = prefix w (map lower s)"

text \<open>\<open>n * 10 ^ x\<close>, rounded by \<open>rnd\<close> (to a \<open>double\<close> or a \<open>float\<close>) in one step.\<close>

definition decimal_fl :: "(bool \<Rightarrow> nat \<Rightarrow> int \<Rightarrow> cfloat) \<Rightarrow> bool \<Rightarrow> nat \<Rightarrow> int \<Rightarrow> cfloat" where
  "decimal_fl rnd neg n x =
     (if 0 \<le> x then rnd neg (n * 10 ^ nat x) 0
      else let b = 10 ^ nat (- x); k = 55 + bit_size b in rnd neg (quot_bits n b k) (- int k - 1))"

definition decimal_double :: "bool \<Rightarrow> nat \<Rightarrow> int \<Rightarrow> cfloat" where
  "decimal_double = decimal_fl fl_double"

text \<open>A result below the normal range, \<open>2 ^ emin\<close>, that is not the number itself is a range error.\<close>

definition underflows :: "int \<Rightarrow> nat \<Rightarrow> nat \<Rightarrow> int \<Rightarrow> cfloat \<Rightarrow> bool" where
  "underflows emin num den e f =
     (case f of Fin s m x \<Rightarrow> int (bit_size m) + x \<le> emin \<and>
          (let lo = min x e in m * den * 2 ^ nat (x - lo) \<noteq> num * 2 ^ nat (e - lo))
      | _ \<Rightarrow> False)"

definition in_range :: "string \<Rightarrow> int \<Rightarrow> nat \<Rightarrow> nat \<Rightarrow> int \<Rightarrow> cfloat \<Rightarrow> exn + cfloat" where
  "in_range what emin num den e f =
     (case f of
        Infty s \<Rightarrow> Inl (out_of_range what)
      | _ \<Rightarrow> if underflows emin num den e f then Inl (out_of_range what) else Inr f)"

definition scan_decimal ::
    "string \<Rightarrow> int \<Rightarrow> (bool \<Rightarrow> nat \<Rightarrow> int \<Rightarrow> cfloat) \<Rightarrow> bool \<Rightarrow> string \<Rightarrow> exn + cfloat" where
  "scan_decimal what emin rnd neg s =
     (case scan_digits 10 s of ((ds, nf), rest) \<Rightarrow>
        if ds = [] then Inl (invalid_argument what)
        else let n = digits_val 10 ds; x = scan_exponent ''eE'' rest - int nf in
             in_range what emin (n * 10 ^ nat x) (10 ^ nat (- x)) 0 (decimal_fl rnd neg n x))"

definition scan_hex ::
    "string \<Rightarrow> int \<Rightarrow> (bool \<Rightarrow> nat \<Rightarrow> int \<Rightarrow> cfloat) \<Rightarrow> bool \<Rightarrow> string \<Rightarrow> exn + cfloat" where
  "scan_hex what emin rnd neg s =
     (case scan_digits 16 s of ((ds, nf), rest) \<Rightarrow>
        let n = digits_val 16 ds; x = scan_exponent ''pP'' rest - 4 * int nf in
        in_range what emin n 1 x (rnd neg n x))"

definition scan_float :: "string \<Rightarrow> int \<Rightarrow> (bool \<Rightarrow> nat \<Rightarrow> int \<Rightarrow> cfloat) \<Rightarrow> string \<Rightarrow> exn + cfloat" where
  "scan_float what emin rnd s =
     (case scan_sign (dropWhile is_space s) of (neg, t) \<Rightarrow>
        if starts_word ''inf'' t then Inr (Infty neg)
        else if starts_word ''nan'' t then Inr (NaN neg)
        else if starts_word ''0x'' t \<and> fst (fst (scan_digits 16 (drop 2 t))) \<noteq> [] then scan_hex what emin rnd neg (drop 2 t)
        else scan_decimal what emin rnd neg t)"

definition stod :: "string \<Rightarrow> exn + cfloat" where
  "stod = scan_float ''stod'' (- 1022) fl_double"

definition stof :: "string \<Rightarrow> exn + cfloat" where
  "stof = scan_float ''stof'' (- 126) fl_float"

section \<open>Facts\<close>

text \<open>The number a decimal text stands for, and how far the \<open>double\<close> is from it.\<close>

lemma quot_bits_near:
  assumes "0 < b"
  shows "2 * a * 2 ^ k \<le> quot_bits a b k * b + b" "quot_bits a b k * b \<le> 2 * a * 2 ^ k + b"
proof -
  define q r where "q = a * 2 ^ k div b" and "r = a * 2 ^ k mod b"
  have eq: "a * 2 ^ k = q * b + r" by (simp add: q_def r_def)
  have r: "r < b" using assms by (simp add: r_def)
  have n: "quot_bits a b k = (if r = 0 then 2 * q else 2 * q + 1)" by (simp add: quot_bits_def q_def r_def)
  have two: "2 * a * 2 ^ k = 2 * (q * b) + 2 * r" using eq by simp
  show "2 * a * 2 ^ k \<le> quot_bits a b k * b + b" "quot_bits a b k * b \<le> 2 * a * 2 ^ k + b"
    unfolding two n using r by (simp_all add: algebra_simps)
qed

lemma scan_digits_point:
  assumes "\<forall>c \<in> set ds. is_digit c" "\<forall>c \<in> set fs. is_digit c" "r = [] \<or> \<not> digit_val (hd r) < 10"
  shows "scan_digits 10 (ds @ CHR ''.'' # fs @ r) = ((ds @ fs, length fs), r)"
proof -
  have point: "\<not> digit_val CHR ''.'' < 10" by (simp add: digit_val_def)
  have ds: "takeWhile (\<lambda>c. digit_val c < 10) (ds @ CHR ''.'' # fs @ r) = ds"
    using takeWhile_digits [of ds "CHR ''.'' # fs @ r"] assms(1) point by simp
  have fs: "takeWhile (\<lambda>c. digit_val c < 10) (fs @ r) = fs"
    using takeWhile_digits [of fs r] assms(2,3) by simp
  have "dropWhile (\<lambda>c. digit_val c < 10) (ds @ CHR ''.'' # fs @ r) = CHR ''.'' # fs @ r"
    using ds by (simp add: dropWhile_eq_drop)
  moreover have "dropWhile (\<lambda>c. digit_val c < 10) (fs @ r) = r"
    using fs by (simp add: dropWhile_eq_drop)
  ultimately show ?thesis using ds fs by (simp add: scan_digits_def Let_def)
qed

end
