(* ===== verification/Power_Meter.thy ===== *)
theory Power_Meter
  imports Device Cpp_Stod "HOL-Library.Char_ord"
begin

text \<open>
  \<open>src/src/PowerMeter.cpp\<close> and \<open>src/include/PowerMeter.hh\<close>: the driver of the power meter. Commands are framed as
  \<open>$...\r\n\<close>; an answer starts with \<open>*\<close> or, when the command failed, with \<open>?\<close>. Every command goes through
  \<open>send_cmd\<close>, which holds a mutex of its own, retries over a fresh connection, and appends the answer to the
  caller's string. The theory holds the state and every operation.
\<close>

section \<open>State\<close>

datatype AQSetting = aQuery | aNone | aHalfSec | aOneSec | aThreeSecs | aTenSecs | aThirtySecs | aUnnamed nat

datatype BC20 = bQuery | bHold | bContinuous | bUnnamed nat

datatype DiffuserSetting = dQuery | dOut | dIn | dNA

datatype MainsFreq = mfQuery | mf50Hz | mf60Hz | mfUnnamed nat

datatype MeasurementMode = mmQuery | mmPassive | mmPower | mmEnergy | mmExposure | mmUnnamed nat

text \<open>Casting from and to the numbers of the enumerators. A cast is defined for what the bits of the largest
  enumerator can hold.\<close>

primrec AQSetting_num :: "AQSetting \<Rightarrow> nat" where
  "AQSetting_num aQuery = 0"
| "AQSetting_num aNone = 1"
| "AQSetting_num aHalfSec = 2"
| "AQSetting_num aOneSec = 3"
| "AQSetting_num aThreeSecs = 4"
| "AQSetting_num aTenSecs = 5"
| "AQSetting_num aThirtySecs = 6"
| "AQSetting_num (aUnnamed n) = n"

definition AQSetting_of :: "int \<Rightarrow> AQSetting option" where
  "AQSetting_of n =
     (if n = 0 then Some aQuery else if n = 1 then Some aNone else if n = 2 then Some aHalfSec
      else if n = 3 then Some aOneSec else if n = 4 then Some aThreeSecs else if n = 5 then Some aTenSecs
      else if n = 6 then Some aThirtySecs else if n = 7 then Some (aUnnamed 7) else None)"

primrec BC20_num :: "BC20 \<Rightarrow> nat" where
  "BC20_num bQuery = 0"
| "BC20_num bHold = 1"
| "BC20_num bContinuous = 2"
| "BC20_num (bUnnamed n) = n"

definition BC20_of :: "int \<Rightarrow> BC20 option" where
  "BC20_of n =
     (if n = 0 then Some bQuery else if n = 1 then Some bHold else if n = 2 then Some bContinuous
      else if n = 3 then Some (bUnnamed 3) else None)"

primrec DiffuserSetting_num :: "DiffuserSetting \<Rightarrow> nat" where
  "DiffuserSetting_num dQuery = 0"
| "DiffuserSetting_num dOut = 1"
| "DiffuserSetting_num dIn = 2"
| "DiffuserSetting_num dNA = 3"

definition DiffuserSetting_of :: "int \<Rightarrow> DiffuserSetting option" where
  "DiffuserSetting_of n =
     (if n = 0 then Some dQuery else if n = 1 then Some dOut else if n = 2 then Some dIn
      else if n = 3 then Some dNA else None)"

primrec MainsFreq_num :: "MainsFreq \<Rightarrow> nat" where
  "MainsFreq_num mfQuery = 0"
| "MainsFreq_num mf50Hz = 1"
| "MainsFreq_num mf60Hz = 2"
| "MainsFreq_num (mfUnnamed n) = n"

definition MainsFreq_of :: "int \<Rightarrow> MainsFreq option" where
  "MainsFreq_of n =
     (if n = 0 then Some mfQuery else if n = 1 then Some mf50Hz else if n = 2 then Some mf60Hz
      else if n = 3 then Some (mfUnnamed 3) else None)"

primrec MeasurementMode_num :: "MeasurementMode \<Rightarrow> nat" where
  "MeasurementMode_num mmQuery = 0"
| "MeasurementMode_num mmPassive = 1"
| "MeasurementMode_num mmPower = 2"
| "MeasurementMode_num mmEnergy = 3"
| "MeasurementMode_num mmExposure = 4"
| "MeasurementMode_num (mmUnnamed n) = n"

definition MeasurementMode_of :: "int \<Rightarrow> MeasurementMode option" where
  "MeasurementMode_of n =
     (if n = 0 then Some mmQuery else if n = 1 then Some mmPassive else if n = 2 then Some mmPower
      else if n = 3 then Some mmEnergy else if n = 4 then Some mmExposure
      else if 4 < n \<and> n < 8 then Some (mmUnnamed (nat n)) else None)"

record 'w powermeter = "'w device" +
  m_cmd_mutex :: bool
  m_mmode :: MeasurementMode
  m_range :: int
  m_wavelength :: "16 word"
  m_e_threshold :: "16 word"
  m_ave_query_state :: AQSetting
  m_pulse_length :: "16 word"
  m_ranges :: "(int, string) std_map"
  m_wavelength_ranges :: "(int, string) std_map"
  m_pulse_lengths :: "(int, string) std_map"
  m_ave_windows :: "(int, string) std_map"
  m_measurement_units :: "(char, string) std_map"
  m_threshold_ranges :: "16 word \<times> 16 word"
  m_interval_between_cmds_ms :: "16 word"

text \<open>Conversion of the loop counters to the key types of the maps.\<close>

definition to_int16 :: "int \<Rightarrow> int" where
  "to_int16 x = (x + 2 ^ 15) mod 2 ^ 16 - 2 ^ 15"

definition to_uint16 :: "int \<Rightarrow> int" where
  "to_uint16 x = x mod 2 ^ 16"

section \<open>Commands\<close>

text \<open>\<open>std::lock_guard<std::mutex>\<close>: locking a mutex its owner holds does not come back.\<close>

definition lock_guard ::
    "(('w, 'z) powermeter_scheme, 'a) prog \<Rightarrow> (('w, 'z) powermeter_scheme, 'a) prog" where
  "lock_guard m =
     bind (gets m_cmd_mutex) (\<lambda>held.
       if held then stuck Deadlock
       else andthen (modify (\<lambda>s. s\<lparr>m_cmd_mutex := True\<rparr>))
              (finally_do m (modify (\<lambda>s. s\<lparr>m_cmd_mutex := False\<rparr>))))"

definition PowerMeter_pause :: "'w os \<Rightarrow> (('w, 'z) powermeter_scheme, unit) prog" where
  "PowerMeter_pause os = bind (gets m_interval_between_cmds_ms) (\<lambda>ms. sleep_for os (unat ms))"

definition PowerMeter_reconnect :: "'w os \<Rightarrow> (('w, 'z) powermeter_scheme, unit) prog" where
  "PowerMeter_reconnect os =
     andthen (PowerMeter_pause os) (andthen (Device_reset_connection os) (PowerMeter_pause os))"

definition PowerMeter_send_cmd ::
    "'w os \<Rightarrow> string \<Rightarrow> string \<Rightarrow> bool \<Rightarrow> (('w, 'z) powermeter_scheme, bool \<times> string) prog" where
  "PowerMeter_send_cmd os cmd resp repeat =
     lock_guard
      (bind (Device_write_cmd os cmd) (\<lambda>st.
       bind (if \<not> st then
               (if repeat then andthen (PowerMeter_reconnect os) (Device_write_cmd os cmd) else return False)
             else return True) (\<lambda>st.
       if \<not> st then return (False, resp)
       else andthen (PowerMeter_pause os)
        (bind (Device_read_cmd os resp) (\<lambda>(st, resp).
         if \<not> st then
           (if repeat then andthen (PowerMeter_reconnect os) (Device_read_cmd os resp)
            else return (False, resp))
         else return (True, resp))))))"

text \<open>The call every operation starts with: the answer, or the exception \<open>what\<close>.\<close>

definition PowerMeter_query ::
    "'w os \<Rightarrow> string \<Rightarrow> string \<Rightarrow> string \<Rightarrow> (('w, 'z) powermeter_scheme, string) prog" where
  "PowerMeter_query os cmd resp what =
     bind (PowerMeter_send_cmd os cmd resp True) (\<lambda>(st, resp).
       if \<not> st then throw (IOException what) else return resp)"

section \<open>Settings kept by the driver\<close>

definition PowerMeter_set_range :: "'w os \<Rightarrow> int \<Rightarrow> (('w, 'z) powermeter_scheme, bool) prog" where
  "PowerMeter_set_range os rg =
     bind (PowerMeter_query os (''WN '' @ show_int rg) [] ''Failed to set range'') (\<lambda>rr.
       if 0 < length rr then bind (lift (str_at rr 0)) (\<lambda>c. return (c = CHR ''*'')) else return False)"

definition PowerMeter_get_range_fast :: "(('w, 'z) powermeter_scheme, int) prog" where
  "PowerMeter_get_range_fast = gets m_range"

definition PowerMeter_wavelength :: "'w os \<Rightarrow> 16 word \<Rightarrow> (('w, 'z) powermeter_scheme, bool) prog" where
  "PowerMeter_wavelength os wl =
     bind (PowerMeter_query os (''WL '' @ show_nat (unat wl)) [] ''Failed to set wavelength'') (\<lambda>rr.
     bind (lift (str_at rr 0)) (\<lambda>c. return (c = CHR ''*'')))"

text \<open>The argument is narrowed twice: for the command, and for the cache.\<close>

definition PowerMeter_set_wavelength :: "'w os \<Rightarrow> 32 word \<Rightarrow> (('w, 'z) powermeter_scheme, unit) prog" where
  "PowerMeter_set_wavelength os wl =
     bind (PowerMeter_wavelength os (ucast wl)) (\<lambda>r.
       whenM r (modify (\<lambda>s. s\<lparr>m_wavelength := ucast wl\<rparr>)))"

definition PowerMeter_get_wavelength :: "(('w, 'z) powermeter_scheme, 32 word) prog" where
  "PowerMeter_get_wavelength = gets (\<lambda>s. ucast (m_wavelength s))"

definition PowerMeter_get_e_threshold :: "(('w, 'z) powermeter_scheme, 32 word) prog" where
  "PowerMeter_get_e_threshold = gets (\<lambda>s. ucast (m_e_threshold s))"

section \<open>Averages\<close>

definition PowerMeter_get_average_flag :: "'w os \<Rightarrow> (('w, 'z) powermeter_scheme, bool) prog" where
  "PowerMeter_get_average_flag os =
     bind (PowerMeter_query os ''AF'' [] ''Failed to query average flag'') (\<lambda>resp.
     bind (lift (str_substr resp 1 (size_sub (length resp) 3))) (\<lambda>resp.
     bind (lift (stol resp)) (\<lambda>n. return (n \<noteq> 0))))"

text \<open>The names of the averaging windows are kept from the first answer on.\<close>

definition PowerMeter_average_query :: "'w os \<Rightarrow> 16 word \<Rightarrow> (('w, 'z) powermeter_scheme, 16 word) prog" where
  "PowerMeter_average_query os q =
     bind (PowerMeter_query os (''AQ '' @ show_nat (unat q)) [] ''Failed to query average'') (\<lambda>resp.
     bind (lift (str_substr resp 2 1)) (\<lambda>t.
     bind (lift (stoul t)) (\<lambda>n.
     bind (gets m_ave_windows) (\<lambda>windows.
     andthen
       (whenM (windows = [])
         (bind (case str_find ''NONE'' resp of
                  None \<Rightarrow> throw (out_of_range ''basic_string::substr'')
                | Some p \<Rightarrow> lift (str_substr_from resp p)) (\<lambda>rg.
          bind (tokenize_string rg [] '' '') (\<lambda>(tokens, _).
            modify (\<lambda>s. s\<lparr>m_ave_windows :=
              map_insert_conv to_uint16 1 (filter (\<lambda>t. t \<noteq> []) (map trim tokens)) (m_ave_windows s)\<rparr>)))))
       (return (ucast n))))))"

definition PowerMeter_average_query_setting ::
    "'w os \<Rightarrow> AQSetting \<Rightarrow> (('w, 'z) powermeter_scheme, AQSetting) prog" where
  "PowerMeter_average_query_setting os q =
     bind (PowerMeter_average_query os (of_nat (AQSetting_num q))) (\<lambda>aa.
       cast_enum (AQSetting_of (int (unat aa))))"

section \<open>Ranges and wavelengths\<close>

definition PowerMeter_get_all_ranges :: "'w os \<Rightarrow> (('w, 'z) powermeter_scheme, int) prog" where
  "PowerMeter_get_all_ranges os =
     bind (PowerMeter_query os ''AR'' [] ''Failed to query all ranges'') (\<lambda>resp.
     bind (lift (str_substr_from resp 1)) (\<lambda>resp.
     bind (tokenize_string (trim resp) [] '' '') (\<lambda>(tokens, _).
     bind (lift (vec_at tokens 0)) (\<lambda>t.
     bind (lift (stol t)) (\<lambda>n.
     andthen (modify (\<lambda>s. s\<lparr>m_ranges := map_insert_conv to_int16 0 (tl tokens) []\<rparr>))
       (return (to_int16 n)))))))"

definition PowerMeter_get_all_wavelengths_setting :: "(('w, 'z) powermeter_scheme, 16 word) prog" where
  "PowerMeter_get_all_wavelengths_setting = throw (runtime_error ''Not implemented'')"

definition PowerMeter_get_all_wavelengths :: "'w os \<Rightarrow> string \<Rightarrow> (('w, 'z) powermeter_scheme, string) prog" where
  "PowerMeter_get_all_wavelengths os answer =
     bind (PowerMeter_query os ''AW'' answer ''Failed to query all wavelengths'') (\<lambda>answer.
       lift (str_substr_from answer 1))"

section \<open>Sensor settings\<close>

definition PowerMeter_bc20_sensor_mode :: "'w os \<Rightarrow> BC20 \<Rightarrow> (('w, 'z) powermeter_scheme, BC20) prog" where
  "PowerMeter_bc20_sensor_mode os query =
     bind (PowerMeter_query os (''BQ '' @ show_nat (BC20_num query)) [] ''Failed to query b20 sensor mode'') (\<lambda>resp.
     bind (lift (str_substr resp 2 1)) (\<lambda>t.
     bind (lift (stol t)) (\<lambda>n. cast_enum (BC20_of n))))"

text \<open>Diffuser and filter answer alike: "N/A" anywhere means that there is none.\<close>

definition PowerMeter_in_out :: "string \<Rightarrow> (('w, 'z) powermeter_scheme, DiffuserSetting) prog" where
  "PowerMeter_in_out resp =
     (if str_find ''N/A'' resp \<noteq> None then return dNA
      else bind (lift (str_substr resp 2 1)) (\<lambda>t.
           bind (lift (stol t)) (\<lambda>n. cast_enum (DiffuserSetting_of n))))"

definition PowerMeter_diffuser_query ::
    "'w os \<Rightarrow> DiffuserSetting \<Rightarrow> (('w, 'z) powermeter_scheme, DiffuserSetting) prog" where
  "PowerMeter_diffuser_query os s =
     bind (PowerMeter_query os (''DQ '' @ show_nat (DiffuserSetting_num s)) [] ''Failed to query diffuser'')
       PowerMeter_in_out"

definition PowerMeter_filter_query ::
    "'w os \<Rightarrow> DiffuserSetting \<Rightarrow> (('w, 'z) powermeter_scheme, DiffuserSetting) prog" where
  "PowerMeter_filter_query os s =
     bind (PowerMeter_query os (''FQ '' @ show_nat (DiffuserSetting_num s)) [] ''Failed to query filter info'')
       PowerMeter_in_out"

section \<open>Energy\<close>

definition d_zero :: cfloat where
  "d_zero = Fin False 0 0"

definition PowerMeter_exposure_energy ::
    "'w os \<Rightarrow> (('w, 'z) powermeter_scheme, cfloat \<times> 32 word \<times> 32 word) prog" where
  "PowerMeter_exposure_energy os =
     bind (PowerMeter_query os ''EE'' [] ''Failed to query exposure energy'') (\<lambda>resp.
     bind (lift (str_at resp 0)) (\<lambda>c.
     if c = CHR ''*'' then
       bind (tokenize_string resp [] '' '') (\<lambda>(tokens, _).
       bind (lift (vec_at tokens 1)) (\<lambda>t1. bind (lift (stod t1)) (\<lambda>energy.
       bind (lift (vec_at tokens 2)) (\<lambda>t2. bind (lift (stoul t2)) (\<lambda>pulses.
       bind (lift (vec_at tokens 3)) (\<lambda>t3. bind (lift (stoul t3)) (\<lambda>et.
         return (energy, ucast pulses, ucast et))))))))
     else return (d_zero, 0, 0)))"

definition PowerMeter_flag :: "string \<Rightarrow> (('w, 'z) powermeter_scheme, bool) prog" where
  "PowerMeter_flag resp =
     bind (lift (str_substr_from resp 1)) (\<lambda>t. bind (lift (stol t)) (\<lambda>n. return (n \<noteq> 0)))"

definition PowerMeter_energy_flag :: "'w os \<Rightarrow> (('w, 'z) powermeter_scheme, bool) prog" where
  "PowerMeter_energy_flag os = bind (PowerMeter_query os ''EF'' [] ''Failed to query energy flag'') PowerMeter_flag"

definition PowerMeter_energy_ready :: "'w os \<Rightarrow> (('w, 'z) powermeter_scheme, bool) prog" where
  "PowerMeter_energy_ready os = bind (PowerMeter_query os ''ER'' [] ''Failed to query energy ready'') PowerMeter_flag"

definition PowerMeter_energy_threshold :: "'w os \<Rightarrow> 32 word \<Rightarrow> (('w, 'z) powermeter_scheme, 32 word) prog" where
  "PowerMeter_energy_threshold os et =
     bind (PowerMeter_query os (''ET '' @ show_nat (unat et)) [] ''Failed to query energy threshold'') (\<lambda>resp.
     bind (lift (str_substr resp 1 1)) (\<lambda>t.
     bind (lift (stoul t)) (\<lambda>n.
     andthen (modify (\<lambda>s. s\<lparr>m_e_threshold := ucast (ucast n :: 32 word)\<rparr>)) (return (ucast n)))))"

text \<open>The commands that force a measurement mode succeed unless the answer is a failure.\<close>

definition PowerMeter_unless_failed :: "string \<Rightarrow> (('w, 'z) powermeter_scheme, bool) prog" where
  "PowerMeter_unless_failed resp = bind (lift (str_at resp 0)) (\<lambda>c. return (c \<noteq> CHR ''?''))"

definition PowerMeter_force_energy :: "'w os \<Rightarrow> (('w, 'z) powermeter_scheme, bool) prog" where
  "PowerMeter_force_energy os =
     bind (PowerMeter_query os ''FE'' [] ''Failed to force energy'') PowerMeter_unless_failed"

definition PowerMeter_force_power :: "'w os \<Rightarrow> (('w, 'z) powermeter_scheme, bool) prog" where
  "PowerMeter_force_power os =
     bind (PowerMeter_send_cmd os ''FP'' [] True) (\<lambda>(_, resp). PowerMeter_unless_failed resp)"

definition PowerMeter_force_exposure :: "'w os \<Rightarrow> (('w, 'z) powermeter_scheme, bool) prog" where
  "PowerMeter_force_exposure os =
     bind (PowerMeter_query os ''FX'' [] ''Failed to force exposure'') PowerMeter_unless_failed"

section \<open>Identification\<close>

definition PowerMeter_head_info_raw :: "'w os \<Rightarrow> string \<Rightarrow> (('w, 'z) powermeter_scheme, string) prog" where
  "PowerMeter_head_info_raw os answer = PowerMeter_query os ''HI'' answer ''Failed to query head info''"

text \<open>The tokens of a trimmed answer without the first one.\<close>

definition PowerMeter_tail_tokens :: "string \<Rightarrow> (('w, 'z) powermeter_scheme, string list) prog" where
  "PowerMeter_tail_tokens rr =
     bind (tokenize_string (trim rr) [] '' '') (\<lambda>(tokens, _). return (tl tokens))"

definition PowerMeter_head_info ::
    "'w os \<Rightarrow> (('w, 'z) powermeter_scheme, string \<times> string \<times> string \<times> bool \<times> bool \<times> bool) prog" where
  "PowerMeter_head_info os =
     bind (PowerMeter_head_info_raw os []) (\<lambda>rr.
     bind (PowerMeter_tail_tokens rr) (\<lambda>tokens.
     bind (lift (vec_at tokens 0)) (\<lambda>type.
     bind (lift (vec_at tokens 1)) (\<lambda>sn.
     bind (lift (vec_at tokens 2)) (\<lambda>name.
     bind (lift (vec_at tokens 3)) (\<lambda>t.
     bind (lift (stoul_base 16 t)) (\<lambda>n.
       let word = ucast n :: 32 word; power = bit word 0; energy = bit word 0; freq = bit word 31 in
       return (type, sn, name, power, energy, freq))))))))"

definition PowerMeter_head_type :: "'w os \<Rightarrow> (('w, 'z) powermeter_scheme, string) prog" where
  "PowerMeter_head_type os =
     bind (PowerMeter_query os ''HT'' [] ''Failed to query head type'') (\<lambda>resp. lift (str_substr_from resp 1))"

definition PowerMeter_inst_config :: "'w os \<Rightarrow> (('w, 'z) powermeter_scheme, bool) prog" where
  "PowerMeter_inst_config os =
     bind (PowerMeter_query os ''IC'' [] ''Failed to query instrument config'') PowerMeter_unless_failed"

definition PowerMeter_inst_info :: "'w os \<Rightarrow> (('w, 'z) powermeter_scheme, string \<times> string \<times> string) prog" where
  "PowerMeter_inst_info os =
     bind (PowerMeter_query os ''II'' [] ''Failed to query instrument info'') (\<lambda>rr.
     bind (PowerMeter_tail_tokens rr) (\<lambda>tokens.
     bind (lift (vec_at tokens 0)) (\<lambda>ident.
     bind (lift (vec_at tokens 1)) (\<lambda>sn.
     bind (lift (vec_at tokens 2)) (\<lambda>name. return (ident, sn, name))))))"

definition PowerMeter_version :: "'w os \<Rightarrow> (('w, 'z) powermeter_scheme, string) prog" where
  "PowerMeter_version os =
     bind (PowerMeter_query os ''VE'' [] ''Failed to query version'') (\<lambda>rr. lift (str_substr_from rr 1))"

section \<open>Modes\<close>

definition PowerMeter_mains_frequency :: "'w os \<Rightarrow> 16 word \<Rightarrow> (('w, 'z) powermeter_scheme, 16 word) prog" where
  "PowerMeter_mains_frequency os q =
     bind (PowerMeter_query os (''MA '' @ show_nat (unat q)) [] ''Failed to send mains frequency'') (\<lambda>resp.
     bind (lift (str_substr resp 2 1)) (\<lambda>t. bind (lift (stoul t)) (\<lambda>n. return (ucast n))))"

definition PowerMeter_mains_frequency_setting ::
    "'w os \<Rightarrow> MainsFreq \<Rightarrow> (('w, 'z) powermeter_scheme, MainsFreq) prog" where
  "PowerMeter_mains_frequency_setting os q =
     bind (PowerMeter_mains_frequency os (of_nat (MainsFreq_num q))) (\<lambda>a.
       cast_enum (MainsFreq_of (int (unat a))))"

definition PowerMeter_max_freq :: "'w os \<Rightarrow> (('w, 'z) powermeter_scheme, 32 word) prog" where
  "PowerMeter_max_freq os =
     bind (PowerMeter_query os ''MF'' [] ''Failed to send max frequency'') (\<lambda>rr.
     bind (lift (str_substr_from rr 1)) (\<lambda>t. bind (lift (stoul t)) (\<lambda>n. return (ucast n))))"

text \<open>A mode that was not accepted is followed by a query for the present one.\<close>

function PowerMeter_measurement_mode :: "'w os \<Rightarrow> 16 word \<Rightarrow> (('w, 'z) powermeter_scheme, 16 word) prog" where
  "PowerMeter_measurement_mode os q =
     bind (PowerMeter_query os (''MM '' @ show_nat (unat q)) [] ''Failed to set measurement mode'') (\<lambda>resp.
       if q = 0 then
         bind (lift (str_substr_from (trim resp) 1)) (\<lambda>t. bind (lift (stoi t)) (\<lambda>n. return (of_int n)))
       else bind (lift (str_at (trim resp) 0)) (\<lambda>c.
         if c = CHR ''*'' then return q else PowerMeter_measurement_mode os 0))"
  by pat_completeness auto
termination by (relation "measure (\<lambda>(os, q). if q = 0 then 0 else 1)") auto

declare PowerMeter_measurement_mode.simps [simp del]

definition PowerMeter_measurement_mode_setting ::
    "'w os \<Rightarrow> MeasurementMode \<Rightarrow> (('w, 'z) powermeter_scheme, MeasurementMode) prog" where
  "PowerMeter_measurement_mode_setting os q =
     bind (PowerMeter_measurement_mode os (of_nat (MeasurementMode_num q))) (\<lambda>a.
       cast_enum (MeasurementMode_of (int (unat a))))"

definition PowerMeter_pulse_length :: "'w os \<Rightarrow> 16 word \<Rightarrow> (('w, 'z) powermeter_scheme, 16 word) prog" where
  "PowerMeter_pulse_length os val =
     bind (PowerMeter_query os (''PL '' @ show_nat (unat val)) [] ''Failed to set pulse length'') (\<lambda>resp.
       if val = 0 then
         bind (lift (str_substr resp 1 1)) (\<lambda>t.
         bind (lift (stoul t)) (\<lambda>n.
         bind (gets m_pulse_lengths) (\<lambda>lengths.
         andthen
           (whenM (lengths = [])
             (bind (lift (str_substr_from resp 2)) (\<lambda>resp.
              bind (tokenize_string (trim resp) [] '' '') (\<lambda>(tokens, _).
                modify (\<lambda>s. s\<lparr>m_pulse_lengths := map_insert_conv to_uint16 1 tokens (m_pulse_lengths s)\<rparr>)))))
           (return (ucast n)))))
       else bind (lift (str_at resp 0)) (\<lambda>c.
         if c = CHR ''*'' then return val
         else bind (lift (str_substr resp 1 1)) (\<lambda>t. bind (lift (stoul t)) (\<lambda>n. return (ucast n)))))"

definition PowerMeter_reset :: "'w os \<Rightarrow> (('w, 'z) powermeter_scheme, unit) prog" where
  "PowerMeter_reset os = bind (PowerMeter_query os ''RE'' [] ''Failed to send reset'') (\<lambda>_. return ())"

definition PowerMeter_get_range :: "'w os \<Rightarrow> (('w, 'z) powermeter_scheme, int) prog" where
  "PowerMeter_get_range os =
     bind (PowerMeter_query os ''RN'' [] ''Failed to query range'') (\<lambda>rr.
     bind (lift (str_substr_from rr 1)) (\<lambda>t. lift (stoi t)))"

section \<open>Readings\<close>

text \<open>A number after the first character of the answer.\<close>

definition PowerMeter_number :: "string \<Rightarrow> (('w, 'z) powermeter_scheme, cfloat) prog" where
  "PowerMeter_number rr = bind (lift (str_substr_from rr 1)) (\<lambda>t. lift (stod t))"

definition PowerMeter_send_energy :: "'w os \<Rightarrow> (('w, 'z) powermeter_scheme, cfloat) prog" where
  "PowerMeter_send_energy os = bind (PowerMeter_query os ''SE'' [] ''Failed to query energy'') PowerMeter_number"

definition PowerMeter_get_energy :: "'w os \<Rightarrow> (('w, 'z) powermeter_scheme, cfloat) prog" where
  "PowerMeter_get_energy os = PowerMeter_send_energy os"

text \<open>\<open>None\<close>: the output parameter is left alone, as the flag says that there is no new reading.\<close>

definition PowerMeter_read_energy :: "'w os \<Rightarrow> (('w, 'z) powermeter_scheme, bool \<times> cfloat option) prog" where
  "PowerMeter_read_energy os =
     bind (PowerMeter_energy_flag os) (\<lambda>status.
       if status then bind (PowerMeter_send_energy os) (\<lambda>energy. return (status, Some energy))
       else return (status, None))"

definition PowerMeter_send_frequency :: "'w os \<Rightarrow> (('w, 'z) powermeter_scheme, cfloat) prog" where
  "PowerMeter_send_frequency os =
     bind (PowerMeter_query os ''SF'' [] ''Failed to query frequency'') (\<lambda>rr.
     bind (lift (str_at rr 0)) (\<lambda>c. if c = CHR ''?'' then return d_zero else PowerMeter_number rr))"

definition PowerMeter_send_average :: "'w os \<Rightarrow> (('w, 'z) powermeter_scheme, cfloat) prog" where
  "PowerMeter_send_average os = bind (PowerMeter_query os ''SG'' [] ''Failed to query average'') PowerMeter_number"

definition PowerMeter_read_average :: "'w os \<Rightarrow> (('w, 'z) powermeter_scheme, bool \<times> cfloat option) prog" where
  "PowerMeter_read_average os =
     bind (PowerMeter_get_average_flag os) (\<lambda>st.
       if st then bind (PowerMeter_send_average os) (\<lambda>x. return (st, Some x)) else return (st, None))"

definition PowerMeter_send_units :: "'w os \<Rightarrow> (('w, 'z) powermeter_scheme, char) prog" where
  "PowerMeter_send_units os =
     bind (PowerMeter_query os ''SI'' [] ''Failed to query units'') (\<lambda>rr. lift (str_at rr 1))"

definition PowerMeter_send_units_long :: "'w os \<Rightarrow> (('w, 'z) powermeter_scheme, string) prog" where
  "PowerMeter_send_units_long os =
     bind (PowerMeter_send_units os) (\<lambda>u.
     bind (gets m_measurement_units) (\<lambda>units. lift (map_at units u)))"

definition PowerMeter_send_power :: "'w os \<Rightarrow> (('w, 'z) powermeter_scheme, cfloat) prog" where
  "PowerMeter_send_power os = bind (PowerMeter_query os ''SP'' [] ''Failed to query power '') PowerMeter_number"

definition PowerMeter_send_max :: "'w os \<Rightarrow> (('w, 'z) powermeter_scheme, cfloat) prog" where
  "PowerMeter_send_max os =
     bind (PowerMeter_query os ''SX'' [] ''Failed to query max'') (\<lambda>rr.
     bind (lift (str_substr_from rr 1)) (\<lambda>rr.
       if rr = ''AUTO'' then return d_zero else lift (stod rr)))"

definition PowerMeter_trigger_window :: "16 word \<Rightarrow> (('w, 'z) powermeter_scheme, 16 word) prog" where
  "PowerMeter_trigger_window val = return 0"

section \<open>Threshold\<close>

definition PowerMeter_query_user_threshold ::
    "'w os \<Rightarrow> (('w, 'z) powermeter_scheme, 16 word \<times> 16 word \<times> 16 word) prog" where
  "PowerMeter_query_user_threshold os =
     bind (PowerMeter_query os ''UT'' [] ''Failed to query user threshold'') (\<lambda>rr.
     bind (lift (str_substr_from rr 1)) (\<lambda>rr.
     bind (tokenize_string rr [] '' '') (\<lambda>(tokens, _).
     bind (lift (vec_at tokens 0)) (\<lambda>t0. bind (lift (stoul t0)) (\<lambda>current.
     andthen (modify (\<lambda>s. s\<lparr>m_e_threshold := ucast current\<rparr>))
    (bind (lift (vec_at tokens 1)) (\<lambda>t1. bind (lift (stoul t1)) (\<lambda>lo.
     andthen (modify (\<lambda>s. s\<lparr>m_threshold_ranges := (ucast lo, snd (m_threshold_ranges s))\<rparr>))
    (bind (lift (vec_at tokens 2)) (\<lambda>t2. bind (lift (stoul t2)) (\<lambda>hi.
     andthen (modify (\<lambda>s. s\<lparr>m_threshold_ranges := (fst (m_threshold_ranges s), ucast hi)\<rparr>))
       (return (ucast current, ucast lo, ucast hi)))))))))))))"

text \<open>\<open>None\<close>: an answer that is neither a success nor a failure leaves the output parameter alone.\<close>

definition PowerMeter_user_threshold ::
    "'w os \<Rightarrow> 16 word \<Rightarrow> (('w, 'z) powermeter_scheme, 16 word option) prog" where
  "PowerMeter_user_threshold os val =
     bind (PowerMeter_query os (''UT '' @ show_nat (unat val)) [] ''Failed to query user threshold'') (\<lambda>rr.
     bind (lift (str_at rr 0)) (\<lambda>c.
     if c = CHR ''?'' then bind (gets m_e_threshold) (\<lambda>et. return (Some et))
     else if c = CHR ''*'' then
       bind (lift (str_substr_from rr 1)) (\<lambda>rr.
       bind (tokenize_string rr [] '' '') (\<lambda>(tokens, _).
       if length tokens = 3 then
         bind (lift (vec_at tokens 0)) (\<lambda>t0. bind (lift (stoul t0)) (\<lambda>answer.
         andthen (modify (\<lambda>s. s\<lparr>m_e_threshold := ucast answer\<rparr>))
        (bind (gets m_threshold_ranges) (\<lambda>r.
         andthen
           (whenM (snd r = 0xFFFF)
             (bind (lift (vec_at tokens 1)) (\<lambda>t1. bind (lift (stoul t1)) (\<lambda>lo.
              andthen (modify (\<lambda>s. s\<lparr>m_threshold_ranges := (ucast lo, snd (m_threshold_ranges s))\<rparr>))
             (bind (lift (vec_at tokens 2)) (\<lambda>t2. bind (lift (stoul t2)) (\<lambda>hi.
                modify (\<lambda>s. s\<lparr>m_threshold_ranges := (fst (m_threshold_ranges s), ucast hi)\<rparr>))))))))
           (return (Some (ucast answer)))))))
       else bind (PowerMeter_query_user_threshold os) (\<lambda>(answer, _, _). return (Some answer))))
     else return None))"

section \<open>Wavelength index and range\<close>

definition PowerMeter_wavelength_index :: "'w os \<Rightarrow> 16 word \<Rightarrow> (('w, 'z) powermeter_scheme, bool) prog" where
  "PowerMeter_wavelength_index os index =
     bind (PowerMeter_query os (''WI '' @ show_nat (unat index)) [] ''Failed to set wavelength index'') (\<lambda>rr.
     bind (lift (str_at rr 0)) (\<lambda>c. return (c = CHR ''*'')))"

text \<open>The command is sent twice; the second answer is appended to the first.\<close>

definition PowerMeter_write_range :: "'w os \<Rightarrow> int \<Rightarrow> (('w, 'z) powermeter_scheme, bool) prog" where
  "PowerMeter_write_range os rg =
     bind (PowerMeter_send_cmd os (''WN '' @ show_int rg) [] True) (\<lambda>(_, rr).
     bind (PowerMeter_query os (''WN '' @ show_int rg) rr ''Failed to write range'') (\<lambda>rr.
     bind (lift (str_at rr 0)) (\<lambda>c. return (c = CHR ''*''))))"

definition PowerMeter_init_pulse_lengths :: "'w os \<Rightarrow> (('w, 'z) powermeter_scheme, unit) prog" where
  "PowerMeter_init_pulse_lengths os =
     andthen (modify (\<lambda>s. s\<lparr>m_pulse_lengths := []\<rparr>))
    (bind (PowerMeter_query os ''MM 0'' [] ''Failed to query pulse lengths'') (\<lambda>resp.
     bind (tokenize_string resp [] '' '') (\<lambda>(tokens, _).
       modify (\<lambda>s. s\<lparr>m_pulse_lengths := map_insert_conv to_uint16 1 (tl tokens) (m_pulse_lengths s)\<rparr>))))"

section \<open>Accessors and commands the class does not implement\<close>

definition PowerMeter_get_range_map :: "(('w, 'z) powermeter_scheme, (int, string) std_map) prog" where
  "PowerMeter_get_range_map = gets m_ranges"

definition PowerMeter_get_pulse_map :: "(('w, 'z) powermeter_scheme, (int, string) std_map) prog" where
  "PowerMeter_get_pulse_map = gets m_pulse_lengths"

definition PowerMeter_get_averages_map :: "(('w, 'z) powermeter_scheme, (int, string) std_map) prog" where
  "PowerMeter_get_averages_map = gets m_ave_windows"

definition PowerMeter_get_threshold_ranges :: "(('w, 'z) powermeter_scheme, 16 word \<times> 16 word) prog" where
  "PowerMeter_get_threshold_ranges = gets m_threshold_ranges"

definition PowerMeter_not_implemented :: "(('w, 'z) powermeter_scheme, unit) prog" where
  "PowerMeter_not_implemented = throw (runtime_error ''not implemented'')"

section \<open>Construction\<close>

definition measurement_units :: "(char \<times> string) list" where
  "measurement_units =
     [(CHR ''c'', ''Foot-Candles''), (CHR ''d'', ''dBm''), (CHR ''i'', ''Irradiance (Joules/cm^2)''),
      (CHR ''J'', ''Joules''), (CHR ''I'', ''Lux''), (CHR ''u'', ''Lumens''), (CHR ''w'', ''Dosage (Watts/cm^2)''),
      (CHR ''W'', ''Watts''), (CHR ''X'', ''No measurement'')]"

definition PowerMeter_ctor :: "'w os \<Rightarrow> string \<Rightarrow> 32 word \<Rightarrow> (('w, 'z) powermeter_scheme, unit) prog" where
  "PowerMeter_ctor os comport baud_rate =
     andthen (Device_ctor os comport baud_rate)
    (andthen (modify (\<lambda>s. s\<lparr>m_mmode := mmEnergy, m_range := 2, m_wavelength := 266, m_e_threshold := 1,
        m_ave_query_state := aNone, m_pulse_length := 0, m_interval_between_cmds_ms := 1, m_cmd_mutex := False,
        m_ranges := [], m_wavelength_ranges := [], m_pulse_lengths := [], m_ave_windows := [],
        m_measurement_units := [], m_com_pre := ''$'', m_com_sfx := CR @ LF, m_read_sfx := CR @ LF,
        m_threshold_ranges := (0xFFFF, 0xFFFF), m_timeout_ms := 1000\<rparr>))
    (try_catch
      (bind (gets (\<lambda>s. s)) (\<lambda>s.
       andthen (Serial_setPort os (m_comport s))
      (andthen (Serial_setBaudrate os (m_baud s))
      (andthen (Serial_setBytesize os eightbits)
      (andthen (Serial_setParity os parity_none)
      (andthen (Serial_setTimeout (simpleTimeout (m_timeout_ms s)))
      (andthen (Serial_setStopbits os stopbits_one)
      (andthen (Serial_open os)
      (bind Serial_isOpen (\<lambda>is_open.
       andthen (whenM (\<not> is_open) (throw (PortNotOpenedException
           (''Failed to open the port ['' @ m_comport s @ '':'' @ show_nat (unat (m_baud s)) @ '']''))))
         (modify (\<lambda>s. s\<lparr>m_measurement_units := fold (\<lambda>(k, v). map_insert k v) measurement_units []\<rparr>))))))))))))
      (\<lambda>e. andthen (Device_destroy os) (throw e))))"

text \<open>\<open>~PowerMeter\<close> is empty; the base class closes the port.\<close>

definition PowerMeter_destroy :: "'w os \<Rightarrow> (('w, 'z) powermeter_scheme, unit) prog" where
  "PowerMeter_destroy os = Device_destroy os"

end
