(* ===== verification/Power_Meter_Link.thy ===== *)
theory Power_Meter_Link
  imports Power_Meter
begin

text \<open>
  The power meter's commands on the line: what \<open>send_cmd\<close> sends and returns, its mutex, and the invariant every
  member function keeps.
\<close>

section \<open>The guarded exchange\<close>

text \<open>What \<open>send_cmd\<close> does while it holds the mutex: first the writing, then the reading.\<close>

definition exchange_write :: "'w os \<Rightarrow> string \<Rightarrow> bool \<Rightarrow> (('w, 'z) powermeter_scheme, bool) prog" where
  "exchange_write os cmd repeat =
     bind (Device_write_cmd os cmd) (\<lambda>st.
       if \<not> st then (if repeat then andthen (PowerMeter_reconnect os) (Device_write_cmd os cmd) else return False)
       else return True)"

definition exchange_read :: "'w os \<Rightarrow> string \<Rightarrow> bool \<Rightarrow> (('w, 'z) powermeter_scheme, bool \<times> string) prog" where
  "exchange_read os resp repeat =
     andthen (PowerMeter_pause os)
      (bind (Device_read_cmd os resp) (\<lambda>(st, resp).
         if \<not> st then
           (if repeat then andthen (PowerMeter_reconnect os) (Device_read_cmd os resp) else return (False, resp))
         else return (True, resp)))"

definition exchange ::
    "'w os \<Rightarrow> string \<Rightarrow> string \<Rightarrow> bool \<Rightarrow> (('w, 'z) powermeter_scheme, bool \<times> string) prog" where
  "exchange os cmd resp repeat =
     bind (exchange_write os cmd repeat) (\<lambda>st. if \<not> st then return (False, resp) else exchange_read os resp repeat)"

lemma send_cmd_exchange: "PowerMeter_send_cmd os cmd resp repeat = lock_guard (exchange os cmd resp repeat)"
  unfolding PowerMeter_send_cmd_def exchange_def exchange_write_def exchange_read_def by (simp add: bind_assoc)

lemma hear_pause: "steps hear_step (PowerMeter_pause os)" "steps hear_step (PowerMeter_reconnect os)"
  unfolding PowerMeter_pause_def PowerMeter_reconnect_def
  by (intro hear.steps_rules hear_Serial hear_reset)+

lemma mute_pause: "steps mute_step (PowerMeter_pause os)" "steps mute_step (PowerMeter_reconnect os)"
  unfolding PowerMeter_pause_def PowerMeter_reconnect_def
  by (intro mute.steps_rules mute_ops)+

lemma dev_pause: "steps dev_step (PowerMeter_pause os)" "steps dev_step (PowerMeter_reconnect os)"
  by (rule steps_mono [OF hear_pause(1)], simp add: hear_step_def)
    (rule steps_mono [OF hear_pause(2)], simp add: hear_step_def)

lemma lock_pause: "lock_safe (PowerMeter_pause os)" "lock_safe (PowerMeter_reconnect os)"
  unfolding PowerMeter_pause_def PowerMeter_reconnect_def by (intro lock_rules lock_ops)+

lemma hear_exchange_write: "steps hear_step (exchange_write os cmd repeat)"
  unfolding exchange_write_def by (intro hear.steps_rules hear_pause hear_write_cmd)

lemma mute_exchange_read: "steps mute_step (exchange_read os resp repeat)"
  unfolding exchange_read_def by (intro mute.steps_rules mute_pause mute_ops)

lemma dev_exchange: "steps dev_step (exchange os cmd resp repeat)"
  unfolding exchange_def
  by (intro dev.steps_rules steps_mono [OF hear_exchange_write] steps_mono [OF mute_exchange_read])
    (simp_all add: hear_step_def mute_step_def)

lemma lock_exchange: "lock_safe (exchange os cmd resp repeat)"
  unfolding exchange_def exchange_write_def exchange_read_def by (intro lock_rules lock_ops lock_pause)

text \<open>Writing: at most one incomplete attempt before the whole command.\<close>

lemma exchange_write_sends:
  fixes s t :: "('w, 'z) powermeter_scheme"
  assumes "exchange_write os cmd repeat s = (r, t)"
  shows "\<exists>k j. k \<le> length (Device_msg s cmd) \<and> j \<le> length (Device_msg s cmd)
    \<and> wire t = wire s @ take k (Device_msg s cmd) @ take j (Device_msg s cmd)
    \<and> (r = Ret True \<longrightarrow> j = length (Device_msg s cmd) \<and> (k = 0 \<or> k < length (Device_msg s cmd)))
    \<and> (\<not> repeat \<longrightarrow> k = 0)"
proof -
  let ?m = "Device_msg s cmd"
  obtain q u where w: "Device_write_cmd os cmd s = (q, u)" by fastforce
  from wp_runD [OF Device_write_attempt w] obtain k where k: "k \<le> length ?m" "wire u = wire s @ take k ?m"
    "\<forall>b. q = Ret b \<longrightarrow> b = (k = length ?m)" and d: "dev_step s u" by (auto simp: attempt_def)
  then have full: "q = Ret True \<longrightarrow> k = length ?m" "q = Ret False \<longrightarrow> k < length ?m"
    by (blast, metis nat_less_le)
  show ?thesis
  proof (cases "q = Ret False \<and> repeat")
    case True
    obtain x v where v: "PowerMeter_reconnect os u = (x, v)" by fastforce
    have mv: "wire v = wire u" "dev_step u v" using stepsD [OF mute_pause(2) v] by (simp_all add: mute_step_def)
    show ?thesis
    proof (cases "\<exists>y. x = Ret y")
      case ret: True
      then have "Device_write_cmd os cmd v = (r, t)"
        using assms True w v by (auto simp: exchange_write_def run_simps)
      moreover have "Device_msg v cmd = ?m"
        by (rule fun_cong [OF dev_step_fields(8) [OF dev.R_trans [OF d mv(2)]]])
      ultimately obtain j where "j \<le> length ?m" "wire t = wire v @ take j ?m" "\<forall>b. r = Ret b \<longrightarrow> b = (j = length ?m)"
        using wp_runD [OF Device_write_attempt, of os cmd v r t] unfolding attempt_def by metis
      then have "j \<le> length ?m" "wire t = wire s @ take k ?m @ take j ?m" "r = Ret True \<longrightarrow> j = length ?m"
        using k(2) mv(1) by (simp, simp, blast)
      then show ?thesis using True k(1) full(2) by - (rule exI [of _ k], rule exI [of _ j], simp)
    next
      case False
      then have "t = v" "\<And>b. r \<noteq> Ret b"
        using assms True w v by (cases x; auto simp: exchange_write_def run_simps)+
      then show ?thesis using k(1,2) mv(1) True by - (rule exI [of _ k], rule exI [of _ 0], simp)
    qed
  next
    case False
    then have "t = u" "r = q"
      using assms w by (auto simp: exchange_write_def run_simps split: outcome.splits if_splits)
    then show ?thesis using k(1,2) full(1) by - (rule exI [of _ 0], rule exI [of _ k], simp)
  qed
qed

text \<open>Reading: the answer is what arrived, in order, without the end of its last line.\<close>

lemma exchange_read_hears:
  assumes "exchange_read os resp repeat s = (Ret (ok, a), t)"
  shows "\<exists>l1 l2. inbox t = inbox s @ l1 @ l2
    \<and> a = resp @ l1 @ (if ok then take (length l2 - length (m_read_sfx s)) l2 else l2)
    \<and> (l1 = [] \<or> repeat \<and> length l1 < length (m_read_sfx s))
    \<and> (ok \<longrightarrow> l2 \<noteq> [] \<and> length (m_read_sfx s) \<le> length l2)"
proof -
  obtain u ok1 a1 v where p: "PowerMeter_pause os s = (Ret (), u)" and r1: "Device_read_cmd os resp u = (Ret (ok1, a1), v)"
    and rest: "(if \<not> ok1 then (if repeat then andthen (PowerMeter_reconnect os) (Device_read_cmd os a1) else return (False, a1))
      else return (True, a1)) v = (Ret (ok, a), t)"
    using assms unfolding exchange_read_def by (auto elim!: andthen_RetE bind_RetE)
  have pu: "inbox u = inbox s" "m_read_sfx u = m_read_sfx s"
    using stepsD [OF hear_pause(1) p] dev_step_fields(5) [of s u] by (auto simp: hear_step_def)
  from r1 obtain l1 where l1: "inbox v = inbox u @ l1" "ok1 = (l1 \<noteq> [] \<and> length (m_read_sfx u) \<le> length l1)"
    "a1 = resp @ (if ok1 then take (length l1 - length (m_read_sfx u)) l1 else l1)"
    by (rule Device_read_cmd_spec)
  show ?thesis
  proof (cases "\<not> ok1 \<and> repeat")
    case False
    then have "t = v" "ok = ok1" "a = a1" using rest by (auto simp: run_simps split: if_splits)
    then show ?thesis using l1 pu by - (rule exI [of _ "[]"], rule exI [of _ l1], auto)
  next
    case True
    then obtain w where w: "PowerMeter_reconnect os v = (Ret (), w)" and r2: "Device_read_cmd os a1 w = (Ret (ok, a), t)"
      using rest by (auto elim!: andthen_RetE)
    have sv: "m_read_sfx v = m_read_sfx u" by (rule dev_step_fields(5) [OF stepsD [OF dev_read_cmd r1]])
    have pw: "inbox w = inbox v" "m_read_sfx w = m_read_sfx v"
      using stepsD [OF hear_pause(2) w] dev_step_fields(5) [of v w] by (auto simp: hear_step_def)
    from r2 obtain l2 where l2: "inbox t = inbox w @ l2" "ok = (l2 \<noteq> [] \<and> length (m_read_sfx w) \<le> length l2)"
      "a = a1 @ (if ok then take (length l2 - length (m_read_sfx w)) l2 else l2)"
      by (rule Device_read_cmd_spec)
    then show ?thesis using l1 pu pw sv True by - (rule exI [of _ l1], rule exI [of _ l2], auto)
  qed
qed

section \<open>The mutex\<close>

lemma lock_guard_held: "m_cmd_mutex s \<Longrightarrow> lock_guard m s = (Stuck Deadlock, s)"
  by (simp add: lock_guard_def run_simps)

lemma lock_guard_free:
  "m (s\<lparr>m_cmd_mutex := True\<rparr>) = (q, u) \<Longrightarrow> \<not> m_cmd_mutex s
     \<Longrightarrow> lock_guard m s = (q, if settled q then u\<lparr>m_cmd_mutex := False\<rparr> else u)"
  by (cases q) (simp_all add: lock_guard_def run_simps)

lemma mutex_frame [simp]:
  "wire (s\<lparr>m_cmd_mutex := b\<rparr>) = wire s" "inbox (s\<lparr>m_cmd_mutex := b\<rparr>) = inbox s"
  "unlocked (s\<lparr>m_cmd_mutex := b\<rparr>) = unlocked s" "Device_msg (s\<lparr>m_cmd_mutex := b\<rparr>) cmd = Device_msg s cmd"
  by (simp_all add: wire_def inbox_def unlocked_def Device_msg_def)

lemma guarded_dev:
  "dev_step (s\<lparr>m_cmd_mutex := True\<rparr>) u \<Longrightarrow> \<not> m_cmd_mutex s \<Longrightarrow> dev_step s (u\<lparr>m_cmd_mutex := False\<rparr>)"
  by (cases s, cases u) (simp add: dev_step_def)

text \<open>What a run of \<open>send_cmd\<close> is: a run of the exchange with the mutex taken.\<close>

lemma send_cmd_run:
  fixes s t :: "('w, 'z) powermeter_scheme"
  assumes "PowerMeter_send_cmd os cmd resp repeat s = (r, t)" "\<not> m_cmd_mutex s"
  obtains u where "exchange os cmd resp repeat (s\<lparr>m_cmd_mutex := True\<rparr>) = (r, u)"
    "wire t = wire u" "inbox t = inbox u" "unlocked t = unlocked u" "settled r \<longrightarrow> dev_step s t"
proof -
  obtain q u where q: "exchange os cmd resp repeat (s\<lparr>m_cmd_mutex := True\<rparr>) = (q, u)" by fastforce
  have run: "PowerMeter_send_cmd os cmd resp repeat s = (q, if settled q then u\<lparr>m_cmd_mutex := False\<rparr> else u)"
    unfolding send_cmd_exchange by (rule lock_guard_free [where m = "exchange os cmd resp repeat", OF q assms(2)])
  have "(r, t) = (q, if settled q then u\<lparr>m_cmd_mutex := False\<rparr> else u)"
    by (rule trans [OF assms(1) [symmetric] run])
  then have eq: "r = q" "t = (if settled q then u\<lparr>m_cmd_mutex := False\<rparr> else u)"
    by - (erule Pair_inject, assumption)+
  have dev: "dev_step (s\<lparr>m_cmd_mutex := True\<rparr>) u" by (rule stepsD [OF dev_exchange q])
  show ?thesis
  proof (rule that [of u])
    show "exchange os cmd resp repeat (s\<lparr>m_cmd_mutex := True\<rparr>) = (r, u)" unfolding eq(1) by (rule q)
    show "wire t = wire u" "inbox t = inbox u" "unlocked t = unlocked u" unfolding eq(2) by simp_all
    show "settled r \<longrightarrow> dev_step s t" using guarded_dev [OF dev assms(2)] unfolding eq by simp
  qed
qed

text \<open>C9. A command of the power meter is one exchange. From a state with all mutexes free, \<open>send_cmd\<close> never waits for a
  mutex it holds; when it returns or throws, the mutexes are free again and no member of the driver has changed.
  It sends the framed command, after at most one incomplete attempt, and when it reports success the command went
  out whole and the answer is the caller's string followed by what arrived, in order, without the line end.\<close>

theorem send_cmd_correct:
  fixes s t :: "('w, 'z) powermeter_scheme"
  assumes run: "PowerMeter_send_cmd os cmd resp repeat s = (r, t)" and free: "\<not> m_cmd_mutex s" "unlocked s"
  defines "m \<equiv> Device_msg s cmd" and "n \<equiv> length (m_read_sfx s)"
  shows "r \<noteq> Stuck Deadlock
    \<and> (settled r \<longrightarrow> dev_step s t \<and> unlocked t)
    \<and> (\<exists>k j. k \<le> length m \<and> j \<le> length m \<and> wire t = wire s @ take k m @ take j m
        \<and> (\<forall>a. r = Ret (True, a) \<longrightarrow> j = length m \<and> (k = 0 \<or> k < length m)))
    \<and> (\<forall>a. r = Ret (True, a) \<longrightarrow> (\<exists>l1 l2. inbox t = inbox s @ l1 @ l2 \<and> a = resp @ l1 @ take (length l2 - n) l2
        \<and> (l1 = [] \<or> repeat \<and> length l1 < n) \<and> l2 \<noteq> [] \<and> n \<le> length l2))"
proof -
  let ?s = "s\<lparr>m_cmd_mutex := True\<rparr>"
  obtain u where u: "exchange os cmd resp repeat ?s = (r, u)" and same: "wire t = wire u" "inbox t = inbox u"
      "unlocked t = unlocked u" and dev: "settled r \<longrightarrow> dev_step s t"
    by (rule send_cmd_run [OF run free(1)])
  have lock: "r \<noteq> Stuck Deadlock" "settled r \<longrightarrow> unlocked t"
    using wp_runD [OF lock_safeD [OF lock_exchange] u] free(2) same(3) by simp_all
  obtain q v where v: "exchange_write os cmd repeat ?s = (q, v)" by fastforce
  have hv: "inbox v = inbox s" "m_read_sfx v = m_read_sfx s"
    using stepsD [OF hear_exchange_write v] dev_step_fields(5) [of ?s v] by (simp_all add: hear_step_def)
  obtain k j where w: "k \<le> length m" "j \<le> length m" "wire v = wire s @ take k m @ take j m"
      "q = Ret True \<longrightarrow> j = length m \<and> (k = 0 \<or> k < length m)"
    using exchange_write_sends [OF v] unfolding m_def by auto
  have split: "(q = Ret True \<and> exchange_read os resp repeat v = (r, u)) \<or> (u = v \<and> (\<forall>a. r \<noteq> Ret (True, a)))"
    using u v by (cases q) (auto simp: exchange_def run_simps split: if_splits)
  then have wu: "wire u = wire v" using stepsD [OF mute_exchange_read, of os resp repeat v r u] by (auto simp: mute_step_def)
  have rd: "q = Ret True \<and> exchange_read os resp repeat v = (Ret (True, a), u)" if "r = Ret (True, a)" for a
    using split that by simp
  show ?thesis
  proof (intro conjI)
    show "\<exists>k j. k \<le> length m \<and> j \<le> length m \<and> wire t = wire s @ take k m @ take j m
        \<and> (\<forall>a. r = Ret (True, a) \<longrightarrow> j = length m \<and> (k = 0 \<or> k < length m))"
      by (rule exI [of _ k], rule exI [of _ j]) (use w rd wu same(1) in simp)
    show "\<forall>a. r = Ret (True, a) \<longrightarrow> (\<exists>l1 l2. inbox t = inbox s @ l1 @ l2 \<and> a = resp @ l1 @ take (length l2 - n) l2
        \<and> (l1 = [] \<or> repeat \<and> length l1 < n) \<and> l2 \<noteq> [] \<and> n \<le> length l2)"
      using exchange_read_hears [of os resp repeat v True _ u] rd same(2) hv unfolding n_def by fastforce
  qed (use lock dev in simp_all)
qed

lemma query_dev:
  fixes s u :: "('w, 'z) powermeter_scheme"
  assumes "PowerMeter_query os cmd resp what s = (Ret a, u)"
  shows "dev_step s u"
proof -
  from assms obtain st b where send: "PowerMeter_send_cmd os cmd resp True s = (Ret (st, b), u)"
    unfolding PowerMeter_query_def by (auto elim!: bind_RetE simp del: run_bind) (auto simp: run_simps split: if_splits)
  then have "\<not> m_cmd_mutex s" unfolding send_cmd_exchange by (auto simp: lock_guard_held)
  from send_cmd_run [OF send this] show ?thesis by (metis settled_simps(1))
qed

section \<open>Running the driver\<close>

text \<open>A power meter on the scripted line, as its constructor leaves it.\<close>

definition pm_on :: "line \<Rightarrow> line powermeter" where
  "pm_on w = open_port w \<lparr>m_comport = ''/dev/ttyUSB2'', m_baud = 9600, m_com_pre = ''$'', m_com_sfx = CR @ LF,
     m_read_sfx = CR @ LF, m_timeout_ms = 1000, m_cmd_mutex = False, m_mmode = mmEnergy, m_range = 2,
     m_wavelength = 266, m_e_threshold = 1, m_ave_query_state = aNone, m_pulse_length = 0, m_ranges = [],
     m_wavelength_ranges = [], m_pulse_lengths = [], m_ave_windows = [],
     m_measurement_units = fold (\<lambda>(k, v). map_insert k v) measurement_units [],
     m_threshold_ranges = (0xFFFF, 0xFFFF), m_interval_between_cmds_ms = 1\<rparr>"

lemmas pm_run = sim_run pm_on_def lock_guard_def PowerMeter_send_cmd_def PowerMeter_query_def PowerMeter_pause_def
  PowerMeter_reconnect_def str_erase_from_def

theorem send_cmd_correct_witness:
  "\<exists>t l1 l2. PowerMeter_send_cmd line_os ''SE'' [] True (pm_on (quiet_line [''*1.1E-4'' @ CR @ LF] []))
      = (Ret (True, ''*1.1E-4''), t)
    \<and> dev_step (pm_on (quiet_line [''*1.1E-4'' @ CR @ LF] [])) t
    \<and> inbox t = l1 @ l2 \<and> ''*1.1E-4'' = l1 @ take (length l2 - 2) l2"
proof -
  define s where "s = pm_on (quiet_line [''*1.1E-4'' @ CR @ LF] [])"
  obtain r t where run: "PowerMeter_send_cmd line_os ''SE'' [] True s = (r, t)" by fastforce
  have r: "r = Ret (True, ''*1.1E-4'')" using run by (auto simp: s_def pm_run)
  have free: "\<not> m_cmd_mutex s" "unlocked s" "inbox s = []" "length (m_read_sfx s) = 2"
    by (simp_all add: s_def pm_on_def open_port_def unlocked_def inbox_def CR_def LF_def)
  from send_cmd_correct [OF run free(1,2)] show ?thesis
    unfolding s_def [symmetric] run r free(3,4) by auto
qed

end
