(* ===== verification/Power_Meter_Calls.thy ===== *)
theory Power_Meter_Calls
  imports Power_Meter_Link
begin

text \<open>
  The invariant of the power meter over sequences of calls. A member function may change the cached wavelength and
  threshold and the tables read from the instrument; everything else of the driver's state is fixed at construction,
  the keys of the tables stay in order and within their types, and all mutexes are free between calls.
\<close>

section \<open>The invariant\<close>

definition int16_keys :: "(int, string) std_map \<Rightarrow> bool" where
  "int16_keys m = (map_ok m \<and> (\<forall>k \<in> set (map fst m). - (2 ^ 15) \<le> k \<and> k < 2 ^ 15))"

definition uint16_keys :: "(int, string) std_map \<Rightarrow> bool" where
  "uint16_keys m = (map_ok m \<and> (\<forall>k \<in> set (map fst m). 0 \<le> k \<and> k < 2 ^ 16))"

definition pm_ok :: "('w, 'z) powermeter_scheme \<Rightarrow> bool" where
  "pm_ok s = (unlocked s \<and> \<not> m_cmd_mutex s \<and> int16_keys (m_ranges s) \<and> uint16_keys (m_pulse_lengths s)
     \<and> uint16_keys (m_ave_windows s))"

text \<open>What no member function changes.\<close>

definition pm_fixed :: "('w, 'z) powermeter_scheme \<Rightarrow> 'z powermeter_ext device_ext" where
  "pm_fixed s = simpl.more (s\<lparr>m_wavelength := 0, m_e_threshold := 0, m_ranges := [], m_pulse_lengths := [],
     m_ave_windows := [], m_threshold_ranges := (0, 0)\<rparr>)"

lemma map_keys_conv:
  "map_ok m \<Longrightarrow> map_ok (map_insert_conv conv k ts m)
     \<and> set (map fst (map_insert_conv conv k ts m)) \<subseteq> set (map fst m) \<union> range conv"
proof (induction conv k ts m rule: map_insert_conv.induct)
  case (2 conv k t ts m)
  from "2.IH" [OF map_ok_insert [OF "2.prems"]] show ?case
    unfolding map_insert_conv.simps keys_map_insert by auto
qed simp

lemma int16_keys_conv: "int16_keys m \<Longrightarrow> int16_keys (map_insert_conv to_int16 k ts m)"
proof -
  have "- (2 ^ 15) \<le> to_int16 x \<and> to_int16 x < 2 ^ 15" for x
    using pos_mod_bound [of "2 ^ 16" "x + 2 ^ 15"] pos_mod_sign [of "2 ^ 16" "x + 2 ^ 15"]
    by (simp add: to_int16_def)
  then show "int16_keys m \<Longrightarrow> ?thesis"
    using map_keys_conv [of m to_int16 k ts] unfolding int16_keys_def by blast
qed

lemma uint16_keys_conv: "uint16_keys m \<Longrightarrow> uint16_keys (map_insert_conv to_uint16 k ts m)"
proof -
  have "0 \<le> to_uint16 x \<and> to_uint16 x < 2 ^ 16" for x by (simp add: to_uint16_def)
  then show "uint16_keys m \<Longrightarrow> ?thesis"
    using map_keys_conv [of m to_uint16 k ts] unfolding uint16_keys_def by blast
qed

lemma keys_empty: "int16_keys []" "uint16_keys []"
  by (simp_all add: int16_keys_def uint16_keys_def map_ok_def)

section \<open>Programs that keep it\<close>

definition kept :: "(('w, 'z) powermeter_scheme, 'a) prog \<Rightarrow> bool" where
  "kept m = (\<forall>s. pm_ok s \<longrightarrow>
     wp m (\<lambda>r t. r \<noteq> Stuck Deadlock \<and> (settled r \<longrightarrow> pm_ok t \<and> pm_fixed t = pm_fixed s)) s)"

lemma kept_prims:
  "kept (return a)" "kept (throw e)" "kept (gets f)" "kept (lift r)" "x \<noteq> Deadlock \<Longrightarrow> kept (stuck x)"
  by (auto simp: kept_def wp_simps split: sum.splits)

lemma kept_modify: "(\<And>s. pm_ok s \<Longrightarrow> pm_ok (g s) \<and> pm_fixed (g s) = pm_fixed s) \<Longrightarrow> kept (modify g)"
  by (auto simp: kept_def wp_simps)

lemma keptD:
  "kept m \<Longrightarrow> pm_ok s
     \<Longrightarrow> wp m (\<lambda>r t. r \<noteq> Stuck Deadlock \<and> (settled r \<longrightarrow> pm_ok t \<and> pm_fixed t = pm_fixed s)) s"
  by (simp add: kept_def)

lemma kept_bind:
  fixes m :: "(('w, 'z) powermeter_scheme, 'a) prog"
  assumes "kept m" "\<And>a. kept (f a)"
  shows "kept (bind m f)"
  unfolding kept_def wp_bind
proof (intro allI impI, rule wp_mono [OF keptD [OF assms(1)]], assumption)
  fix s t :: "('w, 'z) powermeter_scheme" and r :: "'a outcome"
  let ?Q = "\<lambda>r t. r \<noteq> Stuck Deadlock \<and> (settled r \<longrightarrow> pm_ok t \<and> pm_fixed t = pm_fixed s)"
  assume "r \<noteq> Stuck Deadlock \<and> (settled r \<longrightarrow> pm_ok t \<and> pm_fixed t = pm_fixed s)"
  then show "onward (\<lambda>a. wp (f a) ?Q) ?Q r t"
    using keptD [OF assms(2), of t] by (cases r) simp_all
qed

lemma kept_andthen: "kept m \<Longrightarrow> kept n \<Longrightarrow> kept (andthen m n)"
  by (simp add: andthen_def kept_bind)

lemma kept_branch:
  "kept m \<Longrightarrow> kept n \<Longrightarrow> kept (if c then m else n)"
  "kept u \<Longrightarrow> kept (whenM c u)"
  "kept k \<Longrightarrow> (\<And>a. kept (h a)) \<Longrightarrow> kept (case z of None \<Rightarrow> k | Some a \<Rightarrow> h a)"
  "(\<And>a b. kept (l a b)) \<Longrightarrow> kept (case p of (a, b) \<Rightarrow> l a b)"
  "(\<And>a. kept (j a)) \<Longrightarrow> kept (let v = y in j v)"
  by (auto simp: whenM_def kept_prims split: option.splits prod.splits)

lemma kept_pure: "kept (tokenize_string str ts sep)" "kept (cast_enum v)"
  unfolding tokenize_string_def cast_enum_def by (cases v; auto intro: kept_prims)+

lemma dev_step_pm:
  fixes s t :: "('w, 'z) powermeter_scheme"
  assumes "dev_step s t"
  shows "m_cmd_mutex t = m_cmd_mutex s \<and> m_ranges t = m_ranges s \<and> m_pulse_lengths t = m_pulse_lengths s
    \<and> m_ave_windows t = m_ave_windows s \<and> m_wavelength t = m_wavelength s \<and> m_e_threshold t = m_e_threshold s
    \<and> m_threshold_ranges t = m_threshold_ranges s \<and> pm_fixed t = pm_fixed s"
  using assms by (cases s, cases t) (simp add: dev_step_def pm_fixed_def)

lemma kept_send_cmd:
  "kept (PowerMeter_send_cmd os cmd resp repeat :: (('w, 'z) powermeter_scheme, bool \<times> string) prog)"
  unfolding kept_def
proof (intro allI impI, rule wp_runI)
  fix s t :: "('w, 'z) powermeter_scheme" and r
  assume ok: "pm_ok s" and run: "PowerMeter_send_cmd os cmd resp repeat s = (r, t)"
  have free: "\<not> m_cmd_mutex s" "unlocked s" using ok by (simp_all add: pm_ok_def)
  obtain u where u: "exchange os cmd resp repeat (s\<lparr>m_cmd_mutex := True\<rparr>) = (r, u)" "unlocked t = unlocked u"
      and dev: "settled r \<longrightarrow> dev_step s t"
    by (rule send_cmd_run [OF run free(1)])
  have "r \<noteq> Stuck Deadlock" "settled r \<longrightarrow> unlocked t"
    using wp_runD [OF lock_safeD [OF lock_exchange] u(1)] free(2) u(2) by simp_all
  moreover have "pm_ok t \<and> pm_fixed t = pm_fixed s" if "unlocked t" "dev_step s t"
    using dev_step_pm [OF that(2)] that(1) ok by (simp add: pm_ok_def)
  ultimately show "r \<noteq> Stuck Deadlock \<and> (settled r \<longrightarrow> pm_ok t \<and> pm_fixed t = pm_fixed s)"
    using dev by blast
qed

lemma kept_query: "kept (PowerMeter_query os cmd resp what)"
  unfolding PowerMeter_query_def by (intro kept_bind kept_branch kept_prims kept_send_cmd)

lemmas kept_rules = kept_prims kept_bind kept_andthen kept_branch kept_pure kept_send_cmd kept_query

text \<open>The members that change.\<close>

lemma kept_fields:
  "kept (modify (\<lambda>s. s\<lparr>m_wavelength := w\<rparr>))" "kept (modify (\<lambda>s. s\<lparr>m_e_threshold := w\<rparr>))"
  "kept (modify (\<lambda>s. s\<lparr>m_threshold_ranges := f s\<rparr>))"
  "kept (modify (\<lambda>s. s\<lparr>m_ranges := map_insert_conv to_int16 k ts []\<rparr>))"
  "kept (modify (\<lambda>s. s\<lparr>m_pulse_lengths := []\<rparr>))"
  "kept (modify (\<lambda>s. s\<lparr>m_pulse_lengths := map_insert_conv to_uint16 k ts (m_pulse_lengths s)\<rparr>))"
  "kept (modify (\<lambda>s. s\<lparr>m_ave_windows := map_insert_conv to_uint16 k ts (m_ave_windows s)\<rparr>))"
  by (rule kept_modify, simp add: pm_ok_def pm_fixed_def unlocked_def int16_keys_conv uint16_keys_conv keys_empty)+

section \<open>Member functions\<close>

text \<open>The public member functions, with their results dropped.\<close>

inductive pm_member :: "'w os \<Rightarrow> (('w, 'z) powermeter_scheme, unit) prog \<Rightarrow> bool" for os where
  pm_set_range: "pm_member os (ignore (PowerMeter_set_range os rg))"
| pm_get_range_fast: "pm_member os (ignore PowerMeter_get_range_fast)"
| pm_set_wavelength: "pm_member os (PowerMeter_set_wavelength os wl)"
| pm_get_wavelength: "pm_member os (ignore PowerMeter_get_wavelength)"
| pm_get_e_threshold: "pm_member os (ignore PowerMeter_get_e_threshold)"
| pm_get_energy: "pm_member os (ignore (PowerMeter_get_energy os))"
| pm_average_flag: "pm_member os (ignore (PowerMeter_get_average_flag os))"
| pm_average_query: "pm_member os (ignore (PowerMeter_average_query os q))"
| pm_average_query_setting: "pm_member os (ignore (PowerMeter_average_query_setting os aq))"
| pm_all_ranges: "pm_member os (ignore (PowerMeter_get_all_ranges os))"
| pm_all_wavelengths: "pm_member os (ignore (PowerMeter_get_all_wavelengths os a))"
| pm_all_wavelengths_setting: "pm_member os (ignore PowerMeter_get_all_wavelengths_setting)"
| pm_bc20: "pm_member os (ignore (PowerMeter_bc20_sensor_mode os b))"
| pm_diffuser: "pm_member os (ignore (PowerMeter_diffuser_query os d))"
| pm_filter: "pm_member os (ignore (PowerMeter_filter_query os d))"
| pm_exposure: "pm_member os (ignore (PowerMeter_exposure_energy os))"
| pm_energy_flag: "pm_member os (ignore (PowerMeter_energy_flag os))"
| pm_energy_ready: "pm_member os (ignore (PowerMeter_energy_ready os))"
| pm_energy_threshold: "pm_member os (ignore (PowerMeter_energy_threshold os et))"
| pm_force_energy: "pm_member os (ignore (PowerMeter_force_energy os))"
| pm_force_power: "pm_member os (ignore (PowerMeter_force_power os))"
| pm_force_exposure: "pm_member os (ignore (PowerMeter_force_exposure os))"
| pm_head_info_raw: "pm_member os (ignore (PowerMeter_head_info_raw os a))"
| pm_head_info: "pm_member os (ignore (PowerMeter_head_info os))"
| pm_head_type: "pm_member os (ignore (PowerMeter_head_type os))"
| pm_inst_config: "pm_member os (ignore (PowerMeter_inst_config os))"
| pm_inst_info: "pm_member os (ignore (PowerMeter_inst_info os))"
| pm_version: "pm_member os (ignore (PowerMeter_version os))"
| pm_mains: "pm_member os (ignore (PowerMeter_mains_frequency os q))"
| pm_mains_setting: "pm_member os (ignore (PowerMeter_mains_frequency_setting os mf))"
| pm_max_freq: "pm_member os (ignore (PowerMeter_max_freq os))"
| pm_mode: "pm_member os (ignore (PowerMeter_measurement_mode os q))"
| pm_mode_setting: "pm_member os (ignore (PowerMeter_measurement_mode_setting os mm))"
| pm_pulse_length: "pm_member os (ignore (PowerMeter_pulse_length os q))"
| pm_reset: "pm_member os (PowerMeter_reset os)"
| pm_get_range: "pm_member os (ignore (PowerMeter_get_range os))"
| pm_send_energy: "pm_member os (ignore (PowerMeter_send_energy os))"
| pm_read_energy: "pm_member os (ignore (PowerMeter_read_energy os))"
| pm_send_frequency: "pm_member os (ignore (PowerMeter_send_frequency os))"
| pm_send_average: "pm_member os (ignore (PowerMeter_send_average os))"
| pm_read_average: "pm_member os (ignore (PowerMeter_read_average os))"
| pm_send_units: "pm_member os (ignore (PowerMeter_send_units os))"
| pm_send_units_long: "pm_member os (ignore (PowerMeter_send_units_long os))"
| pm_send_power: "pm_member os (ignore (PowerMeter_send_power os))"
| pm_send_max: "pm_member os (ignore (PowerMeter_send_max os))"
| pm_trigger_window: "pm_member os (ignore (PowerMeter_trigger_window q))"
| pm_user_threshold: "pm_member os (ignore (PowerMeter_user_threshold os q))"
| pm_query_threshold: "pm_member os (ignore (PowerMeter_query_user_threshold os))"
| pm_wavelength_index: "pm_member os (ignore (PowerMeter_wavelength_index os q))"
| pm_wavelength: "pm_member os (ignore (PowerMeter_wavelength os q))"
| pm_write_range: "pm_member os (ignore (PowerMeter_write_range os rg))"

lemma kept_settings:
  "kept (PowerMeter_wavelength os w)" "kept (PowerMeter_set_wavelength os wl)" "kept (PowerMeter_set_range os rg)"
  "kept (PowerMeter_get_average_flag os)" "kept (PowerMeter_average_query os q)" "kept (PowerMeter_get_all_ranges os)"
  "kept (PowerMeter_in_out a)" "kept (PowerMeter_flag a)" "kept (PowerMeter_unless_failed a)" "kept (PowerMeter_number a)"
  "kept (PowerMeter_tail_tokens a)"
  unfolding PowerMeter_wavelength_def PowerMeter_set_wavelength_def PowerMeter_set_range_def
    PowerMeter_get_average_flag_def PowerMeter_average_query_def PowerMeter_get_all_ranges_def
    PowerMeter_in_out_def PowerMeter_flag_def PowerMeter_unless_failed_def PowerMeter_number_def
    PowerMeter_tail_tokens_def
  by (intro kept_rules kept_fields)+

lemma kept_measurement_mode: "kept (PowerMeter_measurement_mode os q)"
proof -
  have zero: "kept (PowerMeter_measurement_mode os 0)"
    by (subst PowerMeter_measurement_mode.simps, unfold if_P [OF refl], intro kept_rules)
  show ?thesis by (subst PowerMeter_measurement_mode.simps) (intro kept_rules zero)
qed

lemma kept_queries:
  "kept (PowerMeter_send_energy os)" "kept (PowerMeter_energy_flag os)" "kept (PowerMeter_send_average os)"
  "kept (PowerMeter_send_units os)" "kept (PowerMeter_query_user_threshold os)" "kept (PowerMeter_mains_frequency os q)"
  "kept (PowerMeter_head_info_raw os a)"
  unfolding PowerMeter_send_energy_def PowerMeter_energy_flag_def PowerMeter_send_average_def
    PowerMeter_send_units_def PowerMeter_query_user_threshold_def PowerMeter_mains_frequency_def
    PowerMeter_head_info_raw_def
  by (intro kept_rules kept_fields kept_settings)+

lemmas pm_member_defs = ignore_def PowerMeter_get_range_fast_def PowerMeter_get_wavelength_def
    PowerMeter_get_e_threshold_def PowerMeter_get_energy_def PowerMeter_average_query_setting_def
    PowerMeter_get_all_wavelengths_def PowerMeter_get_all_wavelengths_setting_def
    PowerMeter_bc20_sensor_mode_def PowerMeter_diffuser_query_def PowerMeter_filter_query_def
    PowerMeter_exposure_energy_def PowerMeter_energy_ready_def PowerMeter_energy_threshold_def
    PowerMeter_force_energy_def PowerMeter_force_power_def PowerMeter_force_exposure_def
    PowerMeter_head_info_def PowerMeter_head_type_def PowerMeter_inst_config_def PowerMeter_inst_info_def
    PowerMeter_version_def PowerMeter_mains_frequency_setting_def PowerMeter_max_freq_def
    PowerMeter_measurement_mode_setting_def PowerMeter_pulse_length_def PowerMeter_reset_def
    PowerMeter_get_range_def PowerMeter_read_energy_def PowerMeter_send_frequency_def
    PowerMeter_read_average_def PowerMeter_send_units_long_def PowerMeter_send_power_def PowerMeter_send_max_def
    PowerMeter_trigger_window_def PowerMeter_user_threshold_def PowerMeter_wavelength_index_def
    PowerMeter_write_range_def

lemma kept_member: "pm_member os m \<Longrightarrow> kept m"
  by (induction rule: pm_member.induct, unfold pm_member_defs)
    (intro kept_rules kept_fields kept_settings kept_queries kept_measurement_mode)+

section \<open>Sequences of calls\<close>

text \<open>A call that returns or throws.\<close>

definition pm_call :: "'w os \<Rightarrow> ('w, 'z) powermeter_scheme \<Rightarrow> ('w, 'z) powermeter_scheme \<Rightarrow> bool" where
  "pm_call os s t = (\<exists>m r. pm_member os m \<and> m s = (r, t) \<and> settled r)"

lemma pm_call_kept: "pm_call os s t \<Longrightarrow> pm_ok s \<Longrightarrow> pm_ok t \<and> pm_fixed t = pm_fixed s"
  unfolding pm_call_def using wp_runD [OF keptD [OF kept_member]] by blast

lemma pm_fixed_fields:
  assumes "pm_fixed t = pm_fixed s"
  shows "m_range t = m_range s \<and> m_mmode t = m_mmode s \<and> m_com_pre t = m_com_pre s \<and> m_com_sfx t = m_com_sfx s
    \<and> m_read_sfx t = m_read_sfx s \<and> m_measurement_units t = m_measurement_units s"
  using assms by (cases s, cases t) (simp add: pm_fixed_def)

text \<open>C10. Over every sequence of calls of the member functions, returning or throwing, the mutexes of the driver and of
  the port are free between calls, no call waits for a mutex it holds, and the tables read from the instrument have
  their keys in order and inside the key type. The framing, the unit names, the measurement mode and the range the
  driver remembers are those of the constructor: whatever range the instrument is set to, \<open>m_range\<close> does not follow.\<close>

theorem powermeter_invariant:
  fixes s t :: "('w, 'z) powermeter_scheme"
  assumes "(pm_call os)\<^sup>*\<^sup>* s t" "pm_ok s"
  shows "pm_ok t \<and> m_range t = m_range s \<and> m_mmode t = m_mmode s \<and> Device_msg t = Device_msg s
    \<and> m_read_sfx t = m_read_sfx s \<and> m_measurement_units t = m_measurement_units s
    \<and> (\<forall>m. pm_member os m \<longrightarrow> fst (m t) \<noteq> Stuck Deadlock)"
proof -
  from assms have ok: "pm_ok t \<and> pm_fixed t = pm_fixed s"
    by (induction rule: rtranclp_induct) (simp, metis pm_call_kept)
  have "fst (m t) \<noteq> Stuck Deadlock" if "pm_member os m" for m
    using keptD [OF kept_member [OF that]] ok by (auto simp: wp_def case_prod_unfold)
  moreover have "Device_msg t = Device_msg s"
    by (rule ext) (use pm_fixed_fields [of t s] ok in \<open>simp add: Device_msg_def\<close>)
  ultimately show ?thesis using pm_fixed_fields [of t s] ok by blast
qed

theorem powermeter_invariant_witness:
  "\<exists>t. (pm_call line_os)\<^sup>*\<^sup>* (pm_on (quiet_line [''*'' @ CR @ LF] [])) t \<and> wire t = ''$WN 4'' @ CR @ LF \<and> pm_ok t
    \<and> m_range t = 2"
proof -
  define s where "s = pm_on (quiet_line [''*'' @ CR @ LF] [])"
  obtain r t where run: "ignore (PowerMeter_set_range line_os 4) s = (r, t)" by fastforce
  have r: "settled r" and w: "wire t = ''$WN 4'' @ CR @ LF"
    using run by (auto simp: s_def ignore_def PowerMeter_set_range_def pm_run show_int_def show_nat.simps digit_chars
        str_at_def)
  have "pm_call line_os s t" unfolding pm_call_def
    by (rule exI, rule exI, rule conjI [OF pm_set_range], rule conjI [OF run r])
  then have call: "(pm_call line_os)\<^sup>*\<^sup>* s t" by (rule r_into_rtranclp)
  have "pm_ok s" "m_range s = 2"
    by (simp_all add: s_def pm_ok_def pm_on_def open_port_def unlocked_def keys_empty)
  with powermeter_invariant [OF call] call w show ?thesis unfolding s_def [symmetric] by metis
qed

end
