(* ===== verification/Power_Meter_Answers.thy ===== *)
theory Power_Meter_Answers
  imports Power_Meter_Link
begin

text \<open>
  The answers of the power meter: what the driver returns and caches is what the instrument printed.
\<close>

section \<open>Answers made of words\<close>

lemma join_hd: "x \<noteq> [] \<Longrightarrow> hd (join c (x # ts)) = hd x"
  by (cases ts) (auto simp: hd_append)

lemma join_nonempty: "x \<noteq> [] \<Longrightarrow> join c (x # ts) \<noteq> []"
  by (cases ts) auto

lemma join_last: "(\<And>t. t \<in> set ts \<Longrightarrow> t \<noteq> []) \<Longrightarrow> ts \<noteq> [] \<Longrightarrow> last (join c ts) = last (last ts)"
proof (induction c ts rule: join.induct)
  case (3 c t v va)
  have "join c (v # va) \<noteq> []" using "3.prems" by (intro join_nonempty) simp
  then show ?case using 3 by simp
qed simp_all

definition word_ok :: "string \<Rightarrow> bool" where
  "word_ok t = (t \<noteq> [] \<and> set t \<inter> set WHITESPACE = {})"

lemma show_word_ok: "word_ok (show_nat n)" "word_ok (show_int i)"
proof -
  have ws: "c \<notin> set WHITESPACE" if "is_digit c \<or> c = CHR ''-''" for c
    using that by (auto simp: WHITESPACE_def is_digit_def)
  show n: "word_ok (show_nat n)" for n
    using ws by (auto simp: word_ok_def dest: show_nat_digits)
  show "word_ok (show_int i)"
    using ws by (auto simp: word_ok_def dest: show_int_chars)
qed

text \<open>Words put together with blanks come apart again, also with white space at the end.\<close>

lemma words_split:
  assumes "ts \<noteq> []" "\<forall>t \<in> set ts. word_ok t"
  shows "split_on '' '' (join CHR '' '' ts) = ts"
  by (rule split_on_join) (use assms in \<open>auto simp: word_ok_def WHITESPACE_def\<close>)

lemma words_trim:
  assumes "ts \<noteq> []" "\<forall>t \<in> set ts. word_ok t" "set pad \<subseteq> set WHITESPACE"
  shows "trim (join CHR '' '' ts @ pad) = join CHR '' '' ts"
proof -
  obtain x xs where ts: "ts = x # xs" using assms(1) by (cases ts) auto
  have x: "x \<noteq> []" "hd x \<in> set x" "hd x \<notin> set WHITESPACE" and l: "last ts \<noteq> []" "last (last ts) \<notin> set WHITESPACE"
    using assms(1,2) ts last_in_set [of ts] by (auto simp: word_ok_def disjoint_iff)
  have "trim ([] @ join CHR '' '' ts @ pad) = join CHR '' '' ts"
  proof (rule trim_pad)
    show "last (join CHR '' '' ts) \<notin> set WHITESPACE"
      using assms(1,2) l by (subst join_last) (auto simp: word_ok_def)
  qed (use assms(3) x ts join_hd [OF x(1)] join_nonempty [OF x(1)] in auto)
  then show ?thesis by simp
qed

section \<open>The table of ranges\<close>

lemma to_int16_id: "- (2 ^ 15) \<le> i \<Longrightarrow> i < 2 ^ 15 \<Longrightarrow> to_int16 i = i"
  by (simp add: to_int16_def)

text \<open>C24. The table of ranges is read back as the instrument printed it: an answer with the present setting and up to
  32768 range names makes \<open>get_all_ranges\<close> return the setting, and the map then holds each name under its position
  and nothing else.\<close>

theorem ranges_read_back:
  fixes s u :: "('w, 'z) powermeter_scheme"
  assumes ans: "PowerMeter_query os ''AR'' [] ''Failed to query all ranges'' s
      = (Ret (CHR ''*'' # join CHR '' '' (show_int cur # ts) @ pad), u)"
    and cur: "- (2 ^ 15) \<le> cur" "cur < 2 ^ 15"
    and ts: "\<forall>t \<in> set ts. word_ok t" "length ts \<le> 2 ^ 15" and pad: "set pad \<subseteq> set WHITESPACE"
  shows "\<exists>m. PowerMeter_get_all_ranges os s = (Ret cur, u\<lparr>m_ranges := m\<rparr>)
    \<and> (\<forall>i. map_find m i = (if 0 \<le> i \<and> i < int (length ts) then Some (ts ! nat i) else None))"
proof -
  let ?m = "map_insert_conv to_int16 0 ts []"
  have words: "show_int cur # ts \<noteq> []" "\<forall>t \<in> set (show_int cur # ts). word_ok t"
    using ts(1) show_word_ok(2) by auto
  have "stol (show_int cur) = Inr cur" using stol_show_int [of cur "[]"] cur by simp
  then have "PowerMeter_get_all_ranges os s = (Ret cur, u\<lparr>m_ranges := ?m\<rparr>)"
    using ans cur
    by (simp add: PowerMeter_get_all_ranges_def run_simps str_substr_from_def words_trim [OF words pad]
        words_split [OF words] vec_at_def to_int16_id)
  moreover have "?m = map_insert_from 0 ts []"
    by (rule map_insert_conv_id) (use ts(2) in \<open>simp add: to_int16_id\<close>)
  ultimately show ?thesis using map_find_insert_from [of 0 ts] by auto
qed

definition ranges_line :: string where
  "ranges_line = ''*4 10.0J 2.00J 200mJ 20.0mJ 2.00mJ ''"

lemma ranges_line_words:
  "ranges_line = CHR ''*'' # join CHR '' '' (show_int 4 # [''10.0J'', ''2.00J'', ''200mJ'', ''20.0mJ'', ''2.00mJ'']) @ '' ''"
  by (simp add: ranges_line_def show_int_def show_nat.simps digit_chars)

theorem ranges_read_back_witness:
  "\<exists>u m. PowerMeter_get_all_ranges line_os (pm_on (quiet_line [ranges_line @ CR @ LF] [])) = (Ret 4, u\<lparr>m_ranges := m\<rparr>)
    \<and> map_find m 2 = Some ''200mJ'' \<and> map_find m 5 = None"
proof -
  define s where "s = pm_on (quiet_line [ranges_line @ CR @ LF] [])"
  obtain r u where ask: "PowerMeter_query line_os ''AR'' [] ''Failed to query all ranges'' s = (r, u)" by fastforce
  have r: "r = Ret ranges_line" using ask by (auto simp: s_def pm_run ranges_line_def)
  have side: "\<forall>t \<in> set [''10.0J'', ''2.00J'', ''200mJ'', ''20.0mJ'', ''2.00mJ'']. word_ok t" "set '' '' \<subseteq> set WHITESPACE"
    by (simp_all add: word_ok_def WHITESPACE_def)
  from ranges_read_back [OF ask [unfolded r ranges_line_words] _ _ side(1) _ side(2)] show ?thesis
    unfolding s_def [symmetric] by fastforce
qed

section \<open>The user threshold\<close>

text \<open>The answer with the three numbers.\<close>

definition threshold_answer :: "nat \<Rightarrow> nat \<Rightarrow> nat \<Rightarrow> string" where
  "threshold_answer c lo hi = CHR ''*'' # join CHR '' '' (map show_nat [c, lo, hi])"

lemma threshold_words: "split_on '' '' (join CHR '' '' (map show_nat [c, lo, hi])) = map show_nat [c, lo, hi]"
  by (rule words_split) (simp_all add: show_word_ok)

lemma stoul_u16:
  assumes "n < 2 ^ 16"
  shows "stoul (show_nat n) = Inr (of_nat n)" "ucast (of_nat n :: 64 word) = (of_nat n :: 16 word)"
  using stoul_show_nat [of n "[]"] assms by (simp_all add: unsigned_of_nat take_bit_nat_eq_self)

lemma query_threshold_run:
  assumes "PowerMeter_query os ''UT'' [] ''Failed to query user threshold'' s = (Ret (threshold_answer c lo hi), u)"
    "c < 2 ^ 16" "lo < 2 ^ 16" "hi < 2 ^ 16"
  shows "PowerMeter_query_user_threshold os s = (Ret (of_nat c, of_nat lo, of_nat hi),
    u\<lparr>m_e_threshold := of_nat c, m_threshold_ranges := (of_nat lo, of_nat hi)\<rparr>)"
  using assms(1) threshold_words [of c lo hi]
  by (simp add: PowerMeter_query_user_threshold_def run_simps threshold_answer_def str_substr_from_def vec_at_def
      stoul_u16 [OF assms(2)] stoul_u16 [OF assms(3)] stoul_u16 [OF assms(4)])

text \<open>C25. What \<open>user_threshold\<close> returns and caches, answer by answer. A refusal gives the threshold cached before and
  changes nothing. A success with three numbers gives and caches the first, and the limits are taken over only while
  they are still the unset ones. A success in any other form is followed by a query, whose three numbers are all
  taken over. An answer that is neither leaves the output parameter unassigned.\<close>

theorem user_threshold_answers:
  fixes s u v :: "('w, 'z) powermeter_scheme"
  assumes ans: "PowerMeter_query os (''UT '' @ show_nat (unat val)) [] ''Failed to query user threshold'' s = (Ret resp, u)"
    and small: "c < 2 ^ 16" "lo < 2 ^ 16" "hi < 2 ^ 16"
  shows "(\<forall>x. resp = CHR ''?'' # x \<longrightarrow> PowerMeter_user_threshold os val s = (Ret (Some (m_e_threshold u)), u))
    \<and> (resp = threshold_answer c lo hi \<longrightarrow> PowerMeter_user_threshold os val s = (Ret (Some (of_nat c)),
         u\<lparr>m_e_threshold := of_nat c, m_threshold_ranges :=
            if snd (m_threshold_ranges u) = 0xFFFF then (of_nat lo, of_nat hi) else m_threshold_ranges u\<rparr>))
    \<and> (\<forall>x. resp = CHR ''*'' # x \<longrightarrow> length (split_on '' '' x) \<noteq> 3
         \<longrightarrow> PowerMeter_query os ''UT'' [] ''Failed to query user threshold'' u = (Ret (threshold_answer c lo hi), v)
         \<longrightarrow> PowerMeter_user_threshold os val s = (Ret (Some (of_nat c)),
            v\<lparr>m_e_threshold := of_nat c, m_threshold_ranges := (of_nat lo, of_nat hi)\<rparr>))
    \<and> (\<forall>y x. resp = y # x \<longrightarrow> y \<notin> {CHR ''?'', CHR ''*''} \<longrightarrow> PowerMeter_user_threshold os val s = (Ret None, u))"
proof (intro conjI allI impI)
  note reads = stoul_u16 [OF small(1)] stoul_u16 [OF small(2)] stoul_u16 [OF small(3)]
  show "PowerMeter_user_threshold os val s = (Ret (Some (m_e_threshold u)), u)" if "resp = CHR ''?'' # x" for x
    using ans that by (simp add: PowerMeter_user_threshold_def run_simps str_at_def)
  show "PowerMeter_user_threshold os val s = (Ret None, u)" if "resp = y # x" "y \<notin> {CHR ''?'', CHR ''*''}" for y x
    using ans that by (simp add: PowerMeter_user_threshold_def run_simps str_at_def)
  show "PowerMeter_user_threshold os val s = (Ret (Some (of_nat c)),
         u\<lparr>m_e_threshold := of_nat c, m_threshold_ranges :=
            if snd (m_threshold_ranges u) = 0xFFFF then (of_nat lo, of_nat hi) else m_threshold_ranges u\<rparr>)"
    if "resp = threshold_answer c lo hi"
    using ans that threshold_words [of c lo hi]
    by (simp add: PowerMeter_user_threshold_def run_simps str_at_def threshold_answer_def str_substr_from_def vec_at_def
        reads)
  show "PowerMeter_user_threshold os val s = (Ret (Some (of_nat c)),
            v\<lparr>m_e_threshold := of_nat c, m_threshold_ranges := (of_nat lo, of_nat hi)\<rparr>)"
    if "resp = CHR ''*'' # x" "length (split_on '' '' x) \<noteq> 3"
      "PowerMeter_query os ''UT'' [] ''Failed to query user threshold'' u = (Ret (threshold_answer c lo hi), v)" for x
    using ans that(1,2) query_threshold_run [OF that(3) small]
    by (simp add: PowerMeter_user_threshold_def run_simps str_at_def str_substr_from_def)
qed

theorem user_threshold_answers_witness:
  "\<exists>u. PowerMeter_user_threshold line_os 200 (pm_on (quiet_line [''*200 100 2500'' @ CR @ LF] [])) = (Ret (Some 200), u)
    \<and> m_e_threshold u = 200 \<and> m_threshold_ranges u = (100, 2500)"
proof -
  define s where "s = pm_on (quiet_line [''*200 100 2500'' @ CR @ LF] [])"
  obtain r u where ask: "PowerMeter_query line_os (''UT '' @ show_nat (unat (200 :: 16 word))) []
      ''Failed to query user threshold'' s = (r, u)" by fastforce
  have txt3: "threshold_answer 200 100 2500 = ''*200 100 2500''"
    by (simp add: threshold_answer_def show_nat.simps digit_chars)
  have r: "r = Ret (threshold_answer 200 100 2500)" and u: "m_threshold_ranges u = (0xFFFF, 0xFFFF)"
    using ask by (auto simp: s_def pm_run txt3 show_nat.simps digit_chars)
  from user_threshold_answers [OF ask [unfolded r], of 200 100 2500] u show ?thesis
    unfolding s_def [symmetric] by auto
qed

end
