(* ===== verification/Power_Meter_Sim.thy ===== *)
theory Power_Meter_Sim
  imports Power_Meter_Calls
begin

text \<open>
  \<open>src/src/PowerMeterSim.cpp\<close> and \<open>src/include/PowerMeterSim.hh\<close>: the power meter without an instrument. The class
  declares members of its own that hide those of the driver it derives from, and its member functions use only
  these; the state is that record. The last section compares it with the driver.
\<close>

section \<open>State and operations\<close>

record pmsim =
  ps_mmode :: MeasurementMode
  ps_range :: int
  ps_wavelength :: "16 word"
  ps_e_threshold :: "16 word"
  ps_ave_query_state :: AQSetting
  ps_pulse_length :: "16 word"
  ps_ranges :: "(int, string) std_map"
  ps_wavelength_ranges :: "(int, string) std_map"
  ps_pulse_lengths :: "(int, string) std_map"
  ps_ave_windows :: "(int, string) std_map"
  ps_measurement_units :: "(char, string) std_map"
  ps_threshold_ranges :: "16 word \<times> 16 word"

definition PowerMeterSim :: pmsim where
  "PowerMeterSim = \<lparr>ps_mmode = mmEnergy, ps_range = 2, ps_wavelength = 266, ps_e_threshold = 1,
     ps_ave_query_state = aNone, ps_pulse_length = 0, ps_ranges = [], ps_wavelength_ranges = [],
     ps_pulse_lengths = [], ps_ave_windows = [],
     ps_measurement_units = fold (\<lambda>(k, v). map_insert k v) measurement_units [], ps_threshold_ranges = (0, 0)\<rparr>"

subsection \<open>Settings\<close>

definition PowerMeterSim_get_range_fast :: "(pmsim, int) prog" where
  "PowerMeterSim_get_range_fast = gets ps_range"

definition PowerMeterSim_wavelength :: "16 word \<Rightarrow> (pmsim, bool) prog" where
  "PowerMeterSim_wavelength wl = andthen (modify (\<lambda>v. v\<lparr>ps_wavelength := wl\<rparr>)) (return True)"

definition PowerMeterSim_set_wavelength :: "32 word \<Rightarrow> (pmsim, unit) prog" where
  "PowerMeterSim_set_wavelength wl =
     bind (PowerMeterSim_wavelength (ucast wl)) (\<lambda>r. whenM r (modify (\<lambda>v. v\<lparr>ps_wavelength := ucast wl\<rparr>)))"

definition PowerMeterSim_get_wavelength :: "(pmsim, 32 word) prog" where
  "PowerMeterSim_get_wavelength = gets (\<lambda>v. ucast (ps_wavelength v))"

definition PowerMeterSim_get_e_threshold :: "(pmsim, 32 word) prog" where
  "PowerMeterSim_get_e_threshold = gets (\<lambda>v. ucast (ps_e_threshold v))"

definition PowerMeterSim_write_range :: "int \<Rightarrow> (pmsim, bool) prog" where
  "PowerMeterSim_write_range rg = andthen (modify (\<lambda>v. v\<lparr>ps_range := rg\<rparr>)) (return True)"

definition PowerMeterSim_get_range :: "(pmsim, int) prog" where
  "PowerMeterSim_get_range = return 1"

definition PowerMeterSim_wavelength_index :: "16 word \<Rightarrow> (pmsim, bool) prog" where
  "PowerMeterSim_wavelength_index index = return False"

definition PowerMeterSim_energy_threshold :: "32 word \<Rightarrow> (pmsim, 32 word) prog" where
  "PowerMeterSim_energy_threshold et = andthen (modify (\<lambda>v. v\<lparr>ps_e_threshold := 0\<rparr>)) (return 0)"

definition PowerMeterSim_user_threshold :: "16 word \<Rightarrow> (pmsim, 16 word) prog" where
  "PowerMeterSim_user_threshold val = andthen (modify (\<lambda>v. v\<lparr>ps_e_threshold := 1\<rparr>)) (return 1)"

text \<open>The three output parameters are not assigned.\<close>

definition PowerMeterSim_query_user_threshold :: "(pmsim, unit) prog" where
  "PowerMeterSim_query_user_threshold = modify (\<lambda>v. v\<lparr>ps_e_threshold := 100, ps_threshold_ranges := (1, 1000)\<rparr>)"

definition PowerMeterSim_trigger_window :: "16 word \<Rightarrow> (pmsim, 16 word) prog" where
  "PowerMeterSim_trigger_window val = return 1"

subsection \<open>Tables\<close>

definition PowerMeterSim_average_query :: "16 word \<Rightarrow> (pmsim, 16 word) prog" where
  "PowerMeterSim_average_query q =
     andthen (modify (\<lambda>v. v\<lparr>ps_ave_windows :=
       fold (\<lambda>(k, t). map_insert k t)
         [(0, ''NONE''), (1, ''0.5sec''), (2, ''1sec''), (3, ''3sec''), (4, ''10sec''), (5, ''30sec'')]
         (ps_ave_windows v)\<rparr>))
       (return 1)"

definition PowerMeterSim_average_query_setting :: "AQSetting \<Rightarrow> (pmsim, AQSetting) prog" where
  "PowerMeterSim_average_query_setting q =
     bind (PowerMeterSim_average_query (of_nat (AQSetting_num q))) (\<lambda>aa. cast_enum (AQSetting_of (int (unat aa))))"

definition sim_ranges_answer :: string where
  "sim_ranges_answer = ''*4 10.0J 2.00J 200mJ 20.0mJ 2.00mJ '' @ CR @ LF"

definition PowerMeterSim_get_all_ranges :: "(pmsim, int) prog" where
  "PowerMeterSim_get_all_ranges =
     bind (lift (str_substr_from sim_ranges_answer 1)) (\<lambda>resp.
     bind (tokenize_string (trim resp) [] '' '') (\<lambda>(tokens, _).
     bind (lift (vec_at tokens 0)) (\<lambda>t.
     bind (lift (stol t)) (\<lambda>n.
     andthen (modify (\<lambda>v. v\<lparr>ps_ranges := map_insert_conv to_int16 0 (tl tokens) []\<rparr>)) (return (to_int16 n))))))"

definition PowerMeterSim_get_all_wavelengths_setting :: "(pmsim, 16 word) prog" where
  "PowerMeterSim_get_all_wavelengths_setting = throw (runtime_error ''Not implemented'')"

definition PowerMeterSim_get_all_wavelengths :: "(pmsim, string) prog" where
  "PowerMeterSim_get_all_wavelengths =
     lift (str_substr_from (''*CONTINUOUS 190 3000 1 266 355 532 1064 2100 2940 '' @ CR @ LF) 1)"

definition sim_pulse_answer :: string where
  "sim_pulse_answer = ''*1 1.0ms 2.0ms 5.0ms 10ms 20ms '' @ CR @ LF"

definition PowerMeterSim_pulse_length :: "16 word \<Rightarrow> (pmsim, 16 word) prog" where
  "PowerMeterSim_pulse_length val =
     (let resp = sim_pulse_answer in
      if val = 0 then
        bind (lift (str_substr resp 1 1)) (\<lambda>t.
        bind (lift (stoul t)) (\<lambda>n.
        bind (gets ps_pulse_lengths) (\<lambda>lengths.
        andthen
          (whenM (lengths = [])
            (bind (lift (str_substr_from resp 2)) (\<lambda>resp.
             bind (tokenize_string (trim resp) [] '' '') (\<lambda>(tokens, _).
               modify (\<lambda>v. v\<lparr>ps_pulse_lengths := map_insert_conv to_uint16 1 tokens (ps_pulse_lengths v)\<rparr>)))))
          (return (ucast n)))))
      else bind (lift (str_at resp 0)) (\<lambda>c.
        if c = CHR ''*'' then return val
        else bind (lift (str_substr resp 1 1)) (\<lambda>t. bind (lift (stoul t)) (\<lambda>n. return (ucast n)))))"

definition PowerMeterSim_get_range_map :: "(pmsim, (int, string) std_map) prog" where
  "PowerMeterSim_get_range_map = gets ps_ranges"

definition PowerMeterSim_get_pulse_map :: "(pmsim, (int, string) std_map) prog" where
  "PowerMeterSim_get_pulse_map = gets ps_pulse_lengths"

definition PowerMeterSim_get_averages_map :: "(pmsim, (int, string) std_map) prog" where
  "PowerMeterSim_get_averages_map = gets ps_ave_windows"

definition PowerMeterSim_get_threshold_ranges :: "(pmsim, 16 word \<times> 16 word) prog" where
  "PowerMeterSim_get_threshold_ranges = gets ps_threshold_ranges"

subsection \<open>Sensor and modes\<close>

definition PowerMeterSim_bc20_sensor_mode :: "BC20 \<Rightarrow> (pmsim, BC20) prog" where
  "PowerMeterSim_bc20_sensor_mode query = return bHold"

definition PowerMeterSim_diffuser_query :: "DiffuserSetting \<Rightarrow> (pmsim, DiffuserSetting) prog" where
  "PowerMeterSim_diffuser_query s = return dNA"

definition PowerMeterSim_filter_query :: "DiffuserSetting \<Rightarrow> (pmsim, DiffuserSetting) prog" where
  "PowerMeterSim_filter_query s = return dNA"

definition PowerMeterSim_force_energy :: "(pmsim, bool) prog" where
  "PowerMeterSim_force_energy = return True"

definition PowerMeterSim_force_power :: "(pmsim, bool) prog" where
  "PowerMeterSim_force_power = return False"

definition PowerMeterSim_force_exposure :: "(pmsim, bool) prog" where
  "PowerMeterSim_force_exposure = return False"

definition PowerMeterSim_mains_frequency :: "16 word \<Rightarrow> (pmsim, 16 word) prog" where
  "PowerMeterSim_mains_frequency q = return 1"

definition PowerMeterSim_mains_frequency_setting :: "MainsFreq \<Rightarrow> (pmsim, MainsFreq) prog" where
  "PowerMeterSim_mains_frequency_setting q = return mf50Hz"

definition PowerMeterSim_measurement_mode :: "16 word \<Rightarrow> (pmsim, 16 word) prog" where
  "PowerMeterSim_measurement_mode q = return 3"

definition PowerMeterSim_measurement_mode_setting :: "MeasurementMode \<Rightarrow> (pmsim, MeasurementMode) prog" where
  "PowerMeterSim_measurement_mode_setting q = return mmEnergy"

definition PowerMeterSim_max_freq :: "(pmsim, 32 word) prog" where
  "PowerMeterSim_max_freq = return 1000"

definition PowerMeterSim_reset :: "(pmsim, unit) prog" where
  "PowerMeterSim_reset = return ()"

subsection \<open>Identification\<close>

definition PowerMeterSim_head_info_raw :: "(pmsim, string) prog" where
  "PowerMeterSim_head_info_raw = return []"

definition PowerMeterSim_head_info :: "(pmsim, string \<times> string \<times> string \<times> bool \<times> bool \<times> bool) prog" where
  "PowerMeterSim_head_info = return (''energy'', ''DEADBEEF'', ''simulation'', False, True, True)"

definition PowerMeterSim_head_type :: "(pmsim, string) prog" where
  "PowerMeterSim_head_type = return []"

definition PowerMeterSim_inst_config :: "(pmsim, bool) prog" where
  "PowerMeterSim_inst_config = return True"

definition PowerMeterSim_inst_info :: "(pmsim, string \<times> string \<times> string) prog" where
  "PowerMeterSim_inst_info = return (''whatever'', ''DEADBEEF'', ''simulation'')"

definition PowerMeterSim_version :: "(pmsim, string) prog" where
  "PowerMeterSim_version = return ''1.25''"

subsection \<open>Readings\<close>

definition PowerMeterSim_get_average_flag :: "(pmsim, bool) prog" where
  "PowerMeterSim_get_average_flag = return True"

definition PowerMeterSim_exposure_energy :: "(pmsim, cfloat \<times> 32 word \<times> 32 word) prog" where
  "PowerMeterSim_exposure_energy = return (decimal_double False 12542 (- 2), 5, 100)"

definition PowerMeterSim_energy_flag :: "(pmsim, bool) prog" where
  "PowerMeterSim_energy_flag = return True"

definition PowerMeterSim_energy_ready :: "(pmsim, bool) prog" where
  "PowerMeterSim_energy_ready = return True"

definition PowerMeterSim_send_energy :: "(pmsim, cfloat) prog" where
  "PowerMeterSim_send_energy = return (decimal_double False 12 (- 4))"

definition PowerMeterSim_get_energy :: "(pmsim, cfloat) prog" where
  "PowerMeterSim_get_energy = PowerMeterSim_send_energy"

definition PowerMeterSim_read_energy :: "(pmsim, bool \<times> cfloat) prog" where
  "PowerMeterSim_read_energy = return (True, decimal_double False 12 (- 4))"

definition PowerMeterSim_send_frequency :: "(pmsim, cfloat) prog" where
  "PowerMeterSim_send_frequency = return (decimal_double False 50 0)"

definition PowerMeterSim_send_average :: "(pmsim, cfloat) prog" where
  "PowerMeterSim_send_average = return (decimal_double False 12 (- 4))"

definition PowerMeterSim_read_average :: "(pmsim, bool \<times> cfloat option) prog" where
  "PowerMeterSim_read_average =
     bind PowerMeterSim_get_average_flag (\<lambda>st.
       if st then bind PowerMeterSim_send_average (\<lambda>x. return (st, Some x)) else return (st, None))"

definition PowerMeterSim_send_units :: "(pmsim, char) prog" where
  "PowerMeterSim_send_units = return CHR ''J''"

definition PowerMeterSim_send_units_long :: "(pmsim, string) prog" where
  "PowerMeterSim_send_units_long =
     bind PowerMeterSim_send_units (\<lambda>u. bind (gets ps_measurement_units) (\<lambda>units. lift (map_at units u)))"

definition PowerMeterSim_send_power :: "(pmsim, cfloat) prog" where
  "PowerMeterSim_send_power = return d_zero"

definition PowerMeterSim_send_max :: "(pmsim, cfloat) prog" where
  "PowerMeterSim_send_max = return (decimal_double False 100 0)"

definition PowerMeterSim_not_implemented :: "(pmsim, unit) prog" where
  "PowerMeterSim_not_implemented = throw (runtime_error ''not implemented'')"

section \<open>Driver and simulator\<close>

text \<open>The settings the classes have in common. The simulator accepts every wavelength, so a script that runs through on
  the driver need not leave the same wavelength in both; what holds is that the simulator does what the driver does
  when the instrument gives the answers the simulator has built in.\<close>

definition pm_tables :: "('w, 'z) powermeter_scheme \<Rightarrow> 16 word \<times> (int, string) std_map \<times> (int, string) std_map" where
  "pm_tables s = (m_wavelength s, m_ranges s, m_pulse_lengths s)"

definition pmsim_tables :: "pmsim \<Rightarrow> 16 word \<times> (int, string) std_map \<times> (int, string) std_map" where
  "pmsim_tables v = (ps_wavelength v, ps_ranges v, ps_pulse_lengths v)"

lemma query_tables:
  "PowerMeter_query os cmd resp what s = (Ret a, u) \<Longrightarrow> pm_tables u = pm_tables s \<and> m_ave_windows u = m_ave_windows s"
  by (drule query_dev, drule dev_step_pm) (simp add: pm_tables_def)

lemma ranges_words:
  "split_on '' '' (trim (''4 10.0J 2.00J 200mJ 20.0mJ 2.00mJ '' @ x)) =
     split_on '' '' ''4 10.0J 2.00J 200mJ 20.0mJ 2.00mJ''" if "set x \<subseteq> set WHITESPACE" for x
  using trim_pad [of "[]" "'' '' @ x" "''4 10.0J 2.00J 200mJ 20.0mJ 2.00mJ''"] that by (simp add: WHITESPACE_def)

lemma pulse_words:
  "trim ('' 1.0ms 2.0ms 5.0ms 10ms 20ms '' @ x) = ''1.0ms 2.0ms 5.0ms 10ms 20ms''" if "set x \<subseteq> set WHITESPACE" for x
  using trim_pad [of "'' ''" "'' '' @ x" "''1.0ms 2.0ms 5.0ms 10ms 20ms''"] that by (simp add: WHITESPACE_def)

lemma table_words:
  "split_on '' '' ''4 10.0J 2.00J 200mJ 20.0mJ 2.00mJ'' = [''4'', ''10.0J'', ''2.00J'', ''200mJ'', ''20.0mJ'', ''2.00mJ'']"
  "split_on '' '' ''1.0ms 2.0ms 5.0ms 10ms 20ms'' = [''1.0ms'', ''2.0ms'', ''5.0ms'', ''10ms'', ''20ms'']"
  "map trim (split_on '' '' ''NONE 0.5sec   1sec   3sec  10sec  30sec '') =
     [''NONE'', ''0.5sec'', [], [], ''1sec'', [], [], ''3sec'', [], ''10sec'', [], ''30sec'', []]"
  "str_find ''NONE'' ''* 1      NONE 0.5sec   1sec   3sec  10sec  30sec '' = Some 9"
  "stol ''4'' = Inr 4"
  by code_simp+

lemma stoul_1: "stoul ''1'' = Inr 1"
  using stoul_show_nat [of 1 "[]"] by (simp add: show_nat.simps digit_chars)



end
