(* ===== verification/Cpp_Cstring.thy ===== *)
theory Cpp_Cstring
  imports Utilities
begin

text \<open>
  The C functions the interactive program uses on a line of input: \<open>strtol\<close> with base 0, which reports no error,
  and \<open>strtok\<close>, with the loop of \<open>main\<close> that cuts a line into an argument vector.
\<close>

section \<open>strtol\<close>

text \<open>\<open>strtol(s, NULL, 0)\<close>: the base from the prefix, 0 when there is no number, clamped to a \<open>long\<close>.\<close>

definition number_base :: "string \<Rightarrow> nat" where
  "number_base t =
     (case t of
        z # x # d # _ \<Rightarrow>
          if z = CHR ''0'' then (if (x = CHR ''x'' \<or> x = CHR ''X'') \<and> digit_val d < 16 then 16 else 8) else 10
      | z # _ \<Rightarrow> if z = CHR ''0'' then 8 else 10
      | [] \<Rightarrow> 10)"

definition strtol :: "string \<Rightarrow> int" where
  "strtol s =
     (case scan_number (number_base (snd (scan_sign (dropWhile is_space s)))) s of
        None \<Rightarrow> 0
      | Some (neg, n) \<Rightarrow> max (- (2 ^ 63)) (min (2 ^ 63 - 1) (signed_of neg n)))"

lemma strtol_bounds: "- (2 ^ 63) \<le> strtol s \<and> strtol s < 2 ^ 63"
  by (auto simp: strtol_def split: option.splits)

section \<open>strtok\<close>

text \<open>The next word of what is left, and what is left after it. \<open>None\<close> is a null pointer.\<close>

definition strtok :: "char \<Rightarrow> string \<Rightarrow> string option \<times> string" where
  "strtok d s =
     (let t = dropWhile (\<lambda>c. c = d) s in
      if t = [] then (None, [])
      else (Some (takeWhile (\<lambda>c. c \<noteq> d) t), drop 1 (dropWhile (\<lambda>c. c \<noteq> d) t)))"

text \<open>\<open>for (i = 1; cmd[i-1] != NULL && i < count; i++) cmd[i] = strtok(NULL, delim);\<close> with the part of \<open>cmd\<close> that is
  filled so far.\<close>

function strtok_loop :: "nat \<Rightarrow> string option list \<Rightarrow> string \<Rightarrow> string option list" where
  "strtok_loop count cmd rest =
     (if last cmd \<noteq> None \<and> length cmd < count then
        strtok_loop count (cmd @ [fst (strtok CHR '' '' rest)]) (snd (strtok CHR '' '' rest))
      else cmd)"
  by pat_completeness auto
termination by (relation "measure (\<lambda>(count, cmd, rest). count - length cmd)") auto

declare strtok_loop.simps [simp del]

text \<open>The argument vector of a line: one more place than blanks, and the trailing null pointer dropped.\<close>

definition argv_of :: "string \<Rightarrow> string list" where
  "argv_of buf =
     (let count = length (filter (\<lambda>c. c = CHR '' '') buf) + 1;
          cmd = strtok_loop count [fst (strtok CHR '' '' buf)] (snd (strtok CHR '' '' buf));
          i = length cmd;
          argc = if last cmd = None then i - 1 else i
      in map the (take argc cmd))"

section \<open>Words\<close>

definition words_of :: "string \<Rightarrow> string list" where
  "words_of s = filter (\<lambda>t. t \<noteq> []) (split_on '' '' s)"

lemma words_blank: "words_of (CHR '' '' # s) = words_of s"
  by (simp add: words_of_def split_on_char_Cons)

lemma words_strtok:
  "strtok CHR '' '' s = (None, r) \<Longrightarrow> words_of s = []"
  "strtok CHR '' '' s = (Some w, r) \<Longrightarrow> words_of s = w # words_of r"
proof -
  define t where "t = dropWhile (\<lambda>c. c = CHR '' '') s"
  have s: "words_of s = words_of t"
    unfolding t_def by (induction s) (auto simp: words_blank)
  show "strtok CHR '' '' s = (None, r) \<Longrightarrow> words_of s = []"
    unfolding s by (auto simp: strtok_def t_def [symmetric] words_of_def util_simps split: if_splits)
  assume run: "strtok CHR '' '' s = (Some w, r)"
  let ?w = "takeWhile (\<lambda>c. c \<noteq> CHR '' '') t" and ?d = "dropWhile (\<lambda>c. c \<noteq> CHR '' '') t"
  have t: "t \<noteq> []" "w = ?w" "r = drop 1 ?d"
    using run by (auto simp: strtok_def t_def [symmetric] split: if_splits)
  have "hd t \<noteq> CHR '' ''" using t(1) hd_dropWhile [of "\<lambda>c. c = CHR '' ''" s] by (simp add: t_def)
  then have w: "?w \<noteq> []" "CHR '' '' \<notin> set ?w" using t(1) by (cases t, auto dest: set_takeWhileD)
  have split: "t = ?w @ ?d" by simp
  show "words_of s = w # words_of r"
  proof (cases ?d)
    case Nil
    then have "t = ?w" using split by (metis append_Nil2)
    then have "split_on '' '' t = [?w]" using split_on_char_end [OF w(2)] by simp
    then show ?thesis unfolding s t(2,3) Nil using w(1) by (simp add: words_of_def util_simps)
  next
    case (Cons c d)
    then have "c = CHR '' ''" using hd_dropWhile [of "\<lambda>c. c \<noteq> CHR '' ''" t] by simp
    then have "t = ?w @ CHR '' '' # d" using split Cons by simp
    then have "split_on '' '' t = ?w # split_on '' '' d" using split_on_char_step [OF w(2), of d] by simp
    then show ?thesis unfolding s t(2,3) Cons using w(1) by (simp add: words_of_def)
  qed
qed

lemma strtok_loop_words:
  "last cmd \<noteq> None \<Longrightarrow> length cmd + length (words_of rest) \<le> count \<Longrightarrow>
     strtok_loop count cmd rest = cmd @ map Some (words_of rest)
       @ (if length cmd + length (words_of rest) < count then [None] else [])"
proof (induction count cmd rest rule: strtok_loop.induct)
  case (1 count cmd rest)
  obtain w r where wr: "strtok CHR '' '' rest = (w, r)" by fastforce
  show ?case
  proof (cases "length cmd < count")
    case False
    then have "length (words_of rest) = 0" "length cmd = count" using "1.prems"(2) by linarith+
    then show ?thesis by (subst strtok_loop.simps) simp
  next
    case True
    show ?thesis
    proof (cases w)
      case None
      have "strtok_loop count (cmd @ [None]) r = cmd @ [None]" by (subst strtok_loop.simps) simp
      then show ?thesis using True "1.prems" wr None words_strtok(1) [of rest r]
        by (subst strtok_loop.simps) simp
    next
      case (Some x)
      have ws: "words_of rest = x # words_of r" using wr Some words_strtok(2) by simp
      have "strtok_loop count (cmd @ [Some x]) r = (cmd @ [Some x]) @ map Some (words_of r)
          @ (if length (cmd @ [Some x]) + length (words_of r) < count then [None] else [])"
        using "1.IH" True "1.prems" wr Some ws by simp
      then show ?thesis using True "1.prems"(1) wr Some ws by (subst strtok_loop.simps) simp
    qed
  qed
qed

lemma blanks_join:
  "ts \<noteq> [] \<Longrightarrow> \<forall>t \<in> set ts. c \<notin> set t \<Longrightarrow> length (filter (\<lambda>x. x = c) (join c ts)) + 1 = length ts"
proof (induction c ts rule: join.induct)
  case (2 c t)
  then show ?case by (auto simp: filter_empty_conv)
next
  case (3 c t v va)
  then have "filter (\<lambda>x. x = c) t = []" by (auto simp: filter_empty_conv)
  then show ?case using 3 by simp
qed simp

lemma words_count: "length (words_of s) \<le> length (filter (\<lambda>c. c = CHR '' '') s) + 1"
proof -
  have "length (filter (\<lambda>c. c = CHR '' '') (join CHR '' '' (split_on '' '' s))) + 1 = length (split_on '' '' s)"
    by (rule blanks_join) (use split_on_no_sep in auto)
  then show ?thesis unfolding words_of_def join_split_on by (metis length_filter_le)
qed

lemma argv_of_words: "argv_of buf = words_of buf"
proof -
  let ?n = "length (filter (\<lambda>c. c = CHR '' '') buf) + 1"
  obtain w r where wr: "strtok CHR '' '' buf = (w, r)" by fastforce
  show ?thesis
  proof (cases w)
    case None
    have "strtok_loop ?n [None] r = [None]" by (subst strtok_loop.simps) simp
    then show ?thesis using wr None words_strtok(1) [of buf r] by (simp add: argv_of_def Let_def)
  next
    case (Some x)
    have ws: "words_of buf = x # words_of r" using wr Some words_strtok(2) by simp
    then have "strtok_loop ?n [Some x] r = [Some x] @ map Some (words_of r)
        @ (if length [Some x] + length (words_of r) < ?n then [None] else [])"
      using words_count [of buf] by (intro strtok_loop_words) simp_all
    then show ?thesis using wr Some ws by (simp add: argv_of_def Let_def last_map)
  qed
qed

lemma words_blank_line: "set buf \<subseteq> {CHR '' ''} \<Longrightarrow> words_of buf = []"
  by (induction buf) (auto simp: words_blank, simp add: words_of_def split_on_char_end)

text \<open>C35. The argument vector \<open>main\<close> makes of a line is the list of its words, in order: the pieces between blanks
  without the empty ones. Its array is always large enough, and a line of blanks gives no argument at all.\<close>

theorem argv_words:
  "argv_of buf = filter (\<lambda>t. t \<noteq> []) (split_on '' '' buf)
   \<and> length (argv_of buf) \<le> length (filter (\<lambda>c. c = CHR '' '') buf) + 1
   \<and> argv_of (replicate n CHR '' '') = []"
  using words_count [of buf] words_blank_line [of "replicate n CHR '' ''"]
  unfolding argv_of_words by (simp add: words_of_def set_replicate_conv_if)

end
