(* ===== verification/Serial_Manager.thy ===== *)
theory Serial_Manager
  imports Laser Attenuator Power_Meter Cpp_Cstring
begin

text \<open>
  \<open>src/apps/serial_manager.cpp\<close>: the interactive program that finds the three instruments, opens a driver for each,
  and carries out the commands typed by the user until it is told to leave. The state is the globals \<open>iols\<close> and
  \<open>g_ignore_*\<close>; the drivers are the models of the other theories and share one kernel. What is printed is left out.
  Parameters: the ports the system has, the configuration file as the JSON library gives it, the options as
  \<open>getopt\<close> delivers them, and the lines as \<open>readline\<close> delivers them up to the end of input.
\<close>

section \<open>State\<close>

record iols_dev_t =
  serial_nr :: string
  dev_port :: string
  baud_rate :: "32 word"

definition port_valid :: "iols_dev_t \<Rightarrow> bool" where
  "port_valid d = (length (dev_port d) \<noteq> 0)"

record 'w iolaser_t =
  mg_world :: 'w
  g_ignore_laser :: bool
  g_ignore_pm :: bool
  g_ignore_attenuator :: bool
  config_laser :: iols_dev_t
  config_attenuator :: iols_dev_t
  config_power_meter :: iols_dev_t
  iols_attenuator :: "'w attenuator option"
  iols_laser :: "'w laser option"
  iols_power_meter :: "'w powermeter option"

text \<open>A call through one of the pointers. The drivers share the kernel, so the object sees the world the others left;
  a null pointer is not to be followed.\<close>

definition on_laser :: "('w laser, 'a) prog \<Rightarrow> ('w iolaser_t, 'a) prog" where
  "on_laser m = (\<lambda>s. case iols_laser s of
      None \<Rightarrow> (Stuck Undefined_behaviour, s)
    | Some d \<Rightarrow> (case m (d\<lparr>world := mg_world s\<rparr>) of (r, t) \<Rightarrow> (r, s\<lparr>mg_world := world t, iols_laser := Some t\<rparr>)))"

definition on_attenuator :: "('w attenuator, 'a) prog \<Rightarrow> ('w iolaser_t, 'a) prog" where
  "on_attenuator m = (\<lambda>s. case iols_attenuator s of
      None \<Rightarrow> (Stuck Undefined_behaviour, s)
    | Some d \<Rightarrow> (case m (d\<lparr>world := mg_world s\<rparr>) of (r, t) \<Rightarrow> (r, s\<lparr>mg_world := world t, iols_attenuator := Some t\<rparr>)))"

definition on_power_meter :: "('w powermeter, 'a) prog \<Rightarrow> ('w iolaser_t, 'a) prog" where
  "on_power_meter m = (\<lambda>s. case iols_power_meter s of
      None \<Rightarrow> (Stuck Undefined_behaviour, s)
    | Some d \<Rightarrow> (case m (d\<lparr>world := mg_world s\<rparr>) of (r, t) \<Rightarrow> (r, s\<lparr>mg_world := world t, iols_power_meter := Some t\<rparr>)))"

text \<open>\<open>new T(port, baud)\<close>: the constructor runs on fresh storage, all of whose members it assigns, and the pointer is
  set only when it returns.\<close>

definition raw_port :: "'w \<Rightarrow> 'z \<Rightarrow> ('w, 'z) simpl_scheme" where
  "raw_port w z = \<lparr>world = w, history = [], s_port = [], s_fd = - 1, s_is_open = False, s_xonxoff = False,
     s_rtscts = False, s_timeout = Timeout_default, s_baudrate = 0, s_byte_time_ns = 0, s_parity = parity_none,
     s_bytesize = eightbits, s_stopbits = stopbits_one, s_flowcontrol = flowcontrol_none, s_read_mutex = False,
     s_write_mutex = False, \<dots> = z\<rparr>"

definition raw_laser :: "'w \<Rightarrow> 'w laser" where
  "raw_laser w = raw_port w \<lparr>m_comport = [], m_baud = 0, m_com_pre = [], m_com_sfx = [], m_read_sfx = [],
     m_timeout_ms = 0, m_is_firing = False, m_prescale = 0, m_pump_hv = d_zero, m_rate = d_zero, m_qswitch = 0,
     m_sec_map = [], m_wait_read = False\<rparr>"

definition raw_attenuator :: "'w \<Rightarrow> 'w attenuator" where
  "raw_attenuator w = raw_port w \<lparr>m_comport = [], m_baud = 0, m_com_pre = [], m_com_sfx = [], m_read_sfx = [],
     m_timeout_ms = 0, m_offset = 0, m_max_speed = 0, m_op_mode = Command, m_motor_state = Stopped,
     m_acceleration = 0, m_deceleration = 0, m_resolution = Half, m_motor_enabled = False, m_position = 0,
     m_current_idle = 0, m_current_move = 0, m_reset_on_zero = False, m_report_on_zero = False,
     m_serial_number = [], m_cal_scale = d_zero, m_cal_offset = 0\<rparr>"

definition raw_power_meter :: "'w \<Rightarrow> 'w powermeter" where
  "raw_power_meter w = raw_port w \<lparr>m_comport = [], m_baud = 0, m_com_pre = [], m_com_sfx = [], m_read_sfx = [],
     m_timeout_ms = 0, m_cmd_mutex = False, m_mmode = mmQuery, m_range = 0, m_wavelength = 0, m_e_threshold = 0,
     m_ave_query_state = aQuery, m_pulse_length = 0, m_ranges = [], m_wavelength_ranges = [], m_pulse_lengths = [],
     m_ave_windows = [], m_measurement_units = [], m_threshold_ranges = (0, 0), m_interval_between_cmds_ms = 0\<rparr>"

definition new_laser :: "'w os \<Rightarrow> ('w iolaser_t, unit) prog" where
  "new_laser os = (\<lambda>s.
     case Laser_ctor os (dev_port (config_laser s)) (baud_rate (config_laser s)) (raw_laser (mg_world s)) of
       (Ret _, d) \<Rightarrow> (Ret (), s\<lparr>mg_world := world d, iols_laser := Some d\<rparr>)
     | (Exn e, d) \<Rightarrow> (Exn e, s\<lparr>mg_world := world d\<rparr>)
     | (Stuck x, d) \<Rightarrow> (Stuck x, s\<lparr>mg_world := world d\<rparr>))"

definition new_attenuator :: "'w os \<Rightarrow> ('w iolaser_t, unit) prog" where
  "new_attenuator os = (\<lambda>s.
     case Attenuator_ctor os (dev_port (config_attenuator s)) (baud_rate (config_attenuator s))
         (raw_attenuator (mg_world s)) of
       (Ret _, d) \<Rightarrow> (Ret (), s\<lparr>mg_world := world d, iols_attenuator := Some d\<rparr>)
     | (Exn e, d) \<Rightarrow> (Exn e, s\<lparr>mg_world := world d\<rparr>)
     | (Stuck x, d) \<Rightarrow> (Stuck x, s\<lparr>mg_world := world d\<rparr>))"

definition new_power_meter :: "'w os \<Rightarrow> ('w iolaser_t, unit) prog" where
  "new_power_meter os = (\<lambda>s.
     case PowerMeter_ctor os (dev_port (config_power_meter s)) (baud_rate (config_power_meter s))
         (raw_power_meter (mg_world s)) of
       (Ret _, d) \<Rightarrow> (Ret (), s\<lparr>mg_world := world d, iols_power_meter := Some d\<rparr>)
     | (Exn e, d) \<Rightarrow> (Exn e, s\<lparr>mg_world := world d\<rparr>)
     | (Stuck x, d) \<Rightarrow> (Stuck x, s\<lparr>mg_world := world d\<rparr>))"

text \<open>The handlers after every \<open>try\<close> of the program: whatever was thrown is reported, and the value is 1.\<close>

definition or_report :: "('w iolaser_t, int) prog \<Rightarrow> ('w iolaser_t, int) prog" where
  "or_report m = try_catch m (\<lambda>_. return 1)"

section \<open>Finding and opening the instruments\<close>

text \<open>\<open>ports w\<close> is the answer of \<open>serial::list_ports()\<close> in world \<open>w\<close>.\<close>

definition map_laser :: "'w os \<Rightarrow> ('w \<Rightarrow> port_info list) \<Rightarrow> ('w iolaser_t, int) prog" where
  "map_laser os ports =
     bind (gets iols_laser) (\<lambda>p.
     if p \<noteq> None then return 0
     else andthen (modify (\<lambda>s. s\<lparr>config_laser :=
            (config_laser s)\<lparr>dev_port := find_port (ports (mg_world s)) (serial_nr (config_laser s))\<rparr>\<rparr>))
       (bind (gets config_laser) (\<lambda>c.
        if \<not> port_valid c then return 1
        else or_report
          (andthen (new_laser os)
          (andthen (on_laser (Device_set_timeout_ms 100))
          (bind (on_laser (Laser_security os)) (\<lambda>_.
           bind (on_laser (Laser_get_shot_count os)) (\<lambda>_. return 0))))))))"

definition query_attenuator_settings :: "'w os \<Rightarrow> ('w iolaser_t, int) prog" where
  "query_attenuator_settings os =
     bind (gets g_ignore_attenuator) (\<lambda>ign.
     if ign then return 1
     else bind (gets iols_attenuator) (\<lambda>p.
     if p = None then return 1
     else or_report
       (andthen (on_attenuator (Attenuator_refresh_status os))
       (bind (on_attenuator (Attenuator_get_serial_number os [])) (\<lambda>_.
        bind (on_attenuator (Attenuator_get_status_raw os)) (\<lambda>_.
        bind (on_attenuator (Attenuator_get_position os (\<lambda>_. return ()) False)) (\<lambda>_.
        bind (on_attenuator Attenuator_get_offset) (\<lambda>_.
        bind (on_attenuator Attenuator_get_max_speed) (\<lambda>_.
        bind (on_attenuator Attenuator_get_op_mode) (\<lambda>_.
        bind (on_attenuator Attenuator_get_acceleration) (\<lambda>_.
        bind (on_attenuator Attenuator_get_deceleration) (\<lambda>_.
        bind (on_attenuator Attenuator_get_resolution) (\<lambda>_.
        bind (on_attenuator Attenuator_get_current_idle) (\<lambda>_.
        bind (on_attenuator Attenuator_get_current_move) (\<lambda>_. return 0)))))))))))))))"

definition map_attenuator :: "'w os \<Rightarrow> ('w \<Rightarrow> port_info list) \<Rightarrow> ('w iolaser_t, int) prog" where
  "map_attenuator os ports =
     bind (gets g_ignore_attenuator) (\<lambda>ign.
     if ign then return 1
     else bind (gets iols_attenuator) (\<lambda>p.
     if p \<noteq> None then return 0
     else andthen (modify (\<lambda>s. s\<lparr>config_attenuator :=
            (config_attenuator s)\<lparr>dev_port := find_port (ports (mg_world s)) (serial_nr (config_attenuator s))\<rparr>\<rparr>))
       (bind (gets config_attenuator) (\<lambda>c.
        if \<not> port_valid c then return 1
        else or_report
          (andthen (new_attenuator os)
          (bind (query_attenuator_settings os) (\<lambda>ret. return (if ret \<noteq> 0 then 1 else ret))))))))"

text \<open>\<open>get_all_wavelengths(name)\<close> is given the string that still holds the name of the instrument.\<close>

definition query_power_meter_settings :: "'w os \<Rightarrow> ('w iolaser_t, int) prog" where
  "query_power_meter_settings os =
     bind (gets g_ignore_pm) (\<lambda>ign.
     if ign then return 1
     else bind (gets iols_power_meter) (\<lambda>p.
     if p = None then return 1
     else or_report
       (bind (on_power_meter (PowerMeter_head_info os)) (\<lambda>_.
        bind (on_power_meter (PowerMeter_inst_info os)) (\<lambda>(_, _, name).
        bind (on_power_meter (PowerMeter_get_all_ranges os)) (\<lambda>_.
        bind (on_power_meter PowerMeter_get_range_map) (\<lambda>_.
        bind (on_power_meter (PowerMeter_query_user_threshold os)) (\<lambda>_.
        bind (on_power_meter (PowerMeter_pulse_length os 0)) (\<lambda>_.
        bind (on_power_meter PowerMeter_get_pulse_map) (\<lambda>_.
        bind (on_power_meter (PowerMeter_get_all_wavelengths os name)) (\<lambda>_.
        bind (on_power_meter (PowerMeter_average_query os 0)) (\<lambda>_.
        bind (on_power_meter PowerMeter_get_averages_map) (\<lambda>_.
        bind (on_power_meter (PowerMeter_max_freq os)) (\<lambda>_. return 0))))))))))))))"

definition map_power_meter :: "'w os \<Rightarrow> ('w \<Rightarrow> port_info list) \<Rightarrow> ('w iolaser_t, int) prog" where
  "map_power_meter os ports =
     bind (gets g_ignore_pm) (\<lambda>ign.
     if ign then return 1
     else bind (gets iols_power_meter) (\<lambda>p.
     if p \<noteq> None then return 0
     else andthen (modify (\<lambda>s. s\<lparr>config_power_meter :=
            (config_power_meter s)\<lparr>dev_port := find_port (ports (mg_world s)) (serial_nr (config_power_meter s))\<rparr>\<rparr>))
       (bind (gets config_power_meter) (\<lambda>c.
        if \<not> port_valid c then return 1
        else or_report
          (andthen (new_power_meter os)
          (bind (query_power_meter_settings os) (\<lambda>ret. return (if ret \<noteq> 0 then 1 else ret))))))))"

text \<open>The value of each step overwrites that of the one before.\<close>

definition map_devices :: "'w os \<Rightarrow> ('w \<Rightarrow> port_info list) \<Rightarrow> ('w iolaser_t, int) prog" where
  "map_devices os ports =
     bind (gets g_ignore_attenuator) (\<lambda>ign.
     bind (if ign then return (Some 0)
           else bind (map_attenuator os ports) (\<lambda>ret.
                bind (gets iols_attenuator) (\<lambda>p. return (if p = None then None else Some ret)))) (\<lambda>ret.
     case ret of None \<Rightarrow> return 1 | Some ret \<Rightarrow>
     bind (gets g_ignore_laser) (\<lambda>ign.
     bind (if ign then return (Some ret)
           else bind (map_laser os ports) (\<lambda>ret.
                bind (gets iols_laser) (\<lambda>p. return (if p = None then None else Some ret)))) (\<lambda>ret.
     case ret of None \<Rightarrow> return 1 | Some ret \<Rightarrow>
     bind (gets g_ignore_pm) (\<lambda>ign.
     if ign then return ret
     else bind (map_power_meter os ports) (\<lambda>ret.
          bind (gets iols_power_meter) (\<lambda>p. return (if p = None then 1 else ret))))))))"

text \<open>The laser is told to stop and to close its shutter before its driver is destroyed.\<close>

definition unmap_devices :: "'w os \<Rightarrow> ('w iolaser_t, unit) prog" where
  "unmap_devices os =
     bind (gets iols_power_meter) (\<lambda>p.
     andthen (whenM (p \<noteq> None) (on_power_meter (PowerMeter_destroy os)))
    (bind (gets iols_attenuator) (\<lambda>p.
     andthen (whenM (p \<noteq> None) (on_attenuator (Attenuator_destroy os)))
    (bind (gets iols_laser) (\<lambda>p.
     whenM (p \<noteq> None)
       (andthen (on_laser (Laser_fire_stop os))
       (andthen (on_laser (Laser_shutter_close os))
          (on_laser (Laser_destroy os)))))))))"

section \<open>Commands\<close>

definition run_laser :: "'w os \<Rightarrow> string list \<Rightarrow> ('w iolaser_t, int) prog" where
  "run_laser os argv =
     bind (gets g_ignore_laser) (\<lambda>ign.
     if ign then return 0
     else bind (gets iols_laser) (\<lambda>p.
     if p = None then return 0
     else andthen
       (if length argv = 2 then
          (if argv ! 1 = ''single_shot'' then on_laser (Laser_single_shot os)
           else if argv ! 1 = ''shot_count'' then on_laser (ignore (Laser_get_shot_count os))
           else if argv ! 1 = ''security'' then on_laser (ignore (Laser_security os))
           else if argv ! 1 = ''fire_start'' then on_laser (Laser_fire_start os)
           else if argv ! 1 = ''fire_stop'' then on_laser (Laser_fire_stop os)
           else if argv ! 1 = ''shutter_open'' then on_laser (Laser_shutter_open os)
           else if argv ! 1 = ''shutter_close'' then on_laser (Laser_shutter_close os)
           else return ())
        else if length argv = 3 then
          (if argv ! 1 = ''prescale'' then on_laser (Laser_set_prescale os (of_int (strtol (argv ! 2))))
           else if argv ! 1 = ''division'' then on_laser (Laser_set_pulse_division os (of_int (strtol (argv ! 2))))
           else if argv ! 1 = ''hv'' then bind (lift (stof (argv ! 2))) (\<lambda>hv. on_laser (Laser_set_pump_voltage os hv))
           else if argv ! 1 = ''qswitch'' then on_laser (Laser_set_qswitch os (of_int (strtol (argv ! 2))))
           else return ())
        else return ())
       (return 0)))"

definition run_attenuator :: "'w os \<Rightarrow> string list \<Rightarrow> ('w iolaser_t, int) prog" where
  "run_attenuator os argv =
     bind (gets g_ignore_attenuator) (\<lambda>ign.
     if ign then return 0
     else bind (gets iols_attenuator) (\<lambda>p.
     if p = None then return 0
     else bind (if length argv = 1 then query_attenuator_settings os else return 0) (\<lambda>res.
     if res \<noteq> 0 then return 1
     else andthen
       (if length argv = 2 then
          (if argv ! 1 = ''set_zero'' then on_attenuator (Attenuator_set_zero os)
           else if argv ! 1 = ''stop'' then on_attenuator (Attenuator_stop os False)
           else if argv ! 1 = ''go_home'' then on_attenuator (Attenuator_go_home os)
           else if argv ! 1 = ''get_position'' then
             on_attenuator (ignore (Attenuator_get_position os (\<lambda>_. return ()) False))
           else if argv ! 1 = ''reset'' then on_attenuator (Attenuator_reset_controller os)
           else if argv ! 1 = ''get_settings'' then
             andthen (on_attenuator (Attenuator_refresh_status os))
            (andthen (on_attenuator (ignore (Attenuator_get_serial_number os [])))
            (andthen (on_attenuator (ignore Attenuator_get_offset))
            (andthen (on_attenuator (ignore Attenuator_get_max_speed))
            (andthen (on_attenuator (ignore Attenuator_get_op_mode))
            (andthen (on_attenuator (ignore Attenuator_get_motor_state))
            (andthen (on_attenuator (ignore Attenuator_get_acceleration))
            (andthen (on_attenuator (ignore Attenuator_get_deceleration))
            (andthen (on_attenuator (ignore Attenuator_get_resolution))
            (andthen (on_attenuator (ignore Attenuator_get_current_idle))
                     (on_attenuator (ignore Attenuator_get_current_move)))))))))))
           else return ())
        else if length argv = 3 then
          (if argv ! 1 = ''move'' then on_attenuator (ignore (Attenuator_move os (to_int32 (strtol (argv ! 2))) True))
           else if argv ! 1 = ''move_to'' then on_attenuator (ignore (Attenuator_go os (to_int32 (strtol (argv ! 2))) True))
           else if argv ! 1 = ''set_resolution'' then
             on_attenuator (Attenuator_set_resolution_u16 os (of_int (strtol (argv ! 2))))
           else if argv ! 1 = ''set_idle_current'' then
             on_attenuator (Attenuator_set_idle_current os (of_int (strtol (argv ! 2))))
           else if argv ! 1 = ''set_move_current'' then
             on_attenuator (Attenuator_set_moving_current os (of_int (strtol (argv ! 2))))
           else if argv ! 1 = ''set_acceleration'' then
             on_attenuator (Attenuator_set_acceleration os (of_int (strtol (argv ! 2))))
           else if argv ! 1 = ''set_deceleration'' then
             on_attenuator (Attenuator_set_deceleration os (of_int (strtol (argv ! 2))))
           else if argv ! 1 = ''set_max_speed'' then
             on_attenuator (Attenuator_set_max_speed os (of_int (strtol (argv ! 2))))
           else return ())
        else return ())
       (return 0))))"

definition power_meter_get :: "'w os \<Rightarrow> string \<Rightarrow> ('w iolaser_t, unit) prog" where
  "power_meter_get os setting =
     (if setting = ''wavelength'' then on_power_meter (ignore PowerMeter_get_wavelength)
      else if setting = ''range'' then
        andthen (on_power_meter (ignore (PowerMeter_get_all_ranges os))) (on_power_meter (ignore PowerMeter_get_range_map))
      else if setting = ''pulse_width'' then
        andthen (on_power_meter (ignore (PowerMeter_pulse_length os 0))) (on_power_meter (ignore PowerMeter_get_pulse_map))
      else if setting = ''e_threshold'' then on_power_meter (ignore (PowerMeter_query_user_threshold os))
      else if setting = ''average_flag'' then on_power_meter (ignore (PowerMeter_get_average_flag os))
      else if setting = ''energy'' then on_power_meter (ignore (PowerMeter_read_energy os))
      else if setting = ''average'' then on_power_meter (ignore (PowerMeter_read_average os))
      else if setting = ''frequency'' then on_power_meter (ignore (PowerMeter_send_frequency os))
      else if setting = ''unit'' then on_power_meter (ignore (PowerMeter_send_units_long os))
      else if setting = ''max'' then on_power_meter (ignore (PowerMeter_send_max os))
      else return ())"

text \<open>\<open>set pulse_width\<close> uses a variable that is not initialised. \<open>set threshold\<close> compares with one that
  \<open>user_threshold\<close> may have left unassigned.\<close>

definition power_meter_set :: "'w os \<Rightarrow> string \<Rightarrow> string \<Rightarrow> ('w iolaser_t, unit) prog" where
  "power_meter_set os setting arg =
     (if setting = ''wavelength'' then
        bind (on_power_meter (PowerMeter_wavelength os (of_int (strtol arg)))) (\<lambda>success.
          whenM (\<not> success)
            (andthen (on_power_meter (ignore PowerMeter_get_wavelength))
                     (on_power_meter (ignore (PowerMeter_get_all_wavelengths os [])))))
      else if setting = ''range'' then
        bind (on_power_meter (PowerMeter_set_range os (to_int16 (strtol arg)))) (\<lambda>success.
          whenM (\<not> success)
            (andthen (on_power_meter (ignore (PowerMeter_get_all_ranges os)))
                     (on_power_meter (ignore PowerMeter_get_range_map))))
      else if setting = ''average'' then on_power_meter (ignore (PowerMeter_average_query os (of_int (strtol arg))))
      else if setting = ''measurement_mode'' then
        on_power_meter (ignore (PowerMeter_measurement_mode os (of_int (strtol arg))))
      else if setting = ''pulse_width'' then stuck Undefined_behaviour
      else if setting = ''threshold'' then
        bind (on_power_meter (PowerMeter_user_threshold os (of_int (strtol arg)))) (\<lambda>current.
          if current = None then stuck Undefined_behaviour else return ())
      else return ())"

definition run_power_meter :: "'w os \<Rightarrow> string list \<Rightarrow> ('w iolaser_t, int) prog" where
  "run_power_meter os argv =
     bind (gets g_ignore_pm) (\<lambda>ign.
     if ign then return 0
     else bind (gets iols_power_meter) (\<lambda>p.
     if p = None then return 0
     else bind (if length argv = 1 then query_power_meter_settings os else return 0) (\<lambda>res.
     if res \<noteq> 0 then return 1
     else andthen
       (if length argv = 3 then (if argv ! 1 = ''get'' then power_meter_get os (argv ! 2) else return ())
        else if length argv = 4 then
          (if argv ! 1 = ''set'' then power_meter_set os (argv ! 2) (argv ! 3) else return ())
        else if length argv = 2 then
          (if argv ! 1 = ''get_energy'' then on_power_meter (ignore (PowerMeter_read_energy os))
           else if argv ! 1 = ''get_average'' then on_power_meter (ignore (PowerMeter_read_average os))
           else return ())
        else return ())
       (return 0))))"

definition run_command :: "'w os \<Rightarrow> string list \<Rightarrow> ('w iolaser_t, int) prog" where
  "run_command os argv =
     (if length argv < 1 then return 1
      else or_report
        (if argv ! 0 = ''exit'' then return 255
         else if argv ! 0 = ''help'' then return 0
         else if argv ! 0 = ''laser'' then run_laser os argv
         else if argv ! 0 = ''attenuator'' then run_attenuator os argv
         else if argv ! 0 = ''power_meter'' then run_power_meter os argv
         else return 0))"

section \<open>The program\<close>

text \<open>The options, as \<open>getopt\<close> delivers them. The result is the value to leave with or the configuration file.\<close>

datatype opt = Opt_v | Opt_i string | Opt_f string | Opt_other

primrec main_options :: "opt list \<Rightarrow> string \<Rightarrow> ('w iolaser_t, int + string) prog" where
  "main_options [] config_file = return (Inr config_file)"
| "main_options (c # opts) config_file =
     (case c of
        Opt_v \<Rightarrow> main_options opts config_file
      | Opt_i optarg \<Rightarrow>
          if optarg = ''laser'' then
            andthen (modify (\<lambda>s. s\<lparr>g_ignore_laser := True\<rparr>)) (main_options opts config_file)
          else if optarg = ''attenuator'' then
            andthen (modify (\<lambda>s. s\<lparr>g_ignore_attenuator := True\<rparr>)) (main_options opts config_file)
          else if optarg = ''power_meter'' then
            andthen (modify (\<lambda>s. s\<lparr>g_ignore_pm := True\<rparr>)) (main_options opts config_file)
          else return (Inl 0)
      | Opt_f optarg \<Rightarrow> main_options opts optarg
      | Opt_other \<Rightarrow> return (Inl 1))"

text \<open>The configuration file: not there, not JSON, or an object, of which the program looks at three members. A member
  that is not a string throws when it is converted to one.\<close>

datatype json = Json_string string | Json_other

datatype conf = Conf_missing | Conf_malformed | Conf_object "string \<Rightarrow> json option"

definition json_string :: "json \<Rightarrow> exn + string" where
  "json_string j = (case j of Json_string v \<Rightarrow> Inr v | Json_other \<Rightarrow> Inl (runtime_error ''type_error''))"

definition load_attenuator :: "(string \<Rightarrow> json option) \<Rightarrow> ('w iolaser_t, unit) prog" where
  "load_attenuator obj =
     (case obj ''attenuator'' of
        Some j \<Rightarrow> bind (gets g_ignore_attenuator) (\<lambda>ign. whenM (\<not> ign)
          (bind (lift (json_string j)) (\<lambda>nr.
            modify (\<lambda>s. s\<lparr>config_attenuator := (config_attenuator s)\<lparr>serial_nr := nr, baud_rate := 38400\<rparr>\<rparr>))))
      | None \<Rightarrow> modify (\<lambda>s. s\<lparr>g_ignore_attenuator := True\<rparr>))"

definition load_laser :: "(string \<Rightarrow> json option) \<Rightarrow> ('w iolaser_t, unit) prog" where
  "load_laser obj =
     (case obj ''laser'' of
        Some j \<Rightarrow> bind (gets g_ignore_laser) (\<lambda>ign. whenM (\<not> ign)
          (bind (lift (json_string j)) (\<lambda>nr.
            modify (\<lambda>s. s\<lparr>config_laser := (config_laser s)\<lparr>serial_nr := nr, baud_rate := 9600\<rparr>\<rparr>))))
      | None \<Rightarrow> modify (\<lambda>s. s\<lparr>g_ignore_laser := True\<rparr>))"

definition load_power_meter :: "(string \<Rightarrow> json option) \<Rightarrow> ('w iolaser_t, unit) prog" where
  "load_power_meter obj =
     (case obj ''power_meter'' of
        Some j \<Rightarrow> bind (gets g_ignore_pm) (\<lambda>ign. whenM (\<not> ign)
          (bind (lift (json_string j)) (\<lambda>nr.
            modify (\<lambda>s. s\<lparr>config_power_meter := (config_power_meter s)\<lparr>serial_nr := nr, baud_rate := 9600\<rparr>\<rparr>))))
      | None \<Rightarrow> modify (\<lambda>s. s\<lparr>g_ignore_pm := True\<rparr>))"

text \<open>Whether the program goes on.\<close>

definition main_config :: "conf \<Rightarrow> ('w iolaser_t, bool) prog" where
  "main_config c =
     (case c of
        Conf_missing \<Rightarrow> return False
      | Conf_malformed \<Rightarrow> return False
      | Conf_object obj \<Rightarrow>
          try_catch
            (andthen (load_attenuator obj) (andthen (load_laser obj) (andthen (load_power_meter obj) (return True))))
            (\<lambda>_. return False))"

text \<open>One iteration per line of input.\<close>

primrec main_loop :: "'w os \<Rightarrow> string list \<Rightarrow> ('w iolaser_t, int) prog" where
  "main_loop os [] = andthen (unmap_devices os) (return 0)"
| "main_loop os (buf # bufs) =
     (if length buf = 0 then main_loop os bufs
      else bind (run_command os (argv_of buf)) (\<lambda>ret.
        if ret = 255 then andthen (unmap_devices os) (return 0)
        else if ret \<noteq> 0 then andthen (unmap_devices os) (return ret)
        else main_loop os bufs))"

text \<open>From the end of the options on: the configuration, the instruments, the commands.\<close>

definition main_session ::
    "'w os \<Rightarrow> ('w \<Rightarrow> port_info list) \<Rightarrow> (string \<Rightarrow> 'w \<Rightarrow> conf) \<Rightarrow> string list \<Rightarrow> string \<Rightarrow> ('w iolaser_t, int) prog" where
  "main_session os ports load bufs config_file =
     andthen (modify (\<lambda>s. s\<lparr>iols_attenuator := None, iols_laser := None, iols_power_meter := None\<rparr>))
    (bind (gets (\<lambda>s. load config_file (mg_world s))) (\<lambda>c.
     bind (main_config c) (\<lambda>ok.
     if \<not> ok then return 0
     else bind (map_devices os ports) (\<lambda>ret.
       if ret \<noteq> 0 then andthen (unmap_devices os) (return 0)
       else main_loop os bufs))))"

text \<open>\<open>main\<close>; an exception that reaches it ends the process.\<close>

definition serial_manager_main ::
    "'w os \<Rightarrow> ('w \<Rightarrow> port_info list) \<Rightarrow> (string \<Rightarrow> 'w \<Rightarrow> conf) \<Rightarrow> opt list \<Rightarrow> string list \<Rightarrow> ('w iolaser_t, int) prog" where
  "serial_manager_main os ports load opts bufs =
     noexcept
      (andthen (modify (\<lambda>s. s\<lparr>g_ignore_laser := False, g_ignore_attenuator := False, g_ignore_pm := False\<rparr>))
      (bind (main_options opts ''config.json'') (\<lambda>r.
       case r of Inl code \<Rightarrow> return code | Inr config_file \<Rightarrow> main_session os ports load bufs config_file)))"

end
