(* ===== verification/Manager_Safety.thy ===== *)
theory Manager_Safety
  imports Serial_Manager Power_Meter_Link
begin

text \<open>
  The interactive program as a whole: which instrument a command may reach, what the program returns, and in what
  state it leaves the laser behind.
\<close>

section \<open>Which instrument a command reaches\<close>

definition laser_apart :: "'w iolaser_t \<Rightarrow> 'w iolaser_t \<Rightarrow> bool" where
  "laser_apart s t = (iols_laser t = iols_laser s)"

definition attenuator_apart :: "'w iolaser_t \<Rightarrow> 'w iolaser_t \<Rightarrow> bool" where
  "attenuator_apart s t = (iols_attenuator t = iols_attenuator s)"

definition power_meter_apart :: "'w iolaser_t \<Rightarrow> 'w iolaser_t \<Rightarrow> bool" where
  "power_meter_apart s t = (iols_power_meter t = iols_power_meter s)"

text \<open>The commands neither open nor delete an instrument, and change no option.\<close>

definition same_setup :: "'w iolaser_t \<Rightarrow> 'w iolaser_t \<Rightarrow> bool" where
  "same_setup s t = (g_ignore_laser t = g_ignore_laser s \<and> g_ignore_attenuator t = g_ignore_attenuator s
     \<and> g_ignore_pm t = g_ignore_pm s \<and> (iols_laser t = None) = (iols_laser s = None)
     \<and> (iols_attenuator t = None) = (iols_attenuator s = None)
     \<and> (iols_power_meter t = None) = (iols_power_meter s = None))"

interpretation la: step_rel laser_apart by unfold_locales (auto simp: laser_apart_def)
interpretation aa: step_rel attenuator_apart by unfold_locales (auto simp: attenuator_apart_def)
interpretation pa: step_rel power_meter_apart by unfold_locales (auto simp: power_meter_apart_def)
interpretation su: step_rel same_setup by unfold_locales (auto simp: same_setup_def)

lemma on_frames:
  "steps attenuator_apart (on_laser m)" "steps power_meter_apart (on_laser m)" "steps same_setup (on_laser m)"
  "steps laser_apart (on_attenuator n)" "steps power_meter_apart (on_attenuator n)" "steps same_setup (on_attenuator n)"
  "steps laser_apart (on_power_meter k)" "steps attenuator_apart (on_power_meter k)" "steps same_setup (on_power_meter k)"
  by (rule stepsI, simp add: on_laser_def on_attenuator_def on_power_meter_def laser_apart_def attenuator_apart_def
      power_meter_apart_def same_setup_def case_prod_unfold split: option.splits)+

lemma frames_report:
  "steps laser_apart m \<Longrightarrow> steps laser_apart (or_report m)"
  "steps attenuator_apart m \<Longrightarrow> steps attenuator_apart (or_report m)"
  "steps power_meter_apart m \<Longrightarrow> steps power_meter_apart (or_report m)"
  "steps same_setup m \<Longrightarrow> steps same_setup (or_report m)"
  unfolding or_report_def by (intro la.steps_rules aa.steps_rules pa.steps_rules su.steps_rules; assumption)+

lemma query_frames:
  "steps laser_apart (query_attenuator_settings os)" "steps power_meter_apart (query_attenuator_settings os)"
  "steps same_setup (query_attenuator_settings os)" "steps laser_apart (query_power_meter_settings os)"
  "steps attenuator_apart (query_power_meter_settings os)" "steps same_setup (query_power_meter_settings os)"
  unfolding query_attenuator_settings_def query_power_meter_settings_def
  by (intro la.steps_rules aa.steps_rules pa.steps_rules su.steps_rules frames_report on_frames)+

lemma run_laser_frames:
  "steps attenuator_apart (run_laser os argv)" "steps power_meter_apart (run_laser os argv)"
  "steps same_setup (run_laser os argv)"
  unfolding run_laser_def by (intro aa.steps_rules pa.steps_rules su.steps_rules on_frames)+

lemma run_attenuator_frames:
  "steps laser_apart (run_attenuator os argv)" "steps power_meter_apart (run_attenuator os argv)"
  "steps same_setup (run_attenuator os argv)"
  unfolding run_attenuator_def by (intro la.steps_rules pa.steps_rules su.steps_rules on_frames query_frames)+

lemma run_power_meter_frames:
  "steps laser_apart (run_power_meter os argv)" "steps attenuator_apart (run_power_meter os argv)"
  "steps same_setup (run_power_meter os argv)"
  unfolding run_power_meter_def power_meter_get_def power_meter_set_def
  by (intro la.steps_rules aa.steps_rules su.steps_rules on_frames query_frames)+

lemma ignored_quiet:
  "g_ignore_laser s \<or> iols_laser s = None \<Longrightarrow> run_laser os argv s = (Ret 0, s)"
  "g_ignore_attenuator s \<or> iols_attenuator s = None \<Longrightarrow> run_attenuator os argv s = (Ret 0, s)"
  "g_ignore_pm s \<or> iols_power_meter s = None \<Longrightarrow> run_power_meter os argv s = (Ret 0, s)"
  by (auto simp: run_laser_def run_attenuator_def run_power_meter_def run_simps)

text \<open>The values a command may give.\<close>

definition gives :: "int set \<Rightarrow> ('s, int) prog \<Rightarrow> bool" where
  "gives C m = (\<forall>s c t. m s = (Ret c, t) \<longrightarrow> c \<in> C)"

lemma gives_rules:
  "c \<in> C \<Longrightarrow> gives C (return c)" "(\<And>a. gives C (f a)) \<Longrightarrow> gives C (bind m f)" "gives C n \<Longrightarrow> gives C (andthen k n)"
  "gives C n \<Longrightarrow> gives C n' \<Longrightarrow> gives C (if b then n else n')"
  by (auto simp: gives_def run_simps split: prod.splits outcome.splits)

lemma gives_mono: "gives C m \<Longrightarrow> C \<subseteq> D \<Longrightarrow> gives D m"
  by (auto simp: gives_def)

lemma gives_report: "gives C m \<Longrightarrow> 1 \<in> C \<Longrightarrow> gives C (or_report m)" "or_report m s \<noteq> (Exn e, t)"
  by (auto simp: gives_def or_report_def run_simps split: prod.splits outcome.splits)

lemma gives_run:
  "gives {0, 1} (run_laser os argv)" "gives {0, 1} (run_attenuator os argv)" "gives {0, 1} (run_power_meter os argv)"
  unfolding run_laser_def run_attenuator_def run_power_meter_def by (intro gives_rules; simp)+

lemma run_command_code: "run_command os argv s = (Ret c, t) \<Longrightarrow> c \<in> {0, 1, 255}"
proof -
  have "gives {0, 1, 255} (run_command os argv)"
    unfolding run_command_def by (intro gives_rules gives_report(1) gives_run [THEN gives_mono]) simp_all
  then show "run_command os argv s = (Ret c, t) \<Longrightarrow> c \<in> {0, 1, 255}" unfolding gives_def by blast
qed

text \<open>What each of the three commands leaves alone.\<close>

lemma laser_command:
  assumes "or_report (run_laser os argv) s = (r, t)"
  shows "attenuator_apart s t" "power_meter_apart s t" "g_ignore_laser s \<Longrightarrow> t = s"
  using stepsD [OF frames_report(2) [OF run_laser_frames(1)] assms]
    stepsD [OF frames_report(3) [OF run_laser_frames(2)] assms] ignored_quiet(1) [of s os argv] assms
  by (simp_all add: or_report_def run_simps)

lemma attenuator_command:
  assumes "or_report (run_attenuator os argv) s = (r, t)"
  shows "laser_apart s t" "power_meter_apart s t" "g_ignore_attenuator s \<Longrightarrow> t = s"
  using stepsD [OF frames_report(1) [OF run_attenuator_frames(1)] assms]
    stepsD [OF frames_report(3) [OF run_attenuator_frames(2)] assms] ignored_quiet(2) [of s os argv] assms
  by (simp_all add: or_report_def run_simps)

lemma power_meter_command:
  assumes "or_report (run_power_meter os argv) s = (r, t)"
  shows "laser_apart s t" "attenuator_apart s t" "g_ignore_pm s \<Longrightarrow> t = s"
  using stepsD [OF frames_report(1) [OF run_power_meter_frames(1)] assms]
    stepsD [OF frames_report(2) [OF run_power_meter_frames(2)] assms] ignored_quiet(3) [of s os argv] assms
  by (simp_all add: or_report_def run_simps)

lemma reported_command:
  assumes "or_report m s = (r, t)" "gives {0, 1} m" "steps same_setup m"
  shows "same_setup s t \<and> (\<forall>e. r \<noteq> Exn e) \<and> (\<forall>c. r = Ret c \<longrightarrow> c \<in> {0, 1})"
  using assms(1) stepsD [OF frames_report(4) [OF assms(3)] assms(1)] gives_report(1) [OF assms(2)]
    gives_report(2) [of m s _ t]
  unfolding gives_def by (metis insertCI)

lemmas reported = reported_command [OF _ gives_run(1) run_laser_frames(3)]
  reported_command [OF _ gives_run(2) run_attenuator_frames(3)]
  reported_command [OF _ gives_run(3) run_power_meter_frames(3)]

text \<open>C7. A command reaches at most the instrument it names, and only if that one is neither ignored nor missing: the
  drivers of the others are as they were, with nothing sent to their ports. Whatever the drivers throw stays inside
  \<open>run_command\<close>; its value is 0, 1 or 255, and 255, the one that means leaving, exactly for \<open>exit\<close>.\<close>

theorem command_isolation:
  assumes "run_command os argv s = (r, t)"
  shows "(argv = [] \<or> hd argv \<noteq> ''laser'' \<or> g_ignore_laser s \<longrightarrow> iols_laser t = iols_laser s)
    \<and> (argv = [] \<or> hd argv \<noteq> ''attenuator'' \<or> g_ignore_attenuator s \<longrightarrow> iols_attenuator t = iols_attenuator s)
    \<and> (argv = [] \<or> hd argv \<noteq> ''power_meter'' \<or> g_ignore_pm s \<longrightarrow> iols_power_meter t = iols_power_meter s)
    \<and> same_setup s t \<and> (\<forall>e. r \<noteq> Exn e)
    \<and> (\<forall>c. r = Ret c \<longrightarrow> c \<in> {0, 1, 255} \<and> (c = 255 \<longleftrightarrow> argv \<noteq> [] \<and> hd argv = ''exit''))"
proof (cases argv)
  case Nil
  then show ?thesis using assms by (auto simp: run_command_def run_simps same_setup_def)
next
  case (Cons cmd args)
  note run = assms [unfolded run_command_def Cons, simplified]
  consider "cmd = ''laser''" | "cmd = ''attenuator''" | "cmd = ''power_meter''"
    | "cmd \<notin> {''laser'', ''attenuator'', ''power_meter''}" by blast
  then show ?thesis
  proof cases
    case 1
    with run have "or_report (run_laser os (cmd # args)) s = (r, t)" by simp
    from laser_command [OF this] reported(1) [OF this] show ?thesis using 1 Cons
      by (auto simp: attenuator_apart_def power_meter_apart_def)
  next
    case 2
    with run have "or_report (run_attenuator os (cmd # args)) s = (r, t)" by simp
    from attenuator_command [OF this] reported(2) [OF this] show ?thesis using 2 Cons
      by (auto simp: laser_apart_def power_meter_apart_def)
  next
    case 3
    with run have "or_report (run_power_meter os (cmd # args)) s = (r, t)" by simp
    from power_meter_command [OF this] reported(3) [OF this] show ?thesis using 3 Cons
      by (auto simp: laser_apart_def attenuator_apart_def)
  next
    case 4
    with run Cons show ?thesis by (auto simp: or_report_def run_simps same_setup_def split: if_splits)
  qed
qed

section \<open>The end of a session\<close>

text \<open>Opening and configuring the port of a driver leaves the driver's own fields.\<close>

definition more_step :: "('w, 'z) simpl_scheme \<Rightarrow> ('w, 'z) simpl_scheme \<Rightarrow> bool" where
  "more_step s t = (simpl.more t = simpl.more s)"

interpretation mo: step_rel more_step by unfold_locales (auto simp: more_step_def)

lemma more_modify: "(\<And>s. simpl.more (f s) = simpl.more s) \<Longrightarrow> steps more_step (modify f)"
  by (rule mo.steps_modify) (simp add: more_step_def)

lemma more_dev: "steps dev_step m \<Longrightarrow> steps more_step m"
  by (erule steps_mono) (simp add: dev_step_def more_step_def)

lemma more_reconfigure: "steps more_step (reconfigurePort os)"
  by (rule steps_mono [OF line_reconfigure]) (simp add: more_step_def line_step_fields)

lemmas more_serial = dev_Serial [THEN more_dev] dev_Serial(1) [THEN more_dev, unfolded Serial_open_def]

lemma more_settings:
  "steps more_step (Serial_setPort os p)" "steps more_step (Serial_setBaudrate os b)"
  "steps more_step (Serial_setBytesize os bs)" "steps more_step (Serial_setParity os pa)"
  "steps more_step (Serial_setStopbits os sb)" "steps more_step (Serial os p b to bs pa sb fc)"
  unfolding Serial_setPort_def Serial_setBaudrate_def Serial_setBytesize_def Serial_setParity_def
    Serial_setStopbits_def Serial_def SerialImpl_def impl_setPort_def impl_setBaudrate_def impl_setBytesize_def
    impl_setParity_def impl_setStopbits_def impl_setTimeout_def impl_isOpen_def
    ScopedReadLock_def ScopedWriteLock_def impl_readLock_def impl_readUnlock_def impl_writeLock_def impl_writeUnlock_def
    reconfigure_if_open_def
  by (intro mo.steps_rules more_modify more_reconfigure more_serial; simp)+

text \<open>\<open>framed\<close>: the driver of the laser sends a command as it is, followed by a carriage return.\<close>

definition line_framed :: "'w laser \<Rightarrow> bool" where
  "line_framed l = (m_com_pre l = [] \<and> m_com_sfx l = CR)"

definition keep_frame :: "'w laser \<Rightarrow> 'w laser \<Rightarrow> bool" where
  "keep_frame s t = (m_com_pre t = m_com_pre s \<and> m_com_sfx t = m_com_sfx s \<and> m_comport t = m_comport s)"

interpretation kf: step_rel keep_frame by unfold_locales (auto simp: keep_frame_def)

lemma frame_dev: "steps dev_step m \<Longrightarrow> steps keep_frame m"
  by (erule steps_mono) (simp add: keep_frame_def dev_step_fields)

lemma frame_modify: "(\<And>s. keep_frame s (f s)) \<Longrightarrow> steps keep_frame (modify f)"
  by (rule kf.steps_modify)

lemma frame_more: "steps more_step m \<Longrightarrow> steps keep_frame m"
proof (erule steps_mono)
  fix s t :: "'w laser"
  assume "more_step s t"
  then show "keep_frame s t" by (cases s, cases t) (simp add: keep_frame_def more_step_def)
qed

lemma frame_Laser:
  "steps keep_frame (Laser_shutter os sh)" "steps keep_frame (Laser_fire os f)"
  "steps keep_frame (Laser_set_prescale os n)" "steps keep_frame (Laser_set_pump_voltage os x)"
  "steps keep_frame (Laser_single_shot os)" "steps keep_frame (Laser_set_qswitch os n)"
  "steps keep_frame (Laser_get_shot_count os)" "steps keep_frame (Laser_security os)"
  "steps keep_frame (Device_set_timeout_ms t)" "steps keep_frame (Laser_destroy os)"
  unfolding Laser_fire_def Laser_set_prescale_def Laser_set_pump_voltage_def Laser_single_shot_def
    Laser_set_qswitch_def Device_set_timeout_ms_def Laser_destroy_def Device_destroy_def noexcept_def
  by (intro kf.steps_rules frame_modify dev_Laser_queries [THEN frame_dev] dev_Laser_send [THEN frame_dev]
      dev_ops [THEN frame_dev]; simp add: keep_frame_def)+

lemma framed_after:
  assumes "andthen (andthen (modify f) m) n s = (r, t)" "line_framed (f s)" "steps keep_frame m" "steps keep_frame n"
  shows "line_framed t \<and> m_comport t = m_comport (f s)"
proof -
  have "andthen m n (f s) = (r, t)" using assms(1) by (simp add: run_simps)
  then have "keep_frame (f s) t" by (rule stepsD [OF kf.steps_andthen [OF assms(3,4)]])
  then show ?thesis using assms(2) by (simp add: keep_frame_def line_framed_def)
qed

lemma Laser_ctor_frame: "Laser_ctor os p b s = (r, t) \<Longrightarrow> line_framed t \<and> m_comport t = p"
  unfolding Laser_ctor_def Device_ctor_def Device_destroy_def noexcept_def
  by (drule framed_after)
    (simp add: line_framed_def,
     (intro kf.steps_rules frame_modify more_settings [THEN frame_more] dev_ops [THEN frame_dev];
      simp add: keep_frame_def)+, simp)

text \<open>Through the whole program.\<close>

definition framed :: "'w iolaser_t \<Rightarrow> bool" where
  "framed s = (\<forall>l. iols_laser s = Some l \<longrightarrow> line_framed l)"

definition keep_framed :: "'w iolaser_t \<Rightarrow> 'w iolaser_t \<Rightarrow> bool" where
  "keep_framed s t = (framed s \<longrightarrow> framed t)"

interpretation fr: step_rel keep_framed by unfold_locales (auto simp: keep_framed_def)

lemma framed_apart: "steps laser_apart m \<Longrightarrow> steps keep_framed m"
  by (erule steps_mono) (simp add: keep_framed_def framed_def laser_apart_def)

lemma framed_modify: "(\<And>s. iols_laser (f s) = iols_laser s \<or> iols_laser (f s) = None) \<Longrightarrow> steps keep_framed (modify f)"
  by (rule fr.steps_modify) (metis framed_def keep_framed_def option.distinct(1))

lemma framed_on:
  assumes m: "steps keep_frame m"
  shows "steps keep_framed (on_laser m)"
proof (rule stepsI)
  fix s
  show "keep_framed s (snd (on_laser m s))"
    by (auto simp: on_laser_def keep_framed_def framed_def line_framed_def split: option.splits prod.splits
        dest!: stepsD [OF m] simp: keep_frame_def)
qed

lemma framed_new: "steps keep_framed (new_laser os)"
  by (rule stepsI) (auto simp: new_laser_def keep_framed_def framed_def split: prod.splits outcome.splits
      dest: Laser_ctor_frame)

lemma framed_report: "steps keep_framed m \<Longrightarrow> steps keep_framed (or_report m)"
  unfolding or_report_def by (intro fr.steps_rules)

lemma laser_apart_new: "steps laser_apart (new_attenuator os)" "steps laser_apart (new_power_meter os)"
  by (rule stepsI; auto simp: new_attenuator_def new_power_meter_def laser_apart_def split: prod.splits outcome.splits)+

lemma laser_apart_modify: "(\<And>s. iols_laser (f s) = iols_laser s) \<Longrightarrow> steps laser_apart (modify f)"
  by (rule la.steps_modify) (simp add: laser_apart_def)

lemma laser_apart_map:
  "steps laser_apart (map_attenuator os ports)" "steps laser_apart (map_power_meter os ports)"
  unfolding map_attenuator_def map_power_meter_def
  by (intro la.steps_rules laser_apart_modify laser_apart_new query_frames frames_report; simp)+

lemma steps_ignore: "steps R m \<Longrightarrow> steps R (ignore m)"
  by (rule stepsI) (auto simp: ignore_def run_simps split: prod.splits outcome.splits dest: stepsD)

lemmas framed_Laser = frame_Laser [THEN framed_on] frame_Laser(7,8) [THEN steps_ignore, THEN framed_on]
  framed_on [OF frame_Laser(1), folded Laser_shutter_open_def Laser_shutter_close_def]

lemma framed_map: "steps keep_framed (map_laser os ports)" "steps keep_framed (map_devices os ports)"
proof -
  show map: "steps keep_framed (map_laser os ports)"
    unfolding map_laser_def
    by (intro fr.steps_rules framed_modify framed_report framed_new framed_Laser; simp)
  show "steps keep_framed (map_devices os ports)"
    unfolding map_devices_def by (intro fr.steps_rules map laser_apart_map [THEN framed_apart])
qed

lemma framed_run: "steps keep_framed (run_command os argv)"
proof -
  have "steps keep_framed (run_laser os argv)"
    unfolding run_laser_def Laser_shutter_open_def Laser_shutter_close_def Laser_fire_start_def Laser_fire_stop_def
      Laser_set_pulse_division_def
    by (intro fr.steps_rules framed_Laser)
  then show ?thesis
    unfolding run_command_def
    by (intro fr.steps_rules framed_report run_attenuator_frames(1) [THEN framed_apart]
        run_power_meter_frames(1) [THEN framed_apart])
qed

lemma laser_apart_options: "steps laser_apart (main_options opts c)"
proof (induction opts arbitrary: c)
  case Nil
  show ?case by (simp add: la.steps_return)
next
  case (Cons x opts)
  then show ?case
    by (cases x) (auto intro!: la.steps_rules laser_apart_modify)
qed

lemma laser_apart_config: "steps laser_apart (main_config c)"
  unfolding main_config_def load_attenuator_def load_laser_def load_power_meter_def
  by (cases c) (auto intro!: la.steps_rules laser_apart_modify)

text \<open>How a laser is left: the last thing its port was given is the order to stop firing and then the one to close the
  shutter, each whole and after at most one incomplete attempt, and then the port was closed.\<close>

definition laser_laid_down :: "'w laser \<Rightarrow> bool" where
  "laser_laid_down l = ((\<exists>w p q. wire l = w @ p @ q \<and> delivered (''ST 0'' @ CR) (Ret ()) p
     \<and> delivered (''SH 0'' @ CR) (Ret ()) q) \<and> \<not> m_is_firing l \<and> \<not> s_is_open l)"

lemma on_laser_RetE:
  assumes "on_laser m s = (Ret a, t)"
  obtains d d' where "iols_laser s = Some d" "m (d\<lparr>world := mg_world s\<rparr>) = (Ret a, d')" "iols_laser t = Some d'"
    "mg_world t = world d'"
  using assms that by (auto simp: on_laser_def split: option.splits prod.splits)

lemma Device_destroy_closes:
  fixes s t :: "'w laser"
  assumes "Device_destroy os s = (Ret (), t)"
  shows "\<not> s_is_open t" "wire t = wire s" "dev_step s t"
proof -
  show "dev_step s t"
    using stepsD [of dev_step "Device_destroy os" s "Ret ()" t] assms
    unfolding Device_destroy_def noexcept_def by (blast intro: dev.steps_rules dev_ops)
  have c: "conf_step s t" if "Serial_close os s = (Ret (), t)"
    by (rule stepsD [OF conf_close that [unfolded Serial_close_def]])
  from assms have "if s_is_open s then Serial_close os s = (Ret (), t) else t = s"
    by (auto simp: Device_destroy_def noexcept_def Serial_isOpen_def impl_isOpen_def run_simps
        split: prod.splits outcome.splits if_splits)
  then show "\<not> s_is_open t" "wire t = wire s"
    using wp_runD [OF impl_close_post, of os s "Ret ()" t] conf_step_fields [OF c]
    by (auto simp: Serial_close_def split: if_splits)
qed

lemma laser_shutdown:
  fixes s u v t :: "'w laser"
  assumes stop: "Laser_fire_stop os s = (Ret (), u)" and close: "Laser_shutter_close os (u\<lparr>world := w\<rparr>) = (Ret (), v)"
    and del: "Laser_destroy os (v\<lparr>world := x\<rparr>) = (Ret (), t)" and fr: "line_framed s"
  shows "laser_laid_down t"
proof -
  from stop obtain u0 p where u: "dev_step s u0" "wire u = wire s @ p" "delivered (Device_msg s ''ST 0'') (Ret ()) p"
    "u = u0\<lparr>m_is_firing := False\<rparr>"
    unfolding Laser_fire_stop_def Laser_fire_def by (rule Laser_setterE) (auto simp: show_nat.simps digit_chars)
  from u have f: "line_framed u" using fr dev_step_fields [OF u(1)] by (simp add: line_framed_def)
  let ?u = "u\<lparr>world := w\<rparr>"
  obtain q where q: "dev_step ?u v" "wire v = wire ?u @ q" "delivered (Device_msg ?u ''SH 0'') (Ret ()) q"
    using wp_runD [OF laser_link.retry_delivers close [unfolded Laser_shutter_close_def Laser_shutter_def Laser_send_def]]
    by (auto simp: show_nat.simps digit_chars)
  let ?v = "v\<lparr>world := x\<rparr>"
  note d = Device_destroy_closes [OF del [unfolded Laser_destroy_def]]
  have "m_is_firing t = m_is_firing u"
    using dev_step_laser(1) [OF d(3)] dev_step_laser(1) [OF q(1)] by simp
  moreover have "wire t = wire s @ p @ q" using d(2) q(2) u(2) by simp
  moreover have "Device_msg s ''ST 0'' = ''ST 0'' @ CR" "Device_msg ?u ''SH 0'' = ''SH 0'' @ CR"
    using fr f by (simp_all add: Device_msg_def line_framed_def)
  ultimately show ?thesis
    using u q d(1) unfolding laser_laid_down_def by auto
qed

definition laser_left_safe :: "'w iolaser_t \<Rightarrow> bool" where
  "laser_left_safe s = (\<forall>l. iols_laser s = Some l \<longrightarrow> laser_laid_down l)"

lemma laser_apart_destroy: "laser_apart s t \<Longrightarrow> framed s \<Longrightarrow> framed t"
  by (simp add: laser_apart_def framed_def)

lemma unmap_laser:
  assumes "andthen (on_laser (Laser_fire_stop os)) (andthen (on_laser (Laser_shutter_close os))
      (on_laser (Laser_destroy os))) s = (Ret a, t)" "framed s"
  shows "laser_left_safe t"
proof -
  from assms(1) obtain b u where u: "on_laser (Laser_fire_stop os) s = (Ret b, u)"
      "andthen (on_laser (Laser_shutter_close os)) (on_laser (Laser_destroy os)) u = (Ret a, t)"
    by (rule andthen_RetE)
  from u(2) obtain c v where v: "on_laser (Laser_shutter_close os) u = (Ret c, v)"
      "on_laser (Laser_destroy os) v = (Ret a, t)"
    by (rule andthen_RetE)
  from u(1) obtain d d' where d: "iols_laser s = Some d" "Laser_fire_stop os (d\<lparr>world := mg_world s\<rparr>) = (Ret b, d')"
    "iols_laser u = Some d'" by (rule on_laser_RetE)
  from v(1) obtain e e' where e: "iols_laser u = Some e" "Laser_shutter_close os (e\<lparr>world := mg_world u\<rparr>) = (Ret c, e')"
    "iols_laser v = Some e'" by (rule on_laser_RetE)
  from v(2) obtain g g' where g: "iols_laser v = Some g" "Laser_destroy os (g\<lparr>world := mg_world v\<rparr>) = (Ret a, g')"
    "iols_laser t = Some g'" by (rule on_laser_RetE)
  have "line_framed (d\<lparr>world := mg_world s\<rparr>)" using assms(2) d(1) by (simp add: framed_def line_framed_def)
  then have "laser_laid_down g'"
    using laser_shutdown [of os _ d' "mg_world u" e' "mg_world v" g'] d e g by simp
  then show ?thesis using g(3) by (simp add: laser_left_safe_def)
qed

lemma unmap_safe:
  assumes "unmap_devices os s = (Ret a, t)" "framed s"
  shows "laser_left_safe t"
proof -
  from assms(1) obtain b u where u:
      "whenM (iols_power_meter s \<noteq> None) (on_power_meter (PowerMeter_destroy os)) s = (Ret b, u)"
      "bind (gets iols_attenuator) (\<lambda>p.
         andthen (whenM (p \<noteq> None) (on_attenuator (Attenuator_destroy os)))
        (bind (gets iols_laser) (\<lambda>p. whenM (p \<noteq> None)
           (andthen (on_laser (Laser_fire_stop os)) (andthen (on_laser (Laser_shutter_close os))
              (on_laser (Laser_destroy os))))))) u = (Ret a, t)"
    unfolding unmap_devices_def by (auto simp: run_gets run_bind elim!: andthen_RetE)
  from u(2) obtain c v where v:
      "whenM (iols_attenuator u \<noteq> None) (on_attenuator (Attenuator_destroy os)) u = (Ret c, v)"
      "whenM (iols_laser v \<noteq> None) (andthen (on_laser (Laser_fire_stop os)) (andthen (on_laser (Laser_shutter_close os))
              (on_laser (Laser_destroy os)))) v = (Ret a, t)"
    by (auto simp: run_gets run_bind elim!: andthen_RetE)
  have "laser_apart s u" by (rule stepsD [OF la.steps_whenM [OF on_frames(7)] u(1)])
  moreover have "laser_apart u v" by (rule stepsD [OF la.steps_whenM [OF on_frames(4)] v(1)])
  ultimately have "framed v" using assms(2) laser_apart_destroy by blast
  then show ?thesis
    using v(2) unmap_laser [of os v a t]
    by (cases "iols_laser v") (auto simp: whenM_def run_simps laser_left_safe_def)
qed

lemma unmap_then: "andthen (unmap_devices os) (return c) s = (Ret d, t) \<Longrightarrow> framed s \<Longrightarrow> laser_left_safe t"
  by (auto elim!: andthen_RetE simp: run_return dest: unmap_safe)

lemma main_loop_safe: "main_loop os bufs s = (Ret c, t) \<Longrightarrow> framed s \<Longrightarrow> laser_left_safe t"
proof (induction bufs arbitrary: s)
  case Nil
  then show ?case by (simp add: unmap_then)
next
  case (Cons buf bufs)
  show ?case
  proof (cases "buf = []")
    case True
    then show ?thesis using Cons by simp
  next
    case False
    with Cons.prems(1) obtain ret u where u: "run_command os (argv_of buf) s = (Ret ret, u)"
        "(if ret = 255 then andthen (unmap_devices os) (return 0)
          else if ret \<noteq> 0 then andthen (unmap_devices os) (return ret) else main_loop os bufs) u = (Ret c, t)"
      by (auto elim!: bind_RetE)
    have "framed u" using stepsD [OF framed_run u(1)] Cons.prems(2) by (simp add: keep_framed_def)
    then show ?thesis using u(2) Cons.IH [of u] by (auto dest: unmap_then split: if_splits)
  qed
qed

lemma noexcept_RetD: "noexcept m s = (Ret a, t) \<Longrightarrow> m s = (Ret a, t)" "noexcept m s \<noteq> (Exn e, t)"
  by (auto simp: noexcept_def run_simps split: prod.splits outcome.splits)

lemma main_loop_code: "main_loop os bufs s = (Ret c, t) \<Longrightarrow> c \<in> {0, 1}"
proof (induction bufs arbitrary: s)
  case Nil
  then show ?case by (auto elim!: andthen_RetE simp: run_return)
next
  case (Cons buf bufs)
  show ?case
  proof (cases "buf = []")
    case True
    then show ?thesis using Cons by simp
  next
    case False
    with Cons.prems(1) obtain ret u where u: "run_command os (argv_of buf) s = (Ret ret, u)"
        "(if ret = 255 then andthen (unmap_devices os) (return 0)
          else if ret \<noteq> 0 then andthen (unmap_devices os) (return ret) else main_loop os bufs) u = (Ret c, t)"
      by (auto elim!: bind_RetE)
    then show ?thesis
      using Cons.IH [of u] run_command_code [of os "argv_of buf" s ret u]
      by (auto elim!: andthen_RetE simp: run_return split: if_splits)
  qed
qed

lemma main_options_code: "main_options opts c s = (Ret (Inl code), t) \<Longrightarrow> code \<in> {0, 1}"
  by (induction opts arbitrary: c s) (auto simp: run_simps split: opt.splits if_splits)

lemma main_session_safe:
  assumes "main_session os ports load bufs c s = (Ret code, t)"
  shows "code \<in> {0, 1} \<and> laser_left_safe t"
proof -
  let ?s = "s\<lparr>iols_attenuator := None, iols_laser := None, iols_power_meter := None\<rparr>"
  from assms obtain ok u where u: "main_config (load c (mg_world s)) ?s = (Ret ok, u)"
    "(if \<not> ok then return 0
      else bind (map_devices os ports) (\<lambda>ret. if ret \<noteq> 0 then andthen (unmap_devices os) (return 0)
        else main_loop os bufs)) u = (Ret code, t)"
    unfolding main_session_def by (auto simp: run_modify run_gets elim!: andthen_RetE bind_RetE)
  have "laser_apart ?s u" by (rule stepsD [OF laser_apart_config u(1)])
  then have none: "iols_laser u = None" by (simp add: laser_apart_def)
  show ?thesis
  proof (cases ok)
    case False
    then show ?thesis using u(2) none by (simp add: run_return laser_left_safe_def)
  next
    case True
    with u(2) obtain ret v where v: "map_devices os ports u = (Ret ret, v)"
      "(if ret \<noteq> 0 then andthen (unmap_devices os) (return 0) else main_loop os bufs) v = (Ret code, t)"
      by (auto elim!: bind_RetE)
    have "framed v" using stepsD [OF framed_map(2) v(1)] none by (simp add: keep_framed_def framed_def)
    then show ?thesis using v(2) unmap_then [of os 0 v code t] main_loop_safe [of os bufs v code t]
        main_loop_code [of os bufs v code t]
      by (auto elim!: andthen_RetE simp: run_return split: if_splits)
  qed
qed


section \<open>A session\<close>

text \<open>A computer with one port, a configuration file that names only the laser, and the globals at the start.\<close>

definition laser_port :: port_info where
  "laser_port = \<lparr>port = ''/dev/ttyUSB0'', description = ''Quantel'', hardware_id = ''A9J0''\<rparr>"

definition laser_conf :: "string \<Rightarrow> line \<Rightarrow> conf" where
  "laser_conf f w = Conf_object (\<lambda>k. if k = ''laser'' then Some (Json_string ''A9J0'') else None)"

definition fresh_iols :: "line \<Rightarrow> line iolaser_t" where
  "fresh_iols w = \<lparr>mg_world = w, g_ignore_laser = False, g_ignore_pm = False, g_ignore_attenuator = False,
     config_laser = \<lparr>serial_nr = [], dev_port = [], baud_rate = 0\<rparr>,
     config_attenuator = \<lparr>serial_nr = [], dev_port = [], baud_rate = 0\<rparr>,
     config_power_meter = \<lparr>serial_nr = [], dev_port = [], baud_rate = 0\<rparr>,
     iols_attenuator = None, iols_laser = None, iols_power_meter = None\<rparr>"

lemmas main_run = serial_manager_main_def main_session_def main_config_def load_attenuator_def load_laser_def
  load_power_meter_def json_string_def laser_conf_def noexcept_def map_devices_def map_laser_def find_port_def port_matches_def or_report_def
  port_valid_def new_laser_def on_laser_def raw_laser_def raw_port_def
  Laser_ctor_def Device_ctor_def Serial_def SerialImpl_def
  Serial_setPort_def Serial_setBaudrate_def Serial_setBytesize_def Serial_setParity_def
  Serial_setStopbits_def Serial_setTimeout_def impl_setPort_def impl_setBaudrate_def impl_setBytesize_def
  impl_setParity_def impl_setStopbits_def impl_setTimeout_def reconfigure_if_open_def Device_set_timeout_ms_def
  laser_port_def fresh_iols_def run_command_def run_laser_def unmap_devices_def

lemma baud_9600: "standard_baud line_os 9600" "byte_time 9600 eightbits parity_none stopbits_one = Some 1041660"
  by (simp_all add: standard_baud_def baud_cases_def byte_time_def Let_def)

lemma argv_example: "argv_of ''laser fire_start'' = [''laser'', ''fire_start'']" "argv_of ''exit'' = [''exit'']"
  by (simp_all add: argv_of_def strtok_def Let_def strtok_loop.simps)

lemma stoul_7: "stoul ''7'' = Inr 7"
  using stoul_show_nat [of 7 "[]"] by (simp add: show_nat.simps digit_chars)

lemmas laser_ops = Laser_security_def Laser_security_code_def Laser_get_shot_count_def vec_at_def str_erase_from_def
  size_sub_def drop_last_char_def Laser_fire_start_def Laser_fire_def Laser_fire_stop_def Laser_shutter_close_def
  Laser_shutter_def Laser_destroy_def Device_destroy_def

lemma session_run:
  "\<exists>t l. serial_manager_main line_os (\<lambda>_. [laser_port]) laser_conf [] [''laser fire_start'', ''exit'']
       (fresh_iols (quiet_line [''SE'' @ CR @ ''00'' @ CR, ''SC'' @ CR @ ''7'' @ CR] [])) = (Ret 0, t)
     \<and> iols_laser t = Some l
     \<and> wire l = ''SE'' @ CR @ ''SC'' @ CR @ ''ST 1'' @ CR @ ''ST 0'' @ CR @ ''SH 0'' @ CR"
  by (simp add: main_run laser_run reconfigurePort_def custom_baud_def Let_def flow_flags_def baud_9600)
    (simp add: laser_ops laser_run argv_example stoul_7 main_run)


text \<open>Two drivers open, and the order to fire.\<close>

definition two_open :: "line \<Rightarrow> line iolaser_t" where
  "two_open w = (fresh_iols w)\<lparr>iols_laser := Some (laser_on w), iols_power_meter := Some (pm_on w)\<rparr>"

theorem command_isolation_witness:
  "\<exists>t. run_command line_os [''laser'', ''fire_start''] (two_open (quiet_line [] [])) = (Ret 0, t)
     \<and> iols_power_meter t = Some (pm_on (quiet_line [] [])) \<and> iols_attenuator t = None \<and> iols_laser t \<noteq> None"
proof -
  define s where "s = two_open (quiet_line [] [])"
  obtain r t where run: "run_command line_os [''laser'', ''fire_start''] s = (r, t)" by fastforce
  have r: "r = Ret 0" using run by (auto simp: s_def two_open_def main_run laser_run laser_ops)
  have s: "iols_power_meter s = Some (pm_on (quiet_line [] []))" "iols_attenuator s = None" "iols_laser s \<noteq> None"
    by (simp_all add: s_def two_open_def fresh_iols_def)
  from command_isolation [OF run] s r run show ?thesis
    unfolding s_def [symmetric] by (auto simp: same_setup_def)
qed

text \<open>Setting the pulse width of the power meter from the prompt passes a variable that was never assigned, whatever the
  argument.\<close>

lemma set_pulse_width_undefined:
  "\<not> g_ignore_pm s \<Longrightarrow> iols_power_meter s \<noteq> None
   \<Longrightarrow> run_command os [''power_meter'', ''set'', ''pulse_width'', x] s = (Stuck Undefined_behaviour, s)"
  by (simp add: run_command_def or_report_def run_power_meter_def power_meter_set_def run_simps)

end
