(* ===== verification/Port_List.thy ===== *)
theory Port_List
  imports Utilities
begin

text \<open>
  \<open>src/src/impl/list_ports/list_ports_linux.cc\<close>: which serial ports the computer has, and what is known of the device
  behind each. The file system is a parameter: the names matching a pattern, whether a path exists, what it resolves
  to, and the contents of a file.
\<close>

section \<open>The file system\<close>

record fs =
  fs_glob :: "string \<Rightarrow> string list"
  fs_stat :: "string \<Rightarrow> bool"
  fs_realpath :: "string \<Rightarrow> string option"
  fs_read :: "string \<Rightarrow> string option"

text \<open>The first pattern starts the result, each further one is appended; a pattern with no match adds nothing.\<close>

definition glob :: "fs \<Rightarrow> string list \<Rightarrow> string list" where
  "glob fs patterns = concat (map (fs_glob fs) patterns)"

definition path_exists :: "fs \<Rightarrow> string \<Rightarrow> bool" where
  "path_exists fs path = fs_stat fs path"

definition realpath :: "fs \<Rightarrow> string \<Rightarrow> string" where
  "realpath fs path = (case fs_realpath fs path of Some p \<Rightarrow> p | None \<Rightarrow> [])"

definition read_line :: "fs \<Rightarrow> string \<Rightarrow> string" where
  "read_line fs file = (case fs_read fs file of Some txt \<Rightarrow> takeWhile (\<lambda>c. c \<noteq> CHR 0x0A) txt | None \<Rightarrow> [])"

section \<open>Paths\<close>

text \<open>\<open>rfind\<close> of one character: the place of its last occurrence.\<close>

definition str_rfind_char :: "char \<Rightarrow> string \<Rightarrow> nat option" where
  "str_rfind_char c s = (if c \<in> set s then Some (length s - 1 - length (takeWhile (\<lambda>x. x \<noteq> c) (rev s))) else None)"

definition basename :: "string \<Rightarrow> string" where
  "basename path = (case str_rfind_char CHR ''/'' path of None \<Rightarrow> path | Some pos \<Rightarrow> drop (pos + 1) path)"

definition dirname :: "string \<Rightarrow> string" where
  "dirname path = (case str_rfind_char CHR ''/'' path of
      None \<Rightarrow> path | Some pos \<Rightarrow> if pos = 0 then ''/'' else take pos path)"

section \<open>format\<close>

text \<open>A call of \<open>format\<close>, its format string cut at the conversions, each of which is \<open>%s\<close>; and the text \<open>vsnprintf\<close>
  makes of it. An argument ends at its first null character.\<close>

datatype piece = Lit string | Str string

definition c_str :: "string \<Rightarrow> string" where
  "c_str s = takeWhile (\<lambda>c. c \<noteq> CHR 0x00) s"

fun printed :: "piece list \<Rightarrow> string" where
  "printed [] = []"
| "printed (Lit s # ps) = s @ printed ps"
| "printed (Str s # ps) = c_str s @ printed ps"

text \<open>The loop: a text that does not fit makes the buffer grow to its size, one longer than an \<open>int\<close> can count makes
  \<open>vsnprintf\<close> fail. Memory does not run out.\<close>

function format_loop :: "nat \<Rightarrow> nat \<Rightarrow> string \<Rightarrow> string" where
  "format_loop loop_count buffer_size txt =
     (if 2 ^ 31 \<le> length txt then []
      else if buffer_size \<le> length txt then
        (if 5 < loop_count + 1 then [] else format_loop (loop_count + 1) (length txt + 1) txt)
      else txt)"
  by pat_completeness auto
termination by (relation "measure (\<lambda>(n, _). 6 - n)") auto

declare format_loop.simps [simp del]

definition format :: "piece list \<Rightarrow> string" where
  "format ps = format_loop 0 256 (printed ps)"

section \<open>The ports\<close>

definition usb_sysfs_friendly_name :: "fs \<Rightarrow> string \<Rightarrow> string" where
  "usb_sysfs_friendly_name fs path =
     (let manufacturer = read_line fs (path @ ''/manufacturer'');
          product = read_line fs (path @ ''/product'');
          serial = read_line fs (path @ ''/serial'')
      in if manufacturer = [] \<and> product = [] \<and> serial = [] then []
         else format [Str manufacturer, Lit '' '', Str product, Lit '' '', Str serial])"

definition usb_sysfs_hw_string :: "fs \<Rightarrow> string \<Rightarrow> string" where
  "usb_sysfs_hw_string fs path =
     (let serial_number = read_line fs (path @ ''/serial'');
          serial_number = if 0 < length serial_number then format [Lit ''SNR='', Str serial_number] else serial_number;
          vid = read_line fs (path @ ''/idVendor'');
          pid = read_line fs (path @ ''/idProduct'')
      in format [Lit ''USB VID:PID='', Str vid, Lit '':'', Str pid, Lit '' '', Str serial_number])"

definition get_sysfs_info :: "fs \<Rightarrow> string \<Rightarrow> string \<times> string" where
  "get_sysfs_info fs device_path =
     (let device_name = basename device_path;
          sys_device_path = format [Lit ''/sys/class/tty/'', Str device_name, Lit ''/device''];
          (friendly_name, hw_id) =
            (if take 6 device_name = ''ttyUSB'' then
               let sys_device_path = dirname (dirname (realpath fs sys_device_path)) in
               if path_exists fs sys_device_path
               then (usb_sysfs_friendly_name fs sys_device_path, usb_sysfs_hw_string fs sys_device_path) else ([], [])
             else if take 6 device_name = ''ttyACM'' then
               let sys_device_path = dirname (realpath fs sys_device_path) in
               if path_exists fs sys_device_path
               then (usb_sysfs_friendly_name fs sys_device_path, usb_sysfs_hw_string fs sys_device_path) else ([], [])
             else
               let sys_id_path = sys_device_path @ ''/id'' in
               ([], if path_exists fs sys_id_path then read_line fs sys_id_path else []))
      in (if friendly_name = [] then device_name else friendly_name,
          if hw_id = [] then ''n/a'' else hw_id))"

definition search_globs :: "string list" where
  "search_globs = [''/dev/ttyACM*'', ''/dev/ttyS*'', ''/dev/ttyUSB*'', ''/dev/tty.*'', ''/dev/cu.*'', ''/dev/rfcomm*'']"

definition list_ports :: "fs \<Rightarrow> port_info list" where
  "list_ports fs = map (\<lambda>device. case get_sysfs_info fs device of (friendly_name, hw_id) \<Rightarrow>
     \<lparr>port = device, description = friendly_name, hardware_id = hw_id\<rparr>) (glob fs search_globs)"

section \<open>Formatting and paths\<close>

text \<open>The loop ends with the whole text after at most one enlargement.\<close>

lemma format_printed: "length (printed ps) < 2 ^ 31 \<Longrightarrow> format ps = printed ps"
  unfolding format_def by (subst format_loop.simps, subst format_loop.simps) auto

lemma rfind_split:
  assumes "c \<notin> set b"
  shows "str_rfind_char c (a @ c # b) = Some (length a)"
proof -
  have "takeWhile (\<lambda>x. x \<noteq> c) (rev b @ c # rev a) = rev b" using assms by (subst takeWhile_append2) auto
  then show ?thesis by (simp add: str_rfind_char_def)
qed

lemma path_parts:
  "CHR ''/'' \<notin> set b \<Longrightarrow> basename (a @ CHR ''/'' # b) = b"
  "CHR ''/'' \<notin> set b \<Longrightarrow> a \<noteq> [] \<Longrightarrow> dirname (a @ CHR ''/'' # b) = a"
  by (simp_all add: basename_def dirname_def rfind_split)

lemma c_str_id: "CHR 0x00 \<notin> set s \<Longrightarrow> c_str s = s"
  unfolding c_str_def by (induction s) auto

lemma c_str_length: "length (c_str s) \<le> length s"
  by (simp add: c_str_def length_takeWhile_le)

section \<open>Finding a device by its serial number\<close>

text \<open>The directory of the USB device behind a \<open>ttyUSB\<close> or \<open>ttyACM\<close> port.\<close>

definition usb_dir :: "fs \<Rightarrow> string \<Rightarrow> string" where
  "usb_dir fs device =
     (let dev = realpath fs (''/sys/class/tty/'' @ basename device @ ''/device'') in
      if take 6 (basename device) = ''ttyUSB'' then dirname (dirname dev) else dirname dev)"

definition is_usb :: "fs \<Rightarrow> string \<Rightarrow> bool" where
  "is_usb fs device = (take 6 (basename device) \<in> {''ttyUSB'', ''ttyACM''} \<and> path_exists fs (usb_dir fs device)
     \<and> CHR 0x00 \<notin> set (basename device) \<and> length device < 2 ^ 30)"

lemma basename_length: "length (basename d) \<le> length d"
  by (simp add: basename_def split: option.splits)

lemma usb_hardware_id:
  assumes "is_usb fs d"
  shows "snd (get_sysfs_info fs d) = (let h = usb_sysfs_hw_string fs (usb_dir fs d) in if h = [] then ''n/a'' else h)"
proof -
  have "format [Lit ''/sys/class/tty/'', Str (basename d), Lit ''/device''] = ''/sys/class/tty/'' @ basename d @ ''/device''"
    using assms basename_length [of d] by (subst format_printed) (auto simp: is_usb_def c_str_id)
  then show ?thesis
    using assms by (auto simp: get_sysfs_info_def is_usb_def usb_dir_def Let_def)
qed

lemma hw_string:
  fixes fs dir
  defines "vid \<equiv> read_line fs (dir @ ''/idVendor'')" and "pid \<equiv> read_line fs (dir @ ''/idProduct'')"
  assumes "read_line fs (dir @ ''/serial'') = sn" "sn \<noteq> []" "CHR 0x00 \<notin> set sn"
    and "length vid + length pid + length sn < 2 ^ 30"
  shows "usb_sysfs_hw_string fs dir = ''USB VID:PID='' @ c_str vid @ '':'' @ c_str pid @ '' SNR='' @ sn"
proof -
  have "format [Lit ''SNR='', Str sn] = ''SNR='' @ sn"
    using assms(3-) by (subst format_printed) (simp_all add: c_str_id)
  moreover have "CHR 0x00 \<notin> set (''SNR='' @ sn)" using assms(5) by simp
  ultimately show ?thesis
    using assms(3-) c_str_length [of vid] c_str_length [of pid]
    by (simp add: usb_sysfs_hw_string_def Let_def c_str_id format_printed flip: vid_def pid_def)
qed

lemma hw_string_suffix:
  assumes "read_line fs (dir @ ''/serial'') = sn" "sn \<noteq> []" "CHR 0x00 \<notin> set sn"
    and "length (read_line fs (dir @ ''/idVendor'')) + length (read_line fs (dir @ ''/idProduct'')) + length sn < 2 ^ 30"
  shows "suffix sn (usb_sysfs_hw_string fs dir)"
  unfolding hw_string [OF assms] append_assoc [symmetric] by (rule suffixI [OF refl])

lemma find_port_listed:
  assumes "d \<in> set ds" "port_matches p d" "\<forall>e \<in> set ds. port e \<noteq> []"
  shows "\<exists>e \<in> set ds. port_matches p e \<and> find_port ds p = port e"
proof -
  have "filter (port_matches p) ds \<noteq> []" using assms(1,2) by (auto simp: filter_empty_conv)
  then obtain e es where "filter (port_matches p) ds = e # es" by (cases "filter (port_matches p) ds") auto
  moreover from this have "e \<in> set ds" "port_matches p e" by (auto simp: filter_eq_Cons_iff)
  ultimately show ?thesis by (auto simp: find_port_def)
qed

text \<open>\<open>d\<close> is one of the ports, and the \<open>serial\<close> file of the USB device behind it begins with the line \<open>sn\<close>.\<close>

definition usb_adapter :: "fs \<Rightarrow> string \<Rightarrow> string \<Rightarrow> bool" where
  "usb_adapter fs d sn =
     (d \<in> set (glob fs search_globs) \<and> [] \<notin> set (glob fs search_globs) \<and> is_usb fs d
    \<and> read_line fs (usb_dir fs d @ ''/serial'') = sn \<and> sn \<noteq> [] \<and> CHR 0x00 \<notin> set sn
    \<and> length (read_line fs (usb_dir fs d @ ''/idVendor'')) + length (read_line fs (usb_dir fs d @ ''/idProduct''))
      + length sn < 2 ^ 30)"

lemma list_ports_ports: "map port (list_ports fs) = glob fs search_globs"
  by (simp add: list_ports_def comp_def case_prod_unfold)

lemma adapter_listed:
  assumes "usb_adapter fs d sn"
  shows "\<exists>e \<in> set (list_ports fs). port e = d \<and> port_matches sn e"
proof -
  let ?e = "case get_sysfs_info fs d of (n, h) \<Rightarrow> \<lparr>port = d, description = n, hardware_id = h\<rparr>"
  have e: "?e \<in> set (list_ports fs)" using assms by (auto simp: usb_adapter_def list_ports_def)
  have "suffix sn (usb_sysfs_hw_string fs (usb_dir fs d))" "sn \<noteq> []" "is_usb fs d"
    using assms hw_string_suffix [of fs "usb_dir fs d" sn] by (auto simp: usb_adapter_def)
  then have "suffix sn (hardware_id ?e)" using usb_hardware_id [of fs d] by (auto simp: case_prod_unfold Let_def)
  then have "sublist sn (hardware_id ?e)" by (rule suffix_imp_sublist)
  then have "port_matches sn ?e" by (simp add: port_matches_def str_find_None)
  with e show ?thesis by (intro bexI [of _ ?e]) (simp_all add: case_prod_unfold)
qed

lemma adapter_found:
  assumes "usb_adapter fs d sn"
  shows "\<exists>e \<in> set (list_ports fs). port_matches sn e \<and> find_port (list_ports fs) sn = port e"
proof -
  obtain e where "e \<in> set (list_ports fs)" "port_matches sn e" using adapter_listed [OF assms] by blast
  moreover have "\<forall>e \<in> set (list_ports fs). port e \<noteq> []"
    using assms list_ports_ports [of fs] unfolding usb_adapter_def by (metis imageI list.set_map)
  ultimately show ?thesis by (rule find_port_listed)
qed

text \<open>C32. Finding an instrument by the serial number of its USB adapter. The ports listed are those the patterns match, in
  that order. If one of them belongs to a USB device whose \<open>serial\<close> file begins with the line \<open>sn\<close>, then searching for
  \<open>sn\<close> finds a port, one that mentions \<open>sn\<close>; and it finds that very port if no other mentions it. How long the
  identification is does not matter: the text is complete also beyond the 256 bytes of the first buffer.\<close>

theorem find_port_by_serial:
  assumes "usb_adapter fs d sn"
  shows "map port (list_ports fs) = glob fs search_globs
    \<and> (\<exists>e \<in> set (list_ports fs). port_matches sn e \<and> find_port (list_ports fs) sn = port e)
    \<and> ((\<forall>e \<in> set (list_ports fs). port_matches sn e \<longrightarrow> port e = d) \<longrightarrow> find_port (list_ports fs) sn = d)"
  using adapter_found [OF assms] list_ports_ports by auto

text \<open>One adapter, with its files.\<close>

definition one_adapter :: fs where
  "one_adapter = \<lparr>fs_glob = (\<lambda>p. if p = ''/dev/ttyUSB*'' then [''/dev/ttyUSB0'']
       else if p = ''/dev/ttyS*'' then [''/dev/ttyS0''] else []),
     fs_stat = (\<lambda>p. p = ''/sys/usb1''),
     fs_realpath = (\<lambda>p. if p = ''/sys/class/tty/ttyUSB0/device'' then Some ''/sys/usb1/a/b'' else None),
     fs_read = (\<lambda>p. if p = ''/sys/usb1/serial'' then Some (''A9J0'' @ [CHR 0x0A]) else None)\<rparr>"

lemma usb0: "basename ''/dev/ttyUSB0'' = ''ttyUSB0''" "basename ''/dev/ttyS0'' = ''ttyS0''"
  "dirname ''/sys/usb1/a/b'' = ''/sys/usb1/a''" "dirname ''/sys/usb1/a'' = ''/sys/usb1''"
  by (simp_all add: basename_def dirname_def str_rfind_char_def)

lemma one_adapter_facts:
  "glob one_adapter search_globs = [''/dev/ttyS0'', ''/dev/ttyUSB0'']"
  "usb_dir one_adapter ''/dev/ttyUSB0'' = ''/sys/usb1''"
  "read_line one_adapter ''/sys/usb1/serial'' = ''A9J0''" "read_line one_adapter ''/sys/usb1/idVendor'' = []"
  "read_line one_adapter ''/sys/usb1/idProduct'' = []"
  "\<not> path_exists one_adapter ''/sys/class/tty/ttyS0/device/id''" "path_exists one_adapter ''/sys/usb1''"
  by (simp_all add: glob_def search_globs_def usb_dir_def usb0 realpath_def read_line_def path_exists_def one_adapter_def)

lemma one_adapter_usb: "usb_adapter one_adapter ''/dev/ttyUSB0'' ''A9J0''"
  by (simp add: usb_adapter_def is_usb_def one_adapter_facts usb0)

lemma plain_port: "get_sysfs_info one_adapter ''/dev/ttyS0'' = (''ttyS0'', ''n/a'')"
proof -
  have "format [Lit ''/sys/class/tty/'', Str ''ttyS0'', Lit ''/device''] = ''/sys/class/tty/ttyS0/device''"
    by (subst format_printed) (simp_all add: c_str_id)
  then show ?thesis by (simp add: get_sysfs_info_def usb0 Let_def one_adapter_facts)
qed

lemma one_adapter_only:
  "e \<in> set (list_ports one_adapter) \<Longrightarrow> port_matches ''A9J0'' e \<Longrightarrow> port e = ''/dev/ttyUSB0''"
  by (auto simp: list_ports_def one_adapter_facts plain_port port_matches_def split: prod.splits)

theorem find_port_by_serial_witness: "find_port (list_ports one_adapter) ''A9J0'' = ''/dev/ttyUSB0''"
  using find_port_by_serial [OF one_adapter_usb] one_adapter_only by blast

end
