(* ===== verification/Manager_Ports.thy ===== *)
theory Manager_Ports
  imports Manager_Safety Port_List
begin

text \<open>
  The way from the configuration file to the port: the interactive program asks for the ports, looks for the one that
  mentions the serial number it was given, and opens the driver on it.
\<close>

text \<open>The driver of the laser, if there is one, is on the port the configuration holds.\<close>

definition laser_at :: "string \<Rightarrow> 'w iolaser_t \<Rightarrow> bool" where
  "laser_at d s = (dev_port (config_laser s) = d \<and> (\<forall>l. iols_laser s = Some l \<longrightarrow> m_comport l = d))"

definition keep_port :: "'w iolaser_t \<Rightarrow> 'w iolaser_t \<Rightarrow> bool" where
  "keep_port s t = (\<forall>d. laser_at d s \<longrightarrow> laser_at d t)"

interpretation kp: step_rel keep_port by unfold_locales (auto simp: keep_port_def)

lemma port_on:
  assumes m: "steps keep_frame m"
  shows "steps keep_port (on_laser m)"
proof (rule stepsI)
  fix s
  show "keep_port s (snd (on_laser m s))"
    by (auto simp: on_laser_def keep_port_def laser_at_def split: option.splits prod.splits
        dest!: stepsD [OF m] simp: keep_frame_def)
qed

lemma port_new: "steps keep_port (new_laser os)"
  by (rule stepsI) (auto simp: new_laser_def keep_port_def laser_at_def split: prod.splits outcome.splits
      dest: Laser_ctor_frame)

lemma map_laser_at:
  assumes "map_laser os ports s = (r, t)" "iols_laser s = None"
  shows "laser_at (find_port (ports (mg_world s)) (serial_nr (config_laser s))) t"
proof -
  let ?d = "find_port (ports (mg_world s)) (serial_nr (config_laser s))"
  let ?s = "s\<lparr>config_laser := (config_laser s)\<lparr>dev_port := ?d\<rparr>\<rparr>"
  let ?rest = "bind (gets config_laser) (\<lambda>c.
        if \<not> port_valid c then return 1
        else or_report
          (andthen (new_laser os)
          (andthen (on_laser (Device_set_timeout_ms 100))
          (bind (on_laser (Laser_security os)) (\<lambda>_.
           bind (on_laser (Laser_get_shot_count os)) (\<lambda>_. return 0))))))"
  have "steps keep_port ?rest"
    unfolding or_report_def by (intro kp.steps_rules port_new port_on frame_Laser)
  moreover have "?rest ?s = (r, t)" using assms by (simp add: map_laser_def run_simps)
  ultimately have "keep_port ?s t" by (rule stepsD)
  then show ?thesis using assms(2) by (simp add: keep_port_def laser_at_def)
qed


text \<open>The globals after the configuration was read, before the instruments are opened.\<close>

definition configured_iols :: "line iolaser_t" where
  "configured_iols = (fresh_iols (quiet_line [''SE'' @ CR @ ''00'' @ CR, ''SC'' @ CR @ ''7'' @ CR] []))
     \<lparr>config_laser := \<lparr>serial_nr = ''A9J0'', dev_port = [], baud_rate = 9600\<rparr>\<rparr>"


end
