(* ===== verification/Dac.thy ===== *)
theory Dac
  imports Utilities
begin

text \<open>
  \<open>src/i2c_deprecated/AD5339.h\<close> and \<open>AD5339.cpp\<close>: the driver of a two-channel digital-to-analog converter on an I2C
  bus. The bus is a parameter: opening it, choosing the device by its address, writing and reading bytes. The log holds
  the bytes that reached the device under the address that was chosen. What is printed is left out.
\<close>

unbundle bit_operations_syntax

section \<open>Registers\<close>

record level_t =
  msb :: "8 word"
  lsb :: "8 word"

definition set_clear :: "bool \<Rightarrow> level_t \<Rightarrow> level_t" where
  "set_clear clear l = l\<lparr>msb := (msb l AND NOT 0x20) OR push_bit 5 (of_bool (\<not> clear))\<rparr>"

definition set_load :: "bool \<Rightarrow> level_t \<Rightarrow> level_t" where
  "set_load load l = l\<lparr>msb := (msb l AND NOT 0x10) OR push_bit 4 (of_bool (\<not> load))\<rparr>"

text \<open>The argument \<open>load\<close> is not used.\<close>

definition set_value :: "16 word \<Rightarrow> bool \<Rightarrow> bool \<Rightarrow> level_t \<Rightarrow> level_t" where
  "set_value val clear load l = (set_clear clear (l\<lparr>msb := ucast (drop_bit 8 val AND 0xF)\<rparr>))\<lparr>lsb := ucast (val AND 0xFF)\<rparr>"

definition get_value :: "level_t \<Rightarrow> 16 word" where
  "get_value l = push_bit 8 (ucast (msb l AND 0xF)) OR ucast (lsb l)"

record dac_t =
  ptr :: "8 word"
  level :: level_t

definition set_channel :: "16 word \<Rightarrow> dac_t \<Rightarrow> dac_t" where
  "set_channel ch d = d\<lparr>ptr := ucast (ch AND 0xF)\<rparr>"

definition get_channel :: "dac_t \<Rightarrow> 16 word" where
  "get_channel d = ucast (ptr d)"

text \<open>The bytes of a \<open>dac_t\<close> in memory, and one that has not been assigned yet: nothing below reads it before it is.\<close>

definition dac_bytes :: "dac_t \<Rightarrow> 8 word list" where
  "dac_bytes d = [ptr d, msb (level d), lsb (level d)]"

definition raw_dac :: dac_t where
  "raw_dac = \<lparr>ptr = 0, level = \<lparr>msb = 0, lsb = 0\<rparr>\<rparr>"

section \<open>The bus\<close>

text \<open>A negative descriptor or count is a failure of the call.\<close>

record 'w i2c =
  i2c_open :: "string \<Rightarrow> 'w \<Rightarrow> int \<times> 'w"
  i2c_close :: "int \<Rightarrow> 'w \<Rightarrow> 'w"
  i2c_funcs :: "int \<Rightarrow> 'w \<Rightarrow> int \<times> 'w"
  i2c_slave :: "int \<Rightarrow> 8 word \<Rightarrow> 'w \<Rightarrow> int \<times> 'w"
  i2c_put :: "int \<Rightarrow> 8 word list \<Rightarrow> 'w \<Rightarrow> int \<times> 'w"
  i2c_get :: "int \<Rightarrow> nat \<Rightarrow> 'w \<Rightarrow> 8 word list option \<times> 'w"
  i2c_sleep_ms :: "nat \<Rightarrow> 'w \<Rightarrow> 'w"

datatype i2c_event = Addressed "8 word" | Put "8 word list" | Got "8 word list"

record 'w ad5339 =
  bus :: 'w
  bus_log :: "i2c_event list"
  m_bus_addr :: "16 word"
  m_dev_addr :: "8 word"
  m_dev :: int
  m_is_ready :: bool
  m_debug :: bool

definition on_bus :: "('w \<Rightarrow> 'a \<times> 'w) \<Rightarrow> ('w ad5339, 'a) prog" where
  "on_bus f = (\<lambda>s. case f (bus s) of (a, w) \<Rightarrow> (Ret a, s\<lparr>bus := w\<rparr>))"

definition logged :: "i2c_event \<Rightarrow> ('w ad5339, unit) prog" where
  "logged e = modify (\<lambda>s. s\<lparr>bus_log := bus_log s @ [e]\<rparr>)"

section \<open>Operations\<close>

definition AD5339_ctor :: "'w i2c \<Rightarrow> 16 word \<Rightarrow> 16 word \<Rightarrow> ('w ad5339, unit) prog" where
  "AD5339_ctor os busnr address =
     andthen (modify (\<lambda>s. s\<lparr>m_bus_addr := busnr, m_dev_addr := ucast address, m_dev := - 1, m_is_ready := False,
        m_debug := True\<rparr>))
    (bind (on_bus (i2c_open os (''/dev/i2c-'' @ show_nat (unat busnr)))) (\<lambda>fd.
     andthen (modify (\<lambda>s. s\<lparr>m_dev := fd\<rparr>))
      (if fd < 0 then return ()
       else andthen (modify (\<lambda>s. s\<lparr>m_is_ready := True\<rparr>)) (ignore (on_bus (i2c_funcs os fd))))))"

definition AD5339_destroy :: "'w i2c \<Rightarrow> ('w ad5339, unit) prog" where
  "AD5339_destroy os = bind (gets (\<lambda>s. s)) (\<lambda>s. whenM (m_is_ready s) (on_bus (\<lambda>w. ((), i2c_close os (m_dev s) w))))"

definition AD5339_is_ready :: "('w ad5339, bool) prog" where
  "AD5339_is_ready = gets m_is_ready"

definition AD5339_set_debug :: "bool \<Rightarrow> ('w ad5339, unit) prog" where
  "AD5339_set_debug debug = modify (\<lambda>s. s\<lparr>m_debug := debug\<rparr>)"

definition AD5339_get_debug :: "('w ad5339, bool) prog" where
  "AD5339_get_debug = gets m_debug"

definition i2c_set_device :: "'w i2c \<Rightarrow> 8 word \<Rightarrow> ('w ad5339, int) prog" where
  "i2c_set_device os addr =
     bind (gets m_dev) (\<lambda>fd.
     bind (on_bus (i2c_slave os fd addr)) (\<lambda>ret.
     if ret < 0 then return 0 else andthen (logged (Addressed addr)) (return 1)))"

definition i2c_write :: "'w i2c \<Rightarrow> int \<Rightarrow> 8 word \<Rightarrow> 8 word list \<Rightarrow> ('w ad5339, int) prog" where
  "i2c_write os fd addr buffer =
     (if fd < 0 then return 0
      else bind (i2c_set_device os addr) (\<lambda>ok.
        if ok = 0 then return 0
        else bind (on_bus (i2c_put os fd buffer)) (\<lambda>wr_bytes.
          andthen (logged (Put (take (nat wr_bytes) buffer)))
            (if wr_bytes \<noteq> int (length buffer) then return 0 else return 1))))"

text \<open>The result and the structure passed by reference. A bus that delivered more than was asked for would overrun the
  buffer.\<close>

definition i2c_read :: "'w i2c \<Rightarrow> dac_t \<Rightarrow> ('w ad5339, int \<times> dac_t) prog" where
  "i2c_read os dac =
     bind (gets (\<lambda>s. s)) (\<lambda>s.
     if \<not> m_is_ready s then return (0, dac)
     else if 2 < get_channel dac then return (0, dac)
     else bind (i2c_write os (m_dev s) (m_dev_addr s) [ptr dac]) (\<lambda>ok.
       if ok = 0 then return (0, dac)
       else andthen (on_bus (\<lambda>w. ((), i2c_sleep_ms os 10 w)))
      (bind (on_bus (i2c_get os (m_dev s) 2)) (\<lambda>rd.
       case rd of
         None \<Rightarrow> return (0, dac)
       | Some bs \<Rightarrow>
           if 2 < length bs then stuck Undefined_behaviour
           else andthen (logged (Got bs))
             (if length bs \<noteq> 2 then return (0, dac)
              else return (1, dac\<lparr>level := \<lparr>msb = bs ! 0, lsb = bs ! 1\<rparr>\<rparr>))))))"

definition write_dac :: "'w i2c \<Rightarrow> 16 word \<Rightarrow> 16 word \<Rightarrow> ('w ad5339, int) prog" where
  "write_dac os val ch =
     bind (gets (\<lambda>s. s)) (\<lambda>s.
     if \<not> m_is_ready s then return 0
     else let dac = set_channel ch (raw_dac\<lparr>level := set_value val False True (level raw_dac)\<rparr>) in
       bind (i2c_write os (m_dev s) (m_dev_addr s) (dac_bytes dac)) (\<lambda>ok.
         if ok = 0 then return 0 else return 1))"

definition read_dac :: "'w i2c \<Rightarrow> 16 word \<Rightarrow> ('w ad5339, int) prog" where
  "read_dac os ch =
     bind (gets m_is_ready) (\<lambda>ready.
     if \<not> ready then return (- 1)
     else if 2 < ch then return (- 1)
     else bind (i2c_read os (set_channel ch raw_dac)) (\<lambda>(ok, dac).
       if ok = 0 then return (- 1) else return (uint (get_value (level dac)))))"

text \<open>The overloads with the enumeration \<open>channel_t\<close>.\<close>

datatype channel_t = kC1 | kC2 | kC12

primrec channel_num :: "channel_t \<Rightarrow> 16 word" where
  "channel_num kC1 = 1"
| "channel_num kC2 = 2"
| "channel_num kC12 = 3"

definition write_dac_channel :: "'w i2c \<Rightarrow> 16 word \<Rightarrow> channel_t \<Rightarrow> ('w ad5339, int) prog" where
  "write_dac_channel os val ch = write_dac os val (channel_num ch)"

definition read_dac_channel :: "'w i2c \<Rightarrow> channel_t \<Rightarrow> ('w ad5339, int) prog" where
  "read_dac_channel os ch = read_dac os (channel_num ch)"

section \<open>The register encoding\<close>

text \<open>The twelve bits of the value and the two control bits do not disturb each other.\<close>

lemma masks:
  "(0xF :: 'a::len word) = mask 4" "(0xFF :: 'a word) = mask 8" "(0xFFF :: 'a word) = mask 12"
  by (simp_all add: mask_eq_exp_minus_1)

lemma bit_nclr: "bit (0x20 :: 8 word) n \<longleftrightarrow> n = 5" "bit (0x20 :: int) n \<longleftrightarrow> n = 5"
proof -
  have "(0x20 :: 8 word) = 2 ^ 5" "(0x20 :: int) = 2 ^ 5" by simp_all
  then show "bit (0x20 :: 8 word) n \<longleftrightarrow> n = 5" "bit (0x20 :: int) n \<longleftrightarrow> n = 5" by (simp_all only: bit_exp_iff) auto
qed

lemma set_value_fields:
  "msb (set_value val clear load l) = ucast (drop_bit 8 val AND 0xF) OR (if clear then 0 else 0x20)"
  "lsb (set_value val clear load l) = ucast val"
  unfolding set_value_def set_clear_def masks
  by (auto intro!: bit_word_eqI simp: bit_simps bit_nclr)

lemma get_value_bits:
  "get_value \<lparr>msb = m, lsb = n\<rparr> = push_bit 8 (ucast (m AND 0xF)) OR ucast n"
  by (simp add: get_value_def)

lemma get_set_value:
  assumes "m AND 0xF = ucast (drop_bit 8 val AND 0xF)"
  shows "get_value \<lparr>msb = m, lsb = ucast val\<rparr> = val AND 0xFFF"
proof -
  have "get_value \<lparr>msb = m, lsb = ucast val\<rparr> = push_bit 8 (ucast (ucast (drop_bit 8 val AND 0xF) :: 8 word)) OR ucast (ucast val :: 8 word)"
    by (simp add: get_value_def assms)
  also have "\<dots> = val AND 0xFFF"
    unfolding masks by (rule bit_word_eqI) (auto simp: bit_simps)
  finally show ?thesis .
qed

section \<open>On the bus\<close>

text \<open>What the driver relies on: a device at \<open>addr\<close> behind the descriptor \<open>fd\<close> takes what is written to it. Three bytes
  set the register the first of them names; one byte names the register the next reading gives. Only the twelve bits
  of the value come back.\<close>

definition dac_chip :: "'w i2c \<Rightarrow> int \<Rightarrow> 8 word \<Rightarrow> ('w \<Rightarrow> 8 word \<Rightarrow> 8 word \<times> 8 word) \<Rightarrow> ('w \<Rightarrow> 8 word) \<Rightarrow> bool" where
  "dac_chip os fd addr reg sel =
     ((\<forall>w. 0 \<le> fst (i2c_slave os fd addr w) \<and> reg (snd (i2c_slave os fd addr w)) = reg w)
    \<and> (\<forall>w p m n. fst (i2c_put os fd [p, m, n] w) = 3 \<and> reg (snd (i2c_put os fd [p, m, n] w)) p = (m, n))
    \<and> (\<forall>w p. fst (i2c_put os fd [p] w) = 1 \<and> reg (snd (i2c_put os fd [p] w)) = reg w \<and> sel (snd (i2c_put os fd [p] w)) = p)
    \<and> (\<forall>w ms. reg (i2c_sleep_ms os ms w) = reg w \<and> sel (i2c_sleep_ms os ms w) = sel w)
    \<and> (\<forall>w. \<exists>m n. fst (i2c_get os fd 2 w) = Some [m, n] \<and> n = snd (reg w (sel w)) \<and> m AND 0xF = fst (reg w (sel w)) AND 0xF))"

lemma run_on_bus: "on_bus f s = (Ret (fst (f (bus s))), s\<lparr>bus := snd (f (bus s))\<rparr>)"
  by (simp add: on_bus_def case_prod_unfold)

lemma write_three:
  assumes "dac_chip os (m_dev s) addr reg sel" "0 \<le> m_dev s"
  shows "\<exists>w. i2c_write os (m_dev s) addr [p, m, n] s
      = (Ret 1, s\<lparr>bus := w, bus_log := bus_log s @ [Addressed addr, Put [p, m, n]]\<rparr>) \<and> reg w p = (m, n)"
proof -
  let ?v = "snd (i2c_slave os (m_dev s) addr (bus s))"
  have "0 \<le> fst (i2c_slave os (m_dev s) addr (bus s))" "fst (i2c_put os (m_dev s) [p, m, n] ?v) = 3"
    "reg (snd (i2c_put os (m_dev s) [p, m, n] ?v)) p = (m, n)"
    using assms(1) unfolding dac_chip_def by blast+
  then show ?thesis using assms(2)
    by (simp add: i2c_write_def i2c_set_device_def run_on_bus logged_def run_simps not_less)
      (rule exI, rule conjI [OF refl], simp)
qed

lemma write_one:
  assumes "dac_chip os (m_dev s) addr reg sel" "0 \<le> m_dev s"
  shows "\<exists>w. i2c_write os (m_dev s) addr [p] s
      = (Ret 1, s\<lparr>bus := w, bus_log := bus_log s @ [Addressed addr, Put [p]]\<rparr>) \<and> reg w = reg (bus s) \<and> sel w = p"
proof -
  let ?v = "snd (i2c_slave os (m_dev s) addr (bus s))"
  have "0 \<le> fst (i2c_slave os (m_dev s) addr (bus s))" "reg ?v = reg (bus s)"
    "fst (i2c_put os (m_dev s) [p] ?v) = 1" "reg (snd (i2c_put os (m_dev s) [p] ?v)) = reg ?v"
    "sel (snd (i2c_put os (m_dev s) [p] ?v)) = p"
    using assms(1) unfolding dac_chip_def by blast+
  then show ?thesis using assms(2)
    by (simp add: i2c_write_def i2c_set_device_def run_on_bus logged_def run_simps not_less)
      (rule exI, rule conjI [OF refl], simp)
qed

lemma small_channel:
  fixes ch :: "16 word"
  assumes "ch \<le> 2"
  shows "ptr (set_channel ch d) = ucast ch" "\<not> 2 < ch" "\<not> 2 < get_channel (set_channel ch d)"
proof -
  have "unat ch = 0 \<or> unat ch = 1 \<or> unat ch = 2" using assms by (auto simp: word_le_nat_alt)
  then have "ch = 0 \<or> ch = 1 \<or> ch = 2" by (auto simp: word_unat_eq_iff)
  then show "ptr (set_channel ch d) = ucast ch" "\<not> 2 < ch" "\<not> 2 < get_channel (set_channel ch d)"
    by (auto simp: set_channel_def get_channel_def)
qed


text \<open>A bus with one converter: its registers and the one selected.\<close>

definition chip_bus :: "((8 word \<Rightarrow> 8 word \<times> 8 word) \<times> 8 word) i2c" where
  "chip_bus = \<lparr>i2c_open = (\<lambda>_ w. (3, w)), i2c_close = (\<lambda>_ w. w), i2c_funcs = (\<lambda>_ w. (0, w)), i2c_slave = (\<lambda>_ _ w. (0, w)),
     i2c_put = (\<lambda>_ bs (r, p). (int (length bs), case bs of
         [q] \<Rightarrow> (r, q) | [q, m, n] \<Rightarrow> (r(q := (m, n)), q) | _ \<Rightarrow> (r, p))),
     i2c_get = (\<lambda>_ _ (r, p). (Some [fst (r p), snd (r p)], (r, p))), i2c_sleep_ms = (\<lambda>_ w. w)\<rparr>"

definition chip_on :: "((8 word \<Rightarrow> 8 word \<times> 8 word) \<times> 8 word) ad5339" where
  "chip_on = \<lparr>bus = (\<lambda>_. (0, 0), 0), bus_log = [], m_bus_addr = 8, m_dev_addr = 0xD, m_dev = 3, m_is_ready = True,
     m_debug = True\<rparr>"


end
