(* ===== verification/Spec2Isabelle.thy ===== *)
theory Spec2Isabelle
  imports Serial_Theorems Laser_Sim Attenuator_Registers Attenuator_Settings Attenuator_Sim
    Power_Meter_Calls Power_Meter_Answers Power_Meter_Sim Manager_Ports Dac
begin

text \<open>
  \<^bold>\<open>LaserControl\<close>: the drivers of a laser calibration system, and the program that operates them.

  \<^bold>\<open>The program.\<close> A laser, a motorised attenuator and a power meter hang on USB serial adapters. The class \<open>serial::Serial\<close>
  (\<open>src/src/serial.cc\<close>) gives a port two mutexes, line reading and accessors; behind it \<open>SerialImpl\<close>
  (\<open>src/src/impl/unix.cc\<close>) makes the POSIX calls. \<open>device::Device\<close> (\<open>src/src/Device.cpp\<close>) is a port with a framing of
  commands and answers; \<open>Laser\<close>, \<open>Attenuator\<close> and \<open>PowerMeter\<close> derive from it and cache the settings of their instrument.
  Each has a simulator that answers without hardware (\<open>LaserSim\<close>, \<open>AttenuatorSim\<close>, \<open>PowerMeterSim\<close>).
  \<open>src/apps/serial_manager.cpp\<close> reads a configuration file, finds the adapters by serial number
  (\<open>src/src/utilities.cpp\<close>, \<open>src/src/impl/list_ports/list_ports_linux.cc\<close>), opens the three drivers and carries out
  typed commands. \<open>src/i2c_deprecated\<close> has the driver of an older part, a converter on an I2C bus.

  \<^bold>\<open>How it is modelled.\<close> A member function is a program of type \<open>('s, 'a) prog\<close>: from the object to an outcome and the
  object it leaves. The outcome is a value, a C++ exception, or \<open>Stuck\<close>, for a mutex locked twice by its owner, undefined
  behaviour, \<open>std::terminate\<close>, or a loop that used up the iterations granted to it. An object is a record, a derived
  class an extension of the record of its base; output parameters are results, \<open>None\<close> where a path leaves them
  unassigned. Integers are words of their width, or \<open>int\<close> with the conversion and the overflow written out; floating
  point values are sign, mantissa and exponent with rounding to \<open>float\<close> or \<open>double\<close>. The kernel is a parameter, a record
  of functions on an abstract world; every property is stated for all kernels unless it names what it needs of one.
  Each object keeps a log of what it did to its port: \<open>wire\<close> is what went out, \<open>inbox\<close> what came in.

  \<^bold>\<open>Theories.\<close>
  \<^item> \<open>Prelude\<close>: programs, their weakest preconditions, and relations kept by every step of a program (locale
    \<open>step_rel\<close>). \<open>Cpp_Strings\<close>, \<open>Cpp_Map\<close>, \<open>Cpp_Float\<close>, \<open>Cpp_Arith\<close>, \<open>Cpp_Stod\<close>, \<open>Cpp_Cstring\<close>: the parts of the
    standard library the sources use. \<open>Os_Interface\<close>: the kernel and the log.
  \<^item> \<open>Utilities\<close> and \<open>Port_List\<close>: tokenizing, trimming, escaping, the list of ports and the search in it.
  \<^item> \<open>Serial_Impl\<close>, \<open>Serial_Timing\<close>, \<open>Serial_Config\<close>: \<open>unix.cc\<close>, its reading loop against a clock, opening and line
    settings. \<open>Serial_Port\<close>, \<open>Serial_Lines\<close>: \<open>serial.cc\<close> and its line reading (locale \<open>byte_source\<close>).
    \<open>Serial_Theorems\<close>: the properties of the port. \<open>Sim_Line\<close>: a scripted kernel the witnesses run on.
  \<^item> \<open>Device\<close>: the base class and the contract of sending a command with one retry (locale \<open>command_link\<close>), which
    \<open>Device\<close>, \<open>Laser\<close> and the attenuator fulfil.
  \<^item> \<open>Laser\<close>, \<open>Laser_Sim\<close>; \<open>Attenuator\<close> with \<open>Attenuator_Motion\<close>, \<open>Attenuator_Registers\<close>, \<open>Attenuator_Settings\<close> and
    \<open>Attenuator_Sim\<close>; \<open>Power_Meter\<close> with \<open>Power_Meter_Link\<close>, \<open>Power_Meter_Calls\<close>, \<open>Power_Meter_Answers\<close> and
    \<open>Power_Meter_Sim\<close>: the drivers, one definition per member function under the name of the function with the class
    in front, and the simulators. \<open>Simulation\<close> is the contract of a simulator (locale \<open>simulator\<close>).
  \<^item> \<open>Serial_Manager\<close>, \<open>Manager_Safety\<close>, \<open>Manager_Ports\<close>: the interactive program, from the options to the last
    command, over the models of the drivers, which share one world.
  \<^item> \<open>Dac\<close>: the AD5339 converter.

  \<^bold>\<open>What is shown.\<close>
  \<^item> The port: what \<open>write\<close> sends is a prefix of the data and its count is exact; \<open>readline\<close> and \<open>readlines\<close> lose no byte
    that arrived and cut at the right places; \<open>open\<close>, \<open>close\<close> and \<open>reconfigurePort\<close> on every path; the mutexes are free
    between calls; a read comes back under a kernel that keeps time, and so does a write that signals do not keep
    interrupting. Two failures of the code are theorems: the
    descriptor lost when configuring fails, and the parity bit that survives.
  \<^item> The laser: limits of prescale, delay and pump voltage on the wire and in the cache over all sequences of calls; the
    answers to the security and shot count queries.
  \<^item> The attenuator: no motion command before the motor reported a stop; waiting ends when the motor does;
    transmissions become targets within the travel, in \<open>double\<close> arithmetic; status and position lines are read back;
    what a register write sends and keeps.
  \<^item> The power meter: every operation is one exchange under the mutex; the invariant of the tables and members; the
    answers to the range and threshold queries.
  \<^item> The simulators: scripts that run through on the driver run through on the simulator with the same settings (laser,
    attenuator); the power meter's simulator agrees with the driver on the built-in answers.
  \<^item> The interactive program: however a session goes, if \<open>main\<close> returns the laser was told to stop and then to close
    its shutter; a command reaches only the instrument it names; the driver is opened on the adapter whose serial
    number was configured; a line becomes the list of its words.
  \<^item> The converter: a value written is read back, cut to twelve bits.

  \<^bold>\<open>Bounds.\<close> Four loops of the sources have no bound of their own: reopening after a signal, waiting for the port to take
  or deliver bytes, and waiting for the motor. They take the field \<open>fuel\<close> of the kernel and end in \<open>Stuck Out_of_fuel\<close>.
  For reading and writing, \<open>Serial_Timing\<close> shows that bytes plus milliseconds of timeout (plus one) are enough; for the motor,
  \<open>Attenuator_Registers\<close> shows that waiting returns if the motor rests within the polls granted; the properties of opening hold
  for every bound and do not say that the call returns. All other loops recurse
  on their data, the retries of \<open>format\<close> on their counter. The scripted kernel of the witnesses grants 4000 iterations.
  Timer arithmetic is exact below \<open>2 ^ 32\<close> milliseconds, the width of the timeouts.

  \<^bold>\<open>Not modelled.\<close>
  \<^item> \<open>src/src/impl/win.cc\<close> and the Windows and OS X port lists: other back ends of the same interface, over system
    interfaces of their own, which \<open>CMakeLists.txt\<close> compiles only on those systems.
  \<^item> The programs under \<open>src/examples\<close>, \<open>src/src/control_server.cpp\<close>, \<open>src/src/probe_ports.cc\<close> and
    \<open>src/i2c_deprecated/test_AD5339.cpp\<close>: they call the drivers in a fixed order and print the answers, or wait on a
    message library. \<open>src/apps/calibrate_attenuator.cpp\<close> is a sketch that is not built and would not compile
    (functions of type \<open>void\<close> that return a value, a fractional count of milliseconds).
  \<^item> What is printed or logged, and the help text. Interleaving of threads: the sources start none; a second thread
    would meet the mutexes, whose use by one thread is modelled. Exhausted memory. The JSON, option and line editing
    libraries are parameters of \<open>serial_manager_main\<close>: the configuration as a map of members, the list of options, the
    list of lines.
  \<^item> Members declared and not defined in the sources, such as \<open>AD5339::clear_dac\<close>, and bodies that are commented out.
\<close>

end
